(* ===== verification/Prelude.thy ===== *)
theory Prelude
  imports Main "HOL-Library.AList" "HOL-Library.Multiset" "HOL-Library.List_Lexorder" "HOL-Library.Char_ord"
begin

text \<open>
  Shared vocabulary of the development: the fragment of JavaScript's standard library the
  repository uses, as executable functions, with the generic lemmas the component theories
  rest on.
  \<^item> A thrown \<open>Error(msg)\<close> is \<open>Inl msg\<close>, a normal return is \<open>Inr v\<close>.
  \<^item> A JavaScript string is a HOL \<open>string\<close>, read as its UTF-8 bytes (all identifiers,
    digests and codes of the program are ASCII).
  \<^item> A JavaScript \<open>Map\<close> is an insertion-ordered association list; \<open>map_set\<close> on a
    present key keeps its position, exactly as \<open>Map.prototype.set\<close> does.
  \<^item> A safe integer (money in minor units, versions, milliseconds) is an \<open>int\<close>.
\<close>

named_theorems js_simps "evaluation rules for the modelled standard library"
named_theorems store_simps "lookup-after-update rules of the stores"

type_synonym 'a throws = "string + 'a"

subsection \<open>Strings\<close>

definition truthy :: "string option \<Rightarrow> bool" where
  "truthy s = (case s of None \<Rightarrow> False | Some x \<Rightarrow> x \<noteq> [])"

lemma truthy_simps [simp]:
  "truthy None = False" "truthy (Some s) = (s \<noteq> [])"
  by (simp_all add: truthy_def)

lemma truthyE:
  assumes "truthy x" obtains s where "x = Some s" "s \<noteq> []"
  using assms by (cases x) auto

definition starts_with :: "string \<Rightarrow> string \<Rightarrow> bool" where
  "starts_with p s = (take (length p) s = p)"

lemma starts_with_append [simp]: "starts_with p (p @ s)"
  by (simp add: starts_with_def)

fun join :: "string \<Rightarrow> string list \<Rightarrow> string" where
  "join sep [] = []"
| "join sep [x] = x"
| "join sep (x # y # ys) = x @ sep @ join sep (y # ys)"

definition slice_to :: "nat \<Rightarrow> string \<Rightarrow> string" where
  "slice_to n s = take n s"

text \<open>Decimal printing of integers: \<open>String(n)\<close>.\<close>

definition digit_char :: "nat \<Rightarrow> char" where
  "digit_char d = char_of (48 + d)"

fun nat_str :: "nat \<Rightarrow> string" where
  "nat_str n = (if n < 10 then [digit_char n] else nat_str (n div 10) @ [digit_char (n mod 10)])"

declare nat_str.simps [simp del]

definition int_str :: "int \<Rightarrow> string" where
  "int_str i = (if i < 0 then ''-'' @ nat_str (nat (- i)) else nat_str (nat i))"

definition str_nat :: "string \<Rightarrow> nat" where
  "str_nat s = foldl (\<lambda>a c. 10 * a + (of_char c - 48)) 0 s"

lemma of_digit_char: "d < 10 \<Longrightarrow> of_char (digit_char d) = (48 + d :: nat)"
  by (simp add: digit_char_def)

lemma str_nat_nat_str: "str_nat (nat_str n) = n"
proof (induction n rule: nat_str.induct)
  case (1 n)
  show ?case
  proof (cases "n < 10")
    case True
    then show ?thesis by (subst nat_str.simps) (simp add: str_nat_def of_digit_char)
  next
    case False
    with 1 have "str_nat (nat_str (n div 10)) = n div 10" by simp
    with False show ?thesis
      by (subst nat_str.simps) (simp add: str_nat_def of_digit_char)
  qed
qed

lemma nat_str_inj: "nat_str m = nat_str n \<longleftrightarrow> m = n"
  by (metis str_nat_nat_str)

lemma nat_str_nonempty [simp]: "nat_str n \<noteq> []"
  by (subst nat_str.simps) simp

definition is_digit :: "char \<Rightarrow> bool" where
  "is_digit c = (48 \<le> (of_char c :: nat) \<and> (of_char c :: nat) \<le> 57)"

lemma nat_str_digits: "\<forall>c \<in> set (nat_str n). is_digit c"
proof (induction n rule: nat_str.induct)
  case (1 n)
  have d: "is_digit (digit_char d)" if "d < 10" for d
    using that by (simp add: is_digit_def of_digit_char)
  show ?case
  proof (cases "n < 10")
    case True
    then show ?thesis by (subst nat_str.simps) (simp add: d)
  next
    case False
    with 1 d show ?thesis by (subst nat_str.simps) auto
  qed
qed

lemma is_digit_minus [simp]: "\<not> is_digit (CHR ''-'')"
  by (simp add: is_digit_def)

lemma int_str_hd: "hd (int_str i) = CHR ''-'' \<or> is_digit (hd (int_str i))"
  using nat_str_digits [of "nat i"] hd_in_set [OF nat_str_nonempty [of "nat i"]]
  by (auto simp: int_str_def)

lemma int_str_nonempty [simp]: "int_str i \<noteq> []"
  by (simp add: int_str_def)

lemma int_str_inj: "int_str i = int_str j \<longleftrightarrow> i = j"
proof
  assume eq: "int_str i = int_str j"
  have m: "nat_str n \<noteq> CHR ''-'' # s" for n s
    using nat_str_digits [of n] by auto
  show "i = j"
    using eq m m [symmetric] by (auto simp: int_str_def nat_str_inj split: if_splits)
qed simp

text \<open>\<open>JSON.stringify\<close> of a string: quotes, the seven escapes and \<open>\u00XX\<close>.\<close>

definition hex_digit :: "nat \<Rightarrow> char" where
  "hex_digit d = (if d < 10 then char_of (48 + d) else char_of (87 + d))"

definition json_escape :: "char \<Rightarrow> string" where
  "json_escape c =
     (let n = of_char c :: nat in
      if n = 34 then [CHR 0x5C, CHR 0x22]
      else if n = 92 then [CHR 0x5C, CHR 0x5C]
      else if n = 8 then [CHR 0x5C, CHR ''b'']
      else if n = 9 then [CHR 0x5C, CHR ''t'']
      else if n = 10 then [CHR 0x5C, CHR ''n'']
      else if n = 12 then [CHR 0x5C, CHR ''f'']
      else if n = 13 then [CHR 0x5C, CHR ''r'']
      else if n < 32 then [CHR 0x5C, CHR ''u'', CHR ''0'', CHR ''0'', hex_digit (n div 16), hex_digit (n mod 16)]
      else [c])"

definition json_quote :: "string \<Rightarrow> string" where
  "json_quote s = [CHR 0x22] @ concat (map json_escape s) @ [CHR 0x22]"

text \<open>Reading one escaped character back; only used to show that quoting is unambiguous.\<close>

definition hex_val :: "char \<Rightarrow> nat" where
  "hex_val c = (let n = of_char c :: nat in if n < 58 then n - 48 else n - 87)"

fun json_unescape :: "string \<Rightarrow> (char \<times> string) option" where
  "json_unescape [] = None"
| "json_unescape (c # r) =
     (if of_char c = (92::nat) then
        (case r of [] \<Rightarrow> None
         | d # r' \<Rightarrow>
            if d = CHR ''b'' then Some (char_of (8::nat), r')
            else if d = CHR ''t'' then Some (char_of (9::nat), r')
            else if d = CHR ''n'' then Some (char_of (10::nat), r')
            else if d = CHR ''f'' then Some (char_of (12::nat), r')
            else if d = CHR ''r'' then Some (char_of (13::nat), r')
            else if d = CHR ''u'' then
              (case r' of _ # _ # h # l # r'' \<Rightarrow> Some (char_of (16 * hex_val h + hex_val l), r'')
               | _ \<Rightarrow> None)
            else Some (d, r'))
      else Some (c, r))"

lemma hex_val_digit: "d < 16 \<Longrightarrow> hex_val (hex_digit d) = d"
  by (simp add: hex_val_def hex_digit_def Let_def)

lemma char_eq_of_char: "of_char c = n \<Longrightarrow> c = char_of (n::nat)"
  by auto

lemma json_unescape_escape: "json_unescape (json_escape c @ r) = Some (c, r)"
proof -
  have small: "hex_val (hex_digit (of_char c div 16)) = of_char c div 16"
    "hex_val (hex_digit (of_char c mod 16)) = of_char c mod 16"
    if "(of_char c :: nat) < 32"
    using that by (simp_all add: hex_val_digit)
  then show ?thesis
    by (auto simp: json_escape_def Let_def split: if_splits dest!: char_eq_of_char)
      (simp_all add: char_of_def bit_0)
qed

declare json_unescape.simps [simp del]

lemma json_escape_not_quote: "json_escape c \<noteq> [] \<and> hd (json_escape c) \<noteq> CHR 0x22"
  by (auto simp: json_escape_def Let_def)

lemma json_escape_prefix: "json_escape c @ r = json_escape d @ r' \<Longrightarrow> c = d \<and> r = r'"
  by (metis json_unescape_escape option.inject prod.inject)

lemma json_body_prefix:
  "concat (map json_escape s) @ [CHR 0x22] @ xs = concat (map json_escape t) @ [CHR 0x22] @ ys
   \<Longrightarrow> s = t \<and> xs = ys"
proof (induction s arbitrary: t)
  case Nil
  show ?case
  proof (cases t)
    case Nil
    then show ?thesis using Nil.prems by simp
  next
    case (Cons d t')
    with Nil.prems json_escape_not_quote [of d] show ?thesis
      by (cases "json_escape d") auto
  qed
next
  case (Cons c s)
  show ?case
  proof (cases t)
    case Nil
    with Cons.prems json_escape_not_quote [of c] show ?thesis
      by (cases "json_escape c") auto
  next
    case (Cons d t')
    from Cons.prems have "json_escape c @ (concat (map json_escape s) @ [CHR 0x22] @ xs) =
        json_escape d @ (concat (map json_escape t') @ [CHR 0x22] @ ys)"
      unfolding Cons by simp
    from json_escape_prefix [OF this] Cons.IH [of t'] Cons show ?thesis by simp
  qed
qed

lemma json_quote_prefix: "json_quote s @ xs = json_quote t @ ys \<Longrightarrow> s = t \<and> xs = ys"
  unfolding json_quote_def by (rule json_body_prefix) simp

subsection \<open>Numbers and dates\<close>

text \<open>\<open>Math.round(a / b)\<close> for a positive divisor: halves round up.\<close>

definition round_div :: "int \<Rightarrow> int \<Rightarrow> int" where
  "round_div a b = (2 * a + b) div (2 * b)"

text \<open>
  \<open>Number(s)\<close> on decimal integers; \<open>None\<close> is \<open>NaN\<close>. The strings the program converts are
  printed integers, so fractions and exponents are not needed.
\<close>

definition js_Number :: "string \<Rightarrow> int option" where
  "js_Number s =
     (if s = [] then Some 0
      else if list_all is_digit s then Some (int (str_nat s))
      else if hd s = CHR ''-'' \<and> tl s \<noteq> [] \<and> list_all is_digit (tl s) then Some (- int (str_nat (tl s)))
      else None)"

lemma js_Number_int_str: "js_Number (int_str i) = Some i"
proof (cases "i < 0")
  case True
  then show ?thesis
    using nat_str_digits [of "nat (- i)"]
    by (simp add: js_Number_def int_str_def list_all_iff str_nat_nat_str)
next
  case False
  then show ?thesis
    using nat_str_digits [of "nat i"]
    by (simp add: js_Number_def int_str_def list_all_iff str_nat_nat_str)
qed

definition is_hex :: "char \<Rightarrow> bool" where
  "is_hex c = (let n = of_char c :: nat in
     is_digit c \<or> (97 \<le> n \<and> n \<le> 102) \<or> (65 \<le> n \<and> n \<le> 70))"

definition is_space :: "char \<Rightarrow> bool" where
  "is_space c = ((of_char c :: nat) \<in> {9, 10, 11, 12, 13, 32})"

definition trim :: "string \<Rightarrow> string" where
  "trim s = rev (dropWhile is_space (rev (dropWhile is_space s)))"

definition hex_digit_val :: "char \<Rightarrow> nat" where
  "hex_digit_val c = (let n = of_char c :: nat in if n < 58 then n - 48 else if n < 71 then n - 55 else n - 87)"

definition radix_val :: "nat \<Rightarrow> string \<Rightarrow> nat" where
  "radix_val b s = foldl (\<lambda>a c. b * a + hex_digit_val c) 0 s"

text \<open>Literals with a radix prefix, as \<open>Number\<close> and \<open>BigInt\<close> accept them.\<close>

definition radix_literal :: "string \<Rightarrow> int option" where
  "radix_literal s =
     (let p = take 2 s; r = drop 2 s in
      if r = [] then None
      else if p \<in> {''0x'', ''0X''} \<and> list_all is_hex r then Some (int (radix_val 16 r))
      else if p \<in> {''0o'', ''0O''} \<and> list_all (\<lambda>c. is_digit c \<and> hex_digit_val c < 8) r then Some (int (radix_val 8 r))
      else if p \<in> {''0b'', ''0B''} \<and> list_all (\<lambda>c. is_digit c \<and> hex_digit_val c < 2) r then Some (int (radix_val 2 r))
      else None)"

definition split_sign :: "string \<Rightarrow> bool \<times> string" where
  "split_sign s = (case s of [] \<Rightarrow> (False, []) | c # r \<Rightarrow>
     if c = CHR ''-'' then (True, r) else if c = CHR ''+'' then (False, r) else (False, s))"

text \<open>\<open>BigInt(s)\<close>; \<open>None\<close> is the \<open>SyntaxError\<close>.\<close>

definition js_BigInt :: "string \<Rightarrow> int option" where
  "js_BigInt s =
     (let t = trim s in
      if t = [] then Some 0
      else case radix_literal t of Some v \<Rightarrow> Some v
        | None \<Rightarrow> (case split_sign t of (neg, ds) \<Rightarrow>
            if ds \<noteq> [] \<and> list_all is_digit ds
            then Some (if neg then - int (str_nat ds) else int (str_nat ds)) else None))"

text \<open>
  The integer that \<open>Number(s)\<close> denotes, \<open>None\<close> when \<open>Number.isInteger(Number(s))\<close> is false; exact
  arithmetic, so double rounding beyond \<open>2\<^sup>5\<^sup>3\<close> is not reflected.
\<close>

definition exponent_part :: "string \<Rightarrow> int option" where
  "exponent_part r =
     (if r = [] then Some 0
      else if hd r \<in> {CHR ''e'', CHR ''E''} then
        (case split_sign (tl r) of (neg, ds) \<Rightarrow>
           if ds \<noteq> [] \<and> list_all is_digit ds
           then Some (if neg then - int (str_nat ds) else int (str_nat ds)) else None)
      else None)"

definition scale10 :: "int \<Rightarrow> int \<Rightarrow> int option" where
  "scale10 m k = (if k \<ge> 0 then Some (m * 10 ^ nat k)
     else if m mod 10 ^ nat (- k) = 0 then Some (m div 10 ^ nat (- k)) else None)"

definition js_integer :: "string \<Rightarrow> int option" where
  "js_integer s =
     (let t = trim s in
      if t = [] then Some 0
      else case radix_literal t of Some v \<Rightarrow> Some v
        | None \<Rightarrow> (case split_sign t of (neg, u) \<Rightarrow>
            (let ip = takeWhile is_digit u; r1 = dropWhile is_digit u;
                 dot = (r1 \<noteq> [] \<and> hd r1 = CHR ''.'');
                 fp = (if dot then takeWhile is_digit (tl r1) else []);
                 r2 = (if dot then dropWhile is_digit (tl r1) else r1);
                 m = int (str_nat (ip @ fp))
             in if ip @ fp = [] then None
                else (case exponent_part r2 of
                        None \<Rightarrow> None
                      | Some e \<Rightarrow> scale10 (if neg then - m else m) (e - int (length fp))))))"

definition toLowerCase :: "string \<Rightarrow> string" where
  "toLowerCase s = map (\<lambda>c. let n = of_char c :: nat in if 65 \<le> n \<and> n \<le> 90 then char_of (n + 32) else c) s"

definition pad :: "nat \<Rightarrow> string \<Rightarrow> string" where
  "pad w s = replicate (w - length s) CHR ''0'' @ s"

text \<open>Proleptic Gregorian date of a day number counted from 1970-01-01: year, month, day.\<close>

definition civil_of_days :: "int \<Rightarrow> int \<times> int \<times> int" where
  "civil_of_days days =
     (let z = days + 719468; era = z div 146097; doe = z mod 146097;
          yoe = (doe - doe div 1460 + doe div 36524 - doe div 146096) div 365;
          doy = doe - (365 * yoe + yoe div 4 - yoe div 100);
          mp = (5 * doy + 2) div 153;
          d = doy - (153 * mp + 2) div 5 + 1;
          m = (if mp < 10 then mp + 3 else mp - 9)
      in (yoe + era * 400 + (if m \<le> 2 then 1 else 0), m, d))"

text \<open>\<open>new Date(ms).toISOString()\<close> for years 0 to 9999.\<close>

definition toISOString :: "int \<Rightarrow> string" where
  "toISOString ms =
     (case civil_of_days (ms div 86400000) of (y, m, d) \<Rightarrow>
       let r = ms mod 86400000 in
       pad 4 (int_str y) @ ''-'' @ pad 2 (int_str m) @ ''-'' @ pad 2 (int_str d) @ ''T'' @
       pad 2 (int_str (r div 3600000)) @ '':'' @ pad 2 (int_str (r div 60000 mod 60)) @ '':'' @
       pad 2 (int_str (r div 1000 mod 60)) @ ''.'' @ pad 3 (int_str (r mod 1000)) @ ''Z'')"

subsection \<open>Maps\<close>

type_synonym ('k, 'v) jsmap = "('k \<times> 'v) list"

definition map_get :: "'k \<Rightarrow> ('k, 'v) jsmap \<Rightarrow> 'v option" where
  "map_get k m = map_of m k"

definition map_has :: "'k \<Rightarrow> ('k, 'v) jsmap \<Rightarrow> bool" where
  "map_has k m = (map_of m k \<noteq> None)"

definition map_set :: "'k \<Rightarrow> 'v \<Rightarrow> ('k, 'v) jsmap \<Rightarrow> ('k, 'v) jsmap" where
  "map_set k v m = AList.update k v m"

definition map_del :: "'k \<Rightarrow> ('k, 'v) jsmap \<Rightarrow> ('k, 'v) jsmap" where
  "map_del k m = AList.delete k m"

text \<open>What every client of a \<open>Map\<close> relies on.\<close>

locale key_value =
  fixes get :: "'k \<Rightarrow> 'm \<Rightarrow> 'v option"
    and set' :: "'k \<Rightarrow> 'v \<Rightarrow> 'm \<Rightarrow> 'm"
    and del :: "'k \<Rightarrow> 'm \<Rightarrow> 'm"
  assumes get_set: "get k (set' k' v m) = (if k = k' then Some v else get k m)"
    and get_del: "get k (del k' m) = (if k = k' then None else get k m)"
begin

lemma get_set_same: "get k (set' k v m) = Some v"
  by (simp add: get_set)

lemma get_set_other: "k \<noteq> k' \<Longrightarrow> get k (set' k' v m) = get k m"
  by (simp add: get_set)

lemma get_set_set: "get j (set' k v (set' k w m)) = get j (set' k v m)"
  by (simp add: get_set)

end

interpretation jsm: key_value map_get map_set map_del
  by unfold_locales (simp_all add: map_get_def map_set_def map_del_def update_conv' delete_conv')

lemmas [simp, store_simps] = jsm.get_set jsm.get_del

lemma map_has_get: "map_has k m = (map_get k m \<noteq> None)"
  by (simp add: map_has_def map_get_def)

lemma map_get_Nil [simp]: "map_get k [] = None"
  by (simp add: map_get_def)

lemma map_has_Nil [simp]: "map_has k [] = False"
  by (simp add: map_has_def)

lemma map_has_set [simp]: "map_has k (map_set k' v m) = (k = k' \<or> map_has k m)"
  by (simp add: map_has_get)

lemma keys_map_set: "set (map fst (map_set k v m)) = insert k (set (map fst m))"
  by (auto simp: map_set_def update_keys)

lemma distinct_map_set: "distinct (map fst m) \<Longrightarrow> distinct (map fst (map_set k v m))"
  by (simp add: map_set_def distinct_update)

lemma length_map_set_present: "map_has k m \<Longrightarrow> length (map_set k v m) = length m"
  unfolding map_has_def map_set_def by (induction m) auto

lemma map_get_in_set: "map_get k m = Some v \<Longrightarrow> (k, v) \<in> set m"
  by (simp add: map_get_def map_of_SomeD)

subsection \<open>Stable sorting and searching\<close>

definition js_find :: "('a \<Rightarrow> bool) \<Rightarrow> 'a list \<Rightarrow> 'a option" where
  "js_find P xs = List.find P xs"

lemma js_find_SomeD: "js_find P xs = Some x \<Longrightarrow> x \<in> set xs \<and> P x"
  by (auto simp: js_find_def find_Some_iff)

lemma js_find_None [simp]: "js_find P xs = None \<longleftrightarrow> (\<forall>x \<in> set xs. \<not> P x)"
  by (auto simp: js_find_def find_None_iff)

lemma distinct_map_sort_key [simp]: "distinct (map f (sort_key g xs)) \<longleftrightarrow> distinct (map f xs)"
proof -
  have "mset (map f (sort_key g xs)) = mset (map f xs)" by simp
  then show ?thesis by (rule mset_eq_imp_distinct_iff)
qed

lemma sort_key_Nil [simp]: "sort_key f xs = [] \<longleftrightarrow> xs = []"
  by (metis length_0_conv length_sort)

definition js_head :: "'a list \<Rightarrow> 'a option" where
  "js_head xs = (case xs of [] \<Rightarrow> None | x # _ \<Rightarrow> Some x)"

lemma js_head_simps [simp]: "js_head [] = None" "js_head (x # xs) = Some x"
  by (simp_all add: js_head_def)

lemma js_head_in: "js_head xs = Some x \<Longrightarrow> x \<in> set xs"
  by (cases xs) auto

lemma js_head_None [simp]: "js_head xs = None \<longleftrightarrow> xs = []"
  by (cases xs) auto

definition str_includes :: "string \<Rightarrow> string \<Rightarrow> bool" where
  "str_includes hay needle = (\<exists>i \<in> {0..length hay}. starts_with needle (drop i hay))"

text \<open>Insertion-ordered \<open>Set\<close> of a list: the first occurrence of each element.\<close>

definition js_set :: "'a list \<Rightarrow> 'a list" where
  "js_set xs = rev (remdups (rev xs))"

lemma set_js_set [simp]: "set (js_set xs) = set xs"
  by (simp add: js_set_def)

subsection \<open>Exceptions\<close>

fun traverse :: "('a \<Rightarrow> 'b throws) \<Rightarrow> 'a list \<Rightarrow> 'b list throws" where
  "traverse f [] = Inr []"
| "traverse f (x # xs) =
     (case f x of Inl e \<Rightarrow> Inl e
      | Inr y \<Rightarrow> (case traverse f xs of Inl e \<Rightarrow> Inl e | Inr ys \<Rightarrow> Inr (y # ys)))"

lemma traverse_cong [fundef_cong]:
  assumes "xs = ys" "\<And>x. x \<in> set ys \<Longrightarrow> f x = g x"
  shows "traverse f xs = traverse g ys"
  using assms by (induction ys arbitrary: xs) (auto split: sum.splits)

lemma traverse_Inr_iff:
  "traverse f xs = Inr ys \<longleftrightarrow> list_all2 (\<lambda>x y. f x = Inr y) xs ys"
proof (induction xs arbitrary: ys)
  case Nil
  show ?case by auto
next
  case (Cons x xs)
  show ?case
  proof (cases "f x")
    case (Inr y)
    show ?thesis
    proof (cases "traverse f xs")
      case (Inl e)
      with Cons.IH have "\<not> list_all2 (\<lambda>x y. f x = Inr y) xs zs" for zs by (metis sum.distinct(1))
      with \<open>f x = Inr y\<close> Inl show ?thesis by (auto simp: list_all2_Cons1)
    next
      case (Inr zs)
      with \<open>f x = Inr y\<close> Cons.IH show ?thesis by (cases ys) auto
    qed
  qed (auto simp: list_all2_Cons1)
qed

lemma traverse_Inr_map: "(\<And>x. x \<in> set xs \<Longrightarrow> f x = Inr (g x)) \<Longrightarrow> traverse f xs = Inr (map g xs)"
  by (induction xs) auto

subsection \<open>JSON values\<close>

text \<open>
  A JavaScript value that can reach a serialiser. \<open>JNonFinite n\<close> is \<open>NaN\<close> or an infinity, by
  its printed name. An object is its list of own properties in insertion order.
\<close>

datatype json =
    JNull
  | JUndefined
  | JBool bool
  | JNum int
  | JNonFinite string
  | JStr string
  | JArr "json list"
  | JObj "(string \<times> json) list"

fun JSON_stringify :: "json \<Rightarrow> string" where
  "JSON_stringify JNull = ''null''"
| "JSON_stringify JUndefined = ''null''"
| "JSON_stringify (JBool b) = (if b then ''true'' else ''false'')"
| "JSON_stringify (JNum n) = int_str n"
| "JSON_stringify (JNonFinite _) = ''null''"
| "JSON_stringify (JStr s) = json_quote s"
| "JSON_stringify (JArr xs) = ''['' @ join '','' (map JSON_stringify xs) @ '']''"
| "JSON_stringify (JObj kvs) =
     ''{'' @ join '','' (map (\<lambda>kv. json_quote (fst kv) @ '':'' @ JSON_stringify (snd kv))
                        (filter (\<lambda>kv. snd kv \<noteq> JUndefined) kvs)) @ ''}''"

text \<open>A value with no \<open>undefined\<close> and no non-finite number anywhere inside.\<close>

fun json_clean :: "json \<Rightarrow> bool" where
  "json_clean JUndefined = False"
| "json_clean (JNonFinite _) = False"
| "json_clean (JArr xs) = (\<forall>x \<in> set xs. json_clean x)"
| "json_clean (JObj kvs) = (\<forall>kv \<in> set kvs. json_clean (snd kv))"
| "json_clean _ = True"

lemma json_clean_defined: "json_clean x \<Longrightarrow> x \<noteq> JUndefined"
  by auto

text \<open>What may follow a complete value inside a document, and the unambiguity of printing.\<close>

definition delim :: "string \<Rightarrow> bool" where
  "delim r = (r = [] \<or> hd r \<in> {CHR '','', CHR '']'', CHR ''}''})"

lemma delim_simps [simp]:
  "delim []" "delim (CHR '','' # r)" "delim (CHR '']'' # r)" "delim (CHR ''}'' # r)"
  by (simp_all add: delim_def)

definition value_start :: "string \<Rightarrow> bool" where
  "value_start s = (s \<noteq> [] \<and> hd s \<notin> {CHR '','', CHR '']'', CHR ''}''})"

lemma value_start_Cons [simp]:
  "value_start (c # s) = (c \<notin> {CHR '','', CHR '']'', CHR ''}''})"
  by (simp add: value_start_def)

lemma value_start_Nil [simp]: "\<not> value_start []"
  by (simp add: value_start_def)

lemma value_start_not_delim: "value_start s \<Longrightarrow> \<not> delim (s @ r)"
  by (cases s) (auto simp: delim_def)

definition self_delimiting :: "string \<Rightarrow> string \<Rightarrow> bool" where
  "self_delimiting s t = (\<forall>r r'. delim r \<longrightarrow> delim r' \<longrightarrow> s @ r = t @ r' \<longrightarrow> s = t)"

lemma join_Cons: "join sep (x # xs) = x @ (if xs = [] then [] else sep @ join sep xs)"
  by (cases xs) simp_all

lemma join_close_prefix:
  assumes "c \<in> {CHR '']'', CHR ''}''}"
    and "\<And>s. s \<in> set ss \<union> set ts \<Longrightarrow> value_start s"
    and "\<And>s t. s \<in> set ss \<Longrightarrow> t \<in> set ts \<Longrightarrow> self_delimiting s t"
    and "join '','' ss @ c # r = join '','' ts @ c # r'"
  shows "ss = ts \<and> r = r'"
  using assms
proof (induction ss arbitrary: ts)
  case Nil
  show ?case
  proof (cases ts)
    case Nil
    with Nil.prems show ?thesis by simp
  next
    case (Cons t ts')
    with Nil.prems(2) [of t] have "value_start t" by simp
    with Cons Nil.prems(1,4) show ?thesis by (cases t) (auto simp: join_Cons)
  qed
next
  case (Cons s ss)
  then have vs: "value_start s" by simp
  show ?case
  proof (cases ts)
    case Nil
    with Cons.prems(1,4) vs show ?thesis by (cases s) (auto simp: join_Cons)
  next
    case (Cons t ts')
    have eq: "s @ ((if ss = [] then [] else '','' @ join '','' ss) @ c # r) =
        t @ ((if ts' = [] then [] else '','' @ join '','' ts') @ c # r')"
      using Cons.prems(4) unfolding Cons join_Cons by simp
    have d: "delim ((if us = [] then [] else '','' @ join '','' us) @ c # q)" for us q
      using Cons.prems(1) by auto
    have "s = t"
      using Cons.prems(3) [of s t] Cons eq d unfolding self_delimiting_def by fastforce
    with eq have rest: "(if ss = [] then [] else '','' @ join '','' ss) @ c # r =
        (if ts' = [] then [] else '','' @ join '','' ts') @ c # r'"
      by simp
    have nc: "CHR '','' \<noteq> c" using Cons.prems(1) by auto
    have emp: "ss = [] \<longleftrightarrow> ts' = []"
      using rest nc by (cases "ss = []"; cases "ts' = []") auto
    then have "join '','' ss @ c # r = join '','' ts' @ c # r'"
      using rest by (cases "ss = []") simp_all
    with Cons.IH [of ts'] Cons.prems(1-3) Cons have "ss = ts' \<and> r = r'" by simp
    with \<open>s = t\<close> Cons show ?thesis by simp
  qed
qed

definition num_char :: "char \<Rightarrow> bool" where
  "num_char c = (c = CHR ''-'' \<or> is_digit c)"

lemma num_char_simps [simp]:
  "\<not> num_char (CHR ''n'')" "\<not> num_char (CHR ''t'')" "\<not> num_char (CHR ''f'')"
  "\<not> num_char (CHR 0x22)" "\<not> num_char (CHR ''['')" "\<not> num_char (CHR ''{'')"
  "\<not> num_char (CHR '','')" "\<not> num_char (CHR '']'')" "\<not> num_char (CHR ''}'')"
  by (simp_all add: num_char_def is_digit_def)

lemma int_str_num_chars: "c \<in> set (int_str i) \<Longrightarrow> num_char c"
  using nat_str_digits by (auto simp: int_str_def num_char_def split: if_splits)

lemma int_str_ConsE: obtains c s where "int_str i = c # s" "num_char c"
  using int_str_num_chars [of _ i] by (cases "int_str i") auto

lemma takeWhile_num_delim:
  assumes "\<And>c. c \<in> set s \<Longrightarrow> num_char c" and "delim r"
  shows "takeWhile num_char (s @ r) = s"
  using assms by (cases r) (auto simp: delim_def takeWhile_tail)

lemma int_str_prefix:
  assumes "delim r" "delim r'" "int_str i @ r = int_str j @ r'" shows "i = j"
proof -
  have "int_str i = takeWhile num_char (int_str i @ r)"
    by (rule takeWhile_num_delim [OF int_str_num_chars assms(1), symmetric])
  also have "\<dots> = int_str j"
    unfolding assms(3) by (rule takeWhile_num_delim [OF int_str_num_chars assms(2)])
  finally show ?thesis by (simp only: int_str_inj)
qed

lemma stringify_value_start [simp]: "value_start (JSON_stringify x)"
proof (cases x)
  case (JNum i)
  obtain c s where "int_str i = c # s" "num_char c" by (rule int_str_ConsE)
  with JNum show ?thesis by auto
qed (auto simp: json_quote_def)

text \<open>The first character of a printed value tells its constructor.\<close>

fun json_tag :: "json \<Rightarrow> nat" where
  "json_tag JNull = 0"
| "json_tag JUndefined = 0"
| "json_tag (JBool b) = (if b then 1 else 2)"
| "json_tag (JNum _) = 3"
| "json_tag (JNonFinite _) = 0"
| "json_tag (JStr _) = 4"
| "json_tag (JArr _) = 5"
| "json_tag (JObj _) = 6"

definition char_tag :: "char \<Rightarrow> nat" where
  "char_tag c = (if c = CHR ''n'' then 0 else if c = CHR ''t'' then 1 else if c = CHR ''f'' then 2
                 else if num_char c then 3 else if c = CHR 0x22 then 4
                 else if c = CHR ''['' then 5 else 6)"

lemma char_tag_stringify: "char_tag (hd (JSON_stringify x)) = json_tag x"
proof (cases x)
  case (JNum i)
  obtain c s where "int_str i = c # s" "num_char c" by (rule int_str_ConsE)
  moreover from this have "c \<noteq> CHR ''n''" "c \<noteq> CHR ''t''" "c \<noteq> CHR ''f''" by auto
  ultimately show ?thesis using JNum by (simp add: char_tag_def)
qed (auto simp: char_tag_def json_quote_def)

lemma same_tag:
  assumes "JSON_stringify x @ r = JSON_stringify y @ r'" shows "json_tag x = json_tag y"
proof -
  have "JSON_stringify z \<noteq> []" for z
    using stringify_value_start [of z] by (auto simp: value_start_def)
  with assms have "hd (JSON_stringify x) = hd (JSON_stringify y)" by (metis hd_append2)
  then show ?thesis using char_tag_stringify by metis
qed

lemma filter_clean: "json_clean (JObj kvs) \<Longrightarrow> filter (\<lambda>kv. snd kv \<noteq> JUndefined) kvs = kvs"
  by (auto simp: filter_id_conv)

lemma stringify_prefix:
  assumes "json_clean x" "json_clean y" "delim r" "delim r'"
    "JSON_stringify x @ r = JSON_stringify y @ r'"
  shows "x = y"
  using assms
proof (induction x arbitrary: y r r' rule: JSON_stringify.induct)
  case (4 n)
  with same_tag [OF 4(5)] show ?case by (cases y) (auto dest: int_str_prefix split: if_splits)
next
  case (6 s)
  with same_tag [OF 6(5)] show ?case by (cases y) (auto dest: json_quote_prefix split: if_splits)
next
  case (7 xs)
  from same_tag [OF 7(6)] obtain ys where y: "y = JArr ys" by (cases y) (auto split: if_splits)
  have el: "x' = y'" if "x' \<in> set xs" "y' \<in> set ys" "delim q" "delim q'"
    "JSON_stringify x' @ q = JSON_stringify y' @ q'" for x' y' q q'
    using "7.IH" [OF that(1), of y' q q'] that 7(2,3) y by simp
  have "map JSON_stringify xs = map JSON_stringify ys \<and> r = r'"
  proof (rule join_close_prefix [where c = "CHR '']''"])
    show "self_delimiting s t" if "s \<in> set (map JSON_stringify xs)" "t \<in> set (map JSON_stringify ys)"
      for s t
      using that el unfolding self_delimiting_def by fastforce
  qed (use 7(6) y in auto)
  then have "xs = ys"
    using el [of _ _ "[]" "[]"] by (auto intro: list.inj_map_strong [of xs ys JSON_stringify JSON_stringify])
  with y show ?case by simp
next
  case (8 kvs)
  from same_tag [OF 8(6)] obtain lvs where y: "y = JObj lvs" by (cases y) (auto split: if_splits)
  let ?f = "\<lambda>kv. json_quote (fst kv) @ '':'' @ JSON_stringify (snd kv)"
  have el: "a = b" if "a \<in> set kvs" "b \<in> set lvs" "delim q" "delim q'" "?f a @ q = ?f b @ q'"
    for a b q q'
  proof -
    from that(5) have "json_quote (fst a) @ ('':'' @ JSON_stringify (snd a) @ q) =
        json_quote (fst b) @ ('':'' @ JSON_stringify (snd b) @ q')" by simp
    from json_quote_prefix [OF this]
    have k: "fst a = fst b" "JSON_stringify (snd a) @ q = JSON_stringify (snd b) @ q'" by simp_all
    have "snd a = snd b"
      using "8.IH" [of a "snd b" q q'] that k(2) 8(2,3) y filter_clean [of kvs]
        json_clean_defined [of "snd a"] by simp
    with k show ?thesis by (simp add: prod_eq_iff)
  qed
  have "map ?f kvs = map ?f lvs \<and> r = r'"
  proof (rule join_close_prefix [where c = "CHR ''}''"])
    show "self_delimiting s t" if "s \<in> set (map ?f kvs)" "t \<in> set (map ?f lvs)" for s t
      using that el unfolding self_delimiting_def by fastforce
    show "join '','' (map ?f kvs) @ CHR ''}'' # r = join '','' (map ?f lvs) @ CHR ''}'' # r'"
      using 8(6) 8(2,3) y filter_clean [of kvs] filter_clean [of lvs] by simp
  qed (auto simp: json_quote_def)
  then have "kvs = lvs"
    using el [of _ _ "[]" "[]"] by (auto intro: list.inj_map_strong [of kvs lvs ?f ?f])
  with y show ?case by simp
next
  case 1
  with same_tag [OF 1(5)] show ?case by (cases y) (simp_all split: if_splits)
next
  case (3 b)
  with same_tag [OF 3(5)] show ?case by (cases y) (simp_all split: if_splits)
qed simp_all

lemma stringify_inj:
  "json_clean x \<Longrightarrow> json_clean y \<Longrightarrow> JSON_stringify x = JSON_stringify y \<Longrightarrow> x = y"
  by (rule stringify_prefix [of x y "[]" "[]"]) simp_all

subsection \<open>Actions on a mutable state\<close>

text \<open>
  A piece of imperative code that may throw: the state it leaves behind is kept even when it throws,
  as it is in JavaScript. \<open>mbind\<close> is the sequence, \<open>mcatch\<close> is \<open>try/catch\<close>.
\<close>

type_synonym ('s, 'a) action = "'s \<Rightarrow> 'a throws \<times> 's"

definition mret :: "'a \<Rightarrow> ('s, 'a) action" where
  "mret x = (\<lambda>st. (Inr x, st))"

definition mthrow :: "string \<Rightarrow> ('s, 'a) action" where
  "mthrow e = (\<lambda>st. (Inl e, st))"

definition mbind :: "('s, 'a) action \<Rightarrow> ('a \<Rightarrow> ('s, 'b) action) \<Rightarrow> ('s, 'b) action" where
  "mbind m f = (\<lambda>st. case m st of (Inl e, s) \<Rightarrow> (Inl e, s) | (Inr x, s) \<Rightarrow> f x s)"

definition mcatch :: "('s, 'a) action \<Rightarrow> ('s, 'a) action \<Rightarrow> ('s, 'a) action" where
  "mcatch m h = (\<lambda>st. case m st of (Inl e, s) \<Rightarrow> h s | (Inr x, s) \<Rightarrow> (Inr x, s))"

lemma mbind_ret [simp]: "mbind (mret x) f = f x"
  by (simp add: mbind_def mret_def)

lemma mbind_throw [simp]: "mbind (mthrow e) f = mthrow e"
  by (simp add: mbind_def mthrow_def)

lemma mbind_assoc: "mbind (mbind m f) g = mbind m (\<lambda>x. mbind (f x) g)"
  by (rule ext) (auto simp: mbind_def split: sum.splits prod.splits)


definition mtry :: "('s, 'a) action \<Rightarrow> (string \<Rightarrow> ('s, 'a) action) \<Rightarrow> ('s, 'a) action" where
  "mtry m h = (\<lambda>st. case m st of (Inl e, s) \<Rightarrow> h e s | (Inr x, s) \<Rightarrow> (Inr x, s))"

lemma mcatch_mtry: "mcatch m h = mtry m (\<lambda>_. h)"
  by (simp add: mcatch_def mtry_def)

text \<open>
  \<open>wp m Q E st\<close>: run from \<open>st\<close>, the action ends normally in a result and state satisfying \<open>Q\<close> or throws
  in a state satisfying \<open>E\<close>. The rules \<open>wp\<close> take a composed action apart.
\<close>

definition wp :: "('s, 'a) action \<Rightarrow> ('a \<Rightarrow> 's \<Rightarrow> bool) \<Rightarrow> (string \<Rightarrow> 's \<Rightarrow> bool) \<Rightarrow> 's \<Rightarrow> bool" where
  "wp m Q E st = (case m st of (Inl e, s) \<Rightarrow> E e s | (Inr x, s) \<Rightarrow> Q x s)"

named_theorems wps \<open>weakest preconditions of the basic actions\<close>

lemma wp_ret [wps]: "wp (mret x) Q E st = Q x st"
  by (simp add: wp_def mret_def)

lemma wp_throw [wps]: "wp (mthrow e) Q E st = E e st"
  by (simp add: wp_def mthrow_def)

lemma wp_bind [wps]: "wp (mbind m f) Q E st = wp m (\<lambda>x. wp (f x) Q E) E st"
  by (simp add: wp_def mbind_def split: sum.splits prod.splits)

lemma wp_try [wps]: "wp (mtry m h) Q E st = wp m Q (\<lambda>e. wp (h e) Q E) st"
  by (simp add: wp_def mtry_def split: sum.splits prod.splits)

lemma wp_mono: "wp m Q E st \<Longrightarrow> (\<And>x s. Q x s \<Longrightarrow> Q' x s) \<Longrightarrow> (\<And>e s. E e s \<Longrightarrow> E' e s) \<Longrightarrow> wp m Q' E' st"
  by (auto simp: wp_def split: sum.splits prod.splits)

lemma wp_run: "wp m Q E st \<Longrightarrow> m st = (Inr x, st') \<Longrightarrow> Q x st'"
  "wp m Q E st \<Longrightarrow> m st = (Inl e, st') \<Longrightarrow> E e st'"
  by (simp_all add: wp_def)

lemma wp_always: "wp m (\<lambda>_. I) (\<lambda>_. I) st \<Longrightarrow> I (snd (m st))"
  by (auto simp: wp_def split: sum.splits prod.splits)

end
