(* ===== verification/Domain.thy ===== *)
theory Domain
  imports Prelude
begin

text \<open>
  The commerce domain, \<open>packages/domain/src\<close>: the order-state machine (\<open>types.ts\<close>), canonical
  serialisation and digests of the commerce envelope (\<open>canonical.ts\<close>), and the payment policy with
  the re-approval diff (\<open>policy.ts\<close>). Record fields keep the source's names behind a short
  prefix. Timestamps are the ISO strings of the source, compared lexicographically as the source
  compares them. SHA-256 and HMAC are parameters: functions from strings to strings.
\<close>

subsection \<open>Data model (types.ts)\<close>

datatype currency = INR | USDC

fun currency_str :: "currency \<Rightarrow> string" where
  "currency_str INR = ''INR''"
| "currency_str USDC = ''USDC''"

lemma currency_str_inj [simp]: "currency_str a = currency_str b \<longleftrightarrow> a = b"
  by (cases a; cases b) auto

datatype payment_rail = Razorpay_checkout | Razorpay_reserve_pay | X402_solana

record purchase_mandate =
  mnd_mandateId :: string
  mnd_customerId :: string
  mnd_allowedMerchantIds :: "string list"
  mnd_allowedProductIds :: "string list option"
  mnd_allowedRails :: "payment_rail list"
  mnd_maxAmountMinor :: int
  mnd_autoApproveBelowMinor :: "int option"
  mnd_expiresAt :: string
  mnd_humanConfirmationRequired :: bool

record envelope_item =
  item_productId :: string
  item_sku :: string
  item_variant :: "(string \<times> string) list"
  item_quantity :: int
  item_unitAmountMinor :: int

record commerce_envelope =
  env_logicalOrderId :: string
  env_merchantId :: string
  env_quoteId :: string
  env_customerId :: string
  env_buyerAgentId :: "string option"
  env_items :: "envelope_item list"
  env_subtotalMinor :: int
  env_taxMinor :: int
  env_shippingMinor :: int
  env_totalMinor :: int
  env_currency :: currency
  env_inventoryHoldId :: string
  env_returnPolicyDigest :: string
  env_shippingDestinationDigest :: string
  env_mandateId :: string
  env_approvalEventId :: "string option"
  env_issuedAt :: string
  env_expiresAt :: string
  env_nonce :: string

subsection \<open>Order-state machine (types.ts)\<close>

datatype order_state =
    DRAFT | CLARIFYING | QUOTED | AWAITING_APPROVAL | APPROVED | PAYMENT_PENDING | PAID_VERIFIED
  | FULFILMENT_PENDING | FULFILLED | EXPIRED | REAPPROVAL_REQUIRED | PAYMENT_FAILED
  | FULFILMENT_FAILED | COMPENSATION_PENDING | REFUNDED | MANUAL_REVIEW

definition ORDER_STATES :: "order_state list" where
  "ORDER_STATES = [DRAFT, CLARIFYING, QUOTED, AWAITING_APPROVAL, APPROVED, PAYMENT_PENDING,
     PAID_VERIFIED, FULFILMENT_PENDING, FULFILLED, EXPIRED, REAPPROVAL_REQUIRED, PAYMENT_FAILED,
     FULFILMENT_FAILED, COMPENSATION_PENDING, REFUNDED, MANUAL_REVIEW]"

fun order_state_str :: "order_state \<Rightarrow> string" where
  "order_state_str DRAFT = ''DRAFT''"
| "order_state_str CLARIFYING = ''CLARIFYING''"
| "order_state_str QUOTED = ''QUOTED''"
| "order_state_str AWAITING_APPROVAL = ''AWAITING_APPROVAL''"
| "order_state_str APPROVED = ''APPROVED''"
| "order_state_str PAYMENT_PENDING = ''PAYMENT_PENDING''"
| "order_state_str PAID_VERIFIED = ''PAID_VERIFIED''"
| "order_state_str FULFILMENT_PENDING = ''FULFILMENT_PENDING''"
| "order_state_str FULFILLED = ''FULFILLED''"
| "order_state_str EXPIRED = ''EXPIRED''"
| "order_state_str REAPPROVAL_REQUIRED = ''REAPPROVAL_REQUIRED''"
| "order_state_str PAYMENT_FAILED = ''PAYMENT_FAILED''"
| "order_state_str FULFILMENT_FAILED = ''FULFILMENT_FAILED''"
| "order_state_str COMPENSATION_PENDING = ''COMPENSATION_PENDING''"
| "order_state_str REFUNDED = ''REFUNDED''"
| "order_state_str MANUAL_REVIEW = ''MANUAL_REVIEW''"

fun ALLOWED_TRANSITIONS :: "order_state \<Rightarrow> order_state list" where
  "ALLOWED_TRANSITIONS DRAFT = [CLARIFYING, QUOTED, EXPIRED]"
| "ALLOWED_TRANSITIONS CLARIFYING = [CLARIFYING, QUOTED, EXPIRED]"
| "ALLOWED_TRANSITIONS QUOTED = [AWAITING_APPROVAL, EXPIRED, REAPPROVAL_REQUIRED]"
| "ALLOWED_TRANSITIONS AWAITING_APPROVAL =
     [APPROVED, EXPIRED, REAPPROVAL_REQUIRED, CLARIFYING, QUOTED]"
| "ALLOWED_TRANSITIONS APPROVED = [PAYMENT_PENDING, EXPIRED, REAPPROVAL_REQUIRED]"
| "ALLOWED_TRANSITIONS PAYMENT_PENDING = [PAID_VERIFIED, PAYMENT_FAILED, REAPPROVAL_REQUIRED, EXPIRED]"
| "ALLOWED_TRANSITIONS PAID_VERIFIED = [FULFILMENT_PENDING, FULFILMENT_FAILED]"
| "ALLOWED_TRANSITIONS FULFILMENT_PENDING = [FULFILLED, FULFILMENT_FAILED]"
| "ALLOWED_TRANSITIONS FULFILLED = []"
| "ALLOWED_TRANSITIONS EXPIRED = []"
| "ALLOWED_TRANSITIONS REAPPROVAL_REQUIRED =
     [AWAITING_APPROVAL, APPROVED, EXPIRED, CLARIFYING, QUOTED]"
| "ALLOWED_TRANSITIONS PAYMENT_FAILED = [PAYMENT_PENDING, EXPIRED]"
| "ALLOWED_TRANSITIONS FULFILMENT_FAILED = [COMPENSATION_PENDING]"
| "ALLOWED_TRANSITIONS COMPENSATION_PENDING = [REFUNDED, MANUAL_REVIEW]"
| "ALLOWED_TRANSITIONS REFUNDED = []"
| "ALLOWED_TRANSITIONS MANUAL_REVIEW = [REFUNDED, FULFILMENT_PENDING, FULFILLED, COMPENSATION_PENDING]"

datatype state_transition_result =
    TransitionOk order_state order_state
  | TransitionRefused order_state order_state string

definition transitionState :: "order_state \<Rightarrow> order_state \<Rightarrow> state_transition_result" where
  "transitionState from to =
     (let allowed = ALLOWED_TRANSITIONS from in
      if from = to then TransitionOk from to
      else if to \<notin> set allowed
      then TransitionRefused from to
             (''Illegal transition '' @ order_state_str from @ '' -> '' @ order_state_str to)
      else TransitionOk from to)"

definition assertTransition :: "order_state \<Rightarrow> order_state \<Rightarrow> unit throws" where
  "assertTransition from to =
     (case transitionState from to of
        TransitionOk _ _ \<Rightarrow> Inr ()
      | TransitionRefused _ _ reason \<Rightarrow> Inl reason)"

lemma ORDER_STATES_all: "s \<in> set ORDER_STATES"
  by (cases s) (simp_all add: ORDER_STATES_def)

text \<open>The enumeration of the states is the source's own constant.\<close>

instantiation order_state :: enum
begin

definition enum_order_state :: "order_state list" where
  "enum_order_state = ORDER_STATES"

definition enum_all_order_state :: "(order_state \<Rightarrow> bool) \<Rightarrow> bool" where
  "enum_all_order_state P = list_all P ORDER_STATES"

definition enum_ex_order_state :: "(order_state \<Rightarrow> bool) \<Rightarrow> bool" where
  "enum_ex_order_state P = list_ex P ORDER_STATES"

instance
proof
  show "(UNIV :: order_state set) = set enum_class.enum"
    using ORDER_STATES_all by (auto simp: enum_order_state_def)
  show "distinct (enum_class.enum :: order_state list)"
    by (simp add: enum_order_state_def ORDER_STATES_def)
  show "enum_class.enum_all P = Ball (UNIV :: order_state set) P" for P
    using ORDER_STATES_all by (auto simp: enum_all_order_state_def list_all_iff)
  show "enum_class.enum_ex P = Bex (UNIV :: order_state set) P" for P
    using ORDER_STATES_all by (auto simp: enum_ex_order_state_def list_ex_iff)
qed

end

text \<open>The step relation the state machine induces, and its paths.\<close>

inductive order_step :: "order_state \<Rightarrow> order_state \<Rightarrow> bool" where
  order_step: "assertTransition from to = Inr () \<Longrightarrow> order_step from to"

inductive_cases order_stepE: "order_step from to"

lemma assertTransition_ok_iff:
  "assertTransition from to = Inr () \<longleftrightarrow> from = to \<or> to \<in> set (ALLOWED_TRANSITIONS from)"
  by (auto simp: assertTransition_def transitionState_def Let_def)

lemma order_step_iff: "order_step from to \<longleftrightarrow> from = to \<or> to \<in> set (ALLOWED_TRANSITIONS from)"
  by (auto simp: order_step.simps assertTransition_ok_iff)

fun legal_path :: "order_state list \<Rightarrow> bool" where
  "legal_path (a # b # xs) = (assertTransition a b = Inr () \<and> legal_path (b # xs))"
| "legal_path _ = True"

text \<open>States in which the buyer's money has been taken or returned.\<close>

definition post_payment :: "order_state \<Rightarrow> bool" where
  "post_payment s = (s \<in> {PAID_VERIFIED, FULFILMENT_PENDING, FULFILLED, FULFILMENT_FAILED,
                          COMPENSATION_PENDING, REFUNDED, MANUAL_REVIEW})"

lemma post_payment_step: "order_step s t \<Longrightarrow> post_payment s \<Longrightarrow> post_payment t"
  by (cases s) (auto simp: order_step_iff post_payment_def)

lemma enter_post_payment:
  "order_step s t \<Longrightarrow> \<not> post_payment s \<Longrightarrow> post_payment t \<Longrightarrow> s = PAYMENT_PENDING \<and> t = PAID_VERIFIED"
  by (cases s) (auto simp: order_step_iff post_payment_def)

text \<open>States that need an earlier approval, unless entered through \<open>APPROVED\<close> itself.\<close>

definition needs_approval :: "order_state \<Rightarrow> bool" where
  "needs_approval s = (s \<in> {APPROVED, PAYMENT_PENDING, PAYMENT_FAILED} \<or> post_payment s)"

lemma enter_needs_approval:
  "order_step s t \<Longrightarrow> \<not> needs_approval s \<Longrightarrow> needs_approval t \<Longrightarrow> t = APPROVED"
  by (cases s) (auto simp: order_step_iff needs_approval_def post_payment_def)

lemma enter_pending:
  "order_step s t \<Longrightarrow> t = PAID_VERIFIED \<Longrightarrow> s \<noteq> PAID_VERIFIED \<Longrightarrow> s = PAYMENT_PENDING"
  by (cases s) (auto simp: order_step_iff)

lemma path_step_in:
  assumes "legal_path (s # xs)" "\<not> P s" "x \<in> set xs" "P x"
  shows "\<exists>a b. order_step a b \<and> \<not> P a \<and> P b \<and> a \<in> set (s # xs) \<and> b \<in> set xs"
  using assms
proof (induction xs arbitrary: s)
  case (Cons y ys)
  then have step: "order_step s y" by (simp add: order_step.simps)
  show ?case
  proof (cases "P y")
    case True
    with step Cons.prems(2) show ?thesis by auto
  next
    case False
    with Cons.prems have "\<exists>a b. order_step a b \<and> \<not> P a \<and> P b \<and> a \<in> set (y # ys) \<and> b \<in> set ys"
      by (intro Cons.IH) auto
    then show ?thesis by auto
  qed
qed simp

lemma path_post_payment:
  "legal_path (s # xs) \<Longrightarrow> post_payment s \<Longrightarrow> x \<in> set (s # xs) \<Longrightarrow> post_payment x"
proof (induction xs arbitrary: s)
  case (Cons y ys)
  then have "post_payment y" by (auto intro: post_payment_step order_step.intros)
  with Cons show ?case by auto
qed simp

lemma legal_path_append: "legal_path (a @ b) \<Longrightarrow> legal_path a"
  by (induction a rule: legal_path.induct) auto

lemma legal_path_last: "legal_path (a @ [x, y]) \<Longrightarrow> order_step x y"
proof (induction a)
  case (Cons c a)
  then show ?case by (cases a) auto
qed (simp add: order_step.simps)

subsection \<open>Canonical serialisation (canonical.ts)\<close>

fun canonicalStringify :: "json \<Rightarrow> string throws" where
  "canonicalStringify JNull = Inr ''null''"
| "canonicalStringify (JStr s) = Inr (json_quote s)"
| "canonicalStringify (JNonFinite n) = Inl (''Cannot canonicalize non-finite number: '' @ n)"
| "canonicalStringify (JNum n) = Inr (int_str n)"
| "canonicalStringify (JBool b) = Inr (if b then ''true'' else ''false'')"
| "canonicalStringify (JArr xs) =
     map_sum id (\<lambda>ss. ''['' @ join '','' ss @ '']'') (traverse canonicalStringify xs)"
| "canonicalStringify (JObj kvs) =
     map_sum id (\<lambda>ss. ''{'' @ join '','' ss @ ''}'')
       (traverse (\<lambda>kv. map_sum id (\<lambda>s. json_quote (fst kv) @ '':'' @ s) (canonicalStringify (snd kv)))
          (sort_key fst (filter (\<lambda>kv. snd kv \<noteq> JUndefined) kvs)))"
| "canonicalStringify JUndefined = Inl ''Cannot canonicalize value of type undefined''"

definition canonicalize :: "json \<Rightarrow> string throws" where
  "canonicalize v = canonicalStringify v"

definition json_opt :: "string option \<Rightarrow> json" where
  "json_opt s = (case s of None \<Rightarrow> JUndefined | Some x \<Rightarrow> JStr x)"

definition itemJson :: "envelope_item \<Rightarrow> json" where
  "itemJson it = JObj
     [(''productId'', JStr (item_productId it)),
      (''sku'', JStr (item_sku it)),
      (''variant'', JObj (map (\<lambda>kv. (fst kv, JStr (snd kv))) (item_variant it))),
      (''quantity'', JNum (item_quantity it)),
      (''unitAmountMinor'', JNum (item_unitAmountMinor it))]"

definition envelopeFields :: "commerce_envelope \<Rightarrow> (string \<times> json) list" where
  "envelopeFields e =
     [(''version'', JNum 1),
      (''logicalOrderId'', JStr (env_logicalOrderId e)),
      (''merchantId'', JStr (env_merchantId e)),
      (''quoteId'', JStr (env_quoteId e)),
      (''customerId'', JStr (env_customerId e)),
      (''buyerAgentId'', json_opt (env_buyerAgentId e)),
      (''items'', JArr (map itemJson (env_items e))),
      (''subtotalMinor'', JNum (env_subtotalMinor e)),
      (''taxMinor'', JNum (env_taxMinor e)),
      (''shippingMinor'', JNum (env_shippingMinor e)),
      (''totalMinor'', JNum (env_totalMinor e)),
      (''currency'', JStr (currency_str (env_currency e))),
      (''inventoryHoldId'', JStr (env_inventoryHoldId e)),
      (''returnPolicyDigest'', JStr (env_returnPolicyDigest e)),
      (''shippingDestinationDigest'', JStr (env_shippingDestinationDigest e)),
      (''mandateId'', JStr (env_mandateId e)),
      (''approvalEventId'', json_opt (env_approvalEventId e)),
      (''issuedAt'', JStr (env_issuedAt e)),
      (''expiresAt'', JStr (env_expiresAt e)),
      (''nonce'', JStr (env_nonce e))]"

definition envelopeJson :: "commerce_envelope \<Rightarrow> json" where
  "envelopeJson e = JObj (envelopeFields e)"

text \<open>
  The digest functions. Canonicalising an envelope never throws (\<open>canonicalize_envelope\<close> below),
  so the digest is a plain string; the unreachable branch keeps the definition total.
\<close>

definition envelopeDigest :: "(string \<Rightarrow> string) \<Rightarrow> commerce_envelope \<Rightarrow> string" where
  "envelopeDigest sha256 e =
     (case canonicalize (envelopeJson e) of Inr s \<Rightarrow> sha256 s | Inl _ \<Rightarrow> [])"

definition signEnvelope ::
  "(string \<Rightarrow> string) \<Rightarrow> (string \<Rightarrow> string \<Rightarrow> string) \<Rightarrow> commerce_envelope \<Rightarrow> string \<Rightarrow> string" where
  "signEnvelope sha256 hmac e secret = hmac secret (envelopeDigest sha256 e)"

definition timingSafeEqual :: "string \<Rightarrow> string \<Rightarrow> bool" where
  "timingSafeEqual a b = (length a = length b \<and> list_all2 (=) a b)"

lemma timingSafeEqual_iff [simp]: "timingSafeEqual a b \<longleftrightarrow> a = b"
  by (auto simp: timingSafeEqual_def list.rel_eq)

definition verifyEnvelopeSignature ::
  "(string \<Rightarrow> string) \<Rightarrow> (string \<Rightarrow> string \<Rightarrow> string) \<Rightarrow> commerce_envelope \<Rightarrow> string \<Rightarrow> string \<Rightarrow> bool" where
  "verifyEnvelopeSignature sha256 hmac e secret signature =
     (let expected = signEnvelope sha256 hmac e secret in
      length expected = length signature \<and> timingSafeEqual expected signature)"

definition newId :: "string \<Rightarrow> string \<Rightarrow> string" where
  "newId prefix rnd = prefix @ ''_'' @ rnd"

subsection \<open>Payment policy (policy.ts)\<close>

datatype policy_decision = PAllow | PBlock | PReview

record policy_verdict =
  pv_allow :: bool
  pv_decision :: policy_decision
  pv_reasonCodes :: "string list"
  pv_details :: "string option"

record check_envelope_input =
  cei_envelope :: commerce_envelope
  cei_mandate :: "purchase_mandate option"
  cei_expectedDigest :: string
  cei_rail :: "payment_rail option"
  cei_approved :: bool
  cei_allowAutoApprove :: bool
  cei_nowIso :: string

definition when_code :: "bool \<Rightarrow> string \<Rightarrow> string list" where
  "when_code b c = (if b then [c] else [])"

text \<open>The codes pushed one after the other once digest and mandate are there.\<close>

definition policy_codes :: "check_envelope_input \<Rightarrow> purchase_mandate \<Rightarrow> string list" where
  "policy_codes input mandate =
     (let envelope = cei_envelope input; now = cei_nowIso input; approved = cei_approved input;
          total = env_totalMinor envelope;
          below = (case mnd_autoApproveBelowMinor mandate of None \<Rightarrow> - 1 | Some b \<Rightarrow> b);
          isApproved = (approved \<or> (cei_allowAutoApprove input \<and> below \<ge> total))
      in when_code (env_merchantId envelope \<notin> set (mnd_allowedMerchantIds mandate))
           ''mandate_merchant_not_allowed''
       @ (case mnd_allowedProductIds mandate of
            None \<Rightarrow> []
          | Some ids \<Rightarrow> concat (map (\<lambda>p. when_code (p \<notin> set ids) ''mandate_product_not_allowed'')
                                  (js_set (map item_productId (env_items envelope)))))
       @ (case cei_rail input of
            None \<Rightarrow> []
          | Some rail \<Rightarrow> when_code (rail \<notin> set (mnd_allowedRails mandate)) ''mandate_rail_not_allowed'')
       @ when_code (total > mnd_maxAmountMinor mandate) ''mandate_amount_exceeded''
       @ when_code (mnd_expiresAt mandate < now) ''mandate_expired''
       @ when_code (env_expiresAt envelope < now) ''envelope_expired''
       @ when_code (\<not> isApproved) ''envelope_not_approved''
       @ when_code (mnd_humanConfirmationRequired mandate \<and> \<not> approved)
           ''mandate_human_confirmation_required'')"

definition checkEnvelopeForPayment ::
  "(string \<Rightarrow> string) \<Rightarrow> check_envelope_input \<Rightarrow> policy_verdict" where
  "checkEnvelopeForPayment sha256 input =
     (if envelopeDigest sha256 (cei_envelope input) \<noteq> cei_expectedDigest input
      then \<lparr>pv_allow = False, pv_decision = PBlock, pv_reasonCodes = [''envelope_tampered''],
            pv_details = Some ''Envelope content does not match the approved digest.''\<rparr>
      else case cei_mandate input of
        None \<Rightarrow> \<lparr>pv_allow = False, pv_decision = PBlock, pv_reasonCodes = [''mandate_not_found''],
                 pv_details = None\<rparr>
      | Some mandate \<Rightarrow>
          (let codes = policy_codes input mandate in
           if length codes > 0
           then \<lparr>pv_allow = False,
                 pv_decision = (if ''mandate_amount_exceeded'' \<in> set codes then PReview else PBlock),
                 pv_reasonCodes = codes, pv_details = None\<rparr>
           else \<lparr>pv_allow = True, pv_decision = PAllow, pv_reasonCodes = [''ok''], pv_details = None\<rparr>))"

record material_change =
  mc_field :: string
  mc_before :: string
  mc_after :: string

definition changed :: "string \<Rightarrow> string \<Rightarrow> string \<Rightarrow> material_change list" where
  "changed f b a = (if b \<noteq> a then [\<lparr>mc_field = f, mc_before = b, mc_after = a\<rparr>] else [])"

definition changed_int :: "string \<Rightarrow> int \<Rightarrow> int \<Rightarrow> material_change list" where
  "changed_int f b a =
     (if b \<noteq> a then [\<lparr>mc_field = f, mc_before = int_str b, mc_after = int_str a\<rparr>] else [])"

definition itemsJson :: "envelope_item list \<Rightarrow> string" where
  "itemsJson its = JSON_stringify (JArr (map itemJson its))"

definition materialChanges :: "commerce_envelope \<Rightarrow> commerce_envelope \<Rightarrow> material_change list" where
  "materialChanges approved candidate =
     changed ''merchantId'' (env_merchantId approved) (env_merchantId candidate)
   @ changed ''currency'' (currency_str (env_currency approved)) (currency_str (env_currency candidate))
   @ changed_int ''totalMinor'' (env_totalMinor approved) (env_totalMinor candidate)
   @ changed_int ''subtotalMinor'' (env_subtotalMinor approved) (env_subtotalMinor candidate)
   @ changed_int ''shippingMinor'' (env_shippingMinor approved) (env_shippingMinor candidate)
   @ changed_int ''taxMinor'' (env_taxMinor approved) (env_taxMinor candidate)
   @ changed ''returnPolicyDigest'' (env_returnPolicyDigest approved) (env_returnPolicyDigest candidate)
   @ changed ''shippingDestinationDigest'' (env_shippingDestinationDigest approved)
       (env_shippingDestinationDigest candidate)
   @ changed ''expiresAt'' (env_expiresAt approved) (env_expiresAt candidate)
   @ changed ''mandateId'' (env_mandateId approved) (env_mandateId candidate)
   @ changed ''items'' (itemsJson (env_items approved)) (itemsJson (env_items candidate))"

definition requiresReapproval :: "commerce_envelope \<Rightarrow> commerce_envelope \<Rightarrow> bool" where
  "requiresReapproval approved candidate = (length (materialChanges approved candidate) > 0)"

subsection \<open>Canonical form: facts\<close>

text \<open>The normal form behind the serialiser: undefined properties dropped, keys sorted.\<close>

fun json_normal :: "json \<Rightarrow> json" where
  "json_normal (JArr xs) = JArr (map json_normal xs)"
| "json_normal (JObj kvs) =
     JObj (map (\<lambda>kv. (fst kv, json_normal (snd kv)))
       (sort_key fst (filter (\<lambda>kv. snd kv \<noteq> JUndefined) kvs)))"
| "json_normal x = x"

lemma json_normal_undefined [simp]: "json_normal x = JUndefined \<longleftrightarrow> x = JUndefined"
  by (cases x) auto

lemma canonical_is_normal_stringify:
  "json_clean (json_normal x) \<Longrightarrow> canonicalStringify x = Inr (JSON_stringify (json_normal x))"
proof (induction x rule: canonicalStringify.induct)
  case (6 xs)
  then have "traverse canonicalStringify xs = Inr (map (\<lambda>x. JSON_stringify (json_normal x)) xs)"
    by (intro traverse_Inr_map) auto
  then show ?case by (simp add: o_def)
next
  case (7 kvs)
  let ?kvs = "sort_key fst (filter (\<lambda>kv. snd kv \<noteq> JUndefined) kvs)"
  have "traverse (\<lambda>kv. map_sum id (\<lambda>s. json_quote (fst kv) @ '':'' @ s) (canonicalStringify (snd kv))) ?kvs
      = Inr (map (\<lambda>kv. json_quote (fst kv) @ '':'' @ JSON_stringify (json_normal (snd kv))) ?kvs)"
    using 7 by (intro traverse_Inr_map) auto
  moreover have "filter (\<lambda>kv. snd kv \<noteq> JUndefined)
      (map (\<lambda>kv. (fst kv, json_normal (snd kv))) ?kvs) =
      map (\<lambda>kv. (fst kv, json_normal (snd kv))) ?kvs"
    by (auto simp: filter_id_conv)
  ultimately show ?case by (simp add: o_def)
qed auto

lemma canonical_throws_unclean:
  "\<not> json_clean (json_normal x) \<Longrightarrow> \<exists>m. canonicalStringify x = Inl m"
proof (induction x rule: canonicalStringify.induct)
  case (6 xs)
  then obtain x m where "x \<in> set xs" "canonicalStringify x = Inl m" by fastforce
  then have "\<nexists>ss. traverse canonicalStringify xs = Inr ss"
    by (auto simp: traverse_Inr_iff in_set_conv_nth list_all2_conv_all_nth)
  then show ?case by (cases "traverse canonicalStringify xs") auto
next
  case (7 kvs)
  let ?kvs = "sort_key fst (filter (\<lambda>kv. snd kv \<noteq> JUndefined) kvs)"
  let ?f = "\<lambda>kv. map_sum id (\<lambda>s. json_quote (fst kv) @ '':'' @ s) (canonicalStringify (snd kv))"
  from 7 obtain kv m where "kv \<in> set ?kvs" "canonicalStringify (snd kv) = Inl m" by fastforce
  then have "\<nexists>ss. traverse ?f ?kvs = Inr ss"
    by (auto simp: traverse_Inr_iff in_set_conv_nth list_all2_conv_all_nth simp del: set_sort)
  then show ?case by (cases "traverse ?f ?kvs") auto
qed auto

lemma canonicalize_eq_normal:
  assumes "canonicalize x = Inr s" "canonicalize y = Inr s"
  shows "json_normal x = json_normal y"
proof -
  have *: "json_clean (json_normal z) \<and> s = JSON_stringify (json_normal z)"
    if "canonicalize z = Inr s" for z
    using that canonical_throws_unclean [of z] canonical_is_normal_stringify [of z]
    by (cases "json_clean (json_normal z)") (auto simp: canonicalize_def)
  show ?thesis using *[OF assms(1)] *[OF assms(2)] by (auto intro: stringify_inj)
qed

lemma sort_key_mset_distinct:
  assumes "distinct (map f xs)" "mset xs = mset ys"
  shows "sort_key f xs = sort_key f ys"
proof (rule properties_for_sort_key)
  show "mset (sort_key f ys) = mset xs" using assms by simp
  show "sorted (map f (sort_key f ys))" by simp
  have d: "distinct (map f ys)" using assms by (metis mset_map mset_eq_imp_distinct_iff)
  fix k assume "k \<in> set (sort_key f ys)"
  have "filter (\<lambda>x. f k = f x) zs = [k]" if "distinct (map f zs)" "k \<in> set zs" for zs
    using that by (induction zs) (auto simp: filter_empty_conv rev_image_eqI)
  moreover have "k \<in> set xs" "k \<in> set (sort_key f ys)" "distinct (map f (sort_key f ys))"
    using \<open>k \<in> set (sort_key f ys)\<close> assms(2) d mset_eq_setD [OF assms(2)]
    by simp_all
  ultimately show "filter (\<lambda>x. f k = f x) (sort_key f ys) = filter (\<lambda>x. f k = f x) xs"
    using assms(1) by simp
qed

text \<open>Looking a property up in the normal form.\<close>

lemma map_of_mset_distinct:
  assumes "mset xs = mset ys" "distinct (map fst xs)" shows "map_of xs k = map_of ys k"
  using assms by (metis mset_eq_setD map_of_inject_set mset_eq_imp_distinct_iff mset_map)

definition normal_fields :: "(string \<times> json) list \<Rightarrow> (string \<times> json) list" where
  "normal_fields kvs = map (\<lambda>kv. (fst kv, json_normal (snd kv)))
     (sort_key fst (filter (\<lambda>kv. snd kv \<noteq> JUndefined) kvs))"

lemma map_of_normal_fields:
  assumes "distinct (map fst kvs)"
  shows "map_of (normal_fields kvs) k =
    (case map_of kvs k of None \<Rightarrow> None | Some v \<Rightarrow> if v = JUndefined then None else Some (json_normal v))"
proof -
  let ?fl = "filter (\<lambda>kv. snd kv \<noteq> JUndefined) kvs"
  have d: "distinct (map fst ?fl)" using assms by (simp add: distinct_map_filter)
  have "map_of (sort_key fst ?fl) k = map_of ?fl k"
    by (rule map_of_mset_distinct [symmetric]) (simp_all add: d)
  moreover have "map_of ?fl k = (case map_of kvs k of None \<Rightarrow> None | Some v \<Rightarrow> if v = JUndefined then None else Some v)"
    using assms
  proof (induction kvs)
    case (Cons kv kvs)
    then have "fst kv \<notin> dom (map_of kvs)" by (simp add: dom_map_of_conv_image_fst)
    with Cons show ?case
      by (cases kv) (auto simp: map_of_eq_None_iff split: option.splits)
  qed simp
  moreover have "map_of (map (\<lambda>kv. (fst kv, json_normal (snd kv))) xs) k =
      map_option json_normal (map_of xs k)" for xs
    by (induction xs) auto
  ultimately show ?thesis unfolding normal_fields_def by (simp split: option.splits)
qed

lemma json_normal_JObj: "json_normal (JObj kvs) = JObj (normal_fields kvs)"
  by (simp add: normal_fields_def)

lemma normal_JObj_lookup:
  assumes "json_normal (JObj kvs) = json_normal (JObj lvs)"
    and "distinct (map fst kvs)" "distinct (map fst lvs)"
  shows "(case map_of kvs k of None \<Rightarrow> None | Some v \<Rightarrow> if v = JUndefined then None else Some (json_normal v)) =
         (case map_of lvs k of None \<Rightarrow> None | Some v \<Rightarrow> if v = JUndefined then None else Some (json_normal v))"
  using assms map_of_normal_fields [OF assms(2), of k] map_of_normal_fields [OF assms(3), of k]
  unfolding json_normal_JObj by simp

lemma json_opt_simps [simp]:
  "json_opt None = JUndefined" "json_opt (Some x) = JStr x"
  "json_opt a = JUndefined \<longleftrightarrow> a = None" "json_normal (json_opt a) = json_opt a"
  "json_opt a = json_opt b \<longleftrightarrow> a = b"
  by (auto simp: json_opt_def split: option.splits)

lemma itemJson_clean: "json_clean (itemJson it)" "json_clean (json_normal (itemJson it))"
  by (auto simp: itemJson_def)

lemma canonicalize_envelope:
  "canonicalize (envelopeJson e) = Inr (JSON_stringify (json_normal (envelopeJson e)))"
  unfolding canonicalize_def
  by (rule canonical_is_normal_stringify)
     (auto simp: envelopeJson_def envelopeFields_def itemJson_clean json_opt_def split: option.splits)

lemma envelopeDigest_eq: "envelopeDigest sha256 e = sha256 (JSON_stringify (json_normal (envelopeJson e)))"
  by (simp add: envelopeDigest_def canonicalize_envelope)

text \<open>Two items the canonical form cannot tell apart: equal up to the order of variant attributes.\<close>

definition same_item :: "envelope_item \<Rightarrow> envelope_item \<Rightarrow> bool" where
  "same_item a b = (a\<lparr>item_variant := []\<rparr> = b\<lparr>item_variant := []\<rparr> \<and>
                    mset (item_variant a) = mset (item_variant b))"

definition same_terms :: "commerce_envelope \<Rightarrow> commerce_envelope \<Rightarrow> bool" where
  "same_terms a b = (a\<lparr>env_items := []\<rparr> = b\<lparr>env_items := []\<rparr> \<and>
                     list_all2 same_item (env_items a) (env_items b))"

lemma normal_variant:
  assumes "json_normal (JObj (map (\<lambda>kv. (fst kv, JStr (snd kv))) v)) =
           json_normal (JObj (map (\<lambda>kv. (fst kv, JStr (snd kv))) w))"
  shows "mset v = mset w"
proof -
  let ?j = "\<lambda>kv :: string \<times> string. (fst kv, JStr (snd kv))"
  have nf: "json_normal (JObj (map ?j u)) = JObj (sort_key fst (map ?j u))" for u
  proof -
    have "map (\<lambda>kv. (fst kv, json_normal (snd kv))) (sort_key fst (map ?j u)) = sort_key fst (map ?j u)"
      by (intro map_idI) auto
    moreover have "filter (\<lambda>kv. snd kv \<noteq> JUndefined) (map ?j u) = map ?j u" by (auto simp: filter_id_conv)
    ultimately show ?thesis by (simp only: json_normal.simps)
  qed
  have "sort_key fst (map ?j v) = sort_key fst (map ?j w)"
    using assms unfolding nf by (simp only: json.inject)
  then have "mset (sort_key fst (map ?j v)) = mset (sort_key fst (map ?j w))" by (simp only:)
  then have "mset (map ?j v) = mset (map ?j w)" by (simp only: mset_sort)
  then have "image_mset ?j (mset v) = image_mset ?j (mset w)" by simp
  moreover have "inj ?j" by (auto intro!: injI simp: prod_eq_iff)
  ultimately show ?thesis using injD [OF multiset.inj_map] by blast
qed

lemma normal_item:
  assumes "json_normal (itemJson a) = json_normal (itemJson b)" shows "same_item a b"
proof -
  note look = normal_JObj_lookup [OF assms [unfolded itemJson_def], simplified]
  have "mset (item_variant a) = mset (item_variant b)"
    using look [of "''variant''"] by (intro normal_variant) simp
  with look [of "''productId''"] look [of "''sku''"] look [of "''quantity''"] look [of "''unitAmountMinor''"]
  show ?thesis by (simp add: same_item_def)
qed

lemma normal_items:
  "json_normal (JArr (map itemJson xs)) = json_normal (JArr (map itemJson ys)) \<Longrightarrow> list_all2 same_item xs ys"
  by (auto simp: list_all2_conv_all_nth list_eq_iff_nth_eq intro!: normal_item)

lemma normal_envelope:
  assumes "json_normal (envelopeJson a) = json_normal (envelopeJson b)" shows "same_terms a b"
proof -
  have d: "distinct (map fst (envelopeFields e))" for e by (simp add: envelopeFields_def)
  note look = normal_JObj_lookup [OF assms [unfolded envelopeJson_def] d d]
  have "list_all2 same_item (env_items a) (env_items b)"
    using look [of "''items''"] by (intro normal_items) (simp add: envelopeFields_def)
  moreover have "env_buyerAgentId a = env_buyerAgentId b"
    using look [of "''buyerAgentId''"]
    by (cases "env_buyerAgentId a"; cases "env_buyerAgentId b") (simp_all add: envelopeFields_def)
  moreover have "env_approvalEventId a = env_approvalEventId b"
    using look [of "''approvalEventId''"]
    by (cases "env_approvalEventId a"; cases "env_approvalEventId b") (simp_all add: envelopeFields_def)
  moreover have "env_logicalOrderId a = env_logicalOrderId b" "env_merchantId a = env_merchantId b"
    "env_quoteId a = env_quoteId b" "env_customerId a = env_customerId b"
    using look [of "''logicalOrderId''"] look [of "''merchantId''"] look [of "''quoteId''"]
      look [of "''customerId''"] by (simp_all add: envelopeFields_def)
  moreover have "env_subtotalMinor a = env_subtotalMinor b" "env_taxMinor a = env_taxMinor b"
    "env_shippingMinor a = env_shippingMinor b" "env_totalMinor a = env_totalMinor b"
    "env_currency a = env_currency b"
    using look [of "''subtotalMinor''"] look [of "''taxMinor''"] look [of "''shippingMinor''"]
      look [of "''totalMinor''"] look [of "''currency''"] by (simp_all add: envelopeFields_def)
  moreover have "env_inventoryHoldId a = env_inventoryHoldId b"
    "env_returnPolicyDigest a = env_returnPolicyDigest b"
    "env_shippingDestinationDigest a = env_shippingDestinationDigest b"
    "env_mandateId a = env_mandateId b"
    using look [of "''inventoryHoldId''"] look [of "''returnPolicyDigest''"]
      look [of "''shippingDestinationDigest''"] look [of "''mandateId''"]
    by (simp_all add: envelopeFields_def)
  moreover have "env_issuedAt a = env_issuedAt b" "env_expiresAt a = env_expiresAt b" "env_nonce a = env_nonce b"
    using look [of "''issuedAt''"] look [of "''expiresAt''"] look [of "''nonce''"]
    by (simp_all add: envelopeFields_def)
  ultimately show ?thesis by (simp add: same_terms_def)
qed

lemma itemJson_inj: "itemJson a = itemJson b \<Longrightarrow> a = b"
proof -
  assume eq: "itemJson a = itemJson b"
  have "inj (\<lambda>kv :: string \<times> string. (fst kv, JStr (snd kv)))" by (auto intro!: injI simp: prod_eq_iff)
  with eq show "a = b" by (simp add: itemJson_def inj_map_eq_map)
qed

lemma itemsJson_inj: "itemsJson xs = itemsJson ys \<longleftrightarrow> xs = ys"
proof
  assume "itemsJson xs = itemsJson ys"
  then have "map itemJson xs = map itemJson ys"
    unfolding itemsJson_def
    using stringify_inj [of "JArr (map itemJson xs)" "JArr (map itemJson ys)"]
    by (simp add: itemJson_clean del: JSON_stringify.simps)
  moreover have "inj itemJson" by (rule injI) (rule itemJson_inj)
  ultimately show "xs = ys" by (simp only: inj_map_eq_map)
qed simp

subsection \<open>Policy: facts\<close>

lemma when_code_simps [simp]:
  "when_code b c = [] \<longleftrightarrow> \<not> b" "x \<in> set (when_code b c) \<longleftrightarrow> b \<and> x = c"
  by (auto simp: when_code_def)

lemma changed_Nil [simp]: "changed f b a = [] \<longleftrightarrow> b = a" "changed_int f m n = [] \<longleftrightarrow> m = n"
  by (auto simp: changed_def changed_int_def)

definition mandate_covers :: "check_envelope_input \<Rightarrow> purchase_mandate \<Rightarrow> bool" where
  "mandate_covers input m =
     (let e = cei_envelope input in
      env_merchantId e \<in> set (mnd_allowedMerchantIds m) \<and>
      (\<forall>ids. mnd_allowedProductIds m = Some ids \<longrightarrow> (\<forall>it \<in> set (env_items e). item_productId it \<in> set ids)) \<and>
      (\<forall>r. cei_rail input = Some r \<longrightarrow> r \<in> set (mnd_allowedRails m)) \<and>
      env_totalMinor e \<le> mnd_maxAmountMinor m \<and>
      cei_nowIso input \<le> mnd_expiresAt m \<and> cei_nowIso input \<le> env_expiresAt e \<and>
      (cei_approved input \<or>
        (cei_allowAutoApprove input \<and> \<not> mnd_humanConfirmationRequired m \<and>
         env_totalMinor e \<le> (case mnd_autoApproveBelowMinor m of None \<Rightarrow> - 1 | Some b \<Rightarrow> b))))"

lemma policy_codes_Nil: "policy_codes input m = [] \<longleftrightarrow> mandate_covers input m"
  by (cases "mnd_allowedProductIds m"; cases "cei_rail input")
     (auto simp: policy_codes_def mandate_covers_def Let_def not_less)

lemma amount_exceeded_code:
  "''mandate_amount_exceeded'' \<in> set (policy_codes input m) \<longleftrightarrow>
   env_totalMinor (cei_envelope input) > mnd_maxAmountMinor m"
  by (auto simp: policy_codes_def Let_def split: option.splits)

subsection \<open>Properties of the domain\<close>

definition demo_item :: envelope_item where
  "demo_item = \<lparr>item_productId = ''p1'', item_sku = ''s1'', item_variant = [(''size'', ''UK 9''), (''colour'', ''black'')],
     item_quantity = 1, item_unitAmountMinor = 349900\<rparr>"

definition demo_envelope :: commerce_envelope where
  "demo_envelope = \<lparr>env_logicalOrderId = ''ord_1'', env_merchantId = ''m1'', env_quoteId = ''q1'',
     env_customerId = ''c1'', env_buyerAgentId = None, env_items = [demo_item],
     env_subtotalMinor = 349900, env_taxMinor = 0, env_shippingMinor = 9900, env_totalMinor = 359800,
     env_currency = INR, env_inventoryHoldId = ''h1'', env_returnPolicyDigest = ''rp'',
     env_shippingDestinationDigest = ''sd'', env_mandateId = ''mnd'', env_approvalEventId = None,
     env_issuedAt = ''2026-01-01T00:00:00.000Z'', env_expiresAt = ''2026-01-01T00:15:00.000Z'', env_nonce = ''n''\<rparr>"

definition demo_mandate :: purchase_mandate where
  "demo_mandate = \<lparr>mnd_mandateId = ''mnd'', mnd_customerId = ''c1'', mnd_allowedMerchantIds = [''m1''],
     mnd_allowedProductIds = None, mnd_allowedRails = [Razorpay_checkout], mnd_maxAmountMinor = 500000,
     mnd_autoApproveBelowMinor = None, mnd_expiresAt = ''2026-01-02T00:00:00.000Z'',
     mnd_humanConfirmationRequired = True\<rparr>"

text \<open>C15: The envelope digest binds every payment term. If two envelopes have the same digest,
  then either they agree on every field (items included, up to the order of variant attributes), or
  the hash function has been given two different canonical strings with the same hash.\<close>

theorem envelope_digest_binds_terms:
  assumes "envelopeDigest sha256 a = envelopeDigest sha256 b"
  shows "same_terms a b \<or>
    (\<exists>s t. canonicalize (envelopeJson a) = Inr s \<and> canonicalize (envelopeJson b) = Inr t \<and>
           s \<noteq> t \<and> sha256 s = sha256 t)"
proof (cases "canonicalize (envelopeJson a) = canonicalize (envelopeJson b)")
  case True
  then have "json_normal (envelopeJson a) = json_normal (envelopeJson b)"
    by (intro canonicalize_eq_normal) (simp_all add: canonicalize_envelope)
  then show ?thesis by (simp add: normal_envelope)
next
  case False
  with assms show ?thesis by (auto simp: canonicalize_envelope envelopeDigest_eq)
qed

theorem envelope_digest_binds_terms_witness:
  "envelopeDigest rev demo_envelope = envelopeDigest rev demo_envelope \<and>
   (same_terms demo_envelope demo_envelope \<or>
    (\<exists>s t. canonicalize (envelopeJson demo_envelope) = Inr s \<and>
           canonicalize (envelopeJson demo_envelope) = Inr t \<and> s \<noteq> t \<and> rev s = rev t))"
  using envelope_digest_binds_terms [of rev demo_envelope demo_envelope] by blast

text \<open>Canonical serialisation does not depend on the order in which properties were added
  to an object, nor on properties that are present with the value \<open>undefined\<close>.\<close>

theorem canonicalize_key_order:
  assumes "distinct (map fst kvs)"
    and "mset (filter (\<lambda>kv. snd kv \<noteq> JUndefined) kvs) = mset (filter (\<lambda>kv. snd kv \<noteq> JUndefined) lvs)"
  shows "canonicalize (JObj kvs) = canonicalize (JObj lvs)"
proof -
  have "distinct (map fst (filter (\<lambda>kv. snd kv \<noteq> JUndefined) kvs))"
    using assms(1) by (simp add: distinct_map_filter)
  from sort_key_mset_distinct [OF this assms(2)]
  show ?thesis by (simp only: canonicalize_def canonicalStringify.simps)
qed

theorem canonicalize_key_order_witness:
  "canonicalize (JObj [(''b'', JNum 1), (''x'', JUndefined), (''a'', JBool True)]) =
   canonicalize (JObj [(''a'', JBool True), (''b'', JNum 1)])"
  by (rule canonicalize_key_order) (simp_all add: add_mset_commute)

text \<open>C16: On every legal path of the order-state machine that starts before approval and reaches
  \<open>PAID_VERIFIED\<close>, the first entry into \<open>PAID_VERIFIED\<close> comes directly from \<open>PAYMENT_PENDING\<close>, and
  \<open>APPROVED\<close> was visited before that.\<close>

theorem paid_only_after_approval:
  assumes "legal_path (s # xs)" "\<not> needs_approval s" "PAID_VERIFIED \<in> set xs"
  shows "\<exists>as bs ds. s # xs = as @ [APPROVED] @ bs @ [PAYMENT_PENDING, PAID_VERIFIED] @ ds \<and>
                    PAID_VERIFIED \<notin> set (as @ bs)"
proof -
  from split_list_first [OF assms(3)] obtain us ds where
    xs: "xs = us @ PAID_VERIFIED # ds" and us: "PAID_VERIFIED \<notin> set us" by blast
  have pre: "legal_path (s # us)" and "legal_path ((s # us) @ [PAID_VERIFIED])"
    using assms(1) legal_path_append [of "s # us"] legal_path_append [of "(s # us) @ [PAID_VERIFIED]" ds]
    by (simp_all add: xs)
  obtain vs l where vs: "s # us = vs @ [l]" by (metis append_butlast_last_id list.distinct(1))
  have no_paid: "PAID_VERIFIED \<notin> set (s # us)"
    using us assms(2) by (auto simp: needs_approval_def post_payment_def)
  have "order_step l PAID_VERIFIED" "l \<noteq> PAID_VERIFIED"
    using \<open>legal_path ((s # us) @ [PAID_VERIFIED])\<close> no_paid legal_path_last unfolding vs by auto
  then have l: "l = PAYMENT_PENDING" using enter_pending by blast
  have "PAYMENT_PENDING \<in> set us"
    using arg_cong [OF vs, of set] l assms(2) by (auto simp: needs_approval_def)
  then have "\<exists>a b. order_step a b \<and> \<not> needs_approval a \<and> needs_approval b \<and> a \<in> set (s # us) \<and> b \<in> set us"
    using pre assms(2) by (intro path_step_in [where x = PAYMENT_PENDING]) (auto simp: needs_approval_def)
  then have "APPROVED \<in> set (s # us)" using enter_needs_approval by auto
  then have "APPROVED \<in> set vs" using l unfolding vs by simp
  then obtain as bs where vs': "vs = as @ APPROVED # bs" by (meson split_list)
  have "s # xs = as @ [APPROVED] @ bs @ [PAYMENT_PENDING, PAID_VERIFIED] @ ds"
    using vs vs' l xs by (metis append.assoc append_Cons append_Nil)
  moreover have "PAID_VERIFIED \<notin> set (as @ bs)" using no_paid unfolding vs vs' by auto
  ultimately show ?thesis by blast
qed

theorem paid_only_after_approval_witness:
  "\<exists>as bs ds. [DRAFT, QUOTED, AWAITING_APPROVAL, APPROVED, PAYMENT_PENDING, PAID_VERIFIED] =
      as @ [APPROVED] @ bs @ [PAYMENT_PENDING, PAID_VERIFIED] @ ds \<and> PAID_VERIFIED \<notin> set (as @ bs)"
  by (rule paid_only_after_approval)
     (simp_all add: assertTransition_ok_iff needs_approval_def post_payment_def)

text \<open>Once money has been taken the order can never become payable again: every state a
  legal path reaches from a post-payment state is post-payment, and the three final states admit no
  further change.\<close>

theorem paid_never_payable_again:
  assumes "legal_path (s # xs)" "post_payment s" "x \<in> set xs"
  shows "x \<notin> {DRAFT, CLARIFYING, QUOTED, AWAITING_APPROVAL, APPROVED, PAYMENT_PENDING, EXPIRED,
                REAPPROVAL_REQUIRED, PAYMENT_FAILED} \<and>
         (s \<in> {FULFILLED, REFUNDED} \<longrightarrow> x = s)"
proof -
  have "post_payment x" using path_post_payment [OF assms(1,2), of x] assms(3) by simp
  moreover have "legal_path (s # xs) \<Longrightarrow> s \<in> {FULFILLED, REFUNDED} \<Longrightarrow> x \<in> set xs \<Longrightarrow> x = s"
    by (induction xs) (auto simp: assertTransition_ok_iff)
  ultimately show ?thesis using assms by (auto simp: post_payment_def)
qed

theorem paid_never_payable_again_witness:
  "legal_path [FULFILMENT_FAILED, COMPENSATION_PENDING, REFUNDED] \<and>
   REFUNDED \<notin> {DRAFT, CLARIFYING, QUOTED, AWAITING_APPROVAL, APPROVED, PAYMENT_PENDING, EXPIRED,
                REAPPROVAL_REQUIRED, PAYMENT_FAILED}"
proof -
  have path: "legal_path [FULFILMENT_FAILED, COMPENSATION_PENDING, REFUNDED]"
    by (simp add: assertTransition_ok_iff)
  show ?thesis
    using paid_never_payable_again [OF path, of REFUNDED] path by (simp add: post_payment_def)
qed

text \<open>C7: The payment policy allows a charge exactly when the envelope still hashes to the
  approved digest, a mandate exists and the mandate covers the charge: merchant, products and rail
  allowed, amount within the limit, neither mandate nor quote expired, and approval given by a person
  or, where the mandate asks for no person, by the automatic limit.\<close>

theorem payment_allowed_iff:
  "pv_allow (checkEnvelopeForPayment sha256 input) \<longleftrightarrow>
   envelopeDigest sha256 (cei_envelope input) = cei_expectedDigest input \<and>
   (\<exists>m. cei_mandate input = Some m \<and> mandate_covers input m)"
  by (auto simp: checkEnvelopeForPayment_def Let_def policy_codes_Nil split: option.splits)

text \<open>A verdict is coherent: it is \<open>allow\<close> exactly with the single code \<open>ok\<close>, a refused charge
  always carries at least one reason, and it is put up for review, rather than blocked, exactly when
  the untampered envelope exceeds the mandate's amount.\<close>

theorem verdict_coherent:
  "let v = checkEnvelopeForPayment sha256 input in
    (pv_decision v = PAllow \<longleftrightarrow> pv_allow v) \<and> (pv_allow v \<longleftrightarrow> pv_reasonCodes v = [''ok'']) \<and>
    pv_reasonCodes v \<noteq> [] \<and>
    (pv_decision v = PReview \<longleftrightarrow>
       envelopeDigest sha256 (cei_envelope input) = cei_expectedDigest input \<and>
       (\<exists>m. cei_mandate input = Some m \<and> env_totalMinor (cei_envelope input) > mnd_maxAmountMinor m))"
proof -
  have ok: "policy_codes input m \<noteq> [''ok'']" for m
  proof
    assume "policy_codes input m = [''ok'']"
    then have "''ok'' \<in> set (policy_codes input m)" by simp
    then show False by (auto simp: policy_codes_def Let_def split: option.splits)
  qed
  have nil: "policy_codes input m = [] \<Longrightarrow> \<not> env_totalMinor (cei_envelope input) > mnd_maxAmountMinor m" for m
    using amount_exceeded_code [of input m] by auto
  show ?thesis
    unfolding checkEnvelopeForPayment_def Let_def
    using ok nil by (auto simp: amount_exceeded_code split: option.splits)
qed


text \<open>Signing and verifying an envelope: the signature made with a secret is accepted, and a
  signature made for an envelope is accepted for another one only if their keyed hashes agree.\<close>

theorem envelope_signature_roundtrip:
  "verifyEnvelopeSignature sha256 hmac a secret (signEnvelope sha256 hmac b secret) \<longleftrightarrow>
   hmac secret (envelopeDigest sha256 a) = hmac secret (envelopeDigest sha256 b)"
  by (auto simp: verifyEnvelopeSignature_def signEnvelope_def Let_def)

end
