(* ===== verification/AuditLedger.thy ===== *)
theory AuditLedger
  imports Domain
begin

text \<open>
  The audit ledger, \<open>packages/audit/src/ledger.ts\<close>: an append-only list of events with a timeline per
  order. The free-text \<open>summary\<close> of an event is left out of the model: nothing in the program reads
  it. The fresh event identifier is drawn by the caller and passed in; \<open>localeCompare\<close> on ISO
  timestamps is the order of the strings.
\<close>

datatype audit_actor = A_customer | A_agent | A_merchant | A_policy | A_payment | A_system

record audit_event =
  ae_eventId :: string
  ae_logicalOrderId :: string
  ae_type :: string
  ae_actor :: audit_actor
  ae_occurredAt :: string
  ae_inputDigest :: "string option"
  ae_outputDigest :: "string option"
  ae_externalReferences :: "(string \<times> string) list"
  ae_decision :: "policy_decision option"
  ae_reasonCodes :: "string list"

type_synonym audit_store = "audit_event list"

definition audit_append :: "audit_event \<Rightarrow> audit_store \<Rightarrow> audit_store" where
  "audit_append event events = events @ [event]"

definition audit_has :: "string \<Rightarrow> audit_store \<Rightarrow> bool" where
  "audit_has i events = list_ex (\<lambda>e. ae_eventId e = i) events"

definition audit_list :: "string \<Rightarrow> audit_store \<Rightarrow> audit_event list" where
  "audit_list orderId events =
     sort_key ae_occurredAt (filter (\<lambda>e. ae_logicalOrderId e = orderId) events)"

definition audit_all :: "audit_store \<Rightarrow> audit_event list" where
  "audit_all events = sort_key ae_occurredAt events"

text \<open>The argument of \<open>log\<close>: an event without identifier, its time optional.\<close>

record audit_input =
  ai_logicalOrderId :: string
  ai_type :: string
  ai_actor :: audit_actor
  ai_occurredAt :: "string option"
  ai_inputDigest :: "string option"
  ai_outputDigest :: "string option"
  ai_externalReferences :: "(string \<times> string) list"
  ai_decision :: "policy_decision option"
  ai_reasonCodes :: "string list"

definition audit_log :: "string \<Rightarrow> string \<Rightarrow> audit_input \<Rightarrow> audit_store \<Rightarrow> audit_event \<times> audit_store" where
  "audit_log rnd now input events =
     (let event = \<lparr>ae_eventId = newId ''evt'' rnd, ae_logicalOrderId = ai_logicalOrderId input,
            ae_type = ai_type input, ae_actor = ai_actor input,
            ae_occurredAt = (case ai_occurredAt input of None \<Rightarrow> now | Some t \<Rightarrow> t),
            ae_inputDigest = ai_inputDigest input, ae_outputDigest = ai_outputDigest input,
            ae_externalReferences = ai_externalReferences input, ae_decision = ai_decision input,
            ae_reasonCodes = ai_reasonCodes input\<rparr>
      in (event, audit_append event events))"

definition audit_timeline :: "string \<Rightarrow> audit_store \<Rightarrow> audit_event list" where
  "audit_timeline orderId events = audit_list orderId events"

subsection \<open>Facts\<close>

lemma mset_audit_timeline:
  "mset (audit_timeline ord events) = filter_mset (\<lambda>e. ae_logicalOrderId e = ord) (mset events)"
  by (simp add: audit_timeline_def audit_list_def)

text \<open>A logged event appears exactly once more in its own order's timeline and leaves every
  other timeline alone; every timeline is sorted by time, and events of equal time keep the order in
  which they were logged.\<close>

theorem audit_timeline_after_log:
  "let (ev, events') = audit_log rnd now input events in
   mset (audit_timeline (ai_logicalOrderId input) events') =
     add_mset ev (mset (audit_timeline (ai_logicalOrderId input) events)) \<and>
   (\<forall>ord. ord = ai_logicalOrderId input \<or> audit_timeline ord events' = audit_timeline ord events) \<and>
   sorted (map ae_occurredAt (audit_timeline (ai_logicalOrderId input) events')) \<and>
   (\<forall>ord t. filter (\<lambda>e. ae_occurredAt e = t) (audit_timeline ord events') =
            filter (\<lambda>e. ae_occurredAt e = t \<and> ae_logicalOrderId e = ord) events')"
proof -
  have stable: "filter (\<lambda>e. ae_occurredAt e = t) (audit_timeline ord evs) =
      filter (\<lambda>e. ae_occurredAt e = t \<and> ae_logicalOrderId e = ord) evs" for ord t evs
    by (simp add: audit_timeline_def audit_list_def sort_key_stable conj_commute)
  have other: "ae_logicalOrderId ev \<noteq> ord \<Longrightarrow>
      audit_timeline ord (audit_append ev events) = audit_timeline ord events" for ord ev
    by (simp add: audit_timeline_def audit_list_def audit_append_def)
  have own: "mset (audit_timeline (ae_logicalOrderId ev) (audit_append ev events)) =
      add_mset ev (mset (audit_timeline (ae_logicalOrderId ev) events))" for ev
    by (simp add: mset_audit_timeline audit_append_def)
  have sorted: "sorted (map ae_occurredAt (audit_timeline ord evs))" for ord evs
    by (simp add: audit_timeline_def audit_list_def)
  obtain ev where ev: "audit_log rnd now input events = (ev, audit_append ev events)"
    "ae_logicalOrderId ev = ai_logicalOrderId input"
    by (simp add: audit_log_def Let_def)
  show ?thesis
    unfolding ev(1) case_prod_conv Let_def
    using own [of ev] other [of ev] sorted stable ev(2) by metis
qed

end
