(* ===== verification/Catalog.thy ===== *)
theory Catalog
  imports Domain
begin

text \<open>
  The shoe catalogue and its ranking, \<open>packages/catalog/src\<close> (\<open>catalog.ts\<close>, \<open>ranking.ts\<close>).
  A product keeps every field that some operation reads; description and image are presentation
  only. Ratings are counted in tenths, so that \<open>Math.round((rating / 5) * 10)\<close> is exact integer
  arithmetic; a moment in time is its milliseconds, printed by \<open>toISOString\<close> where the source
  compares strings (the server clock is taken to be UTC).
\<close>

subsection \<open>Catalogue (catalog.ts)\<close>

record catalog_variant =
  cv_sku :: string
  cv_size :: string
  cv_inStock :: int

record catalog_product =
  cp_productId :: string
  cp_name :: string
  cp_brand :: string
  cp_useCase :: string
  cp_fit :: string
  cp_cushioning :: string
  cp_colour :: "string list"
  cp_priceMinor :: int
  cp_typicalDistanceKm :: int
  cp_returnable :: bool
  cp_deliveryLeadDays :: int
  cp_rating10 :: int
  cp_variants :: "catalog_variant list"

record return_policy =
  rp_policyId :: string
  rp_returnable :: bool
  rp_windowDays :: int
  rp_condition :: string

record shipping_estimate =
  se_leadDays :: int
  se_deliverBy :: string
  se_feeMinor :: int

record catalog =
  cat_merchantId :: string
  cat_merchantName :: string
  cat_products :: "catalog_product list"
  cat_returnPolicy :: return_policy

definition variant :: "string \<Rightarrow> string \<Rightarrow> int \<Rightarrow> catalog_variant" where
  "variant sku sz stock = \<lparr>cv_sku = sku, cv_size = sz, cv_inStock = stock\<rparr>"

definition SHOE_CATALOG :: catalog where
  "SHOE_CATALOG = \<lparr>cat_merchantId = ''merchant_runvista'', cat_merchantName = ''RunVista Sports'',
     cat_products =
       [\<lparr>cp_productId = ''p_streak_4'', cp_name = ''RunVista Streak 4'', cp_brand = ''RunVista'',
         cp_useCase = ''road'', cp_fit = ''standard'', cp_cushioning = ''balanced'', cp_colour = [''black''],
         cp_priceMinor = 429900, cp_typicalDistanceKm = 10, cp_returnable = True, cp_deliveryLeadDays = 3,
         cp_rating10 = 46,
         cp_variants = [variant ''STRK4-BLK-9'' ''UK 9'' 6, variant ''STRK4-BLK-10'' ''UK 10'' 2]\<rparr>,
        \<lparr>cp_productId = ''p_vista_max'', cp_name = ''RunVista Max Cushion'', cp_brand = ''RunVista'',
         cp_useCase = ''road'', cp_fit = ''wide'', cp_cushioning = ''max'', cp_colour = [''black'', ''grey''],
         cp_priceMinor = 489900, cp_typicalDistanceKm = 12, cp_returnable = True, cp_deliveryLeadDays = 3,
         cp_rating10 = 47,
         cp_variants = [variant ''VMAX-BLK-9'' ''UK 9'' 4, variant ''VMAX-BLK-10'' ''UK 10'' 0]\<rparr>,
        \<lparr>cp_productId = ''p_stride_lite'', cp_name = ''RunVista Stride Lite'', cp_brand = ''RunVista'',
         cp_useCase = ''road'', cp_fit = ''narrow'', cp_cushioning = ''minimal'', cp_colour = [''black'', ''navy''],
         cp_priceMinor = 349900, cp_typicalDistanceKm = 8, cp_returnable = True, cp_deliveryLeadDays = 5,
         cp_rating10 = 43,
         cp_variants = [variant ''STRL-BLK-9'' ''UK 9'' 9, variant ''STRL-BLK-10'' ''UK 10'' 5]\<rparr>,
        \<lparr>cp_productId = ''p_trail_rock'', cp_name = ''RunVista Trail Rock'', cp_brand = ''RunVista'',
         cp_useCase = ''trail'', cp_fit = ''standard'', cp_cushioning = ''balanced'', cp_colour = [''black''],
         cp_priceMinor = 459900, cp_typicalDistanceKm = 10, cp_returnable = True, cp_deliveryLeadDays = 4,
         cp_rating10 = 45,
         cp_variants = [variant ''TRLK-BLK-9'' ''UK 9'' 3, variant ''TRLK-BLK-10'' ''UK 10'' 7]\<rparr>,
        \<lparr>cp_productId = ''p_gym_pace'', cp_name = ''RunVista Gym Pace'', cp_brand = ''RunVista'',
         cp_useCase = ''gym'', cp_fit = ''standard'', cp_cushioning = ''balanced'', cp_colour = [''black''],
         cp_priceMinor = 379900, cp_typicalDistanceKm = 5, cp_returnable = True, cp_deliveryLeadDays = 3,
         cp_rating10 = 44,
         cp_variants = [variant ''GYMP-BLK-9'' ''UK 9'' 5, variant ''GYMP-BLK-10'' ''UK 10'' 8]\<rparr>,
        \<lparr>cp_productId = ''p_casual_day'', cp_name = ''RunVista Everyday'', cp_brand = ''RunVista'',
         cp_useCase = ''casual'', cp_fit = ''wide'', cp_cushioning = ''balanced'', cp_colour = [''black'', ''white''],
         cp_priceMinor = 299900, cp_typicalDistanceKm = 3, cp_returnable = True, cp_deliveryLeadDays = 2,
         cp_rating10 = 42,
         cp_variants = [variant ''CASE-BLK-9'' ''UK 9'' 10, variant ''CASE-BLK-10'' ''UK 10'' 4]\<rparr>],
     cat_returnPolicy = \<lparr>rp_policyId = ''rp_runvista_std'', rp_returnable = True, rp_windowDays = 14,
       rp_condition = ''Unworn, in original box''\<rparr>\<rparr>"

definition estimateShipping :: "int \<Rightarrow> int \<Rightarrow> shipping_estimate" where
  "estimateShipping leadDays from =
     \<lparr>se_leadDays = leadDays, se_deliverBy = toISOString (from + leadDays * 86400000), se_feeMinor = 4900\<rparr>"

subsection \<open>Intents and results (types.ts, ranking.ts)\<close>

record hard_constraints =
  hc_maxAmountMinor :: int
  hc_size :: "string option"
  hc_colour :: "string option"
  hc_useCase :: "string option"
  hc_mustBeReturnable :: "bool option"
  hc_deliverBy :: "string option"

record soft_preference =
  sp_name :: string
  sp_value :: string
  sp_weight :: int

record purchase_intent =
  pi_merchantId :: string
  pi_category :: string
  pi_hardConstraints :: hard_constraints
  pi_softPreferences :: "soft_preference list"

record missing_constraint =
  mi_name :: string
  mi_label :: string
  mi_options :: "string list option"

datatype recommendation_role = BestOverall | CheaperAlternative | TradeoffChoice | NoRole

record eligibility_evidence =
  el_withinBudget :: bool
  el_sizeAvailable :: bool
  el_inStock :: bool
  el_returnable :: bool
  el_deliveryMet :: bool
  el_rejectionReasons :: "string list"

record product_match =
  pm_product :: catalog_product
  pm_score :: int
  pm_scoreNormalized :: int
  pm_role :: recommendation_role
  pm_roleJustification :: string
  pm_matchedRequirements :: "string list"
  pm_matchedPreferences :: "string list"
  pm_compromises :: "string list"
  pm_eligibility :: eligibility_evidence
  pm_colourMatched :: bool

record ranking_result =
  rr_matches :: "product_match list"
  rr_missing :: "missing_constraint list"
  rr_ranked :: bool

subsection \<open>Ranking (ranking.ts)\<close>

definition missingHardConstraints :: "purchase_intent \<Rightarrow> missing_constraint list" where
  "missingHardConstraints intent =
     (let c = pi_hardConstraints intent in
      (if \<not> truthy (hc_size c)
       then [\<lparr>mi_name = ''size'', mi_label = ''Shoe size (e.g. UK 9)'', mi_options = None\<rparr>] else []) @
      (if \<not> truthy (hc_useCase c)
       then [\<lparr>mi_name = ''useCase'', mi_label = ''Primary use (road, trail, gym, casual)'',
              mi_options = Some [''road'', ''trail'', ''gym'', ''casual'']\<rparr>] else []))"

definition SCORE_WEIGHTS :: "(string \<times> int) list" where
  "SCORE_WEIGHTS = [(''useCase'', 28), (''fit'', 14), (''cushioning'', 14), (''distance'', 10), (''colour'', 5),
     (''budget'', 8), (''delivery'', 7), (''returnable'', 5), (''rating'', 10)]"

definition SCORE_MAXIMUM :: int where
  "SCORE_MAXIMUM = foldl (+) 0 (map snd SCORE_WEIGHTS)"

text \<open>\<open>toLocaleString("en-IN")\<close> of an amount in minor units: lakh grouping, no trailing zeros.\<close>

fun group2 :: "string \<Rightarrow> string" where
  "group2 (a # b # c # r) = a # b # CHR '','' # group2 (c # r)"
| "group2 s = s"

definition en_IN_group :: "string \<Rightarrow> string" where
  "en_IN_group s =
     (let r = rev s in if length r \<le> 3 then s else rev (take 3 r @ '','' @ group2 (drop 3 r)))"

definition fmtPrice :: "int \<Rightarrow> string" where
  "fmtPrice minor =
     (let a = \<bar>minor\<bar>; f = a mod 100 in
      [CHR 0xE2, CHR 0x82, CHR 0xB9] @ (if minor < 0 then ''-'' else []) @ en_IN_group (int_str (a div 100)) @
      (if f = 0 then [] else if f mod 10 = 0 then ''.'' @ int_str (f div 10) else ''.'' @ pad 2 (int_str f)))"

definition capitalize :: "string \<Rightarrow> string" where
  "capitalize value =
     (case value of [] \<Rightarrow> []
      | c # r \<Rightarrow> (let n = of_char c :: nat in if 97 \<le> n \<and> n \<le> 122 then char_of (n - 32) else c) # r)"

definition opt_str :: "string option \<Rightarrow> string" where
  "opt_str s = (case s of None \<Rightarrow> ''undefined'' | Some x \<Rightarrow> x)"

definition eligibility :: "catalog_product \<Rightarrow> hard_constraints \<Rightarrow> int \<Rightarrow> eligibility_evidence" where
  "eligibility product c now =
     (let sizeAvailable = (truthy (hc_size c) \<and> list_ex (\<lambda>v. Some (cv_size v) = hc_size c) (cp_variants product));
          inStock = (truthy (hc_size c) \<and>
                     list_ex (\<lambda>v. Some (cv_size v) = hc_size c \<and> cv_inStock v > 0) (cp_variants product));
          withinBudget = (cp_priceMinor product \<le> hc_maxAmountMinor c);
          returnable = (hc_mustBeReturnable c \<noteq> Some True \<or> cp_returnable product);
          delivery = estimateShipping (cp_deliveryLeadDays product) now;
          deliveryMet = (\<not> truthy (hc_deliverBy c) \<or> se_deliverBy delivery \<le> opt_str (hc_deliverBy c))
      in \<lparr>el_withinBudget = withinBudget, el_sizeAvailable = sizeAvailable, el_inStock = inStock,
          el_returnable = returnable, el_deliveryMet = deliveryMet,
          el_rejectionReasons =
            when_code (\<not> withinBudget)
              ([CHR 0xE2, CHR 0x82, CHR 0xB9] @ fmtPrice (cp_priceMinor product) @ '' exceeds budget of '' @
               [CHR 0xE2, CHR 0x82, CHR 0xB9] @ fmtPrice (hc_maxAmountMinor c)) @
            when_code (\<not> sizeAvailable) (''Size '' @ opt_str (hc_size c) @ '' not available'') @
            when_code (\<not> inStock) (''Out of stock in '' @ opt_str (hc_size c)) @
            when_code (\<not> returnable) ''Not returnable (required)'' @
            when_code (\<not> deliveryMet)
              (''Delivery after deadline ('' @ int_str (cp_deliveryLeadDays product) @ '' days)'')\<rparr>)"

text \<open>One scoring rule: points, matched requirements, matched preferences, compromises.\<close>

type_synonym score_step = "int \<times> string list \<times> string list \<times> string list"

definition score_useCase :: "catalog_product \<Rightarrow> hard_constraints \<Rightarrow> score_step" where
  "score_useCase product c =
     (if Some (cp_useCase product) = hc_useCase c
      then (28, [''Purpose-built for '' @ opt_str (hc_useCase c)], [], [])
      else (round_div (28 * 43) 100, [], [], [''Not purpose-built for '' @ opt_str (hc_useCase c)]))"

definition score_soft ::
  "int \<Rightarrow> string \<Rightarrow> string option \<Rightarrow> string \<Rightarrow> string \<Rightarrow> score_step" where
  "score_soft weight value requested suffix word =
     (if \<not> truthy requested \<or> Some value = requested
      then (weight, [], if truthy requested then [capitalize value @ suffix] else [], [])
      else (0, [], [], [word @ '' is '' @ value @ '', not '' @ opt_str requested]))"

definition score_distance :: "catalog_product \<Rightarrow> string option \<Rightarrow> score_step" where
  "score_distance product requested =
     (case js_Number (case requested of None \<Rightarrow> ''0'' | Some s \<Rightarrow> s) of
        None \<Rightarrow> (0, [], [], [])
      | Some distance \<Rightarrow>
          if distance > 0 then
            (if \<bar>cp_typicalDistanceKm product - distance\<bar> \<le> 2
             then (10, [], [''Covers ~'' @ int_str distance @ ''K distance''], [])
             else if cp_typicalDistanceKm product < distance
             then (0, [], [], [''Optimised for '' @ int_str (cp_typicalDistanceKm product) @ ''K, shorter than ~'' @
                               int_str distance @ ''K''])
             else (0, [], [''Handles up to '' @ int_str (cp_typicalDistanceKm product) @ ''K''], []))
          else (0, [], [], []))"

definition score_colour :: "bool \<Rightarrow> hard_constraints \<Rightarrow> score_step" where
  "score_colour colourMatched c =
     (if colourMatched
      then (5, [], if truthy (hc_colour c) then [capitalize (opt_str (hc_colour c)) @ '' colour''] else [], [])
      else (0, [], [], [''No '' @ opt_str (hc_colour c) @ '' colourway'']))"

definition score_terms :: "catalog_product \<Rightarrow> eligibility_evidence \<Rightarrow> score_step list" where
  "score_terms product el =
     [if el_withinBudget el then (8, [fmtPrice (cp_priceMinor product) @ '' within budget''], [], [])
      else (0, [], [], []),
      if el_deliveryMet el
      then (7, [''Ships in '' @ int_str (cp_deliveryLeadDays product) @ '' day'' @
                (if cp_deliveryLeadDays product = 1 then [] else ''s'')], [], [])
      else (0, [], [], [''Ships in '' @ int_str (cp_deliveryLeadDays product) @ '' days, after deadline'']),
      if el_returnable el then (5, [], [], []) else (0, [], [], []),
      (round_div (cp_rating10 product) 5, [], [], [])]"

definition score_steps ::
  "catalog_product \<Rightarrow> hard_constraints \<Rightarrow> (string, string) jsmap \<Rightarrow> eligibility_evidence \<Rightarrow> bool \<Rightarrow> score_step list" where
  "score_steps product c soft el colourMatched =
     [score_useCase product c,
      score_soft 14 (cp_fit product) (map_get ''fit'' soft) '' fit'' ''Fit'',
      score_soft 14 (cp_cushioning product) (map_get ''cushioning'' soft) '' cushioning'' ''Cushioning'',
      score_distance product (map_get ''distance'' soft),
      score_colour colourMatched c] @ score_terms product el"

definition evaluate ::
  "catalog_product \<Rightarrow> hard_constraints \<Rightarrow> (string, string) jsmap \<Rightarrow> int \<Rightarrow> product_match" where
  "evaluate product c soft now =
     (let el = eligibility product c now;
          colourMatched = (\<not> truthy (hc_colour c) \<or> opt_str (hc_colour c) \<in> set (cp_colour product));
          steps = score_steps product c soft el colourMatched;
          rawScore = sum_list (map fst steps)
      in \<lparr>pm_product = product, pm_score = rawScore,
          pm_scoreNormalized = min 100 (max 0 (round_div (rawScore * 100) SCORE_MAXIMUM)),
          pm_role = NoRole, pm_roleJustification = [],
          pm_matchedRequirements = concat (map (fst \<circ> snd) steps),
          pm_matchedPreferences = concat (map (fst \<circ> snd \<circ> snd) steps),
          pm_compromises = concat (map (snd \<circ> snd \<circ> snd) steps),
          pm_eligibility = el, pm_colourMatched = colourMatched\<rparr>)"

fun update_first :: "('a \<Rightarrow> bool) \<Rightarrow> ('a \<Rightarrow> 'a) \<Rightarrow> 'a list \<Rightarrow> 'a list" where
  "update_first P f [] = []"
| "update_first P f (x # xs) = (if P x then f x # xs else x # update_first P f xs)"

definition assignRoles :: "product_match list \<Rightarrow> product_match list" where
  "assignRoles matches =
     (case matches of
        [] \<Rightarrow> []
      | first # rest \<Rightarrow>
          (let best = first\<lparr>pm_role := BestOverall,
                 pm_roleJustification := ''Highest preference match score across all criteria''\<rparr>;
               bestPrice = cp_priceMinor (pm_product best);
               rest1 = update_first (\<lambda>m. cp_priceMinor (pm_product m) < bestPrice \<and> pm_role m = NoRole)
                 (\<lambda>m. m\<lparr>pm_role := CheaperAlternative,
                       pm_roleJustification := fmtPrice (bestPrice - cp_priceMinor (pm_product m)) @ '' less than '' @
                         cp_name (pm_product best) @ '' while meeting all requirements''\<rparr>) rest;
               rest2 = update_first (\<lambda>m. pm_role m = NoRole \<and> pm_compromises m \<noteq> [])
                 (\<lambda>m. m\<lparr>pm_role := TradeoffChoice, pm_roleJustification := hd (pm_compromises m)\<rparr>) rest1
           in best # rest2))"

definition soft_map :: "soft_preference list \<Rightarrow> (string, string) jsmap" where
  "soft_map ps = foldl (\<lambda>m p. map_set (sp_name p) (sp_value p) m) [] ps"

definition eligible_matches :: "purchase_intent \<Rightarrow> catalog \<Rightarrow> int \<Rightarrow> product_match list" where
  "eligible_matches intent cat now =
     filter (\<lambda>m. length (el_rejectionReasons (pm_eligibility m)) = 0)
       (map (\<lambda>p. evaluate p (pi_hardConstraints intent) (soft_map (pi_softPreferences intent)) now)
          (cat_products cat))"

definition rankProducts :: "purchase_intent \<Rightarrow> catalog \<Rightarrow> int \<Rightarrow> ranking_result" where
  "rankProducts intent cat now =
     (let missing = missingHardConstraints intent in
      if length missing > 0 then \<lparr>rr_matches = [], rr_missing = missing, rr_ranked = False\<rparr>
      else let eligible = eligible_matches intent cat now;
               top = take 3 (sort_key (\<lambda>m. - pm_scoreNormalized m) eligible)
           in \<lparr>rr_matches = assignRoles top, rr_missing = [], rr_ranked = True\<rparr>)"

subsection \<open>Facts\<close>

lemma update_first_set:
  "y \<in> set (update_first P f xs) \<Longrightarrow> y \<in> set xs \<or> (\<exists>x \<in> set xs. P x \<and> y = f x)"
  by (induction xs) (auto split: if_splits)

lemma map_update_first: "(\<And>x. g (f x) = g x) \<Longrightarrow> map g (update_first P f xs) = map g xs"
  by (induction xs) auto

lemma length_update_first [simp]: "length (update_first P f xs) = length xs"
  by (induction xs) auto

lemma update_first_none: "\<forall>x \<in> set xs. \<not> P x \<Longrightarrow> update_first P f xs = xs"
  by (induction xs) auto

text \<open>At most one element gets a new tag when no element had it before.\<close>

lemma count_update_first:
  assumes "\<forall>x \<in> set xs. \<not> Q x"
  shows "length (filter Q (update_first P f xs)) \<le> 1"
  using assms by (induction xs) auto

lemma keep_update_first:
  assumes "\<And>x. P x \<Longrightarrow> Q (f x) = Q x"
  shows "length (filter Q (update_first P f xs)) = length (filter Q xs)"
  using assms by (induction xs) auto

definition role_of :: "product_match \<Rightarrow> catalog_product \<times> int \<times> string list \<times> eligibility_evidence" where
  "role_of m = (pm_product m, pm_scoreNormalized m, pm_compromises m, pm_eligibility m)"

lemma map_role_assignRoles: "map role_of (assignRoles ms) = map role_of ms"
  by (cases ms) (auto simp: assignRoles_def Let_def map_update_first role_of_def)

lemma role_of_core:
  "role_of m = role_of m' \<Longrightarrow> pm_product m = pm_product m' \<and> pm_scoreNormalized m = pm_scoreNormalized m' \<and>
     pm_eligibility m = pm_eligibility m'"
  by (simp add: role_of_def)

lemma length_assignRoles [simp]: "length (assignRoles ms) = length ms"
  using arg_cong [OF map_role_assignRoles, of length] by simp

lemma role_image_assignRoles: "role_of ` set (assignRoles ms) = role_of ` set ms"
  using arg_cong [OF map_role_assignRoles [of ms], of set] by simp

lemma assignRoles_twin: "m \<in> set (assignRoles ms) \<Longrightarrow> \<exists>m' \<in> set ms. role_of m = role_of m'"
  using role_image_assignRoles [of ms] by (metis imageE imageI)

lemma assignRoles_twin': "m' \<in> set ms \<Longrightarrow> \<exists>m \<in> set (assignRoles ms). role_of m = role_of m'"
  using role_image_assignRoles [of ms] by (metis imageE imageI)

lemma scores_assignRoles: "map (\<lambda>m. - pm_scoreNormalized m) (assignRoles ms) = map (\<lambda>m. - pm_scoreNormalized m) ms"
  using arg_cong [OF map_role_assignRoles [of ms], of "map (\<lambda>r. - fst (snd r))"]
  by (simp add: role_of_def o_def)

lemma evaluate_simps [simp]:
  "pm_product (evaluate p c soft now) = p"
  "pm_eligibility (evaluate p c soft now) = eligibility p c now"
  "pm_role (evaluate p c soft now) = NoRole"
  by (simp_all add: evaluate_def Let_def)

lemma score_norm_bounds: "0 \<le> pm_scoreNormalized (evaluate p c soft now)"
  "pm_scoreNormalized (evaluate p c soft now) \<le> 100"
  by (simp_all add: evaluate_def Let_def)

text \<open>The hard requirements a recommended product must meet.\<close>

definition meets_requirements :: "catalog_product \<Rightarrow> hard_constraints \<Rightarrow> int \<Rightarrow> bool" where
  "meets_requirements p c now =
     (cp_priceMinor p \<le> hc_maxAmountMinor c \<and>
      (\<exists>v \<in> set (cp_variants p). Some (cv_size v) = hc_size c \<and> cv_inStock v > 0) \<and>
      (hc_mustBeReturnable c = Some True \<longrightarrow> cp_returnable p) \<and>
      (\<forall>d. hc_deliverBy c = Some d \<and> d \<noteq> [] \<longrightarrow> toISOString (now + cp_deliveryLeadDays p * 86400000) \<le> d))"

lemma no_rejection_iff:
  assumes "truthy (hc_size c)"
  shows "el_rejectionReasons (eligibility p c now) = [] \<longleftrightarrow> meets_requirements p c now"
proof -
  from assms obtain s where s: "hc_size c = Some s" "s \<noteq> []" by (rule truthyE)
  show ?thesis
    by (cases "hc_deliverBy c")
       (auto simp: eligibility_def Let_def meets_requirements_def list_ex_iff estimateShipping_def opt_str_def s)
qed

lemma missing_Nil:
  "missingHardConstraints intent = [] \<longleftrightarrow>
   truthy (hc_size (pi_hardConstraints intent)) \<and> truthy (hc_useCase (pi_hardConstraints intent))"
  by (simp add: missingHardConstraints_def Let_def)

lemma eligible_matches_iff:
  assumes "missingHardConstraints intent = []"
  shows "m \<in> set (eligible_matches intent cat now) \<longleftrightarrow>
    (\<exists>p \<in> set (cat_products cat). meets_requirements p (pi_hardConstraints intent) now \<and>
       m = evaluate p (pi_hardConstraints intent) (soft_map (pi_softPreferences intent)) now)"
  using assms by (auto simp: eligible_matches_def missing_Nil no_rejection_iff)

lemma eligible_roles: "m \<in> set (eligible_matches intent cat now) \<Longrightarrow> pm_role m = NoRole"
  by (auto simp: eligible_matches_def)

lemma sorted_desc_take_dominates:
  fixes f :: "'a \<Rightarrow> int"
  assumes "x \<in> set (take n (sort_key (\<lambda>m. - f m) xs))" "y \<in> set xs"
    "y \<notin> set (take n (sort_key (\<lambda>m. - f m) xs))"
  shows "f y \<le> f x"
proof -
  let ?s = "sort_key (\<lambda>m. - f m) xs"
  have "y \<in> set (take n ?s @ drop n ?s)" using assms(2) by (simp only: append_take_drop_id set_sort)
  then have "y \<in> set (drop n ?s)" using assms(3) by (simp only: set_append Un_iff simp_thms)
  moreover have "sorted (map (\<lambda>m. - f m) (take n ?s @ drop n ?s))"
    unfolding append_take_drop_id by simp
  ultimately show ?thesis using assms(1) unfolding map_append sorted_append by fastforce
qed

subsection \<open>Properties of the ranking\<close>

definition demo_intent :: purchase_intent where
  "demo_intent = \<lparr>pi_merchantId = ''merchant_runvista'', pi_category = ''running_shoes'',
     pi_hardConstraints = \<lparr>hc_maxAmountMinor = 500000, hc_size = Some ''UK 9'', hc_colour = None,
        hc_useCase = Some ''road'', hc_mustBeReturnable = None, hc_deliverBy = None\<rparr>,
     pi_softPreferences = []\<rparr>"

text \<open>C27: The shortlist is sound, complete and best-first. When size and use case are known, it
  has as many entries as there are products meeting every hard requirement, but at most three; each
  entry is a catalogue product that meets every hard requirement; scores do not increase down the
  list; and a product that meets the requirements but was left out scores no better than any entry.\<close>

theorem ranking_correct:
  assumes "missingHardConstraints intent = []"
  shows "let ms = rr_matches (rankProducts intent cat now); c = pi_hardConstraints intent;
             ok = filter (\<lambda>p. meets_requirements p c now) (cat_products cat) in
    length ms = min 3 (length ok) \<and>
    (\<forall>m \<in> set ms. pm_product m \<in> set ok) \<and>
    sorted (map (\<lambda>m. - pm_scoreNormalized m) ms) \<and>
    (\<forall>p \<in> set ok. p \<notin> pm_product ` set ms \<longrightarrow>
       (\<forall>m \<in> set ms. pm_scoreNormalized (evaluate p c (soft_map (pi_softPreferences intent)) now) \<le> pm_scoreNormalized m))"
proof -
  let ?c = "pi_hardConstraints intent"
  let ?ev = "\<lambda>p. evaluate p ?c (soft_map (pi_softPreferences intent)) now"
  let ?ok = "filter (\<lambda>p. meets_requirements p ?c now) (cat_products cat)"
  let ?el = "eligible_matches intent cat now"
  let ?top = "take 3 (sort_key (\<lambda>m. - pm_scoreNormalized m) ?el)"
  have ms: "rr_matches (rankProducts intent cat now) = assignRoles ?top"
    using assms by (simp add: rankProducts_def Let_def)
  have el: "?el = map ?ev ?ok"
    using assms by (simp add: eligible_matches_def filter_map o_def missing_Nil no_rejection_iff)
  have top_in: "m \<in> set ?top \<Longrightarrow> m \<in> set ?el" for m
    using set_take_subset [of 3 "sort_key (\<lambda>m. - pm_scoreNormalized m) ?el"] unfolding set_sort by blast
  have "length (assignRoles ?top) = min 3 (length ?ok)" by (simp add: el)
  moreover have "\<forall>m \<in> set (assignRoles ?top). pm_product m \<in> set ?ok"
  proof
    fix m assume "m \<in> set (assignRoles ?top)"
    from assignRoles_twin [OF this] obtain m' where m': "m' \<in> set ?top" "role_of m = role_of m'" by blast
    then show "pm_product m \<in> set ?ok" using top_in [OF m'(1)] role_of_core [OF m'(2)] unfolding el by auto
  qed
  moreover have "sorted (map (\<lambda>m. - pm_scoreNormalized m) (assignRoles ?top))"
    unfolding scores_assignRoles take_map [symmetric] by (intro sorted_wrt_take sorted_sort_key)
  moreover have "pm_scoreNormalized (?ev p) \<le> pm_scoreNormalized m"
    if "p \<in> set ?ok" "p \<notin> pm_product ` set (assignRoles ?top)" "m \<in> set (assignRoles ?top)" for p m
  proof -
    from assignRoles_twin [OF that(3)] role_of_core
    obtain m' where m': "m' \<in> set ?top" "pm_scoreNormalized m = pm_scoreNormalized m'" by blast
    have "?ev p \<in> set ?el" unfolding el using that(1) by simp
    moreover have "?ev p \<notin> set ?top"
    proof
      assume "?ev p \<in> set ?top"
      from assignRoles_twin' [OF this] role_of_core
      obtain n where "n \<in> set (assignRoles ?top)" "pm_product n = pm_product (?ev p)" by blast
      with that(2) show False by (auto simp: image_iff)
    qed
    ultimately show ?thesis using sorted_desc_take_dominates [OF m'(1)] m'(2) by simp
  qed
  ultimately show ?thesis unfolding ms Let_def by blast
qed

theorem ranking_correct_witness:
  "missingHardConstraints demo_intent = [] \<and>
   sorted (map (\<lambda>m. - pm_scoreNormalized m) (rr_matches (rankProducts demo_intent SHOE_CATALOG 0)))"
proof -
  have m: "missingHardConstraints demo_intent = []" by (simp add: missing_Nil demo_intent_def)
  show ?thesis using ranking_correct [OF m, of SHOE_CATALOG 0] m unfolding Let_def by blast
qed

text \<open>Roles in a shortlist are earned, not positional guesses. A non-empty list of matches
  without roles gets exactly one \<open>bestOverall\<close>, its head; at most one \<open>cheaperAlternative\<close>, which is
  strictly cheaper than the head; and every \<open>tradeoffChoice\<close> has a compromise, which is its
  justification. Products, scores and eligibility are not changed.\<close>

theorem roles_assigned_correctly:
  assumes "\<forall>m \<in> set (b # rest). pm_role m = NoRole"
  shows "let ms = assignRoles (b # rest) in
    map role_of ms = map role_of (b # rest) \<and>
    pm_role (hd ms) = BestOverall \<and> (\<forall>m \<in> set (tl ms). pm_role m \<noteq> BestOverall) \<and>
    length (filter (\<lambda>m. pm_role m = CheaperAlternative) ms) \<le> 1 \<and>
    (\<forall>m \<in> set ms. pm_role m = CheaperAlternative \<longrightarrow> cp_priceMinor (pm_product m) < cp_priceMinor (pm_product b)) \<and>
    (\<forall>m \<in> set ms. pm_role m = TradeoffChoice \<longrightarrow>
       pm_compromises m \<noteq> [] \<and> pm_roleJustification m = hd (pm_compromises m))"
proof -
  let ?P = "\<lambda>m. cp_priceMinor (pm_product m) < cp_priceMinor (pm_product b) \<and> pm_role m = NoRole"
  let ?f = "\<lambda>m. m\<lparr>pm_role := CheaperAlternative,
      pm_roleJustification := fmtPrice (cp_priceMinor (pm_product b) - cp_priceMinor (pm_product m)) @ '' less than '' @
        cp_name (pm_product b) @ '' while meeting all requirements''\<rparr>"
  let ?Q = "\<lambda>m. pm_role m = NoRole \<and> pm_compromises m \<noteq> []"
  let ?g = "\<lambda>m. m\<lparr>pm_role := TradeoffChoice, pm_roleJustification := hd (pm_compromises m)\<rparr>"
  let ?r1 = "update_first ?P ?f rest"
  let ?r2 = "update_first ?Q ?g ?r1"
  have eq: "assignRoles (b # rest) =
      b\<lparr>pm_role := BestOverall, pm_roleJustification := ''Highest preference match score across all criteria''\<rparr> # ?r2"
    by (simp add: assignRoles_def Let_def)
  have r1: "m \<in> set ?r1 \<Longrightarrow> pm_role m = NoRole \<or> (\<exists>x. ?P x \<and> m = ?f x)" for m
    using update_first_set [of m ?P ?f rest] assms by auto
  have r2: "m \<in> set ?r2 \<Longrightarrow> m \<in> set ?r1 \<or> (\<exists>x. ?Q x \<and> m = ?g x)" for m
    using update_first_set [of m ?Q ?g ?r1] by auto
  have "length (filter (\<lambda>m. pm_role m = CheaperAlternative) ?r2) = length (filter (\<lambda>m. pm_role m = CheaperAlternative) ?r1)"
    by (rule keep_update_first) simp
  also have "\<dots> \<le> 1" using assms by (intro count_update_first) auto
  finally have one: "length (filter (\<lambda>m. pm_role m = CheaperAlternative) (assignRoles (b # rest))) \<le> 1"
    unfolding eq by simp
  have cases: "m \<in> set ?r2 \<Longrightarrow>
      pm_role m = NoRole \<or>
      (pm_role m = CheaperAlternative \<and> cp_priceMinor (pm_product m) < cp_priceMinor (pm_product b)) \<or>
      (pm_role m = TradeoffChoice \<and> pm_compromises m \<noteq> [] \<and> pm_roleJustification m = hd (pm_compromises m))" for m
    using r2 [of m] r1 [of m] by auto
  have best: "\<forall>m \<in> set ?r2. pm_role m \<noteq> BestOverall" using cases by fastforce
  have cheap: "\<forall>m \<in> set (assignRoles (b # rest)). pm_role m = CheaperAlternative \<longrightarrow>
      cp_priceMinor (pm_product m) < cp_priceMinor (pm_product b)"
    unfolding eq using cases by fastforce
  have trade: "\<forall>m \<in> set (assignRoles (b # rest)). pm_role m = TradeoffChoice \<longrightarrow>
      pm_compromises m \<noteq> [] \<and> pm_roleJustification m = hd (pm_compromises m)"
    unfolding eq using cases by fastforce
  have "pm_role (hd (assignRoles (b # rest))) = BestOverall" unfolding eq by simp
  moreover have "\<forall>m \<in> set (tl (assignRoles (b # rest))). pm_role m \<noteq> BestOverall"
    unfolding eq list.sel by (rule best)
  ultimately show ?thesis
    unfolding Let_def using one cheap trade map_role_assignRoles by blast
qed

theorem roles_assigned_correctly_witness:
  "let b = evaluate (hd (cat_products SHOE_CATALOG)) (pi_hardConstraints demo_intent) [] 0;
       r = evaluate (cat_products SHOE_CATALOG ! 2) (pi_hardConstraints demo_intent) [] 0 in
   (\<forall>m. m \<in> set [b, r] = (m = b \<or> m = r)) \<and> pm_role (hd (assignRoles [b, r])) = BestOverall"
proof -
  let ?b = "evaluate (hd (cat_products SHOE_CATALOG)) (pi_hardConstraints demo_intent) [] 0"
  let ?r = "evaluate (cat_products SHOE_CATALOG ! 2) (pi_hardConstraints demo_intent) [] 0"
  have "\<forall>m \<in> set [?b, ?r]. pm_role m = NoRole" by simp
  from roles_assigned_correctly [OF this] show ?thesis unfolding Let_def by (simp only: set_simps) blast
qed

text \<open>The normalised score always lies between 0 and 100, whatever the product and the
  preferences, although the documented weights add up to 101 and not to 100.\<close>

theorem score_bounds:
  "0 \<le> pm_scoreNormalized (evaluate p c soft now) \<and> pm_scoreNormalized (evaluate p c soft now) \<le> 100 \<and>
   SCORE_MAXIMUM = 101"
  using score_norm_bounds by (simp add: SCORE_MAXIMUM_def SCORE_WEIGHTS_def)

end
