(* ===== verification/Operations.thy ===== *)
theory Operations
  imports Domain
begin

text \<open>
  Idempotent operations, \<open>packages/core/src\<close>: request hashing (\<open>hashing.ts\<close>), the in-memory and
  the encrypted operation store (\<open>store.ts\<close>) and the coordinator built over a store
  (\<open>coordinator.ts\<close>). The coordinator takes the store's \<open>get\<close> and \<open>set\<close> as arguments, as
  \<open>createOperationCoordinator(store)\<close> does; what it relies on is the locale \<open>operation_store\<close>,
  interpreted on the memory store. AES-GCM, base64 and the JSON codec of a record are parameters.
  The result payload is a type variable.
\<close>

subsection \<open>Types (types.ts)\<close>

datatype operation_type =
    Session_create | Conversation_respond | Quote_build | Approval_grant | Payment_initiate
  | Payment_verify | X402_order_prepare | X402_order_confirm | Fulfilment_complete | Compensation_refund

fun operation_type_str :: "operation_type \<Rightarrow> string" where
  "operation_type_str Session_create = ''session.create''"
| "operation_type_str Conversation_respond = ''conversation.respond''"
| "operation_type_str Quote_build = ''quote.build''"
| "operation_type_str Approval_grant = ''approval.grant''"
| "operation_type_str Payment_initiate = ''payment.initiate''"
| "operation_type_str Payment_verify = ''payment.verify''"
| "operation_type_str X402_order_prepare = ''x402_order.prepare''"
| "operation_type_str X402_order_confirm = ''x402_order.confirm''"
| "operation_type_str Fulfilment_complete = ''fulfilment.complete''"
| "operation_type_str Compensation_refund = ''compensation.refund''"

datatype operation_phase = Op_pending | Op_in_progress | Op_completed | Op_failed | Op_rejected

datatype operation_outcome = Out_success | Out_failure | Out_rejected

record 'p operation_record =
  or_operationId :: string
  or_aggregateIdentity :: string
  or_operationType :: operation_type
  or_requestHash :: string
  or_phase :: operation_phase
  or_outcome :: "operation_outcome option"
  or_resultRef :: "string option"
  or_errorRef :: "string option"
  or_resultPayload :: "'p option"
  or_createdAt :: string
  or_updatedAt :: string

datatype operation_request =
    SessionCreateRequest string
  | ConversationRespondRequest string string int int string
  | QuoteBuildRequest string string
  | ApprovalGrantRequest string string
  | PaymentInitiateRequest string string
  | PaymentVerifyRequest string string string
  | X402OrderPrepareRequest string
  | X402OrderConfirmRequest string string
  | FulfilmentCompleteRequest string bool
  | CompensationRefundRequest string

datatype 'p idempotency_result =
    Idem_new "'p operation_record"
  | Idem_replay "'p operation_record"
  | Idem_conflict "'p operation_record" string

subsection \<open>Request hashing (hashing.ts)\<close>

fun requestFields :: "operation_request \<Rightarrow> (string \<times> json) list" where
  "requestFields (SessionCreateRequest customerId) = [(''customerId'', JStr customerId)]"
| "requestFields (ConversationRespondRequest orderId message intentVersion recVersion token) =
     [(''orderId'', JStr orderId), (''message'', JStr message), (''intentVersion'', JNum intentVersion),
      (''recommendationVersion'', JNum recVersion), (''recommendationActionToken'', JStr token)]"
| "requestFields (QuoteBuildRequest orderId productId) =
     [(''orderId'', JStr orderId), (''productId'', JStr productId)]"
| "requestFields (ApprovalGrantRequest orderId digest) =
     [(''orderId'', JStr orderId), (''digest'', JStr digest)]"
| "requestFields (PaymentInitiateRequest orderId rail) =
     [(''orderId'', JStr orderId), (''rail'', JStr rail)]"
| "requestFields (PaymentVerifyRequest orderId extOrder extPayment) =
     [(''orderId'', JStr orderId), (''externalOrderId'', JStr extOrder),
      (''externalPaymentId'', JStr extPayment)]"
| "requestFields (X402OrderPrepareRequest orderId) = [(''orderId'', JStr orderId)]"
| "requestFields (X402OrderConfirmRequest orderId pid) =
     [(''orderId'', JStr orderId), (''paymentIdentifier'', JStr pid)]"
| "requestFields (FulfilmentCompleteRequest orderId fail) =
     [(''orderId'', JStr orderId), (''fail'', JBool fail)]"
| "requestFields (CompensationRefundRequest orderId) = [(''orderId'', JStr orderId)]"

definition requestJson :: "operation_type \<Rightarrow> operation_request \<Rightarrow> json" where
  "requestJson t req = JObj ((''operationType'', JStr (operation_type_str t)) # requestFields req)"

definition canonicalRequestHash ::
  "(string \<Rightarrow> string) \<Rightarrow> operation_type \<Rightarrow> operation_request \<Rightarrow> string" where
  "canonicalRequestHash sha256 t req =
     (case canonicalize (requestJson t req) of Inr s \<Rightarrow> sha256 s | Inl _ \<Rightarrow> [])"

subsection \<open>Stores (store.ts)\<close>

type_synonym 'p op_store = "(string, 'p operation_record) jsmap"

definition mem_get :: "string \<Rightarrow> 'p op_store \<Rightarrow> 'p operation_record option" where
  "mem_get i st = map_get i st"

definition mem_set :: "string \<Rightarrow> 'p operation_record \<Rightarrow> 'p op_store \<Rightarrow> 'p op_store" where
  "mem_set i r st = map_set i r st"

definition mem_has :: "string \<Rightarrow> 'p op_store \<Rightarrow> bool" where
  "mem_has i st = map_has i st"

definition mem_clear :: "'p op_store \<Rightarrow> 'p op_store" where
  "mem_clear st = []"

definition mem_size :: "'p op_store \<Rightarrow> nat" where
  "mem_size st = length st"

text \<open>
  The parts of Node's crypto and of the record codec that the encrypted store calls. \<open>gcm_enc\<close>
  returns the authentication tag and the ciphertext, \<open>gcm_dec\<close> is \<open>None\<close> where \<open>final\<close> throws.
\<close>

record gcm_lib =
  gcm_enc :: "string \<Rightarrow> string \<Rightarrow> string \<Rightarrow> string \<times> string"
  gcm_dec :: "string \<Rightarrow> string \<Rightarrow> string \<Rightarrow> string \<Rightarrow> string option"
  b64 :: "string \<Rightarrow> string"
  unb64 :: "string \<Rightarrow> string"

record 'p codec =
  cd_gcm :: gcm_lib
  rec_stringify :: "'p operation_record \<Rightarrow> string"
  rec_parse :: "string \<Rightarrow> 'p operation_record option"

definition encrypt :: "gcm_lib \<Rightarrow> string \<Rightarrow> string \<Rightarrow> string \<Rightarrow> string" where
  "encrypt cd key iv plaintext =
     (case gcm_enc cd key iv plaintext of (tag, enc) \<Rightarrow> b64 cd (iv @ tag @ enc))"

definition decrypt :: "gcm_lib \<Rightarrow> string \<Rightarrow> string \<Rightarrow> string option" where
  "decrypt cd key ciphertext =
     (let buf = unb64 cd ciphertext; iv = take 12 buf; tag = take 16 (drop 12 buf); enc = drop 28 buf
      in gcm_dec cd key iv tag enc)"

type_synonym enc_store = "(string, string) jsmap"

text \<open>\<open>Inl\<close> is the exception a failed authentication or a failed parse throws.\<close>

definition enc_get :: "'p codec \<Rightarrow> string \<Rightarrow> string \<Rightarrow> enc_store \<Rightarrow> 'p operation_record option throws" where
  "enc_get cd key i st =
     (case map_get i st of
        None \<Rightarrow> Inr None
      | Some encrypted \<Rightarrow>
          if encrypted = [] then Inr None
          else (case decrypt (cd_gcm cd) key encrypted of
                 None \<Rightarrow> Inl ''Unsupported state or unable to authenticate data''
               | Some s \<Rightarrow> (case rec_parse cd s of None \<Rightarrow> Inl ''SyntaxError'' | Some r \<Rightarrow> Inr (Some r))))"

definition enc_set ::
  "'p codec \<Rightarrow> string \<Rightarrow> string \<Rightarrow> string \<Rightarrow> 'p operation_record \<Rightarrow> enc_store \<Rightarrow> enc_store" where
  "enc_set cd key iv i r st = map_set i (encrypt (cd_gcm cd) key iv (rec_stringify cd r)) st"

subsection \<open>Coordinator (coordinator.ts)\<close>

definition coord_begin ::
  "(string \<Rightarrow> 's \<Rightarrow> 'p operation_record option) \<Rightarrow> (string \<Rightarrow> 'p operation_record \<Rightarrow> 's \<Rightarrow> 's) \<Rightarrow>
   (string \<Rightarrow> string) \<Rightarrow> string \<Rightarrow> string \<Rightarrow> operation_type \<Rightarrow> operation_request \<Rightarrow> string \<Rightarrow> 's \<Rightarrow>
   'p idempotency_result \<times> 's" where
  "coord_begin sget sset sha256 now operationId t req aggregateIdentity st =
     (let requestHash = canonicalRequestHash sha256 t req in
      case sget operationId st of
        None \<Rightarrow>
          (let record = \<lparr>or_operationId = operationId, or_aggregateIdentity = aggregateIdentity,
                 or_operationType = t, or_requestHash = requestHash, or_phase = Op_pending,
                 or_outcome = None, or_resultRef = None, or_errorRef = None, or_resultPayload = None,
                 or_createdAt = now, or_updatedAt = now\<rparr>
           in (Idem_new record, sset operationId record st))
      | Some existing \<Rightarrow>
          if or_requestHash existing = requestHash then (Idem_replay existing, st)
          else (Idem_conflict existing requestHash, st))"

definition coord_transition ::
  "(string \<Rightarrow> 's \<Rightarrow> 'p operation_record option) \<Rightarrow> (string \<Rightarrow> 'p operation_record \<Rightarrow> 's \<Rightarrow> 's) \<Rightarrow>
   string \<Rightarrow> string \<Rightarrow> operation_phase \<Rightarrow> 's \<Rightarrow> 's throws" where
  "coord_transition sget sset now operationId phase st =
     (case sget operationId st of
        None \<Rightarrow> Inl (''Operation '' @ operationId @ '' not found'')
      | Some r \<Rightarrow> Inr (sset operationId (r\<lparr>or_phase := phase, or_updatedAt := now\<rparr>) st))"

definition phase_of_outcome :: "operation_outcome \<Rightarrow> operation_phase" where
  "phase_of_outcome out =
     (if out = Out_success then Op_completed else if out = Out_failure then Op_failed else Op_rejected)"

definition keep_if_undefined :: "'a option \<Rightarrow> 'a option \<Rightarrow> 'a option" where
  "keep_if_undefined old new = (case new of None \<Rightarrow> old | Some v \<Rightarrow> Some v)"

definition coord_complete ::
  "(string \<Rightarrow> 's \<Rightarrow> 'p operation_record option) \<Rightarrow> (string \<Rightarrow> 'p operation_record \<Rightarrow> 's \<Rightarrow> 's) \<Rightarrow>
   string \<Rightarrow> string \<Rightarrow> operation_outcome \<Rightarrow> string option \<Rightarrow> string option \<Rightarrow> 'p option \<Rightarrow> 's \<Rightarrow> 's throws" where
  "coord_complete sget sset now operationId out resultRef errorRef resultPayload st =
     (case sget operationId st of
        None \<Rightarrow> Inl (''Operation '' @ operationId @ '' not found'')
      | Some r \<Rightarrow>
          Inr (sset operationId
            (r\<lparr>or_phase := phase_of_outcome out, or_outcome := Some out,
               or_resultRef := keep_if_undefined (or_resultRef r) resultRef,
               or_errorRef := keep_if_undefined (or_errorRef r) errorRef,
               or_resultPayload := keep_if_undefined (or_resultPayload r) resultPayload,
               or_updatedAt := now\<rparr>) st))"

definition coord_lookup ::
  "(string \<Rightarrow> 's \<Rightarrow> 'p operation_record option) \<Rightarrow> string \<Rightarrow> 's \<Rightarrow> 'p operation_record option" where
  "coord_lookup sget operationId st = sget operationId st"

text \<open>A sequence of coordinator calls; a call that throws leaves the store as it is.\<close>

datatype 'p coord_op =
    CBegin string string operation_type operation_request string
  | CTransition string string operation_phase
  | CComplete string string operation_outcome "string option" "string option" "'p option"

fun coord_exec ::
  "(string \<Rightarrow> 's \<Rightarrow> 'p operation_record option) \<Rightarrow> (string \<Rightarrow> 'p operation_record \<Rightarrow> 's \<Rightarrow> 's) \<Rightarrow>
   (string \<Rightarrow> string) \<Rightarrow> 'p coord_op \<Rightarrow> 's \<Rightarrow> 's" where
  "coord_exec sget sset sha256 (CBegin now i t req agg) st = snd (coord_begin sget sset sha256 now i t req agg st)"
| "coord_exec sget sset sha256 (CTransition now i ph) st =
     (case coord_transition sget sset now i ph st of Inl _ \<Rightarrow> st | Inr st' \<Rightarrow> st')"
| "coord_exec sget sset sha256 (CComplete now i out rr er p) st =
     (case coord_complete sget sset now i out rr er p st of Inl _ \<Rightarrow> st | Inr st' \<Rightarrow> st')"

fun touches :: "string \<Rightarrow> 'p coord_op \<Rightarrow> bool" where
  "touches i (CBegin _ _ _ _ _) = False"
| "touches i (CTransition _ j _) = (i = j)"
| "touches i (CComplete _ j _ _ _ _) = (i = j)"

subsection \<open>What the coordinator relies on\<close>

locale operation_store =
  fixes sget :: "string \<Rightarrow> 's \<Rightarrow> 'p operation_record option"
    and sset :: "string \<Rightarrow> 'p operation_record \<Rightarrow> 's \<Rightarrow> 's"
  assumes sget_sset: "sget i (sset j r st) = (if i = j then Some r else sget i st)"
begin

lemma begin_cases:
  "coord_begin sget sset sha256 now i t req agg st =
     (case sget i st of
        None \<Rightarrow> (Idem_new \<lparr>or_operationId = i, or_aggregateIdentity = agg, or_operationType = t,
                  or_requestHash = canonicalRequestHash sha256 t req, or_phase = Op_pending,
                  or_outcome = None, or_resultRef = None, or_errorRef = None, or_resultPayload = None,
                  or_createdAt = now, or_updatedAt = now\<rparr>,
                snd (coord_begin sget sset sha256 now i t req agg st))
      | Some e \<Rightarrow> (if or_requestHash e = canonicalRequestHash sha256 t req then Idem_replay e
                   else Idem_conflict e (canonicalRequestHash sha256 t req), st))"
  by (simp add: coord_begin_def Let_def split: option.splits)

lemma exec_get:
  assumes "sget i st = Some r"
  shows "\<exists>r'. sget i (coord_exec sget sset sha256 op st) = Some r' \<and>
              or_requestHash r' = or_requestHash r \<and> or_operationType r' = or_operationType r \<and>
              (\<not> touches i op \<longrightarrow> r' = r)"
  using assms
  by (cases op)
     (auto simp: coord_begin_def coord_transition_def coord_complete_def Let_def sget_sset
        split: option.splits)

lemma run_get:
  assumes "sget i st = Some r"
  shows "\<exists>r'. sget i (fold (coord_exec sget sset sha256) ops st) = Some r' \<and>
              or_requestHash r' = or_requestHash r \<and> or_operationType r' = or_operationType r \<and>
              ((\<forall>op \<in> set ops. \<not> touches i op) \<longrightarrow> r' = r)"
  using assms
proof (induction ops arbitrary: st r)
  case (Cons op ops)
  from exec_get [OF Cons.prems] obtain r1 where
    r1: "sget i (coord_exec sget sset sha256 op st) = Some r1"
      "or_requestHash r1 = or_requestHash r" "or_operationType r1 = or_operationType r"
      "\<not> touches i op \<longrightarrow> r1 = r"
    by blast
  from Cons.IH [OF r1(1)] r1(2-4) show ?case by auto
qed simp

lemma begin_binds:
  "\<exists>r. sget i (snd (coord_begin sget sset sha256 now i t req agg st)) = Some r \<and>
       (sget i st = None \<longrightarrow> or_requestHash r = canonicalRequestHash sha256 t req)"
  by (auto simp: coord_begin_def Let_def sget_sset split: option.splits)

lemma later_begin:
  assumes "sget i st = None"
  shows "\<exists>r. fst (coord_begin sget sset sha256 now' i t' req' agg'
               (fold (coord_exec sget sset sha256) ops (snd (coord_begin sget sset sha256 now i t req agg st)))) =
             (if canonicalRequestHash sha256 t' req' = canonicalRequestHash sha256 t req
              then Idem_replay r else Idem_conflict r (canonicalRequestHash sha256 t' req')) \<and>
             or_requestHash r = canonicalRequestHash sha256 t req"
proof -
  from begin_binds [of i sha256 now t req agg st] assms obtain r where
    r: "sget i (snd (coord_begin sget sset sha256 now i t req agg st)) = Some r"
      "or_requestHash r = canonicalRequestHash sha256 t req"
    by blast
  from run_get [OF r(1), of sha256 ops] r(2) show ?thesis
    by (auto simp: coord_begin_def Let_def)
qed

lemma complete_then_begin:
  assumes "sget i st = Some r" "or_requestHash r = canonicalRequestHash sha256 t req"
    and "coord_complete sget sset now i out rr er (Some p) st = Inr st'"
    and "\<forall>op \<in> set ops. \<not> touches i op"
  shows "\<exists>r'. coord_begin sget sset sha256 now' i t req agg (fold (coord_exec sget sset sha256) ops st') =
                (Idem_replay r', fold (coord_exec sget sset sha256) ops st') \<and>
              or_resultPayload r' = Some p \<and> or_outcome r' = Some out \<and> or_phase r' = phase_of_outcome out"
proof -
  let ?r = "r\<lparr>or_phase := phase_of_outcome out, or_outcome := Some out,
      or_resultRef := keep_if_undefined (or_resultRef r) rr,
      or_errorRef := keep_if_undefined (or_errorRef r) er,
      or_resultPayload := Some p, or_updatedAt := now\<rparr>"
  from assms(1,3) have "sget i st' = Some ?r"
    by (auto simp: coord_complete_def sget_sset keep_if_undefined_def)
  from run_get [OF this, of sha256 ops] assms(2,4) show ?thesis
    by (auto simp: coord_begin_def Let_def)
qed

end

interpretation mem_ops: operation_store mem_get mem_set
  by unfold_locales (simp add: mem_get_def mem_set_def)

subsection \<open>Request hashes\<close>

lemma operation_type_str_inj [simp]: "operation_type_str a = operation_type_str b \<longleftrightarrow> a = b"
  by (cases a; cases b) simp_all

definition flat :: "(string \<times> json) list \<Rightarrow> bool" where
  "flat kvs = (\<forall>kv \<in> set kvs. json_normal (snd kv) = snd kv \<and> json_clean (snd kv))"

lemma flat_normal: "flat kvs \<Longrightarrow> json_normal (JObj kvs) = JObj (sort_key fst kvs)"
proof -
  assume flat: "flat kvs"
  then have "filter (\<lambda>kv. snd kv \<noteq> JUndefined) kvs = kvs"
    by (auto simp: flat_def filter_id_conv)
  moreover have "map (\<lambda>kv. (fst kv, json_normal (snd kv))) (sort_key fst kvs) = sort_key fst kvs"
    using flat by (intro map_idI) (auto simp: flat_def)
  ultimately show ?thesis by (simp only: json_normal.simps)
qed

lemma flat_normal_eq:
  assumes "flat kvs" "flat lvs" "json_normal (JObj kvs) = json_normal (JObj lvs)"
  shows "mset kvs = mset lvs"
  using assms flat_normal by (metis json.inject(6) mset_sort)

lemma flat_canonicalize:
  "flat kvs \<Longrightarrow> canonicalize (JObj kvs) = Inr (JSON_stringify (json_normal (JObj kvs)))"
  unfolding canonicalize_def
  by (rule canonical_is_normal_stringify) (auto simp: flat_normal flat_def)

lemma flat_request: "flat ((''operationType'', JStr (operation_type_str t)) # requestFields req)"
  by (cases req) (auto simp: flat_def)

lemma requestFields_no_type: "(''operationType'', v) \<notin> set (requestFields req)"
  by (cases req) auto

text \<open>Opening what was sealed; shared by the operation store, the settlement store and the session cookie.\<close>

lemma decrypt_encrypt:
  assumes iv: "length iv = 12"
    and tag: "\<And>p. length (fst (gcm_enc g key iv p)) = 16"
    and gcm: "\<And>p. gcm_dec g key iv (fst (gcm_enc g key iv p)) (snd (gcm_enc g key iv p)) = Some p"
    and base64: "\<And>b. b \<noteq> [] \<Longrightarrow> b64 g b \<noteq> [] \<and> unb64 g (b64 g b) = b"
  shows "decrypt g key (encrypt g key iv plain) = Some plain \<and> encrypt g key iv plain \<noteq> []"
proof -
  obtain tg enc where e: "gcm_enc g key iv plain = (tg, enc)" by (cases "gcm_enc g key iv plain")
  have ne: "iv @ tg @ enc \<noteq> []" using iv by auto
  have "length tg = 16" using tag [of plain] e by simp
  then show ?thesis
    using base64 [OF ne] gcm [of plain] iv by (simp add: encrypt_def decrypt_def e Let_def)
qed

subsection \<open>Properties of the operation layer\<close>



text \<open>C34: A completed operation is replayed with the payload it was completed with: whatever other
  operations run in between, a later \<open>begin\<close> of the same request returns that payload and outcome and
  does not change the store.\<close>

theorem completed_operation_replays:
  assumes "mem_get i st = Some r" "or_requestHash r = canonicalRequestHash sha256 t req"
    and "coord_complete mem_get mem_set now i out rr er (Some p) st = Inr st'"
    and "\<forall>op \<in> set ops. \<not> touches i op"
  shows "\<exists>r'. coord_begin mem_get mem_set sha256 now' i t req agg (fold (coord_exec mem_get mem_set sha256) ops st') =
                (Idem_replay r', fold (coord_exec mem_get mem_set sha256) ops st') \<and>
              or_resultPayload r' = Some p \<and> or_outcome r' = Some out \<and> or_phase r' = phase_of_outcome out"
  using assms by (rule mem_ops.complete_then_begin)

definition demo_op :: "nat operation_record" where
  "demo_op = \<lparr>or_operationId = ''k'', or_aggregateIdentity = ''o'', or_operationType = Quote_build,
     or_requestHash = canonicalRequestHash (\<lambda>s. s) Quote_build (QuoteBuildRequest ''o'' ''p''),
     or_phase = Op_pending, or_outcome = None, or_resultRef = None, or_errorRef = None,
     or_resultPayload = None, or_createdAt = ''t0'', or_updatedAt = ''t0''\<rparr>"

theorem completed_operation_replays_witness:
  "\<exists>st' r'. coord_complete mem_get mem_set ''t1'' ''k'' Out_success None None (Some 7) [(''k'', demo_op)] = Inr st' \<and>
     coord_begin mem_get mem_set (\<lambda>s. s) ''t2'' ''k'' Quote_build (QuoteBuildRequest ''o'' ''p'') ''o''
       (fold (coord_exec mem_get mem_set (\<lambda>s. s)) [CTransition ''t1'' ''j'' Op_failed] st') =
       (Idem_replay r', fold (coord_exec mem_get mem_set (\<lambda>s. s)) [CTransition ''t1'' ''j'' Op_failed] st') \<and>
     or_resultPayload r' = Some 7 \<and> or_outcome r' = Some Out_success \<and>
     or_phase r' = phase_of_outcome Out_success"
proof -
  obtain st' where st': "coord_complete mem_get mem_set ''t1'' ''k'' Out_success None None (Some 7)
      [(''k'', demo_op)] = Inr st'"
    by (simp add: coord_complete_def mem_get_def map_get_def)
  have "mem_get ''k'' [(''k'', demo_op)] = Some demo_op" by (simp add: mem_get_def map_get_def)
  moreover have "or_requestHash demo_op = canonicalRequestHash (\<lambda>s. s) Quote_build (QuoteBuildRequest ''o'' ''p'')"
    by (simp add: demo_op_def)
  moreover have "\<forall>op \<in> set [CTransition ''t1'' ''j'' Op_failed]. \<not> touches ''k'' op" by simp
  ultimately show ?thesis
    using completed_operation_replays [OF _ _ st', of demo_op "\<lambda>s. s" Quote_build "QuoteBuildRequest ''o'' ''p''"
        "[CTransition ''t1'' ''j'' Op_failed]" "''t2''" "''o''"] st' by blast
qed

text \<open>Two operation requests with the same hash have the same operation type and the same
  request fields, or exhibit a hash collision.\<close>

theorem request_hash_binds_request:
  assumes "canonicalRequestHash sha256 t req = canonicalRequestHash sha256 t' req'"
  shows "t = t' \<and> mset (requestFields req) = mset (requestFields req') \<or>
    (\<exists>s s'. canonicalize (requestJson t req) = Inr s \<and> canonicalize (requestJson t' req') = Inr s' \<and>
            s \<noteq> s' \<and> sha256 s = sha256 s')"
proof (cases "canonicalize (requestJson t req) = canonicalize (requestJson t' req')")
  case True
  have "json_normal (requestJson t req) = json_normal (requestJson t' req')"
    using True flat_canonicalize [OF flat_request]
    by (intro canonicalize_eq_normal) (simp_all add: requestJson_def)
  then have ms: "mset ((''operationType'', JStr (operation_type_str t)) # requestFields req) =
      mset ((''operationType'', JStr (operation_type_str t')) # requestFields req')"
    unfolding requestJson_def by (intro flat_normal_eq flat_request)
  have "(''operationType'', JStr (operation_type_str t)) \<in>
      set ((''operationType'', JStr (operation_type_str t')) # requestFields req')"
    unfolding mset_eq_setD [OF ms, symmetric] by simp
  then have "t = t'" using requestFields_no_type by auto
  with ms show ?thesis by simp
next
  case False
  with assms show ?thesis
    by (auto simp: canonicalRequestHash_def requestJson_def flat_canonicalize [OF flat_request])
qed

theorem request_hash_binds_request_witness:
  "Quote_build = Quote_build \<and>
     mset (requestFields (QuoteBuildRequest ''o'' ''p'')) = mset (requestFields (QuoteBuildRequest ''o'' ''p'')) \<or>
   (\<exists>s s'. canonicalize (requestJson Quote_build (QuoteBuildRequest ''o'' ''p'')) = Inr s \<and>
           canonicalize (requestJson Quote_build (QuoteBuildRequest ''o'' ''p'')) = Inr s' \<and> s \<noteq> s' \<and> rev s = rev s')"
  by (rule request_hash_binds_request) simp

text \<open>C28: The encrypted store simulates the memory store. If every lookup agrees before a \<open>set\<close>,
  every lookup agrees after it, for any twelve-byte initialisation vector, provided that the cipher
  opens what it sealed, tags have sixteen bytes, base64 decodes what it encoded, and the record
  survives its JSON round trip.\<close>

theorem encrypted_store_simulates_memory:
  assumes lookup: "\<And>j. enc_get cd key j est = Inr (mem_get j mst)"
    and iv: "length iv = 12"
    and tag: "\<And>p. length (fst (gcm_enc (cd_gcm cd) key iv p)) = 16"
    and gcm: "\<And>p. gcm_dec (cd_gcm cd) key iv (fst (gcm_enc (cd_gcm cd) key iv p)) (snd (gcm_enc (cd_gcm cd) key iv p)) = Some p"
    and base64: "\<And>b. b \<noteq> [] \<Longrightarrow> b64 (cd_gcm cd) b \<noteq> [] \<and> unb64 (cd_gcm cd) (b64 (cd_gcm cd) b) = b"
    and json: "rec_parse cd (rec_stringify cd r) = Some r"
  shows "enc_get cd key j (enc_set cd key iv i r est) = Inr (mem_get j (mem_set i r mst))"
  using decrypt_encrypt [OF iv tag gcm base64, of "rec_stringify cd r"] lookup [of j] json
  by (simp add: enc_get_def enc_set_def mem_get_def mem_set_def)

definition demo_codec :: "nat codec" where
  "demo_codec = \<lparr>cd_gcm = \<lparr>gcm_enc = (\<lambda>k iv p. (replicate 16 CHR ''t'', rev p)), gcm_dec = (\<lambda>k iv t c. Some (rev c)),
     b64 = (\<lambda>b. b), unb64 = (\<lambda>b. b)\<rparr>, rec_stringify = (\<lambda>r. ''r''), rec_parse = (\<lambda>s. Some demo_op)\<rparr>"

theorem encrypted_store_simulates_memory_witness:
  "enc_get demo_codec ''key'' ''k'' (enc_set demo_codec ''key'' (replicate 12 CHR ''i'') ''k'' demo_op []) =
   Inr (mem_get ''k'' (mem_set ''k'' demo_op []))"
  by (rule encrypted_store_simulates_memory) (simp_all add: demo_codec_def enc_get_def mem_get_def)

end
