(* ===== verification/SettlementStore.thy ===== *)
theory SettlementStore
  imports Operations
begin

text \<open>
  Durable x402 settlement state, \<open>packages/payments/src/x402-settlement-store.ts\<close>: the attempt row,
  the PostgreSQL store and the in-memory store. A store's state is the table of attempts keyed by
  operation identifier, in insertion order, and the history. Each SQL statement is the function it
  denotes on that table; an insert or update that would break the primary key or one of the three
  unique indexes of \<open>001_x402_settlement.sql\<close> fails, as PostgreSQL's error 23505. The reads and the
  insert of the PostgreSQL \<open>resolveOrCreate\<close> are separate steps, so that other workers may run in
  between. Times are milliseconds; the database clock and the identifiers drawn at random are
  arguments. The role and history triggers of the later migrations are not modelled.
\<close>

subsection \<open>Types\<close>

datatype attempt_state =
    AS_pending | AS_rejected | AS_settling | AS_awaiting_evidence | AS_settled | AS_mismatch
  | AS_manual | AS_released

fun attempt_state_str :: "attempt_state \<Rightarrow> string" where
  "attempt_state_str AS_pending = ''pending''"
| "attempt_state_str AS_rejected = ''rejected''"
| "attempt_state_str AS_settling = ''settling''"
| "attempt_state_str AS_awaiting_evidence = ''awaiting_evidence''"
| "attempt_state_str AS_settled = ''settled''"
| "attempt_state_str AS_mismatch = ''mismatch''"
| "attempt_state_str AS_manual = ''manual''"
| "attempt_state_str AS_released = ''released''"

definition TERMINAL_RESOLVED :: "attempt_state list" where
  "TERMINAL_RESOLVED = [AS_settled, AS_rejected, AS_mismatch, AS_released]"

record stored_attempt =
  sa_operationId :: string
  sa_logicalOrderId :: string
  sa_intentVersion :: int
  sa_requestDigest :: string
  sa_resource :: string
  sa_authRevision :: string
  sa_callerPaymentId :: "string option"
  sa_signedPayloadEnc :: "string option"
  sa_payloadDigest :: "string option"
  sa_payer :: "string option"
  sa_blockhash :: "string option"
  sa_requirementsJson :: json
  sa_status :: attempt_state
  sa_txHash :: "string option"
  sa_evidenceJson :: json
  sa_releaseEvidenceJson :: json
  sa_leaseOwner :: "string option"
  sa_leaseExpiresAt :: "int option"
  sa_fenceToken :: "string option"
  sa_releasedToApproval :: "string option"
  sa_releasedBy :: "string option"
  sa_createdAt :: int
  sa_updatedAt :: int

record resolve_input =
  ri_logicalOrderId :: string
  ri_intentVersion :: int
  ri_requestDigest :: string
  ri_resource :: string
  ri_approvalEventId :: "string option"
  ri_callerPaymentId :: string
  ri_requirementsJson :: json

datatype resolve_result =
    RR_created stored_attempt
  | RR_existing stored_attempt
  | RR_approval_mismatch stored_attempt string
  | RR_release_required stored_attempt string

datatype transfer_verification = TV_verified | TV_mismatch | TV_unavailable

record release_evidence =
  re_operatorId :: string
  re_newApprovalEventId :: string
  re_note :: string
  re_blockhash :: string
  re_blockhashValid :: bool
  re_checkedSlot :: int
  re_transferVerification :: transfer_verification

record history_row =
  hi_operationId :: string
  hi_from :: attempt_state
  hi_to :: attempt_state
  hi_trigger :: string
  hi_note :: string
  hi_leaseOwner :: "string option"

record settlement_db =
  db_attempts :: "(string, stored_attempt) jsmap"
  db_history :: "history_row list"

text \<open>The optional columns of a transition: \<open>None\<close> is \<open>undefined\<close>, \<open>Some None\<close> is \<open>null\<close>.\<close>

record attempt_update =
  up_txHash :: "string option option"
  up_evidenceJson :: "json option"
  up_signedPayloadEnc :: "string option option"
  up_payloadDigest :: "string option option"
  up_callerPaymentId :: "string option option"
  up_payer :: "string option option"
  up_blockhash :: "string option option"
  up_requirementsJson :: "json option"

definition no_update :: attempt_update where
  "no_update = \<lparr>up_txHash = None, up_evidenceJson = None, up_signedPayloadEnc = None, up_payloadDigest = None,
     up_callerPaymentId = None, up_payer = None, up_blockhash = None, up_requirementsJson = None\<rparr>"

definition resolved :: "attempt_state \<Rightarrow> bool" where
  "resolved s = (s \<in> set TERMINAL_RESOLVED)"

lemma resolved_simps [simp]:
  "resolved AS_settled" "resolved AS_rejected" "resolved AS_mismatch" "resolved AS_released"
  "\<not> resolved AS_pending" "\<not> resolved AS_settling" "\<not> resolved AS_awaiting_evidence" "\<not> resolved AS_manual"
  by (simp_all add: resolved_def TERMINAL_RESOLVED_def)

subsection \<open>Identity, approval binding and the release gate\<close>

definition approvalMismatch :: "string \<Rightarrow> string option \<Rightarrow> bool" where
  "approvalMismatch rowAuthRevision presented =
     (if \<not> starts_with ''appr_'' rowAuthRevision then False
      else if \<not> truthy presented then True
      else presented \<noteq> Some rowAuthRevision)"

definition APPROVAL_MISMATCH_DETAIL :: string where
  "APPROVAL_MISMATCH_DETAIL =
     ''Presented approval does not match this attempt's bound authorization revision.''"

definition RELEASE_REQUIRED_DETAIL :: string where
  "RELEASE_REQUIRED_DETAIL =
     ''A prior attempt was operator-released. Present the cited new approval event id to open a fresh attempt.''"

definition buildOperationId ::
  "(string \<Rightarrow> string) \<Rightarrow> string \<Rightarrow> int \<Rightarrow> string \<Rightarrow> string \<Rightarrow> string \<Rightarrow> string" where
  "buildOperationId sha256 logicalOrderId intentVersion requestDigest resource authRevision =
     sha256 (join ''|'' [logicalOrderId, int_str intentVersion, requestDigest, resource, authRevision])"

definition mintSpendAuthRevision :: "string \<Rightarrow> string" where
  "mintSpendAuthRevision uuid = ''sauth_'' @ filter (\<lambda>c. c \<noteq> CHR ''-'') uuid"

definition validateReleaseEvidence :: "release_evidence \<Rightarrow> bool \<times> string list" where
  "validateReleaseEvidence evidence =
     (let reasons =
        when_code (re_operatorId evidence = []) ''operator identity is required'' @
        when_code (\<not> starts_with ''appr_'' (re_newApprovalEventId evidence))
          ''release must cite the new server-generated approval event id'' @
        when_code (re_blockhash evidence = []) ''blockhash of the attempt's signed transaction is required'' @
        when_code (re_blockhashValid evidence \<noteq> False)
          ''canonical isBlockhashValid verdict must report expired (false); unproven expiry never releases'' @
        when_code (re_checkedSlot evidence < 0)
          ''checkedSlot must be the integer chain slot of the validity check'' @
        when_code (re_transferVerification evidence \<noteq> TV_mismatch \<and> re_transferVerification evidence \<noteq> TV_unavailable)
          ''chain shows a verified settlement for this attempt; release is wrong, reconcile instead'' @
        when_code (re_note evidence = []) ''operator note is required''
      in (reasons = [], reasons))"

fun transfer_verification_str :: "transfer_verification \<Rightarrow> string" where
  "transfer_verification_str TV_verified = ''verified''"
| "transfer_verification_str TV_mismatch = ''mismatch''"
| "transfer_verification_str TV_unavailable = ''unavailable''"

definition evidenceToJson :: "release_evidence \<Rightarrow> json" where
  "evidenceToJson ev = JObj
     [(''operatorId'', JStr (re_operatorId ev)), (''newApprovalEventId'', JStr (re_newApprovalEventId ev)),
      (''note'', JStr (re_note ev)), (''blockhash'', JStr (re_blockhash ev)),
      (''blockhashValid'', JBool (re_blockhashValid ev)), (''checkedSlot'', JNum (re_checkedSlot ev)),
      (''transferVerification'', JStr (transfer_verification_str (re_transferVerification ev)))]"

text \<open>The key is kept as its 64 hexadecimal digits; decoding them to bytes is injective.\<close>

definition parseEncryptionKey :: "string option \<Rightarrow> string throws" where
  "parseEncryptionKey raw =
     (if \<not> truthy raw \<or> \<not> (length (trim (case raw of None \<Rightarrow> [] | Some r \<Rightarrow> r)) = 64 \<and>
            list_all is_hex (trim (case raw of None \<Rightarrow> [] | Some r \<Rightarrow> r)))
      then Inl ''X402_STORE_ENC_KEY must be 32 bytes hex. Refusing to boot settlement storage.''
      else Inr (trim (case raw of None \<Rightarrow> [] | Some r \<Rightarrow> r)))"

definition encryptPayload :: "gcm_lib \<Rightarrow> string \<Rightarrow> string \<Rightarrow> string \<Rightarrow> string" where
  "encryptPayload g key iv plaintext =
     (case gcm_enc g key iv plaintext of (tag, encrypted) \<Rightarrow> b64 g (iv @ tag @ encrypted))"

definition decryptPayload :: "gcm_lib \<Rightarrow> string \<Rightarrow> string \<Rightarrow> string option" where
  "decryptPayload g key ciphertext =
     (let buf = unb64 g ciphertext; iv = take 12 buf; tag = take 16 (drop 12 buf); encrypted = drop 28 buf
      in gcm_dec g key iv tag encrypted)"

subsection \<open>Rows, queries and the unique indexes\<close>

definition rows :: "settlement_db \<Rightarrow> stored_attempt list" where
  "rows db = map snd (db_attempts db)"

definition put_row :: "stored_attempt \<Rightarrow> settlement_db \<Rightarrow> settlement_db" where
  "put_row r db = db\<lparr>db_attempts := map_set (sa_operationId r) r (db_attempts db)\<rparr>"

definition append_history :: "history_row \<Rightarrow> settlement_db \<Rightarrow> settlement_db" where
  "append_history h db = db\<lparr>db_history := db_history db @ [h]\<rparr>"

definition getByOperationId :: "string \<Rightarrow> settlement_db \<Rightarrow> stored_attempt option" where
  "getByOperationId i db = map_get i (db_attempts db)"

definition findByDigestPayment :: "string \<Rightarrow> string \<Rightarrow> settlement_db \<Rightarrow> stored_attempt option" where
  "findByDigestPayment digest pid db = js_head (sort_key sa_createdAt
     (filter (\<lambda>r. sa_requestDigest r = digest \<and> sa_callerPaymentId r = Some pid) (rows db)))"

definition findByPaymentId :: "string \<Rightarrow> settlement_db \<Rightarrow> stored_attempt list" where
  "findByPaymentId pid db = sort_key sa_createdAt (filter (\<lambda>r. sa_callerPaymentId r = Some pid) (rows db))"

definition findActiveAttempt :: "string \<Rightarrow> int \<Rightarrow> settlement_db \<Rightarrow> stored_attempt option" where
  "findActiveAttempt orderId v db = js_head (sort_key sa_createdAt
     (filter (\<lambda>r. sa_logicalOrderId r = orderId \<and> sa_intentVersion r = v \<and> \<not> resolved (sa_status r)) (rows db)))"

text \<open>The newest of equally matching rows: \<open>ORDER BY updated_at DESC LIMIT 1\<close>.\<close>

definition newest :: "stored_attempt list \<Rightarrow> stored_attempt option" where
  "newest rs = js_head (sort_key (\<lambda>r. - sa_updatedAt r) (rev rs))"

definition findSettledAttempt :: "string \<Rightarrow> int \<Rightarrow> string \<Rightarrow> string \<Rightarrow> settlement_db \<Rightarrow> stored_attempt option" where
  "findSettledAttempt orderId v digest resource db = newest
     (filter (\<lambda>r. sa_logicalOrderId r = orderId \<and> sa_intentVersion r = v \<and> sa_requestDigest r = digest \<and>
                  sa_resource r = resource \<and> sa_status r = AS_settled) (rows db))"

definition findLatestReleased :: "string \<Rightarrow> int \<Rightarrow> settlement_db \<Rightarrow> stored_attempt option" where
  "findLatestReleased orderId v db = newest
     (filter (\<lambda>r. sa_logicalOrderId r = orderId \<and> sa_intentVersion r = v \<and> sa_status r = AS_released) (rows db))"

definition sweepCandidates :: "nat \<Rightarrow> settlement_db \<Rightarrow> stored_attempt list" where
  "sweepCandidates limit db = take limit (sort_key sa_updatedAt
     (filter (\<lambda>r. sa_status r \<in> {AS_settling, AS_awaiting_evidence}) (rows db)))"

text \<open>Two different rows the indexes do not allow side by side.\<close>

definition rows_clash :: "stored_attempt \<Rightarrow> stored_attempt \<Rightarrow> bool" where
  "rows_clash a b =
     ((sa_callerPaymentId a \<noteq> None \<and> sa_requestDigest a = sa_requestDigest b \<and>
       sa_callerPaymentId a = sa_callerPaymentId b) \<or>
      (\<not> resolved (sa_status a) \<and> \<not> resolved (sa_status b) \<and>
       sa_logicalOrderId a = sa_logicalOrderId b \<and> sa_intentVersion a = sa_intentVersion b) \<or>
      (\<not> resolved (sa_status a) \<and> \<not> resolved (sa_status b) \<and>
       sa_callerPaymentId a \<noteq> None \<and> sa_callerPaymentId a = sa_callerPaymentId b))"

definition unique_ok :: "stored_attempt \<Rightarrow> settlement_db \<Rightarrow> bool" where
  "unique_ok r db = list_all (\<lambda>o'. sa_operationId o' = sa_operationId r \<or> \<not> rows_clash r o') (rows db)"

subsection \<open>Shared row changes\<close>

definition lease_row :: "int \<Rightarrow> string \<Rightarrow> string \<Rightarrow> int \<Rightarrow> stored_attempt \<Rightarrow> stored_attempt" where
  "lease_row now owner fence leaseTtlMs r =
     r\<lparr>sa_leaseOwner := Some owner, sa_leaseExpiresAt := Some (now + leaseTtlMs),
       sa_fenceToken := Some fence, sa_updatedAt := now\<rparr>"

definition claim_row ::
  "int \<Rightarrow> string \<Rightarrow> string \<Rightarrow> int \<Rightarrow> string option \<Rightarrow> string option \<Rightarrow> stored_attempt \<Rightarrow> stored_attempt" where
  "claim_row now owner fence leaseTtlMs sealedPayload payloadDigest r =
     lease_row now owner fence leaseTtlMs
       (r\<lparr>sa_status := AS_settling,
          sa_signedPayloadEnc := (if sa_signedPayloadEnc r = None then sealedPayload else sa_signedPayloadEnc r),
          sa_payloadDigest := (if sa_payloadDigest r = None then payloadDigest else sa_payloadDigest r)\<rparr>)"

definition apply_update :: "attempt_state \<Rightarrow> attempt_update \<Rightarrow> int \<Rightarrow> stored_attempt \<Rightarrow> stored_attempt" where
  "apply_update to u now r =
     r\<lparr>sa_status := to,
       sa_txHash := (case up_txHash u of None \<Rightarrow> sa_txHash r | Some v \<Rightarrow> v),
       sa_evidenceJson := (case up_evidenceJson u of None \<Rightarrow> sa_evidenceJson r | Some v \<Rightarrow> v),
       sa_signedPayloadEnc := (case up_signedPayloadEnc u of None \<Rightarrow> sa_signedPayloadEnc r | Some v \<Rightarrow> v),
       sa_payloadDigest := (case up_payloadDigest u of None \<Rightarrow> sa_payloadDigest r | Some v \<Rightarrow> v),
       sa_callerPaymentId := (case up_callerPaymentId u of None \<Rightarrow> sa_callerPaymentId r | Some v \<Rightarrow> v),
       sa_blockhash := (case up_blockhash u of None \<Rightarrow> sa_blockhash r | Some v \<Rightarrow> v),
       sa_payer := (case up_payer u of None \<Rightarrow> sa_payer r | Some v \<Rightarrow> v),
       sa_requirementsJson := (case up_requirementsJson u of None \<Rightarrow> sa_requirementsJson r | Some v \<Rightarrow> v),
       sa_updatedAt := now\<rparr>"

definition release_row :: "int \<Rightarrow> release_evidence \<Rightarrow> stored_attempt \<Rightarrow> stored_attempt" where
  "release_row now ev r =
     r\<lparr>sa_status := AS_released, sa_releasedToApproval := Some (re_newApprovalEventId ev),
       sa_releasedBy := Some (re_operatorId ev), sa_releaseEvidenceJson := evidenceToJson ev, sa_updatedAt := now\<rparr>"

definition new_row :: "string \<Rightarrow> resolve_input \<Rightarrow> string \<Rightarrow> int \<Rightarrow> stored_attempt" where
  "new_row operationId input authRevision now =
     \<lparr>sa_operationId = operationId, sa_logicalOrderId = ri_logicalOrderId input,
      sa_intentVersion = ri_intentVersion input, sa_requestDigest = ri_requestDigest input,
      sa_resource = ri_resource input, sa_authRevision = authRevision,
      sa_callerPaymentId = Some (ri_callerPaymentId input), sa_signedPayloadEnc = None, sa_payloadDigest = None,
      sa_payer = None, sa_blockhash = None, sa_requirementsJson = ri_requirementsJson input,
      sa_status = AS_pending, sa_txHash = None, sa_evidenceJson = JNull, sa_releaseEvidenceJson = JNull,
      sa_leaseOwner = None, sa_leaseExpiresAt = None, sa_fenceToken = None, sa_releasedToApproval = None,
      sa_releasedBy = None, sa_createdAt = now, sa_updatedAt = now\<rparr>"

definition classify :: "stored_attempt \<Rightarrow> string option \<Rightarrow> resolve_result" where
  "classify row approval =
     (if approvalMismatch (sa_authRevision row) approval
      then RR_approval_mismatch row APPROVAL_MISMATCH_DETAIL else RR_existing row)"

subsection \<open>PostgreSQL store\<close>

text \<open>
  \<open>UPDATE ... SET f WHERE operation_id = i AND P RETURNING *\<close>. The row is found by its primary
  key; a changed row that clashes with another one raises the unique violation and changes nothing.
\<close>

definition sql_update ::
  "string \<Rightarrow> (stored_attempt \<Rightarrow> bool) \<Rightarrow> (stored_attempt \<Rightarrow> stored_attempt) \<Rightarrow> settlement_db \<Rightarrow>
   (stored_attempt option \<times> settlement_db) throws" where
  "sql_update i P f db =
     (case getByOperationId i db of
        None \<Rightarrow> Inr (None, db)
      | Some r \<Rightarrow>
          if \<not> P r then Inr (None, db)
          else if unique_ok (f r) db then Inr (Some (f r), put_row (f r) db)
          else Inl ''23505'')"

definition sql_insert :: "stored_attempt \<Rightarrow> settlement_db \<Rightarrow> settlement_db throws" where
  "sql_insert r db =
     (if map_has (sa_operationId r) (db_attempts db) \<or> \<not> unique_ok r db then Inl ''23505''
      else Inr (put_row r db))"

datatype resolve_step =
    Resolve_done resolve_result
  | Resolve_open string string

text \<open>The reads of \<open>resolveOrCreate\<close>, ending in an answer or in the identity to insert.\<close>

definition pg_resolve_read :: "(string \<Rightarrow> string) \<Rightarrow> string \<Rightarrow> resolve_input \<Rightarrow> settlement_db \<Rightarrow> resolve_step" where
  "pg_resolve_read sha256 uuid input db =
     (case findByDigestPayment (ri_requestDigest input) (ri_callerPaymentId input) db of
        Some existing \<Rightarrow> Resolve_done (classify existing (ri_approvalEventId input))
      | None \<Rightarrow>
      (case js_head (sort_key sa_createdAt
              (filter (\<lambda>r. sa_callerPaymentId r = Some (ri_callerPaymentId input) \<and> \<not> resolved (sa_status r)) (rows db))) of
        Some existing \<Rightarrow> Resolve_done (classify existing (ri_approvalEventId input))
      | None \<Rightarrow>
      (case findActiveAttempt (ri_logicalOrderId input) (ri_intentVersion input) db of
        Some active \<Rightarrow> Resolve_done (classify active (ri_approvalEventId input))
      | None \<Rightarrow>
      (case findSettledAttempt (ri_logicalOrderId input) (ri_intentVersion input) (ri_requestDigest input) (ri_resource input) db of
        Some settled \<Rightarrow> Resolve_done (classify settled (ri_approvalEventId input))
      | None \<Rightarrow>
      (let openWith = (\<lambda>authRevision. Resolve_open authRevision
              (buildOperationId sha256 (ri_logicalOrderId input) (ri_intentVersion input)
                 (ri_requestDigest input) (ri_resource input) authRevision))
       in case findLatestReleased (ri_logicalOrderId input) (ri_intentVersion input) db of
            Some released \<Rightarrow>
              if \<not> truthy (ri_approvalEventId input) \<or> ri_approvalEventId input \<noteq> sa_releasedToApproval released
              then Resolve_done (RR_release_required released RELEASE_REQUIRED_DETAIL)
              else openWith (case ri_approvalEventId input of None \<Rightarrow> [] | Some a \<Rightarrow> a)
          | None \<Rightarrow> openWith (case ri_approvalEventId input of None \<Rightarrow> mintSpendAuthRevision uuid | Some a \<Rightarrow> a))))))"

text \<open>The insert with its history row, and the re-read of the winner after a unique violation.\<close>

definition pg_resolve_insert ::
  "resolve_input \<Rightarrow> string \<Rightarrow> string \<Rightarrow> int \<Rightarrow> settlement_db \<Rightarrow> (resolve_result \<times> settlement_db) throws" where
  "pg_resolve_insert input authRevision operationId now db =
     (let row = new_row operationId input authRevision now in
      case sql_insert row db of
        Inr db' \<Rightarrow>
          Inr (RR_created row, append_history
            \<lparr>hi_operationId = operationId, hi_from = AS_pending, hi_to = AS_pending, hi_trigger = ''accept-intake'',
             hi_note = ''id='' @ slice_to 12 operationId @ [CHR 0xE2, CHR 0x80, CHR 0xA6] @ '' rev='' @
               slice_to 12 authRevision @ [CHR 0xE2, CHR 0x80, CHR 0xA6], hi_leaseOwner = None\<rparr> db')
      | Inl _ \<Rightarrow>
          (let candidates =
                 [getByOperationId operationId db,
                  findByDigestPayment (ri_requestDigest input) (ri_callerPaymentId input) db] @
                 map Some (findByPaymentId (ri_callerPaymentId input) db) @
                 [findActiveAttempt (ri_logicalOrderId input) (ri_intentVersion input) db,
                  findSettledAttempt (ri_logicalOrderId input) (ri_intentVersion input) (ri_requestDigest input) (ri_resource input) db]
           in case js_find (\<lambda>c. c \<noteq> None) candidates of
                Some (Some winner) \<Rightarrow> Inr (classify winner (ri_approvalEventId input), db)
              | _ \<Rightarrow> Inl ''Unique conflict without a readable winner; retry the accept.''))"

definition pg_resolveOrCreate ::
  "(string \<Rightarrow> string) \<Rightarrow> string \<Rightarrow> int \<Rightarrow> (settlement_db \<Rightarrow> settlement_db) \<Rightarrow> resolve_input \<Rightarrow> settlement_db \<Rightarrow>
   (resolve_result \<times> settlement_db) throws" where
  "pg_resolveOrCreate sha256 uuid now others input db =
     (case pg_resolve_read sha256 uuid input db of
        Resolve_done r \<Rightarrow> Inr (r, db)
      | Resolve_open authRevision operationId \<Rightarrow> pg_resolve_insert input authRevision operationId now (others db))"

definition pg_claimForSettle ::
  "int \<Rightarrow> string \<Rightarrow> string \<Rightarrow> string \<Rightarrow> int \<Rightarrow> string option \<Rightarrow> string option \<Rightarrow> settlement_db \<Rightarrow>
   (stored_attempt option \<times> settlement_db) throws" where
  "pg_claimForSettle now fence operationId owner leaseTtlMs sealedPayload payloadDigest db =
     sql_update operationId (\<lambda>r. sa_status r = AS_pending)
       (claim_row now owner fence leaseTtlMs sealedPayload payloadDigest) db"

definition pg_revalidateForSettle ::
  "int \<Rightarrow> string \<Rightarrow> string \<Rightarrow> string \<Rightarrow> int \<Rightarrow> settlement_db \<Rightarrow> (stored_attempt option \<times> settlement_db) throws" where
  "pg_revalidateForSettle now operationId owner fenceToken leaseTtlMs db =
     sql_update operationId
       (\<lambda>r. sa_status r = AS_settling \<and> sa_leaseOwner r = Some owner \<and> sa_fenceToken r = Some fenceToken \<and>
            (case sa_leaseExpiresAt r of None \<Rightarrow> False | Some t \<Rightarrow> t > now))
       (\<lambda>r. r\<lparr>sa_leaseExpiresAt := Some (now + leaseTtlMs), sa_updatedAt := now\<rparr>) db"

definition lease_guard :: "int \<Rightarrow> attempt_state list \<Rightarrow> string option \<Rightarrow> string option \<Rightarrow> stored_attempt \<Rightarrow> bool" where
  "lease_guard now from owner fenceToken r =
     (sa_status r \<in> set from \<and>
      (owner \<noteq> None \<longrightarrow> sa_leaseOwner r = owner \<and> sa_fenceToken r = fenceToken \<and>
         (case sa_leaseExpiresAt r of None \<Rightarrow> False | Some t \<Rightarrow> t > now)))"

definition pg_transition ::
  "int \<Rightarrow> string \<Rightarrow> attempt_state list \<Rightarrow> attempt_state \<Rightarrow> attempt_update \<Rightarrow> string option \<Rightarrow> string option \<Rightarrow>
   string \<Rightarrow> string \<Rightarrow> settlement_db \<Rightarrow> (stored_attempt option \<times> settlement_db) throws" where
  "pg_transition now operationId from to u owner fenceToken trigger note db =
     (let leaseBound = (owner \<noteq> None \<or> fenceToken \<noteq> None);
          pendingStage = (from = [AS_pending] \<and> to = AS_pending)
      in if \<not> pendingStage \<and> \<not> leaseBound then Inr (None, db)
         else if leaseBound \<and> (owner = None \<or> fenceToken = None) then Inr (None, db)
         else case getByOperationId operationId db of
                None \<Rightarrow> Inr (None, db)
              | Some current \<Rightarrow>
                  if sa_status current \<notin> set from then Inr (None, db)
                  else (case sql_update operationId (lease_guard now from owner fenceToken)
                               (apply_update to u now) db of
                          Inl e \<Rightarrow> Inl e
                        | Inr (None, _) \<Rightarrow> Inr (None, db)
                        | Inr (Some row, db') \<Rightarrow>
                            Inr (Some row, append_history
                              \<lparr>hi_operationId = operationId, hi_from = sa_status current, hi_to = to,
                               hi_trigger = trigger, hi_note = note, hi_leaseOwner = owner\<rparr> db')))"

definition takeover_ok :: "int \<Rightarrow> stored_attempt \<Rightarrow> bool" where
  "takeover_ok now r =
     (sa_status r \<in> {AS_settling, AS_awaiting_evidence} \<and>
      (case sa_leaseExpiresAt r of None \<Rightarrow> True | Some t \<Rightarrow> t \<le> now))"

definition pg_claimRowForTakeover ::
  "int \<Rightarrow> string \<Rightarrow> string \<Rightarrow> string \<Rightarrow> int \<Rightarrow> settlement_db \<Rightarrow> (stored_attempt option \<times> settlement_db) throws" where
  "pg_claimRowForTakeover now fence operationId owner leaseTtlMs db =
     sql_update operationId (takeover_ok now) (lease_row now owner fence leaseTtlMs) db"

definition pg_claimForReconcile ::
  "int \<Rightarrow> string \<Rightarrow> string \<Rightarrow> int \<Rightarrow> nat \<Rightarrow> settlement_db \<Rightarrow> stored_attempt list \<times> settlement_db" where
  "pg_claimForReconcile now fence owner leaseTtlMs limit db =
     (let claimed = map (lease_row now owner fence leaseTtlMs)
            (take limit (sort_key sa_updatedAt (filter (takeover_ok now) (rows db))))
      in (claimed, foldl (\<lambda>d r. put_row r d) db claimed))"

datatype release_result = Release_ok stored_attempt | Release_refused "string list"

definition pg_releaseAttempt ::
  "int \<Rightarrow> string \<Rightarrow> release_evidence \<Rightarrow> settlement_db \<Rightarrow> (release_result \<times> settlement_db) throws" where
  "pg_releaseAttempt now operationId evidence db =
     (let (ok, reasons) = validateReleaseEvidence evidence in
      if \<not> ok then Inr (Release_refused reasons, db)
      else (case sql_update operationId
                   (\<lambda>r. sa_status r = AS_manual \<and> sa_blockhash r \<noteq> None \<and> sa_blockhash r = Some (re_blockhash evidence))
                   (release_row now evidence) db of
              Inl e \<Rightarrow> Inl e
            | Inr (Some row, db') \<Rightarrow>
                Inr (Release_ok row, append_history
                  \<lparr>hi_operationId = operationId, hi_from = AS_manual, hi_to = AS_released, hi_trigger = ''operator-release'',
                   hi_note = re_operatorId evidence @ '': '' @ re_note evidence @ '' (blockhash='' @
                     slice_to 8 (re_blockhash evidence) @ ''..., slot='' @ int_str (re_checkedSlot evidence) @
                     '', transfer='' @ transfer_verification_str (re_transferVerification evidence) @ '')'',
                   hi_leaseOwner = Some (re_operatorId evidence)\<rparr> db')
            | Inr (None, _) \<Rightarrow>
                Inr (Release_refused
                  (case getByOperationId operationId db of
                     None \<Rightarrow> [''unknown operation'']
                   | Some current \<Rightarrow>
                       if sa_status current \<noteq> AS_manual
                       then [''release requires status=manual (current: '' @ attempt_state_str (sa_status current) @ '')'']
                       else if \<not> truthy (sa_blockhash current)
                       then [''no bound blockhash on this attempt; resolve via incident track, release is refused'']
                       else [''evidence blockhash does not match the attempt's staged blockhash'']), db)))"

subsection \<open>In-memory store\<close>

definition mem_history :: "string \<Rightarrow> attempt_state \<Rightarrow> attempt_state \<Rightarrow> string \<Rightarrow> string \<Rightarrow> history_row" where
  "mem_history i f t trigger note =
     \<lparr>hi_operationId = i, hi_from = f, hi_to = t, hi_trigger = trigger, hi_note = note, hi_leaseOwner = None\<rparr>"

definition mem_findSettledAttempt :: "string \<Rightarrow> int \<Rightarrow> string \<Rightarrow> string \<Rightarrow> settlement_db \<Rightarrow> stored_attempt option" where
  "mem_findSettledAttempt orderId v digest resource db = js_find (\<lambda>r. sa_status r = AS_settled)
     (filter (\<lambda>r. sa_logicalOrderId r = orderId \<and> sa_intentVersion r = v \<and> sa_requestDigest r = digest \<and>
                  sa_resource r = resource) (rows db))"

definition mem_resolve_create ::
  "(string \<Rightarrow> string) \<Rightarrow> int \<Rightarrow> resolve_input \<Rightarrow> string \<Rightarrow> settlement_db \<Rightarrow> resolve_result \<times> settlement_db" where
  "mem_resolve_create sha256 now input authRevision db =
     (let operationId = buildOperationId sha256 (ri_logicalOrderId input) (ri_intentVersion input)
            (ri_requestDigest input) (ri_resource input) authRevision
      in case getByOperationId operationId db of
           Some existing \<Rightarrow> (RR_existing existing, db)
         | None \<Rightarrow>
             (let row = new_row operationId input authRevision now
              in (RR_created row, append_history
                    (mem_history operationId AS_pending AS_pending ''accept-intake'' (''rev='' @ slice_to 12 authRevision))
                    (put_row row db))))"

definition mem_resolveOrCreate ::
  "(string \<Rightarrow> string) \<Rightarrow> string \<Rightarrow> int \<Rightarrow> resolve_input \<Rightarrow> settlement_db \<Rightarrow> resolve_result \<times> settlement_db" where
  "mem_resolveOrCreate sha256 uuid now input db =
     (case js_find (\<lambda>r. sa_requestDigest r = ri_requestDigest input \<and>
                        sa_callerPaymentId r = Some (ri_callerPaymentId input)) (rows db) of
        Some row \<Rightarrow> (classify row (ri_approvalEventId input), db)
      | None \<Rightarrow>
      (case js_head (findByPaymentId (ri_callerPaymentId input) db) of
        Some pidRow \<Rightarrow> (classify pidRow (ri_approvalEventId input), db)
      | None \<Rightarrow>
      (case findActiveAttempt (ri_logicalOrderId input) (ri_intentVersion input) db of
        Some active \<Rightarrow> (classify active (ri_approvalEventId input), db)
      | None \<Rightarrow>
      (case mem_findSettledAttempt (ri_logicalOrderId input) (ri_intentVersion input) (ri_requestDigest input) (ri_resource input) db of
        Some settled \<Rightarrow> (classify settled (ri_approvalEventId input), db)
      | None \<Rightarrow>
      (case findLatestReleased (ri_logicalOrderId input) (ri_intentVersion input) db of
        Some released \<Rightarrow>
          if \<not> truthy (ri_approvalEventId input) \<or> ri_approvalEventId input \<noteq> sa_releasedToApproval released
          then (RR_release_required released RELEASE_REQUIRED_DETAIL, db)
          else mem_resolve_create sha256 now input (case ri_approvalEventId input of None \<Rightarrow> [] | Some a \<Rightarrow> a) db
      | None \<Rightarrow>
          mem_resolve_create sha256 now input
            (case ri_approvalEventId input of None \<Rightarrow> mintSpendAuthRevision uuid | Some a \<Rightarrow> a) db)))))"

definition mem_claimForSettle ::
  "int \<Rightarrow> string \<Rightarrow> string \<Rightarrow> string \<Rightarrow> int \<Rightarrow> string option \<Rightarrow> string option \<Rightarrow> settlement_db \<Rightarrow>
   stored_attempt option \<times> settlement_db" where
  "mem_claimForSettle now fence operationId owner leaseTtlMs sealedPayload payloadDigest db =
     (case getByOperationId operationId db of
        None \<Rightarrow> (None, db)
      | Some row \<Rightarrow>
          if sa_status row \<noteq> AS_pending then (None, db)
          else let row' = claim_row now owner fence leaseTtlMs sealedPayload payloadDigest row
               in (Some row', put_row row' db))"

definition mem_revalidateForSettle ::
  "int \<Rightarrow> string \<Rightarrow> string \<Rightarrow> string \<Rightarrow> int \<Rightarrow> settlement_db \<Rightarrow> stored_attempt option \<times> settlement_db" where
  "mem_revalidateForSettle now operationId owner fenceToken leaseTtlMs db =
     (case getByOperationId operationId db of
        None \<Rightarrow> (None, db)
      | Some row \<Rightarrow>
          if sa_status row \<noteq> AS_settling \<or> sa_leaseOwner row \<noteq> Some owner \<or> sa_fenceToken row \<noteq> Some fenceToken
          then (None, db)
          else if (case sa_leaseExpiresAt row of None \<Rightarrow> False | Some t \<Rightarrow> t \<le> now) then (None, db)
          else let row' = row\<lparr>sa_leaseExpiresAt := Some (now + leaseTtlMs), sa_updatedAt := now\<rparr>
               in (Some row', put_row row' db))"

definition mem_transition ::
  "int \<Rightarrow> string \<Rightarrow> attempt_state list \<Rightarrow> attempt_state \<Rightarrow> attempt_update \<Rightarrow> string option \<Rightarrow> string option \<Rightarrow>
   string \<Rightarrow> string \<Rightarrow> settlement_db \<Rightarrow> stored_attempt option \<times> settlement_db" where
  "mem_transition now operationId from to u owner fenceToken trigger note db =
     (case getByOperationId operationId db of
        None \<Rightarrow> (None, db)
      | Some row \<Rightarrow>
          if sa_status row \<notin> set from then (None, db)
          else if owner \<noteq> None \<and> sa_leaseOwner row \<noteq> owner then (None, db)
          else if fenceToken \<noteq> None \<and> sa_fenceToken row \<noteq> fenceToken then (None, db)
          else let row' = apply_update to u now row
               in (Some row', append_history (mem_history operationId (sa_status row) to trigger note) (put_row row' db)))"

definition mem_claimRowForTakeover ::
  "int \<Rightarrow> string \<Rightarrow> string \<Rightarrow> string \<Rightarrow> int \<Rightarrow> settlement_db \<Rightarrow> stored_attempt option \<times> settlement_db" where
  "mem_claimRowForTakeover now fence operationId owner leaseTtlMs db =
     (case getByOperationId operationId db of
        None \<Rightarrow> (None, db)
      | Some row \<Rightarrow>
          if sa_status row \<notin> {AS_settling, AS_awaiting_evidence} then (None, db)
          else if (case sa_leaseExpiresAt row of None \<Rightarrow> False | Some t \<Rightarrow> t > now) then (None, db)
          else let row' = lease_row now owner fence leaseTtlMs row in (Some row', put_row row' db))"

fun mem_reconcile_loop ::
  "int \<Rightarrow> (nat \<Rightarrow> string) \<Rightarrow> string \<Rightarrow> int \<Rightarrow> nat \<Rightarrow> stored_attempt list \<Rightarrow> stored_attempt list \<Rightarrow> settlement_db \<Rightarrow>
   stored_attempt list \<times> settlement_db" where
  "mem_reconcile_loop now fences owner leaseTtlMs limit [] claimed db = (claimed, db)"
| "mem_reconcile_loop now fences owner leaseTtlMs limit (row # rest) claimed db =
     (if length claimed \<ge> limit then (claimed, db)
      else if sa_status row \<notin> {AS_settling, AS_awaiting_evidence}
      then mem_reconcile_loop now fences owner leaseTtlMs limit rest claimed db
      else if (case sa_leaseExpiresAt row of None \<Rightarrow> False | Some t \<Rightarrow> t > now)
      then mem_reconcile_loop now fences owner leaseTtlMs limit rest claimed db
      else let row' = lease_row now owner (fences (length claimed)) leaseTtlMs row
           in mem_reconcile_loop now fences owner leaseTtlMs limit rest (claimed @ [row']) (put_row row' db))"

definition mem_claimForReconcile ::
  "int \<Rightarrow> (nat \<Rightarrow> string) \<Rightarrow> string \<Rightarrow> int \<Rightarrow> nat \<Rightarrow> settlement_db \<Rightarrow> stored_attempt list \<times> settlement_db" where
  "mem_claimForReconcile now fences owner leaseTtlMs limit db =
     mem_reconcile_loop now fences owner leaseTtlMs limit (sort_key sa_updatedAt (rows db)) [] db"

definition mem_releaseAttempt ::
  "int \<Rightarrow> string \<Rightarrow> release_evidence \<Rightarrow> settlement_db \<Rightarrow> release_result \<times> settlement_db" where
  "mem_releaseAttempt now operationId evidence db =
     (let (ok, reasons) = validateReleaseEvidence evidence in
      if \<not> ok then (Release_refused reasons, db)
      else case getByOperationId operationId db of
             None \<Rightarrow> (Release_refused [''release requires status=manual (current: unknown)''], db)
           | Some row \<Rightarrow>
               if sa_status row \<noteq> AS_manual
               then (Release_refused [''release requires status=manual (current: '' @ attempt_state_str (sa_status row) @ '')''], db)
               else if \<not> truthy (sa_blockhash row)
               then (Release_refused [''no bound blockhash on this attempt; resolve via incident track, release is refused''], db)
               else if sa_blockhash row \<noteq> Some (re_blockhash evidence)
               then (Release_refused [''evidence blockhash does not match the attempt's staged blockhash''], db)
               else let row' = release_row now evidence row
                    in (Release_ok row', append_history
                          (mem_history operationId AS_manual AS_released ''operator-release''
                             (re_operatorId evidence @ '': '' @ re_note evidence)) (put_row row' db)))"

subsection \<open>Boot gate\<close>

record settlement_store_config =
  sc_databaseUrl :: "string option"
  sc_encKeyHex :: "string option"
  sc_devnet :: bool
  sc_nodeEnv :: "string option"
  sc_settlementEnabled :: "bool option"

datatype store_backing = Backing_postgres | Backing_memory

definition assertSettlementStoreAllowed :: "settlement_store_config \<Rightarrow> store_backing throws" where
  "assertSettlementStoreAllowed config =
     (if sc_settlementEnabled config = Some False
      then Inl ''x402 settlement is disabled by operator kill-switch.''
      else if sc_devnet config \<or> sc_nodeEnv config = Some ''production''
      then (if \<not> truthy (sc_databaseUrl config)
            then Inl ''PostgreSQL DATABASE_URL is required for x402 devnet/production settlement.''
            else (case parseEncryptionKey (sc_encKeyHex config) of Inl e \<Rightarrow> Inl e | Inr _ \<Rightarrow> Inr Backing_postgres))
      else Inr Backing_memory)"

subsection \<open>Table invariant\<close>

definition db_inv :: "settlement_db \<Rightarrow> bool" where
  "db_inv db =
     (distinct (map fst (db_attempts db)) \<and>
      (\<forall>kr \<in> set (db_attempts db). sa_operationId (snd kr) = fst kr) \<and>
      (\<forall>a \<in> set (rows db). \<forall>b \<in> set (rows db). sa_operationId a \<noteq> sa_operationId b \<longrightarrow> \<not> rows_clash a b))"

lemma db_inv_no_clash:
  "db_inv db \<Longrightarrow> a \<in> set (rows db) \<Longrightarrow> b \<in> set (rows db) \<Longrightarrow> sa_operationId a \<noteq> sa_operationId b \<Longrightarrow> \<not> rows_clash a b"
  by (auto simp: db_inv_def)

lemma rows_clash_sym: "rows_clash a b \<Longrightarrow> rows_clash b a"
  by (auto simp: rows_clash_def)

lemma get_put_row [simp, store_simps]:
  "getByOperationId i (put_row r db) = (if i = sa_operationId r then Some r else getByOperationId i db)"
  by (simp add: getByOperationId_def put_row_def)

lemma get_append_history [simp, store_simps]: "getByOperationId i (append_history h db) = getByOperationId i db"
  by (simp add: getByOperationId_def append_history_def)

lemma rows_append_history [simp]: "rows (append_history h db) = rows db"
  by (simp add: rows_def append_history_def)

lemma db_inv_append_history [simp]: "db_inv (append_history h db) = db_inv db"
  by (simp add: db_inv_def rows_def append_history_def)

lemma get_in_rows:
  assumes "db_inv db" "getByOperationId i db = Some r"
  shows "r \<in> set (rows db) \<and> sa_operationId r = i"
proof -
  have "(i, r) \<in> set (db_attempts db)"
    using assms(2) by (simp add: getByOperationId_def map_get_in_set)
  then show ?thesis using assms(1) by (force simp: db_inv_def rows_def)
qed

lemma rows_get:
  assumes "db_inv db" "r \<in> set (rows db)"
  shows "getByOperationId (sa_operationId r) db = Some r"
proof -
  from assms(2) obtain k where k: "(k, r) \<in> set (db_attempts db)" by (auto simp: rows_def)
  with assms(1) have "sa_operationId r = k" by (force simp: db_inv_def)
  with k assms(1) show ?thesis by (simp add: getByOperationId_def map_get_def db_inv_def)
qed

lemma map_set_key_value:
  "\<forall>kr \<in> set m. sa_operationId (snd kr) = fst kr \<Longrightarrow>
   \<forall>kr \<in> set (map_set (sa_operationId r) r m). sa_operationId (snd kr) = fst kr"
  unfolding map_set_def by (induction m) auto

lemma map_set_values:
  "distinct (map fst m) \<Longrightarrow> (k', v') \<in> set (map_set k v m) \<Longrightarrow> (k', v') = (k, v) \<or> ((k', v') \<in> set m \<and> k' \<noteq> k)"
  unfolding map_set_def by (induction m) (auto split: if_splits intro: rev_image_eqI)

lemma rows_put_row:
  assumes "db_inv db" "x \<in> set (rows (put_row r db))"
  shows "x = r \<or> (x \<in> set (rows db) \<and> sa_operationId x \<noteq> sa_operationId r)"
proof -
  from assms(2) obtain k where "(k, x) \<in> set (map_set (sa_operationId r) r (db_attempts db))"
    by (auto simp: rows_def put_row_def)
  with assms(1) have "(k, x) = (sa_operationId r, r) \<or> ((k, x) \<in> set (db_attempts db) \<and> k \<noteq> sa_operationId r)"
    by (auto simp: db_inv_def dest: map_set_values)
  then show ?thesis using assms(1) by (force simp: db_inv_def rows_def)
qed

lemma db_inv_put_row:
  assumes "db_inv db" "unique_ok r db" shows "db_inv (put_row r db)"
proof -
  have "\<not> rows_clash a b"
    if "a \<in> set (rows (put_row r db))" "b \<in> set (rows (put_row r db))" "sa_operationId a \<noteq> sa_operationId b" for a b
    using rows_put_row [OF assms(1) that(1)] rows_put_row [OF assms(1) that(2)] that(3) assms
    by (auto simp: unique_ok_def list_all_iff db_inv_def dest: rows_clash_sym)
  moreover have "distinct (map fst (db_attempts (put_row r db)))"
    using assms(1) by (simp add: put_row_def db_inv_def distinct_map_set)
  moreover have "\<forall>kr \<in> set (db_attempts (put_row r db)). sa_operationId (snd kr) = fst kr"
    using assms(1) map_set_key_value by (auto simp: put_row_def db_inv_def)
  ultimately show ?thesis unfolding db_inv_def by blast
qed

text \<open>A change that keeps the indexed columns and does not reactivate a resolved row is always allowed.\<close>

definition index_safe :: "stored_attempt \<Rightarrow> stored_attempt \<Rightarrow> bool" where
  "index_safe r r' =
     (sa_operationId r' = sa_operationId r \<and> sa_requestDigest r' = sa_requestDigest r \<and>
      sa_callerPaymentId r' = sa_callerPaymentId r \<and> sa_logicalOrderId r' = sa_logicalOrderId r \<and>
      sa_intentVersion r' = sa_intentVersion r \<and> (resolved (sa_status r) \<longrightarrow> resolved (sa_status r')))"

lemma unique_ok_index_safe:
  assumes "db_inv db" "getByOperationId i db = Some r" "index_safe r r'"
  shows "unique_ok r' db"
proof -
  have "r \<in> set (rows db)" using get_in_rows assms by blast
  then have "\<not> rows_clash r x" if "x \<in> set (rows db)" "sa_operationId x \<noteq> sa_operationId r" for x
    using assms(1) that by (auto simp: db_inv_def)
  moreover have "rows_clash r' x \<Longrightarrow> rows_clash r x" for x
    using assms(3) by (auto simp: rows_clash_def index_safe_def)
  ultimately show ?thesis using assms(3) by (auto simp: unique_ok_def list_all_iff index_safe_def)
qed

lemma lease_row_safe: "index_safe r (lease_row now owner fence ttl r)"
  by (simp add: index_safe_def lease_row_def)

lemma claim_row_safe: "sa_status r = AS_pending \<Longrightarrow> index_safe r (claim_row now owner fence ttl s d r)"
  by (simp add: index_safe_def claim_row_def lease_row_def)

lemma refresh_safe: "index_safe r (r\<lparr>sa_leaseExpiresAt := x, sa_updatedAt := now\<rparr>)"
  by (simp add: index_safe_def)

lemma release_row_safe: "index_safe r (release_row now ev r)"
  by (simp add: index_safe_def release_row_def)

lemma sql_update_cases:
  "sql_update i P f db = Inr (x, db') \<Longrightarrow>
   (x = None \<and> db' = db \<and> (\<forall>r. getByOperationId i db = Some r \<longrightarrow> \<not> P r)) \<or>
   (\<exists>r. getByOperationId i db = Some r \<and> P r \<and> unique_ok (f r) db \<and> x = Some (f r) \<and> db' = put_row (f r) db)"
  by (auto simp: sql_update_def split: option.splits if_splits)

lemma sql_update_inv: "db_inv db \<Longrightarrow> sql_update i P f db = Inr (x, db') \<Longrightarrow> db_inv db'"
  by (auto dest!: sql_update_cases intro: db_inv_put_row)

lemma sql_insert_inv: "db_inv db \<Longrightarrow> sql_insert r db = Inr db' \<Longrightarrow> db_inv db'"
  by (auto simp: sql_insert_def intro: db_inv_put_row split: if_splits)

lemma sql_update_total:
  assumes "db_inv db" "\<And>r. getByOperationId i db = Some r \<Longrightarrow> P r \<Longrightarrow> index_safe r (f r)"
  shows "sql_update i P f db =
    (case getByOperationId i db of
       None \<Rightarrow> Inr (None, db)
     | Some r \<Rightarrow> if P r then Inr (Some (f r), put_row (f r) db) else Inr (None, db))"
  using assms unique_ok_index_safe [OF assms(1)] by (auto simp: sql_update_def split: option.splits)

subsection \<open>What a worker relies on\<close>

text \<open>
  The lease discipline of a settlement store. Each call yields the changed row, or \<open>None\<close> with the
  store unchanged, or throws with the store unchanged.
\<close>

locale settlement_lease =
  fixes get :: "string \<Rightarrow> 'db \<Rightarrow> stored_attempt option"
    and invar :: "'db \<Rightarrow> bool"
    and claim :: "int \<Rightarrow> string \<Rightarrow> string \<Rightarrow> string \<Rightarrow> int \<Rightarrow> string option \<Rightarrow> string option \<Rightarrow> 'db \<Rightarrow>
                  (stored_attempt option \<times> 'db) throws"
    and revalidate :: "int \<Rightarrow> string \<Rightarrow> string \<Rightarrow> string \<Rightarrow> int \<Rightarrow> 'db \<Rightarrow> (stored_attempt option \<times> 'db) throws"
    and transition :: "int \<Rightarrow> string \<Rightarrow> attempt_state list \<Rightarrow> attempt_state \<Rightarrow> attempt_update \<Rightarrow> string option \<Rightarrow>
                       string option \<Rightarrow> string \<Rightarrow> string \<Rightarrow> 'db \<Rightarrow> (stored_attempt option \<times> 'db) throws"
    and takeover :: "int \<Rightarrow> string \<Rightarrow> string \<Rightarrow> string \<Rightarrow> int \<Rightarrow> 'db \<Rightarrow> (stored_attempt option \<times> 'db) throws"
  assumes claim_law: "invar db \<Longrightarrow> claim now fence i owner ttl s d db = Inr (Some r', db') \<Longrightarrow>
      invar db' \<and> (\<exists>r. get i db = Some r \<and> sa_status r = AS_pending \<and> r' = claim_row now owner fence ttl s d r) \<and>
      (\<forall>j. get j db' = (if j = i then Some r' else get j db))"
    and claim_refused: "invar db \<Longrightarrow> claim now fence i owner ttl s d db = Inr (None, db') \<Longrightarrow>
      db' = db \<and> (\<forall>r. get i db = Some r \<longrightarrow> sa_status r \<noteq> AS_pending)"
    and claim_returns: "invar db \<Longrightarrow> \<exists>x. claim now fence i owner ttl s d db = Inr x"
    and revalidate_law: "invar db \<Longrightarrow> revalidate now i owner f ttl db = Inr (Some r', db') \<Longrightarrow>
      (\<exists>r. get i db = Some r \<and> sa_status r = AS_settling \<and> sa_leaseOwner r = Some owner \<and> sa_fenceToken r = Some f \<and>
           (\<forall>t. sa_leaseExpiresAt r = Some t \<longrightarrow> now < t))"
    and transition_law: "invar db \<Longrightarrow> transition now i from to u (Some owner) (Some f) trig note db = Inr (Some r', db') \<Longrightarrow>
      (\<exists>r. get i db = Some r \<and> sa_status r \<in> set from \<and> sa_leaseOwner r = Some owner \<and> sa_fenceToken r = Some f \<and>
           r' = apply_update to u now r)"
    and takeover_law: "invar db \<Longrightarrow> takeover now fence i owner ttl db = Inr (Some r', db') \<Longrightarrow>
      invar db' \<and> (\<exists>r. get i db = Some r \<and> takeover_ok now r \<and> r' = lease_row now owner fence ttl r) \<and>
      (\<forall>j. get j db' = (if j = i then Some r' else get j db))"
begin

lemma single_winner:
  assumes "invar db" "claim now fence i owner ttl s d db = Inr (Some r, db1)"
  shows "claim now' fence' i owner' ttl' s' d' db1 = Inr (None, db1)"
proof -
  from claim_law [OF assms] have inv1: "invar db1" and r: "get i db1 = Some r" "sa_status r = AS_settling"
    by (auto simp: claim_row_def lease_row_def)
  obtain x db2 where x: "claim now' fence' i owner' ttl' s' d' db1 = Inr (x, db2)"
    using claim_returns [OF inv1, of now' fence' i owner' ttl' s' d'] by auto
  show ?thesis
  proof (cases x)
    case None
    with x claim_refused [OF inv1] show ?thesis by blast
  next
    case (Some r2)
    with x claim_law [OF inv1] r show ?thesis by fastforce
  qed
qed

lemma stale_worker:
  assumes "invar db" "takeover now fence i owner ttl db = Inr (Some r, db1)" "old \<noteq> fence"
  shows "\<not> (\<exists>r' db2. revalidate now' i w old ttl' db1 = Inr (Some r', db2))"
    and "\<not> (\<exists>r' db2. transition now' i from to u (Some w) (Some old) trig note db1 = Inr (Some r', db2))"
proof -
  from takeover_law [OF assms(1,2)] have inv1: "invar db1" and r: "get i db1 = Some r" "sa_fenceToken r = Some fence"
    by (auto simp: lease_row_def)
  show "\<not> (\<exists>r' db2. revalidate now' i w old ttl' db1 = Inr (Some r', db2))"
    using revalidate_law [OF inv1] r assms(3) by fastforce
  show "\<not> (\<exists>r' db2. transition now' i from to u (Some w) (Some old) trig note db1 = Inr (Some r', db2))"
    using transition_law [OF inv1] r assms(3) by fastforce
qed

lemma takeover_needs_expiry:
  assumes "invar db" "claim now fence i owner ttl s d db = Inr (Some r, db1)" "now' < now + ttl"
  shows "\<not> (\<exists>r' db2. takeover now' fence' i owner' ttl' db1 = Inr (Some r', db2))"
proof -
  from claim_law [OF assms(1,2)] have "invar db1" "get i db1 = Some r" "sa_leaseExpiresAt r = Some (now + ttl)"
    by (auto simp: claim_row_def lease_row_def)
  then show ?thesis using takeover_law [of db1 now' fence' i owner' ttl'] assms(3)
    by (fastforce simp: takeover_ok_def)
qed

end

lemma put_row_get_law:
  assumes "db_inv db" "getByOperationId i db = Some r" "index_safe r r'"
  shows "db_inv (put_row r' db) \<and> (\<forall>j. getByOperationId j (put_row r' db) = (if j = i then Some r' else getByOperationId j db))"
  using db_inv_put_row [OF assms(1) unique_ok_index_safe [OF assms]] get_in_rows [OF assms(1,2)] assms(3)
  by (auto simp: index_safe_def)

lemma pg_transition_cases:
  assumes "pg_transition now i from to u owner f trig note db = Inr (x, db')"
  shows "(x = None \<and> db' = db) \<or>
    (\<exists>r h. getByOperationId i db = Some r \<and> lease_guard now from owner f r \<and>
      ((from = [AS_pending] \<and> to = AS_pending \<and> owner = None) \<or> (owner \<noteq> None \<and> f \<noteq> None)) \<and>
      unique_ok (apply_update to u now r) db \<and> x = Some (apply_update to u now r) \<and>
      db' = append_history h (put_row (apply_update to u now r) db) \<and>
      h = \<lparr>hi_operationId = i, hi_from = sa_status r, hi_to = to, hi_trigger = trig, hi_note = note, hi_leaseOwner = owner\<rparr>)"
proof (cases "sql_update i (lease_guard now from owner f) (apply_update to u now) db")
  case (Inl e)
  with assms show ?thesis by (auto simp: pg_transition_def Let_def split: option.splits if_splits)
next
  case (Inr y)
  obtain z d where y: "y = (z, d)" by (cases y)
  from sql_update_cases [OF Inr [unfolded y]] show ?thesis
  proof
    assume "z = None \<and> d = db \<and> (\<forall>r. getByOperationId i db = Some r \<longrightarrow> \<not> lease_guard now from owner f r)"
    with assms Inr y show ?thesis by (auto simp: pg_transition_def Let_def split: option.splits if_splits)
  next
    assume "\<exists>r. getByOperationId i db = Some r \<and> lease_guard now from owner f r \<and> unique_ok (apply_update to u now r) db \<and>
        z = Some (apply_update to u now r) \<and> d = put_row (apply_update to u now r) db"
    with assms Inr y show ?thesis by (auto simp: pg_transition_def Let_def split: if_splits)
  qed
qed

interpretation pg_lease: settlement_lease getByOperationId db_inv pg_claimForSettle pg_revalidateForSettle
  pg_transition pg_claimRowForTakeover
proof unfold_locales
  fix db :: settlement_db and now :: int and fence i owner ttl s d r' db'
  assume inv: "db_inv db" and op: "pg_claimForSettle now fence i owner ttl s d db = Inr (Some r', db')"
  from sql_update_cases [OF op [unfolded pg_claimForSettle_def]] obtain r where
    r: "getByOperationId i db = Some r" "sa_status r = AS_pending" "r' = claim_row now owner fence ttl s d r" "db' = put_row r' db"
    by auto
  with put_row_get_law [OF inv r(1) claim_row_safe [OF r(2)]]
  show "db_inv db' \<and> (\<exists>r. getByOperationId i db = Some r \<and> sa_status r = AS_pending \<and> r' = claim_row now owner fence ttl s d r) \<and>
      (\<forall>j. getByOperationId j db' = (if j = i then Some r' else getByOperationId j db))" by simp
next
  fix db :: settlement_db and now :: int and fence i owner ttl s d db'
  assume "db_inv db" and op: "pg_claimForSettle now fence i owner ttl s d db = Inr (None, db')"
  from sql_update_cases [OF op [unfolded pg_claimForSettle_def]]
  show "db' = db \<and> (\<forall>r. getByOperationId i db = Some r \<longrightarrow> sa_status r \<noteq> AS_pending)" by auto
next
  fix db :: settlement_db and now :: int and fence i owner ttl s d
  assume inv: "db_inv db"
  show "\<exists>x. pg_claimForSettle now fence i owner ttl s d db = Inr x"
    unfolding pg_claimForSettle_def
    by (subst sql_update_total [OF inv]) (auto simp: claim_row_safe split: option.splits)
next
  fix db :: settlement_db and now :: int and i owner f ttl r' db'
  assume "db_inv db" and op: "pg_revalidateForSettle now i owner f ttl db = Inr (Some r', db')"
  from sql_update_cases [OF op [unfolded pg_revalidateForSettle_def]]
  show "\<exists>r. getByOperationId i db = Some r \<and> sa_status r = AS_settling \<and> sa_leaseOwner r = Some owner \<and>
      sa_fenceToken r = Some f \<and> (\<forall>t. sa_leaseExpiresAt r = Some t \<longrightarrow> now < t)"
    by (auto split: option.splits)
next
  fix db :: settlement_db and now :: int and i frm to u owner f trig nt r' db'
  assume "db_inv db" and "pg_transition now i frm to u (Some owner) (Some f) trig nt db = Inr (Some r', db')"
  from pg_transition_cases [OF this(2)]
  show "\<exists>r. getByOperationId i db = Some r \<and> sa_status r \<in> set frm \<and> sa_leaseOwner r = Some owner \<and>
      sa_fenceToken r = Some f \<and> r' = apply_update to u now r"
    by (auto simp: lease_guard_def)
next
  fix db :: settlement_db and now :: int and fence i owner ttl r' db'
  assume inv: "db_inv db" and op: "pg_claimRowForTakeover now fence i owner ttl db = Inr (Some r', db')"
  from sql_update_cases [OF op [unfolded pg_claimRowForTakeover_def]] obtain r where
    r: "getByOperationId i db = Some r" "takeover_ok now r" "r' = lease_row now owner fence ttl r" "db' = put_row r' db"
    by auto
  with put_row_get_law [OF inv r(1) lease_row_safe]
  show "db_inv db' \<and> (\<exists>r. getByOperationId i db = Some r \<and> takeover_ok now r \<and> r' = lease_row now owner fence ttl r) \<and>
      (\<forall>j. getByOperationId j db' = (if j = i then Some r' else getByOperationId j db))" by auto
qed

text \<open>The in-memory store offers the same discipline; its calls never throw.\<close>

interpretation mem_lease: settlement_lease getByOperationId db_inv
  "\<lambda>now fence i owner ttl s d db. Inr (mem_claimForSettle now fence i owner ttl s d db)"
  "\<lambda>now i owner f ttl db. Inr (mem_revalidateForSettle now i owner f ttl db)"
  "\<lambda>now i from to u owner f trig note db. Inr (mem_transition now i from to u owner f trig note db)"
  "\<lambda>now fence i owner ttl db. Inr (mem_claimRowForTakeover now fence i owner ttl db)"
proof unfold_locales
  fix db :: settlement_db and now :: int and fence i owner ttl s d r' db'
  assume inv: "db_inv db" and op: "Inr (mem_claimForSettle now fence i owner ttl s d db) = (Inr (Some r', db') :: _ throws)"
  then obtain r where
    r: "getByOperationId i db = Some r" "sa_status r = AS_pending" "r' = claim_row now owner fence ttl s d r" "db' = put_row r' db"
    by (auto simp: mem_claimForSettle_def Let_def split: option.splits if_splits)
  with put_row_get_law [OF inv r(1) claim_row_safe [OF r(2)]]
  show "db_inv db' \<and> (\<exists>r. getByOperationId i db = Some r \<and> sa_status r = AS_pending \<and> r' = claim_row now owner fence ttl s d r) \<and>
      (\<forall>j. getByOperationId j db' = (if j = i then Some r' else getByOperationId j db))" by simp
next
  fix db :: settlement_db and now :: int and fence i owner ttl s d db'
  assume "Inr (mem_claimForSettle now fence i owner ttl s d db) = (Inr (None, db') :: _ throws)"
  then show "db' = db \<and> (\<forall>r. getByOperationId i db = Some r \<longrightarrow> sa_status r \<noteq> AS_pending)"
    by (auto simp: mem_claimForSettle_def Let_def split: option.splits if_splits)
next
  fix db :: settlement_db and now :: int and fence i owner ttl s d
  show "\<exists>x. Inr (mem_claimForSettle now fence i owner ttl s d db) = (Inr x :: _ throws)" by simp
next
  fix db :: settlement_db and now :: int and i owner f ttl r' db'
  assume "Inr (mem_revalidateForSettle now i owner f ttl db) = (Inr (Some r', db') :: _ throws)"
  then show "\<exists>r. getByOperationId i db = Some r \<and> sa_status r = AS_settling \<and> sa_leaseOwner r = Some owner \<and>
      sa_fenceToken r = Some f \<and> (\<forall>t. sa_leaseExpiresAt r = Some t \<longrightarrow> now < t)"
    by (auto simp: mem_revalidateForSettle_def Let_def split: option.splits if_splits)
next
  fix db :: settlement_db and now :: int and i frm to u owner f trig nt r' db'
  assume "Inr (mem_transition now i frm to u (Some owner) (Some f) trig nt db) = (Inr (Some r', db') :: _ throws)"
  then show "\<exists>r. getByOperationId i db = Some r \<and> sa_status r \<in> set frm \<and> sa_leaseOwner r = Some owner \<and>
      sa_fenceToken r = Some f \<and> r' = apply_update to u now r"
    by (auto simp: mem_transition_def Let_def split: option.splits if_splits)
next
  fix db :: settlement_db and now :: int and fence i owner ttl r' db'
  assume inv: "db_inv db" and op: "Inr (mem_claimRowForTakeover now fence i owner ttl db) = (Inr (Some r', db') :: _ throws)"
  then obtain r where
    r: "getByOperationId i db = Some r" "takeover_ok now r" "r' = lease_row now owner fence ttl r" "db' = put_row r' db"
    by (auto simp: mem_claimRowForTakeover_def takeover_ok_def Let_def not_less split: option.splits if_splits)
  with put_row_get_law [OF inv r(1) lease_row_safe]
  show "db_inv db' \<and> (\<exists>r. getByOperationId i db = Some r \<and> takeover_ok now r \<and> r' = lease_row now owner fence ttl r) \<and>
      (\<forall>j. getByOperationId j db' = (if j = i then Some r' else getByOperationId j db))" by auto
qed

subsection \<open>Runs of the PostgreSQL store\<close>

text \<open>One statement of some worker; a statement that throws is rolled back.\<close>

datatype store_call =
    Call_insert resolve_input string string int
  | Call_claim int string string string int "string option" "string option"
  | Call_revalidate int string string string int
  | Call_transition int string "attempt_state list" attempt_state attempt_update "string option" "string option" string string
  | Call_takeover int string string string int
  | Call_reconcile int string string int nat
  | Call_release int string release_evidence

definition settle_throws :: "('a \<times> settlement_db) throws \<Rightarrow> settlement_db \<Rightarrow> settlement_db" where
  "settle_throws res db = (case res of Inl _ \<Rightarrow> db | Inr (_, db') \<Rightarrow> db')"

fun pg_exec :: "store_call \<Rightarrow> settlement_db \<Rightarrow> settlement_db" where
  "pg_exec (Call_insert input auth i now) db = settle_throws (pg_resolve_insert input auth i now db) db"
| "pg_exec (Call_claim now fence i owner ttl s d) db = settle_throws (pg_claimForSettle now fence i owner ttl s d db) db"
| "pg_exec (Call_revalidate now i owner f ttl) db = settle_throws (pg_revalidateForSettle now i owner f ttl db) db"
| "pg_exec (Call_transition now i from to u owner f trig note) db =
     settle_throws (pg_transition now i from to u owner f trig note db) db"
| "pg_exec (Call_takeover now fence i owner ttl) db = settle_throws (pg_claimRowForTakeover now fence i owner ttl db) db"
| "pg_exec (Call_reconcile now fence owner ttl limit) db = snd (pg_claimForReconcile now fence owner ttl limit db)"
| "pg_exec (Call_release now i ev) db = settle_throws (pg_releaseAttempt now i ev db) db"

definition empty_db :: settlement_db where
  "empty_db = \<lparr>db_attempts = [], db_history = []\<rparr>"

inductive pg_reachable :: "settlement_db \<Rightarrow> bool" where
  reach_empty: "pg_reachable empty_db"
| reach_call: "pg_reachable db \<Longrightarrow> pg_reachable (pg_exec call db)"

lemma db_inv_empty: "db_inv empty_db"
  by (simp add: db_inv_def empty_db_def rows_def)

text \<open>Every row change of the store keeps identity, order, intent, request and authorization of a row.\<close>

definition same_identity :: "stored_attempt \<Rightarrow> stored_attempt \<Rightarrow> bool" where
  "same_identity r r' =
     (sa_operationId r' = sa_operationId r \<and> sa_logicalOrderId r' = sa_logicalOrderId r \<and>
      sa_intentVersion r' = sa_intentVersion r \<and> sa_requestDigest r' = sa_requestDigest r \<and>
      sa_resource r' = sa_resource r \<and> sa_authRevision r' = sa_authRevision r \<and> sa_createdAt r' = sa_createdAt r)"

lemma same_identity_rows:
  "same_identity r (lease_row now owner fence ttl r)" "same_identity r (claim_row now owner fence ttl s d r)"
  "same_identity r (apply_update to u now r)" "same_identity r (release_row now ev r)"
  "same_identity r (r\<lparr>sa_leaseExpiresAt := x, sa_updatedAt := now\<rparr>)" "same_identity r r"
  by (simp_all add: same_identity_def lease_row_def claim_row_def apply_update_def release_row_def)

lemma reconcile_fold:
  assumes "db_inv db" "\<forall>y \<in> set claimed. \<exists>x \<in> set (rows db). Q x \<and> y = lease_row now owner fence ttl x"
    "distinct (map sa_operationId claimed)"
  shows "db_inv (foldl (\<lambda>d r. put_row r d) db claimed) \<and>
    (\<forall>i. getByOperationId i (foldl (\<lambda>d r. put_row r d) db claimed) = getByOperationId i db \<or>
      (\<exists>r. getByOperationId i db = Some r \<and> Q r \<and>
        getByOperationId i (foldl (\<lambda>d r. put_row r d) db claimed) = Some (lease_row now owner fence ttl r)))"
  using assms
proof (induction claimed arbitrary: db)
  case (Cons r' rest)
  then obtain r where r: "r \<in> set (rows db)" "Q r" "r' = lease_row now owner fence ttl r" by auto
  then have get: "getByOperationId (sa_operationId r) db = Some r" using rows_get Cons.prems(1) by blast
  have op: "sa_operationId r' = sa_operationId r" using r by (simp add: lease_row_def)
  have put: "db_inv (put_row r' db)"
    "getByOperationId j (put_row r' db) = (if j = sa_operationId r' then Some r' else getByOperationId j db)" for j
    using put_row_get_law [OF Cons.prems(1) get lease_row_safe] r(3) op by auto
  have keep: "getByOperationId (sa_operationId x) (put_row r' db) = getByOperationId (sa_operationId x) db"
    if "lease_row now owner fence ttl x \<in> set rest" for x
    using Cons.prems(3) imageI [OF that, of sa_operationId] by (auto simp: put lease_row_def)
  have "\<exists>x \<in> set (rows (put_row r' db)). Q x \<and> y = lease_row now owner fence ttl x" if y: "y \<in> set rest" for y
  proof -
    from Cons.prems(2) y obtain x where x: "x \<in> set (rows db)" "Q x" "y = lease_row now owner fence ttl x" by auto
    have "getByOperationId (sa_operationId x) (put_row r' db) = Some x"
      using keep [of x] rows_get [OF Cons.prems(1) x(1)] x y by simp
    with get_in_rows [OF put(1) this] x show ?thesis by blast
  qed
  moreover have "distinct (map sa_operationId rest)" using Cons.prems(3) by simp
  ultimately have IH: "db_inv (foldl (\<lambda>d r. put_row r d) (put_row r' db) rest)"
    "getByOperationId i (foldl (\<lambda>d r. put_row r d) (put_row r' db) rest) = getByOperationId i (put_row r' db) \<or>
     (\<exists>r. getByOperationId i (put_row r' db) = Some r \<and> Q r \<and>
        getByOperationId i (foldl (\<lambda>d r. put_row r d) (put_row r' db) rest) = Some (lease_row now owner fence ttl r))" for i
    using Cons.IH [OF put(1)] by blast+
  have twice: "lease_row now owner fence ttl r' = r'" using r(3) by (simp add: lease_row_def)
  have "getByOperationId i (foldl (\<lambda>d r. put_row r d) (put_row r' db) rest) = getByOperationId i db \<or>
      (\<exists>r. getByOperationId i db = Some r \<and> Q r \<and>
        getByOperationId i (foldl (\<lambda>d r. put_row r d) (put_row r' db) rest) = Some (lease_row now owner fence ttl r))" for i
  proof (cases "i = sa_operationId r'")
    case True
    then show ?thesis using IH(2) [of i] put(2) [of i] get op r twice by auto
  next
    case False
    then show ?thesis using IH(2) [of i] put(2) [of i] by simp
  qed
  with IH(1) show ?case by simp
qed simp

lemma distinct_rows: "db_inv db \<Longrightarrow> distinct (map sa_operationId (rows db))"
proof -
  assume inv: "db_inv db"
  then have "map sa_operationId (rows db) = map fst (db_attempts db)"
    by (auto simp: rows_def db_inv_def)
  with inv show ?thesis by (simp add: db_inv_def)
qed

lemma reconcile_step:
  assumes inv: "db_inv db" and op: "pg_claimForReconcile now fence owner ttl limit db = (claimed, db')"
  shows "db_inv db' \<and> (\<forall>i. getByOperationId i db' = getByOperationId i db \<or>
    (\<exists>r. getByOperationId i db = Some r \<and> takeover_ok now r \<and> getByOperationId i db' = Some (lease_row now owner fence ttl r)))"
proof -
  let ?cand = "sort_key sa_updatedAt (filter (takeover_ok now) (rows db))"
  have c: "claimed = map (lease_row now owner fence ttl) (take limit ?cand)"
    "db' = foldl (\<lambda>d r. put_row r d) db claimed"
    using op by (auto simp: pg_claimForReconcile_def Let_def)
  have "x \<in> set (take limit ?cand) \<Longrightarrow> x \<in> set (rows db) \<and> takeover_ok now x" for x
    using set_take_subset [of limit ?cand] by auto
  then have all: "\<forall>y \<in> set claimed. \<exists>x \<in> set (rows db). takeover_ok now x \<and> y = lease_row now owner fence ttl x"
    unfolding c(1) set_map by blast
  have "distinct (map sa_operationId ?cand)"
    using distinct_rows [OF inv] by (simp add: distinct_map_filter)
  then have "distinct (map sa_operationId (take limit ?cand))" by (simp add: take_map [symmetric])
  then have "distinct (map sa_operationId claimed)" by (simp add: c(1) o_def lease_row_def)
  from reconcile_fold [OF inv all this] show ?thesis unfolding c(2) .
qed

text \<open>What one call of one worker can do to one row.\<close>

inductive row_step :: "stored_attempt \<Rightarrow> stored_attempt \<Rightarrow> bool" where
  rs_claim: "sa_status r = AS_pending \<Longrightarrow> row_step r (claim_row now owner fence ttl s d r)"
| rs_refresh: "sa_status r = AS_settling \<Longrightarrow> row_step r (r\<lparr>sa_leaseExpiresAt := Some x, sa_updatedAt := now\<rparr>)"
| rs_lease: "takeover_ok now r \<Longrightarrow> row_step r (lease_row now owner fence ttl r)"
| rs_stage: "sa_status r = AS_pending \<Longrightarrow> row_step r (apply_update AS_pending u now r)"
| rs_move: "sa_status r \<in> set frm \<Longrightarrow> sa_leaseOwner r \<noteq> None \<Longrightarrow> sa_fenceToken r \<noteq> None \<Longrightarrow>
    row_step r (apply_update to u now r)"
| rs_release: "sa_status r = AS_manual \<Longrightarrow> sa_blockhash r = Some (re_blockhash ev) \<Longrightarrow>
    fst (validateReleaseEvidence ev) \<Longrightarrow> row_step r (release_row now ev r)"

lemma row_step_identity: "row_step r r' \<Longrightarrow> same_identity r r'"
  by (induction rule: row_step.induct) (simp_all add: same_identity_rows)

lemma settle_throws_simps [simp]:
  "settle_throws (Inl e) db = db" "settle_throws (Inr (x, db')) db = db'"
  by (simp_all add: settle_throws_def)

definition row_evolves :: "settlement_db \<Rightarrow> settlement_db \<Rightarrow> bool" where
  "row_evolves db db' =
     (\<forall>i r. getByOperationId i db = Some r \<longrightarrow>
        (\<exists>r'. getByOperationId i db' = Some r' \<and> (r' = r \<or> row_step r r')))"

lemma row_evolves_refl [simp]: "row_evolves db db"
  by (simp add: row_evolves_def)

lemma put_row_evolves:
  assumes "db_inv db" "getByOperationId i db = Some r" "row_step r r'"
  shows "row_evolves db (put_row r' db)"
  using get_in_rows [OF assms(1,2)] row_step_identity [OF assms(3)] assms(2,3)
  by (auto simp: row_evolves_def same_identity_def)

lemma sql_update_evolves:
  assumes "db_inv db" "sql_update i P f db = Inr (x, db')"
    "\<And>r. getByOperationId i db = Some r \<Longrightarrow> P r \<Longrightarrow> row_step r (f r)"
  shows "row_evolves db db'"
  using sql_update_cases [OF assms(2)] put_row_evolves [OF assms(1) _ assms(3)] by auto

lemma row_evolves_history [simp]: "row_evolves db (append_history h db') = row_evolves db db'"
  by (simp add: row_evolves_def)

lemma insert_step:
  assumes "db_inv db" "pg_resolve_insert input auth i now db = Inr (res, db')"
  shows "db_inv db' \<and> row_evolves db db'"
proof -
  have "db_inv d \<and> row_evolves db d" if "sql_insert (new_row i input auth now) db = Inr d" for d
    using sql_insert_inv [OF assms(1) that] that
    by (auto simp: sql_insert_def row_evolves_def map_has_get getByOperationId_def [symmetric] new_row_def split: if_splits)
  then show ?thesis
    using assms
    by (auto simp: pg_resolve_insert_def Let_def split: sum.splits option.splits if_splits)
qed

lemma transition_step:
  assumes "db_inv db" "pg_transition now i from to u owner f trig note db = Inr (x, db')"
  shows "db_inv db' \<and> row_evolves db db'"
proof -
  have "row_step r (apply_update to u now r)"
    if "lease_guard now from owner f r"
      "(from = [AS_pending] \<and> to = AS_pending \<and> owner = None) \<or> (owner \<noteq> None \<and> f \<noteq> None)" for r
    using that(2)
  proof
    assume "from = [AS_pending] \<and> to = AS_pending \<and> owner = None"
    with that(1) show ?thesis by (auto simp: lease_guard_def intro: rs_stage)
  next
    assume "owner \<noteq> None \<and> f \<noteq> None"
    with that(1) show ?thesis by (intro rs_move [of _ "from"]) (auto simp: lease_guard_def)
  qed
  note step = this
  from pg_transition_cases [OF assms(2)] show ?thesis
  proof (elim disjE exE conjE)
    fix r h
    assume g: "getByOperationId i db = Some r" "lease_guard now from owner f r"
      "unique_ok (apply_update to u now r) db" "db' = append_history h (put_row (apply_update to u now r) db)"
    assume "from = [AS_pending]" "to = AS_pending" "owner = None"
    then have "row_step r (apply_update to u now r)" using step g(2) by blast
    from put_row_evolves [OF assms(1) g(1) this] db_inv_put_row [OF assms(1) g(3)] g(4) show ?thesis by simp
  next
    fix r h
    assume g: "getByOperationId i db = Some r" "lease_guard now from owner f r"
      "unique_ok (apply_update to u now r) db" "db' = append_history h (put_row (apply_update to u now r) db)"
    assume "owner \<noteq> None" "f \<noteq> None"
    then have "row_step r (apply_update to u now r)" using step g(2) by blast
    from put_row_evolves [OF assms(1) g(1) this] db_inv_put_row [OF assms(1) g(3)] g(4) show ?thesis by simp
  qed (simp add: assms(1))
qed

lemma release_step:
  assumes "db_inv db" "pg_releaseAttempt now i ev db = Inr (x, db')"
  shows "db_inv db' \<and> row_evolves db db'"
proof (cases "fst (validateReleaseEvidence ev)")
  case False
  with assms show ?thesis by (auto simp: pg_releaseAttempt_def Let_def split: prod.splits)
next
  case True
  let ?P = "\<lambda>r. sa_status r = AS_manual \<and> sa_blockhash r \<noteq> None \<and> sa_blockhash r = Some (re_blockhash ev)"
  from assms(2) True obtain z d where upd: "sql_update i ?P (release_row now ev) db = Inr (z, d)"
    by (auto simp: pg_releaseAttempt_def Let_def split: prod.splits sum.splits)
  have "row_evolves db d" using True by (intro sql_update_evolves [OF assms(1) upd] rs_release) auto
  with sql_update_inv [OF assms(1) upd] assms True upd show ?thesis
    by (auto simp: pg_releaseAttempt_def Let_def split: prod.splits option.splits)
qed

lemma pg_exec_step: "db_inv db \<Longrightarrow> db_inv (pg_exec call db) \<and> row_evolves db (pg_exec call db)"
proof (cases call)
  case (Call_insert input auth i now)
  assume "db_inv db"
  with Call_insert show ?thesis
    by (cases "pg_resolve_insert input auth i now db") (auto dest: insert_step)
next
  case (Call_claim now fence i owner ttl s d)
  assume inv: "db_inv db"
  show ?thesis
  proof (cases "pg_claimForSettle now fence i owner ttl s d db")
    case (Inr y)
    obtain x d' where xy: "y = (x, d')" by (cases y)
    note upd = Inr [unfolded xy pg_claimForSettle_def]
    have "row_evolves db d'" by (rule sql_update_evolves [OF inv upd rs_claim])
    with sql_update_inv [OF inv upd] Inr xy Call_claim show ?thesis by simp
  qed (simp add: Call_claim inv)
next
  case (Call_revalidate now i owner f ttl)
  assume inv: "db_inv db"
  show ?thesis
  proof (cases "pg_revalidateForSettle now i owner f ttl db")
    case (Inr y)
    obtain x d' where xy: "y = (x, d')" by (cases y)
    note upd = Inr [unfolded xy pg_revalidateForSettle_def]
    have "row_evolves db d'" by (rule sql_update_evolves [OF inv upd]) (auto intro: rs_refresh)
    with sql_update_inv [OF inv upd] Inr xy Call_revalidate show ?thesis by simp
  qed (simp add: Call_revalidate inv)
next
  case (Call_transition now i frm to u owner f trig nt)
  assume "db_inv db"
  with Call_transition show ?thesis
    by (cases "pg_transition now i frm to u owner f trig nt db") (auto dest: transition_step)
next
  case (Call_takeover now fence i owner ttl)
  assume inv: "db_inv db"
  show ?thesis
  proof (cases "pg_claimRowForTakeover now fence i owner ttl db")
    case (Inr y)
    obtain x d' where xy: "y = (x, d')" by (cases y)
    note upd = Inr [unfolded xy pg_claimRowForTakeover_def]
    have "row_evolves db d'" by (rule sql_update_evolves [OF inv upd rs_lease])
    with sql_update_inv [OF inv upd] Inr xy Call_takeover show ?thesis by simp
  qed (simp add: Call_takeover inv)
next
  case (Call_reconcile now fence owner ttl limit)
  assume inv: "db_inv db"
  obtain cl d where "pg_claimForReconcile now fence owner ttl limit db = (cl, d)" by force
  with reconcile_step [OF inv this] Call_reconcile show ?thesis
    by (auto simp: row_evolves_def intro: rs_lease) (metis option.inject rs_lease)
next
  case (Call_release now i ev)
  assume "db_inv db"
  with Call_release show ?thesis
    by (cases "pg_releaseAttempt now i ev db") (auto dest: release_step)
qed

lemma pg_reachable_inv: "pg_reachable db \<Longrightarrow> db_inv db"
  by (induction rule: pg_reachable.induct) (simp_all add: db_inv_empty pg_exec_step)

subsection \<open>Properties of the settlement stores\<close>

lemma row_step_resolved:
  assumes "row_step r r'" "resolved (sa_status r)"
  shows "\<exists>frm to u now. sa_status r \<in> set frm \<and> r' = apply_update to u now r"
  using assms by (induction rule: row_step.induct) (auto simp: takeover_ok_def)

lemma validate_ok_iff:
  "fst (validateReleaseEvidence ev) \<longleftrightarrow>
   re_operatorId ev \<noteq> [] \<and> starts_with ''appr_'' (re_newApprovalEventId ev) \<and> re_blockhash ev \<noteq> [] \<and>
   \<not> re_blockhashValid ev \<and> 0 \<le> re_checkedSlot ev \<and> re_transferVerification ev \<noteq> TV_verified \<and> re_note ev \<noteq> []"
  by (cases "re_transferVerification ev") (auto simp: validateReleaseEvidence_def Let_def)

lemma findActive_some:
  "r \<in> set (rows db) \<Longrightarrow> \<not> resolved (sa_status r) \<Longrightarrow>
   findActiveAttempt (sa_logicalOrderId r) (sa_intentVersion r) db \<noteq> None"
  by (auto simp: findActiveAttempt_def filter_empty_conv)

definition demo_input :: resolve_input where
  "demo_input = \<lparr>ri_logicalOrderId = ''ord_1'', ri_intentVersion = 1, ri_requestDigest = ''d'', ri_resource = ''/r'',
     ri_approvalEventId = None, ri_callerPaymentId = ''pid'', ri_requirementsJson = JObj []\<rparr>"

definition demo_row :: stored_attempt where
  "demo_row = new_row ''op'' demo_input ''sauth_1'' 0"

definition demo_db :: settlement_db where
  "demo_db = put_row demo_row empty_db"

lemma demo_db_inv: "db_inv demo_db"
  unfolding demo_db_def by (rule db_inv_put_row [OF db_inv_empty]) (simp add: unique_ok_def rows_def empty_db_def)


definition demo_call :: "string \<Rightarrow> string \<Rightarrow> store_call" where
  "demo_call i ordId = Call_insert (demo_input\<lparr>ri_logicalOrderId := ordId, ri_callerPaymentId := i\<rparr>) ''sauth_1'' i 0"


text \<open>C9: Only one worker can take a pending attempt to settlement. After a successful claim, every
  further claim of the same attempt is refused and leaves the store as it was, and nobody can take the
  attempt over before the lease has run out.\<close>

theorem claim_single_winner:
  assumes "db_inv db" "pg_claimForSettle now fence i owner ttl s d db = Inr (Some r, db1)"
  shows "pg_claimForSettle now' fence' i owner' ttl' s' d' db1 = Inr (None, db1) \<and>
         (now' < now + ttl \<longrightarrow> \<not> (\<exists>r' db2. pg_claimRowForTakeover now' fence' i owner' ttl' db1 = Inr (Some r', db2)))"
  using pg_lease.single_winner [OF assms] pg_lease.takeover_needs_expiry [OF assms] by blast

theorem claim_single_winner_witness:
  "\<exists>r db1. pg_claimForSettle 0 ''f1'' ''op'' ''w1'' 100 None None demo_db = Inr (Some r, db1) \<and>
     pg_claimForSettle 5 ''f2'' ''op'' ''w2'' 100 None None db1 = Inr (None, db1)"
proof -
  have "getByOperationId ''op'' demo_db = Some demo_row" by (simp add: demo_db_def demo_row_def new_row_def)
  then obtain r db1 where c: "pg_claimForSettle 0 ''f1'' ''op'' ''w1'' 100 None None demo_db = Inr (Some r, db1)"
    unfolding pg_claimForSettle_def
    by (subst (asm) sql_update_total [OF demo_db_inv]) (auto simp: claim_row_safe demo_row_def new_row_def)
  with claim_single_winner [OF demo_db_inv c] show ?thesis by blast
qed

text \<open>C8: A worker that lost its lease is fenced off. Once the attempt has been taken over with a new
  fence token, neither revalidation nor any transition under the old token succeeds, on the PostgreSQL
  store and on the in-memory store alike.\<close>

theorem stale_worker_fenced:
  assumes "db_inv db" "old \<noteq> fence"
  shows "(\<forall>r db1. pg_claimRowForTakeover now fence i owner ttl db = Inr (Some r, db1) \<longrightarrow>
            \<not> (\<exists>r' db2. pg_revalidateForSettle now' i w old ttl' db1 = Inr (Some r', db2)) \<and>
            \<not> (\<exists>r' db2. pg_transition now' i from to u (Some w) (Some old) trig note db1 = Inr (Some r', db2))) \<and>
         (\<forall>r db1. mem_claimRowForTakeover now fence i owner ttl db = (Some r, db1) \<longrightarrow>
            fst (mem_revalidateForSettle now' i w old ttl' db1) = None \<and>
            fst (mem_transition now' i from to u (Some w) (Some old) trig note db1) = None)"
proof (intro conjI allI impI)
  fix r db1
  assume t: "pg_claimRowForTakeover now fence i owner ttl db = Inr (Some r, db1)"
  show "\<not> (\<exists>r' db2. pg_revalidateForSettle now' i w old ttl' db1 = Inr (Some r', db2))"
    by (rule pg_lease.stale_worker(1) [OF assms(1) t assms(2)])
  show "\<not> (\<exists>r' db2. pg_transition now' i from to u (Some w) (Some old) trig note db1 = Inr (Some r', db2))"
    by (rule pg_lease.stale_worker(2) [OF assms(1) t assms(2)])
next
  fix r db1
  assume "mem_claimRowForTakeover now fence i owner ttl db = (Some r, db1)"
  then have t: "Inr (mem_claimRowForTakeover now fence i owner ttl db) = (Inr (Some r, db1) :: _ throws)" by simp
  show "fst (mem_revalidateForSettle now' i w old ttl' db1) = None"
    using mem_lease.stale_worker(1) [OF assms(1) t assms(2), of now' w ttl']
    by (cases "mem_revalidateForSettle now' i w old ttl' db1") auto
  show "fst (mem_transition now' i from to u (Some w) (Some old) trig note db1) = None"
    using mem_lease.stale_worker(2) [OF assms(1) t assms(2), of now' "from" to u w trig "note"]
    by (cases "mem_transition now' i from to u (Some w) (Some old) trig note db1") auto
qed

definition demo_leased :: settlement_db where
  "demo_leased = put_row (claim_row 0 ''w1'' ''f1'' 100 None None demo_row) demo_db"

lemma demo_leased_inv: "db_inv demo_leased"
proof -
  have "getByOperationId ''op'' demo_db = Some demo_row" by (simp add: demo_db_def demo_row_def new_row_def)
  then show ?thesis
    unfolding demo_leased_def
    using put_row_get_law [OF demo_db_inv _ claim_row_safe] by (simp add: demo_row_def new_row_def)
qed

theorem stale_worker_fenced_witness:
  "\<exists>r db1. mem_claimRowForTakeover 200 ''f2'' ''op'' ''w2'' 100 demo_leased = (Some r, db1) \<and>
     fst (mem_transition 210 ''op'' [AS_settling] AS_settled no_update (Some ''w1'') (Some ''f1'') ''t'' ''n'' db1) = None"
proof -
  have "getByOperationId ''op'' demo_leased = Some (claim_row 0 ''w1'' ''f1'' 100 None None demo_row)"
    by (simp add: demo_leased_def claim_row_def lease_row_def demo_row_def new_row_def)
  then obtain r db1 where t: "mem_claimRowForTakeover 200 ''f2'' ''op'' ''w2'' 100 demo_leased = (Some r, db1)"
    by (simp add: mem_claimRowForTakeover_def claim_row_def lease_row_def Let_def)
  have "''f1'' \<noteq> ''f2''" by simp
  from stale_worker_fenced [OF demo_leased_inv this, of 200 "''op''" "''w2''" 100 210 "''w1''" 100
      "[AS_settling]" AS_settled no_update "''t''" "''n''"] t
  show ?thesis by blast
qed

text \<open>The release gate is exact and the same in both stores: an attempt is released if and only if
  it is in manual review, its staged blockhash is the one named by the evidence, and the evidence has an
  operator, a new approval identifier, a note, a chain slot, a proof that the blockhash expired, and no
  verified transfer.\<close>

theorem release_gate_exact:
  assumes "db_inv db"
  shows "((\<exists>r' db'. pg_releaseAttempt now i ev db = Inr (Release_ok r', db')) \<longleftrightarrow>
           (\<exists>r. getByOperationId i db = Some r \<and> sa_status r = AS_manual \<and> sa_blockhash r = Some (re_blockhash ev)) \<and>
           re_operatorId ev \<noteq> [] \<and> starts_with ''appr_'' (re_newApprovalEventId ev) \<and> re_blockhash ev \<noteq> [] \<and>
           \<not> re_blockhashValid ev \<and> 0 \<le> re_checkedSlot ev \<and> re_transferVerification ev \<noteq> TV_verified \<and> re_note ev \<noteq> []) \<and>
         ((\<exists>r' db'. mem_releaseAttempt now i ev db = (Release_ok r', db')) \<longleftrightarrow>
          (\<exists>r' db'. pg_releaseAttempt now i ev db = Inr (Release_ok r', db')))"
proof (cases "fst (validateReleaseEvidence ev)")
  case False
  then have "\<not> (\<exists>r' db'. pg_releaseAttempt now i ev db = Inr (Release_ok r', db'))"
    "\<not> (\<exists>r' db'. mem_releaseAttempt now i ev db = (Release_ok r', db'))"
    by (auto simp: pg_releaseAttempt_def mem_releaseAttempt_def Let_def split: prod.splits)
  with False show ?thesis by (simp only: validate_ok_iff) blast
next
  case True
  have upd: "sql_update i (\<lambda>r. sa_status r = AS_manual \<and> sa_blockhash r \<noteq> None \<and> sa_blockhash r = Some (re_blockhash ev))
      (release_row now ev) db =
    (case getByOperationId i db of None \<Rightarrow> Inr (None, db)
     | Some r \<Rightarrow> if sa_status r = AS_manual \<and> sa_blockhash r \<noteq> None \<and> sa_blockhash r = Some (re_blockhash ev)
                 then Inr (Some (release_row now ev r), put_row (release_row now ev r) db) else Inr (None, db))"
    by (rule sql_update_total [OF assms]) (rule release_row_safe)
  obtain rs where v: "validateReleaseEvidence ev = (True, rs)" using True by (cases "validateReleaseEvidence ev") auto
  have ne: "re_blockhash ev \<noteq> []" using True by (simp add: validate_ok_iff)
  have pg: "(\<exists>r' db'. pg_releaseAttempt now i ev db = Inr (Release_ok r', db')) \<longleftrightarrow>
      (\<exists>r. getByOperationId i db = Some r \<and> sa_status r = AS_manual \<and> sa_blockhash r = Some (re_blockhash ev))"
    unfolding pg_releaseAttempt_def v upd Let_def
    by (auto split: option.splits if_splits)
  have mem: "(\<exists>r' db'. mem_releaseAttempt now i ev db = (Release_ok r', db')) \<longleftrightarrow>
      (\<exists>r. getByOperationId i db = Some r \<and> sa_status r = AS_manual \<and> sa_blockhash r = Some (re_blockhash ev))"
    unfolding mem_releaseAttempt_def v Let_def using ne by (auto split: option.splits)
  from pg mem True show ?thesis by (simp only: validate_ok_iff) blast
qed

definition demo_evidence :: release_evidence where
  "demo_evidence = \<lparr>re_operatorId = ''op1'', re_newApprovalEventId = ''appr_1'', re_note = ''n'', re_blockhash = ''bh'',
     re_blockhashValid = False, re_checkedSlot = 7, re_transferVerification = TV_unavailable\<rparr>"

theorem release_gate_exact_witness:
  "\<exists>r' db'. pg_releaseAttempt 5 ''op'' demo_evidence
     (put_row (demo_row\<lparr>sa_status := AS_manual, sa_blockhash := Some ''bh''\<rparr>) empty_db) = Inr (Release_ok r', db')"
proof -
  let ?r = "demo_row\<lparr>sa_status := AS_manual, sa_blockhash := Some ''bh''\<rparr>"
  have inv: "db_inv (put_row ?r empty_db)"
    by (rule db_inv_put_row [OF db_inv_empty]) (simp add: unique_ok_def rows_def empty_db_def)
  have "getByOperationId ''op'' (put_row ?r empty_db) = Some ?r" by (simp add: demo_row_def new_row_def)
  with release_gate_exact [OF inv, of 5 "''op''" demo_evidence] show ?thesis
    by (simp add: demo_evidence_def starts_with_def)
qed

lemma js_head_unique: "xs \<noteq> [] \<Longrightarrow> \<forall>x \<in> set xs. x = r \<Longrightarrow> js_head xs = Some r"
  by (cases xs) auto

lemma findByDigestPayment_unique:
  assumes "db_inv db" "r \<in> set (rows db)" "sa_requestDigest r = d" "sa_callerPaymentId r = Some p"
  shows "findByDigestPayment d p db = Some r"
proof -
  have "x = r" if "x \<in> set (rows db)" "sa_requestDigest x = d" "sa_callerPaymentId x = Some p" for x
  proof (rule ccontr)
    assume "x \<noteq> r"
    then have "sa_operationId x \<noteq> sa_operationId r"
      using rows_get [OF assms(1,2)] rows_get [OF assms(1) that(1)] by auto
    then have "\<not> rows_clash x r" using db_inv_no_clash assms(1,2) that(1) by blast
    then show False using assms(3,4) that by (simp add: rows_clash_def)
  qed
  note uniq = this
  show ?thesis
    unfolding findByDigestPayment_def
  proof (rule js_head_unique)
    show "sort_key sa_createdAt (filter (\<lambda>r. sa_requestDigest r = d \<and> sa_callerPaymentId r = Some p) (rows db)) \<noteq> []"
      using assms(2-4) by (auto simp: filter_empty_conv)
    show "\<forall>x \<in> set (sort_key sa_createdAt (filter (\<lambda>r. sa_requestDigest r = d \<and> sa_callerPaymentId r = Some p) (rows db))). x = r"
      using uniq by simp
  qed
qed

lemma pg_resolve_replays:
  assumes "db_inv db" "r \<in> set (rows db)" "sa_requestDigest r = ri_requestDigest input"
    "sa_callerPaymentId r = Some (ri_callerPaymentId input)"
  shows "pg_resolveOrCreate sha256 uuid now others input db = Inr (classify r (ri_approvalEventId input), db)"
  using findByDigestPayment_unique [OF assms] by (simp add: pg_resolveOrCreate_def pg_resolve_read_def)

lemma resolve_open_auth:
  assumes "pg_resolve_read sha256 uuid input db = Resolve_open auth i"
  shows "\<not> approvalMismatch auth (ri_approvalEventId input)"
  using assms
  by (auto simp: pg_resolve_read_def Let_def approvalMismatch_def mintSpendAuthRevision_def starts_with_def
        split: option.splits if_splits)

lemma classify_not_created [simp]: "classify r a \<noteq> RR_created row"
  by (simp add: classify_def)

lemma resolve_read_not_created: "pg_resolve_read sha256 uuid input db \<noteq> Resolve_done (RR_created row)"
  by (auto simp: pg_resolve_read_def Let_def split: option.splits if_splits)

text \<open>Resolving is idempotent. When a call created an attempt, the same request presented again,
  at any later time and with fresh random material, returns that very attempt as existing and changes
  nothing, whatever the other workers did between the first call's reads and its insert.\<close>

theorem resolve_idempotent:
  assumes "db_inv (others db)"
    and "pg_resolveOrCreate sha256 uuid now others input db = Inr (RR_created row, db')"
  shows "pg_resolveOrCreate sha256 uuid' now' others' input db' = Inr (RR_existing row, db')"
proof -
  from assms(2) obtain auth i where o: "pg_resolve_read sha256 uuid input db = Resolve_open auth i"
    and ins: "pg_resolve_insert input auth i now (others db) = Inr (RR_created row, db')"
    by (auto simp: pg_resolveOrCreate_def resolve_read_not_created split: resolve_step.splits)
  from ins obtain d where row: "row = new_row i input auth now" "sql_insert row (others db) = Inr d" "\<exists>h. db' = append_history h d"
    by (auto simp: pg_resolve_insert_def Let_def classify_def split: sum.splits option.splits if_splits)
  have inv: "db_inv db'" using insert_step [OF assms(1) ins] by blast
  have "getByOperationId i db' = Some row"
    using row by (auto simp: sql_insert_def new_row_def split: if_splits)
  then have "row \<in> set (rows db')" using get_in_rows [OF inv] by blast
  then have "pg_resolveOrCreate sha256 uuid' now' others' input db' = Inr (classify row (ri_approvalEventId input), db')"
    by (intro pg_resolve_replays inv) (simp_all add: row(1) new_row_def)
  then show ?thesis using resolve_open_auth [OF o] row(1) by (simp add: classify_def new_row_def)
qed

theorem resolve_idempotent_witness:
  "\<exists>row db'. pg_resolveOrCreate (\<lambda>s. s) ''u1'' 0 (\<lambda>d. d) demo_input empty_db = Inr (RR_created row, db') \<and>
     pg_resolveOrCreate (\<lambda>s. s) ''u2'' 9 (\<lambda>d. d) demo_input db' = Inr (RR_existing row, db')"
proof -
  obtain row db' where c: "pg_resolveOrCreate (\<lambda>s. s) ''u1'' 0 (\<lambda>d. d) demo_input empty_db = Inr (RR_created row, db')"
    by (simp add: pg_resolveOrCreate_def pg_resolve_read_def findByDigestPayment_def findActiveAttempt_def findSettledAttempt_def
        findLatestReleased_def newest_def rows_def empty_db_def demo_input_def Let_def pg_resolve_insert_def sql_insert_def
        unique_ok_def)
  from resolve_idempotent [OF db_inv_empty c] c show ?thesis by blast
qed

text \<open>The statuses from which a call may move a given row.\<close>

fun moves_from :: "store_call \<Rightarrow> string \<Rightarrow> attempt_state list" where
  "moves_from (Call_transition _ i from _ _ _ _ _ _) j = (if i = j then from else [])"
| "moves_from _ _ = []"

lemma sql_update_other:
  assumes "db_inv db" "sql_update i P f db = Inr (x, db')" "\<And>r. sa_operationId (f r) = sa_operationId r"
    "getByOperationId j db = Some r" "i = j \<Longrightarrow> \<not> P r"
  shows "getByOperationId j db' = Some r"
  using sql_update_cases [OF assms(2)] assms(3-5) get_in_rows [OF assms(1)] by auto

lemma op_id_rows [simp]:
  "sa_operationId (claim_row now owner fence ttl s d r) = sa_operationId r"
  "sa_operationId (lease_row now owner fence ttl r) = sa_operationId r"
  "sa_operationId (apply_update to u now r) = sa_operationId r"
  "sa_operationId (release_row now ev r) = sa_operationId r"
  by (simp_all add: claim_row_def lease_row_def apply_update_def release_row_def)

lemma resolved_not_takeover: "resolved (sa_status r) \<Longrightarrow> \<not> takeover_ok now r"
  by (auto simp: takeover_ok_def)

lemma release_other:
  assumes "db_inv db" "getByOperationId j db = Some r" "resolved (sa_status r)"
    and op: "pg_releaseAttempt now i ev db = Inr (x, db')"
  shows "getByOperationId j db' = Some r"
proof (cases "sql_update i (\<lambda>r. sa_status r = AS_manual \<and> sa_blockhash r \<noteq> None \<and> sa_blockhash r = Some (re_blockhash ev))
    (release_row now ev) db")
  case (Inl e)
  with op assms(2) show ?thesis by (auto simp: pg_releaseAttempt_def Let_def split: prod.splits if_splits)
next
  case (Inr y)
  obtain z d where y: "y = (z, d)" by (cases y)
  have "getByOperationId j d = Some r"
    using assms(3) by (intro sql_update_other [OF assms(1) Inr [unfolded y] _ assms(2)]) auto
  with op Inr y assms(2) show ?thesis
    by (auto simp: pg_releaseAttempt_def Let_def split: prod.splits if_splits option.splits)
qed

text \<open>C33: A resolved attempt is frozen: no call changes a settled, rejected, mismatched or released row,
  except a transition of that very row that lists its status as a starting point.\<close>

theorem resolved_rows_frozen:
  assumes "db_inv db" "getByOperationId j db = Some r" "resolved (sa_status r)"
    and "sa_status r \<notin> set (moves_from call j)"
  shows "getByOperationId j (pg_exec call db) = Some r"
proof (cases call)
  case (Call_insert input auth i now)
  then show ?thesis
    using assms(2)
    by (auto simp: settle_throws_def pg_resolve_insert_def Let_def sql_insert_def map_has_get new_row_def
          getByOperationId_def [symmetric] split: sum.splits option.splits prod.splits if_splits)
next
  case (Call_claim now fence i owner ttl s d)
  have "getByOperationId j db' = Some r" if "pg_claimForSettle now fence i owner ttl s d db = Inr (x, db')" for x db'
    using assms(3)
    by (intro sql_update_other [OF assms(1) that [unfolded pg_claimForSettle_def] _ assms(2)]) auto
  then show ?thesis using Call_claim assms(2) by (auto simp: settle_throws_def split: sum.splits prod.splits)
next
  case (Call_revalidate now i owner f ttl)
  have "getByOperationId j db' = Some r" if "pg_revalidateForSettle now i owner f ttl db = Inr (x, db')" for x db'
    using assms(3)
    by (intro sql_update_other [OF assms(1) that [unfolded pg_revalidateForSettle_def] _ assms(2)]) auto
  then show ?thesis using Call_revalidate assms(2) by (auto simp: settle_throws_def split: sum.splits prod.splits)
next
  case (Call_transition now i frm to u owner f trig nt)
  have "getByOperationId j db' = Some r" if op: "pg_transition now i frm to u owner f trig nt db = Inr (x, db')" for x db'
    using pg_transition_cases [OF op] assms(2,4) Call_transition get_in_rows [OF assms(1)]
    by (auto simp: lease_guard_def)
  then show ?thesis using Call_transition assms(2) by (auto simp: settle_throws_def split: sum.splits prod.splits)
next
  case (Call_takeover now fence i owner ttl)
  have "getByOperationId j db' = Some r" if "pg_claimRowForTakeover now fence i owner ttl db = Inr (x, db')" for x db'
    using resolved_not_takeover [OF assms(3)]
    by (intro sql_update_other [OF assms(1) that [unfolded pg_claimRowForTakeover_def] _ assms(2)]) auto
  then show ?thesis using Call_takeover assms(2) by (auto simp: settle_throws_def split: sum.splits prod.splits)
next
  case (Call_reconcile now fence owner ttl limit)
  obtain cl d where cl: "pg_claimForReconcile now fence owner ttl limit db = (cl, d)" by force
  from reconcile_step [OF assms(1) cl] resolved_not_takeover [OF assms(3)] assms(2)
  have "getByOperationId j d = Some r" by (metis option.inject)
  with cl Call_reconcile show ?thesis by simp
next
  case (Call_release now i ev)
  have "getByOperationId j db' = Some r" if "pg_releaseAttempt now i ev db = Inr (x, db')" for x db'
    by (rule release_other [OF assms(1-3) that])
  then show ?thesis using Call_release assms(2) by (auto simp: settle_throws_def split: sum.splits prod.splits)
qed

theorem resolved_rows_frozen_witness:
  "getByOperationId ''op''
     (pg_exec (Call_takeover 900 ''f'' ''op'' ''w'' 10) (put_row (demo_row\<lparr>sa_status := AS_settled\<rparr>) empty_db)) =
   Some (demo_row\<lparr>sa_status := AS_settled\<rparr>)"
proof (rule resolved_rows_frozen)
  show "db_inv (put_row (demo_row\<lparr>sa_status := AS_settled\<rparr>) empty_db)"
    by (rule db_inv_put_row [OF db_inv_empty]) (simp add: unique_ok_def rows_def empty_db_def)
qed (simp_all add: demo_row_def new_row_def)

text \<open>Settlement storage fails closed. The in-memory store is chosen only outside devnet and
  production; PostgreSQL is chosen only with a database address and a key of 64 hexadecimal digits; the
  operator's switch refuses both.\<close>

theorem settlement_store_fails_closed:
  "(assertSettlementStoreAllowed config = Inr Backing_memory \<longleftrightarrow>
      sc_settlementEnabled config \<noteq> Some False \<and> \<not> sc_devnet config \<and> sc_nodeEnv config \<noteq> Some ''production'') \<and>
   (assertSettlementStoreAllowed config = Inr Backing_postgres \<longleftrightarrow>
      sc_settlementEnabled config \<noteq> Some False \<and> (sc_devnet config \<or> sc_nodeEnv config = Some ''production'') \<and>
      truthy (sc_databaseUrl config) \<and>
      (\<exists>k. sc_encKeyHex config = Some k \<and> length (trim k) = 64 \<and> list_all is_hex (trim k)))"
proof -
  have key: "(\<exists>x. parseEncryptionKey raw = Inr x) \<longleftrightarrow> (\<exists>k. raw = Some k \<and> length (trim k) = 64 \<and> list_all is_hex (trim k))" for raw
    by (cases raw) (auto simp: parseEncryptionKey_def trim_def)
  show ?thesis
    using key [of "sc_encKeyHex config"]
    by (auto simp: assertSettlementStoreAllowed_def split: sum.splits)
qed

end
