(* ===== verification/Payments.thy ===== *)
theory Payments
  imports Domain
begin

text \<open>
  The payment adapters, \<open>packages/payments/src\<close>: the adapter interface (\<open>types.ts\<close>), the Razorpay
  adapter (\<open>razorpay.ts\<close>), its mock (\<open>mock-razorpay.ts\<close>) and the registry (\<open>registry.ts\<close>). The
  Razorpay HTTP API is a parameter: for each endpoint, a function from the request to the reply.
  HMAC is a parameter. The locale \<open>payment_adapter\<close> states what the services rely on and is
  interpreted on both adapters.
\<close>

subsection \<open>Types (types.ts)\<close>

datatype attempt_status = At_created | At_authorized | At_captured | At_failed

record payment_attempt =
  pa_attemptId :: string
  pa_logicalOrderId :: string
  pa_rail :: payment_rail
  pa_externalOrderId :: "string option"
  pa_externalPaymentId :: "string option"
  pa_status :: attempt_status
  pa_createdAt :: string
  pa_amountMinor :: int
  pa_currency :: string
  pa_checkoutPayload :: json

record verification_input =
  vi_logicalOrderId :: string
  vi_envelopeHash :: string
  vi_rail :: payment_rail
  vi_externalOrderId :: string
  vi_externalPaymentId :: string
  vi_expectedAmountMinor :: "int option"
  vi_signature :: "string option"

record verification_result =
  vr_verified :: bool
  vr_rail :: payment_rail
  vr_externalOrderId :: string
  vr_externalPaymentId :: string
  vr_amountMinor :: int
  vr_currency :: string
  vr_status :: string
  vr_reason :: "string option"

record compensation_input =
  ci_logicalOrderId :: string
  ci_envelopeHash :: string
  ci_rail :: payment_rail
  ci_externalPaymentId :: string
  ci_amountMinor :: int
  ci_reason :: string

record compensation_result =
  cr_compensated :: bool
  cr_rail :: payment_rail
  cr_refundId :: "string option"
  cr_reason :: "string option"

subsection \<open>Signatures (razorpay.ts)\<close>

definition razorpaySignature :: "(string \<Rightarrow> string \<Rightarrow> string) \<Rightarrow> string \<Rightarrow> string \<Rightarrow> string" where
  "razorpaySignature hmac keySecret payload = hmac keySecret payload"

definition timingSafeEqualStr :: "string \<Rightarrow> string \<Rightarrow> bool" where
  "timingSafeEqualStr a b = (length a = length b \<and> timingSafeEqual a b)"

lemma timingSafeEqualStr_iff [simp]: "timingSafeEqualStr a b \<longleftrightarrow> a = b"
  by (auto simp: timingSafeEqualStr_def)

definition verifyRazorpayPaymentSignature ::
  "(string \<Rightarrow> string \<Rightarrow> string) \<Rightarrow> string \<Rightarrow> string \<Rightarrow> string \<Rightarrow> string \<Rightarrow> bool" where
  "verifyRazorpayPaymentSignature hmac keySecret orderId paymentId signature =
     (let expected = razorpaySignature hmac keySecret (orderId @ ''|'' @ paymentId)
      in timingSafeEqualStr expected signature)"

definition verifyRazorpayWebhookSignature ::
  "(string \<Rightarrow> string \<Rightarrow> string) \<Rightarrow> string \<Rightarrow> string \<Rightarrow> string \<Rightarrow> bool" where
  "verifyRazorpayWebhookSignature hmac webhookSecret rawBody signature =
     (let expected = razorpaySignature hmac webhookSecret rawBody
      in timingSafeEqualStr expected signature)"

subsection \<open>Razorpay adapter (razorpay.ts)\<close>

text \<open>What an HTTP exchange can end in: no reply, an error status with the error's description, a body.\<close>

datatype 'a http_reply =
    Net_error string
  | Http_error int "string option"
  | Http_ok 'a

record rzp_order =
  ro_id :: string
  ro_amount :: int
  ro_currency :: string
  ro_notes :: json

record rzp_payment =
  rpay_id :: string
  rpay_order_id :: "string option"
  rpay_amount :: int
  rpay_currency :: string
  rpay_status :: string

record rzp_api =
  post_orders :: "json \<Rightarrow> rzp_order http_reply"
  get_payment :: "string \<Rightarrow> rzp_payment http_reply"
  post_refund :: "string \<Rightarrow> json \<Rightarrow> string http_reply"

record razorpay_config =
  rz_keyId :: string
  rz_keySecret :: string
  rz_webhookSecret :: "string option"

definition rzp_request :: "string \<Rightarrow> string \<Rightarrow> 'a http_reply \<Rightarrow> 'a throws" where
  "rzp_request httpMethod path reply =
     (case reply of
        Net_error name \<Rightarrow>
          Inl (''Razorpay API unreachable ('' @ name @ ''); check network or credentials'')
      | Http_error status description \<Rightarrow>
          if status = 401 then Inl ''Razorpay authentication failed (invalid Key ID or Key Secret)''
          else Inl (''Razorpay '' @ httpMethod @ '' '' @ path @ '' failed: '' @
                    (case description of None \<Rightarrow> ''HTTP '' @ int_str status | Some d \<Rightarrow> d))
      | Http_ok body \<Rightarrow> Inr body)"

definition rzp_order_body :: "(string \<Rightarrow> string) \<Rightarrow> commerce_envelope \<Rightarrow> json" where
  "rzp_order_body sha256 e = JObj
     [(''amount'', JNum (env_totalMinor e)),
      (''currency'', JStr (currency_str (env_currency e))),
      (''receipt'', JStr (''logical_'' @ env_logicalOrderId e)),
      (''notes'', JObj [(''logicalOrderId'', JStr (env_logicalOrderId e)),
                        (''quoteId'', JStr (env_quoteId e)),
                        (''envelopeHash'', JStr (envelopeDigest sha256 e))])]"

definition rzp_initiate ::
  "razorpay_config \<Rightarrow> rzp_api \<Rightarrow> (string \<Rightarrow> string) \<Rightarrow> string \<Rightarrow> string \<Rightarrow> commerce_envelope \<Rightarrow> payment_attempt throws" where
  "rzp_initiate cfg api sha256 rnd now e =
     (case rzp_request ''POST'' ''/orders'' (post_orders api (rzp_order_body sha256 e)) of
        Inl err \<Rightarrow> Inl err
      | Inr order \<Rightarrow> Inr
          \<lparr>pa_attemptId = newId ''att'' rnd, pa_logicalOrderId = env_logicalOrderId e, pa_rail = Razorpay_checkout,
           pa_externalOrderId = Some (ro_id order), pa_externalPaymentId = None, pa_status = At_created,
           pa_createdAt = now, pa_amountMinor = ro_amount order, pa_currency = ro_currency order,
           pa_checkoutPayload = JObj
             [(''key'', JStr (rz_keyId cfg)), (''order_id'', JStr (ro_id order)),
              (''amount'', JNum (ro_amount order)), (''currency'', JStr (ro_currency order)),
              (''name'', JStr ''RunVista Sports''), (''notes'', ro_notes order),
              (''theme'', JObj [(''color'', JStr ''#1a1a2e'')])]\<rparr>)"

definition failed_verification :: "verification_input \<Rightarrow> string \<Rightarrow> verification_result" where
  "failed_verification input reason =
     \<lparr>vr_verified = False, vr_rail = Razorpay_checkout, vr_externalOrderId = vi_externalOrderId input,
      vr_externalPaymentId = vi_externalPaymentId input, vr_amountMinor = 0, vr_currency = ''INR'',
      vr_status = ''failed'', vr_reason = Some reason\<rparr>"

definition rzp_verify ::
  "razorpay_config \<Rightarrow> rzp_api \<Rightarrow> (string \<Rightarrow> string \<Rightarrow> string) \<Rightarrow> verification_input \<Rightarrow> verification_result throws" where
  "rzp_verify cfg api hmac input =
     (case vi_signature input of
        None \<Rightarrow> Inr (failed_verification input ''Missing signature'')
      | Some signature \<Rightarrow>
          if signature = [] then Inr (failed_verification input ''Missing signature'')
          else if \<not> verifyRazorpayPaymentSignature hmac (rz_keySecret cfg) (vi_externalOrderId input)
                     (vi_externalPaymentId input) signature
          then Inr (failed_verification input ''Invalid Razorpay signature'')
          else (case rzp_request ''GET'' (''/payments/'' @ vi_externalPaymentId input)
                     (get_payment api (vi_externalPaymentId input)) of
                  Inl err \<Rightarrow> Inl err
                | Inr payment \<Rightarrow>
                    (let captured = (rpay_status payment = ''captured'' \<or> rpay_status payment = ''authorized'') in Inr
                       \<lparr>vr_verified = captured, vr_rail = Razorpay_checkout,
                        vr_externalOrderId = (case rpay_order_id payment of None \<Rightarrow> vi_externalOrderId input | Some i \<Rightarrow> i),
                        vr_externalPaymentId = rpay_id payment, vr_amountMinor = rpay_amount payment,
                        vr_currency = rpay_currency payment, vr_status = rpay_status payment,
                        vr_reason = (if captured then None
                                     else Some (''Razorpay payment status: '' @ rpay_status payment))\<rparr>)))"

definition rzp_compensate :: "rzp_api \<Rightarrow> compensation_input \<Rightarrow> compensation_result throws" where
  "rzp_compensate api input =
     (case rzp_request ''POST'' (''/payments/'' @ ci_externalPaymentId input @ ''/refund'')
             (post_refund api (ci_externalPaymentId input)
                (JObj [(''amount'', JNum (ci_amountMinor input)),
                       (''notes'', JObj [(''logicalOrderId'', JStr (ci_logicalOrderId input)),
                                         (''reason'', JStr (ci_reason input))])])) of
        Inl err \<Rightarrow> Inl err
      | Inr refundId \<Rightarrow> Inr \<lparr>cr_compensated = True, cr_rail = Razorpay_checkout,
                              cr_refundId = Some refundId, cr_reason = None\<rparr>)"

subsection \<open>Mock adapter (mock-razorpay.ts)\<close>

record simulated_payment =
  sim_status :: "string option"
  sim_amountMinor :: "int option"
  sim_currency :: "string option"
  sim_orderId :: "string option"

record mock_config =
  mk_keyId :: string
  mk_keySecret :: string
  mk_failInitiate :: bool
  mk_simulatePayment :: "simulated_payment option"

definition setSimulation :: "simulated_payment option \<Rightarrow> mock_config \<Rightarrow> mock_config" where
  "setSimulation sim cfg = cfg\<lparr>mk_simulatePayment := sim\<rparr>"

definition mock_initiate ::
  "mock_config \<Rightarrow> string \<Rightarrow> string \<Rightarrow> commerce_envelope \<Rightarrow> payment_attempt throws" where
  "mock_initiate cfg rnd now e =
     (if mk_failInitiate cfg then Inl ''MOCK Razorpay: order creation failed (simulated outage)''
      else Inr
        \<lparr>pa_attemptId = newId ''att'' rnd, pa_logicalOrderId = env_logicalOrderId e, pa_rail = Razorpay_checkout,
         pa_externalOrderId = Some (''order_MOCK_'' @ env_logicalOrderId e), pa_externalPaymentId = None,
         pa_status = At_created, pa_createdAt = now, pa_amountMinor = env_totalMinor e,
         pa_currency = currency_str (env_currency e),
         pa_checkoutPayload = JObj
           [(''key'', JStr (mk_keyId cfg)), (''order_id'', JStr (''order_MOCK_'' @ env_logicalOrderId e)),
            (''amount'', JNum (env_totalMinor e)), (''currency'', JStr (currency_str (env_currency e))),
            (''name'', JStr ''RunVista Sports (MOCK)''), (''mock'', JBool True)]\<rparr>)"

definition or_else :: "'a option \<Rightarrow> 'a \<Rightarrow> 'a" where
  "or_else x d = (case x of None \<Rightarrow> d | Some v \<Rightarrow> v)"

definition mock_verify ::
  "mock_config \<Rightarrow> (string \<Rightarrow> string \<Rightarrow> string) \<Rightarrow> verification_input \<Rightarrow> verification_result throws" where
  "mock_verify cfg hmac input =
     (let expected = razorpaySignature hmac (mk_keySecret cfg)
            (vi_externalOrderId input @ ''|'' @ vi_externalPaymentId input);
          signatureOk = (case vi_signature input of None \<Rightarrow> False | Some s \<Rightarrow> timingSafeEqualStr expected s)
      in if \<not> signatureOk then Inr (failed_verification input ''Invalid signature (mock)'')
         else let simulated = or_else (mk_simulatePayment cfg)
                    \<lparr>sim_status = None, sim_amountMinor = None, sim_currency = None, sim_orderId = None\<rparr>
              in Inr \<lparr>vr_verified = True, vr_rail = Razorpay_checkout,
                   vr_externalOrderId = or_else (sim_orderId simulated) (vi_externalOrderId input),
                   vr_externalPaymentId = vi_externalPaymentId input,
                   vr_amountMinor = or_else (sim_amountMinor simulated) (or_else (vi_expectedAmountMinor input) 0),
                   vr_currency = or_else (sim_currency simulated) ''INR'',
                   vr_status = or_else (sim_status simulated) ''captured'', vr_reason = None\<rparr>)"

definition mock_compensate :: "compensation_input \<Rightarrow> compensation_result throws" where
  "mock_compensate input =
     Inr \<lparr>cr_compensated = True, cr_rail = Razorpay_checkout,
          cr_refundId = Some (''rfnd_MOCK_'' @ ci_externalPaymentId input),
          cr_reason = Some (''MOCK refund for '' @ ci_reason input)\<rparr>"

subsection \<open>Registry (registry.ts)\<close>

datatype adapter = Adapter_real razorpay_config | Adapter_mock mock_config

record adapter_config =
  ac_razorpayKeyId :: "string option"
  ac_razorpayKeySecret :: "string option"
  ac_razorpayWebhookSecret :: "string option"
  ac_forceMock :: bool

definition createAdapterRegistry :: "adapter_config \<Rightarrow> adapter list" where
  "createAdapterRegistry config =
     (let useReal = (\<not> ac_forceMock config \<and> truthy (ac_razorpayKeyId config) \<and> truthy (ac_razorpayKeySecret config))
      in if useReal
         then [Adapter_real \<lparr>rz_keyId = or_else (ac_razorpayKeyId config) [],
                 rz_keySecret = or_else (ac_razorpayKeySecret config) [],
                 rz_webhookSecret = ac_razorpayWebhookSecret config\<rparr>]
         else [Adapter_mock \<lparr>mk_keyId = or_else (ac_razorpayKeyId config) ''rzp_test_mock'',
                 mk_keySecret = or_else (ac_razorpayKeySecret config) ''mock_secret'',
                 mk_failInitiate = False, mk_simulatePayment = None\<rparr>])"

fun adapter_rail :: "adapter \<Rightarrow> payment_rail" where
  "adapter_rail (Adapter_real _) = Razorpay_checkout"
| "adapter_rail (Adapter_mock _) = Razorpay_checkout"

fun adapter_isMock :: "adapter \<Rightarrow> bool" where
  "adapter_isMock (Adapter_real _) = False"
| "adapter_isMock (Adapter_mock _) = True"

fun adapter_secret :: "adapter \<Rightarrow> string" where
  "adapter_secret (Adapter_real cfg) = rz_keySecret cfg"
| "adapter_secret (Adapter_mock cfg) = mk_keySecret cfg"

definition registry_get :: "payment_rail \<Rightarrow> adapter list \<Rightarrow> adapter option" where
  "registry_get rail adapters = js_find (\<lambda>a. adapter_rail a = rail) adapters"

definition registry_isMock :: "payment_rail \<Rightarrow> adapter list \<Rightarrow> bool" where
  "registry_isMock rail adapters =
     (case js_find (\<lambda>a. adapter_rail a = rail) adapters of None \<Rightarrow> True | Some a \<Rightarrow> adapter_isMock a)"

fun adapter_initiate ::
  "adapter \<Rightarrow> rzp_api \<Rightarrow> (string \<Rightarrow> string) \<Rightarrow> string \<Rightarrow> string \<Rightarrow> commerce_envelope \<Rightarrow> payment_attempt throws" where
  "adapter_initiate (Adapter_real cfg) api sha256 rnd now e = rzp_initiate cfg api sha256 rnd now e"
| "adapter_initiate (Adapter_mock cfg) api sha256 rnd now e = mock_initiate cfg rnd now e"

fun adapter_verify ::
  "adapter \<Rightarrow> rzp_api \<Rightarrow> (string \<Rightarrow> string \<Rightarrow> string) \<Rightarrow> verification_input \<Rightarrow> verification_result throws" where
  "adapter_verify (Adapter_real cfg) api hmac input = rzp_verify cfg api hmac input"
| "adapter_verify (Adapter_mock cfg) api hmac input = mock_verify cfg hmac input"

fun adapter_compensate :: "adapter \<Rightarrow> rzp_api \<Rightarrow> compensation_input \<Rightarrow> compensation_result throws" where
  "adapter_compensate (Adapter_real cfg) api input = rzp_compensate api input"
| "adapter_compensate (Adapter_mock cfg) api input = mock_compensate input"

subsection \<open>What the services rely on\<close>

locale payment_adapter =
  fixes initiate :: "string \<Rightarrow> string \<Rightarrow> commerce_envelope \<Rightarrow> payment_attempt throws"
    and verify :: "verification_input \<Rightarrow> verification_result throws"
    and compensate :: "compensation_input \<Rightarrow> compensation_result throws"
    and sign :: "string \<Rightarrow> string"
  assumes initiate_binds: "initiate rnd now e = Inr a \<Longrightarrow>
      pa_logicalOrderId a = env_logicalOrderId e \<and> pa_rail a = Razorpay_checkout \<and>
      pa_status a = At_created \<and> pa_externalOrderId a \<noteq> None"
    and verified_signed: "verify input = Inr r \<Longrightarrow> vr_verified r \<Longrightarrow>
      vi_signature input = Some (sign (vi_externalOrderId input @ ''|'' @ vi_externalPaymentId input))"
    and compensate_refund: "compensate ci = Inr c \<Longrightarrow> cr_compensated c \<and> cr_refundId c \<noteq> None"
begin

lemma unsigned_rejected:
  "vi_signature input = None \<Longrightarrow> verify input = Inr r \<Longrightarrow> \<not> vr_verified r"
  using verified_signed by fastforce

lemma forged_rejected:
  assumes "vi_signature input = Some s"
    and "s \<noteq> sign (vi_externalOrderId input @ ''|'' @ vi_externalPaymentId input)"
    and "verify input = Inr r"
  shows "\<not> vr_verified r"
  using verified_signed [OF assms(3)] assms(1,2) by auto

end

interpretation real_adapter: payment_adapter "rzp_initiate cfg api sha256" "rzp_verify cfg api hmac"
  "rzp_compensate api" "hmac (rz_keySecret cfg)"
  for cfg :: razorpay_config and api :: rzp_api and sha256 :: "string \<Rightarrow> string" and hmac
  by unfold_locales
     (auto simp: rzp_initiate_def rzp_verify_def rzp_compensate_def failed_verification_def
        verifyRazorpayPaymentSignature_def razorpaySignature_def Let_def
        split: sum.splits option.splits if_splits)

interpretation mock_adapter: payment_adapter "mock_initiate cfg" "mock_verify cfg hmac"
  mock_compensate "hmac (mk_keySecret cfg)"
  for cfg :: mock_config and hmac
  by unfold_locales
     (auto simp: mock_initiate_def mock_verify_def mock_compensate_def failed_verification_def
        razorpaySignature_def Let_def split: sum.splits option.splits if_splits)

interpretation any_adapter: payment_adapter "adapter_initiate ad api sha256" "adapter_verify ad api hmac"
  "adapter_compensate ad api" "hmac (adapter_secret ad)"
  for ad :: adapter and api :: rzp_api and sha256 :: "string \<Rightarrow> string" and hmac
proof unfold_locales
  fix rnd now e a
  assume "adapter_initiate ad api sha256 rnd now e = Inr a"
  then show "pa_logicalOrderId a = env_logicalOrderId e \<and> pa_rail a = Razorpay_checkout \<and>
      pa_status a = At_created \<and> pa_externalOrderId a \<noteq> None"
    by (cases ad) (simp_all add: real_adapter.initiate_binds mock_adapter.initiate_binds)
next
  fix input r
  assume "adapter_verify ad api hmac input = Inr r" "vr_verified r"
  then show "vi_signature input =
      Some (hmac (adapter_secret ad) (vi_externalOrderId input @ ''|'' @ vi_externalPaymentId input))"
    by (cases ad) (simp_all add: real_adapter.verified_signed mock_adapter.verified_signed)
next
  fix ci c
  assume "adapter_compensate ad api ci = Inr c"
  then show "cr_compensated c \<and> cr_refundId c \<noteq> None"
    by (cases ad) (simp_all add: real_adapter.compensate_refund mock_adapter.compensate_refund)
qed

subsection \<open>Properties of the adapters\<close>

definition demo_verification :: "string \<Rightarrow> verification_input" where
  "demo_verification sig = \<lparr>vi_logicalOrderId = ''ord_1'', vi_envelopeHash = ''h'', vi_rail = Razorpay_checkout,
     vi_externalOrderId = ''order_1'', vi_externalPaymentId = ''pay_1'', vi_expectedAmountMinor = Some 359800,
     vi_signature = Some sig\<rparr>"

definition demo_mock :: adapter where
  "demo_mock = Adapter_mock \<lparr>mk_keyId = ''k'', mk_keySecret = ''s'', mk_failInitiate = False,
     mk_simulatePayment = None\<rparr>"

text \<open>C18: No adapter reports a payment as verified unless the caller presented the keyed hash of
  exactly this pair of external order and payment identifiers under the adapter's secret.\<close>

theorem verified_only_with_signature:
  assumes "adapter_verify ad api hmac input = Inr r" "vr_verified r"
  shows "vi_signature input =
    Some (hmac (adapter_secret ad) (vi_externalOrderId input @ ''|'' @ vi_externalPaymentId input))"
  using assms by (rule any_adapter.verified_signed)

theorem verified_only_with_signature_witness:
  "vi_signature (demo_verification ''sorder_1|pay_1'') =
     Some ((\<lambda>k m. k @ m) (adapter_secret demo_mock)
       (vi_externalOrderId (demo_verification ''sorder_1|pay_1'') @ ''|'' @
        vi_externalPaymentId (demo_verification ''sorder_1|pay_1'')))"
proof -
  obtain r where "adapter_verify demo_mock api (\<lambda>k m. k @ m) (demo_verification ''sorder_1|pay_1'') = Inr r"
    "vr_verified r" for api
    by (simp add: demo_mock_def demo_verification_def mock_verify_def razorpaySignature_def or_else_def)
  then show ?thesis by (rule verified_only_with_signature)
qed

text \<open>The real adapter trusts Razorpay, not the caller, for the outcome: with a good signature
  the reported order, payment, amount and currency are those of the payment Razorpay returns, it
  counts as verified exactly when that payment is captured or authorized, and an unreachable or
  failing API is an exception, never a verified payment.\<close>

theorem razorpay_verify_reports_gateway:
  assumes "vi_signature input = Some (hmac (rz_keySecret cfg) (vi_externalOrderId input @ ''|'' @ vi_externalPaymentId input))"
    and "vi_signature input \<noteq> Some []"
  shows "rzp_verify cfg api hmac input =
    (case get_payment api (vi_externalPaymentId input) of
       Http_ok p \<Rightarrow> Inr
         \<lparr>vr_verified = (rpay_status p \<in> {''captured'', ''authorized''}), vr_rail = Razorpay_checkout,
          vr_externalOrderId = or_else (rpay_order_id p) (vi_externalOrderId input),
          vr_externalPaymentId = rpay_id p, vr_amountMinor = rpay_amount p, vr_currency = rpay_currency p,
          vr_status = rpay_status p,
          vr_reason = (if rpay_status p \<in> {''captured'', ''authorized''} then None
                       else Some (''Razorpay payment status: '' @ rpay_status p))\<rparr>
     | Http_error status d \<Rightarrow> Inl (if status = 401
           then ''Razorpay authentication failed (invalid Key ID or Key Secret)''
           else ''Razorpay GET /payments/'' @ vi_externalPaymentId input @ '' failed: '' @
                or_else d (''HTTP '' @ int_str status))
     | Net_error n \<Rightarrow> Inl (''Razorpay API unreachable ('' @ n @ ''); check network or credentials''))"
  using assms
  by (auto simp: rzp_verify_def verifyRazorpayPaymentSignature_def razorpaySignature_def rzp_request_def
        or_else_def Let_def split: http_reply.splits option.splits)

theorem razorpay_verify_reports_gateway_witness:
  "\<exists>r. rzp_verify \<lparr>rz_keyId = ''k'', rz_keySecret = ''s'', rz_webhookSecret = None\<rparr>
     \<lparr>post_orders = (\<lambda>b. Net_error ''x''),
      get_payment = (\<lambda>i. Http_ok \<lparr>rpay_id = i, rpay_order_id = None, rpay_amount = 5, rpay_currency = ''INR'',
                                   rpay_status = ''captured''\<rparr>),
      post_refund = (\<lambda>i b. Net_error ''x'')\<rparr>
     (\<lambda>k m. k @ m) (demo_verification ''sorder_1|pay_1'') = Inr r \<and> vr_verified r \<and> vr_amountMinor r = 5"
  using razorpay_verify_reports_gateway [of "demo_verification ''sorder_1|pay_1''" "\<lambda>k m. k @ m"
      "\<lparr>rz_keyId = ''k'', rz_keySecret = ''s'', rz_webhookSecret = None\<rparr>"
      "\<lparr>post_orders = (\<lambda>b. Net_error ''x''),
        get_payment = (\<lambda>i. Http_ok \<lparr>rpay_id = i, rpay_order_id = None, rpay_amount = 5, rpay_currency = ''INR'',
                                   rpay_status = ''captured''\<rparr>),
        post_refund = (\<lambda>i b. Net_error ''x'')\<rparr>"]
  by (simp add: demo_verification_def)

end
