(* ===== verification/X402.thy ===== *)
theory X402
  imports Payments SettlementStore "HOL-Library.Word"
begin

unbundle bit_operations_syntax

text \<open>
  The x402 protocol layer, \<open>packages/payments/src\<close>: requirements, digests, settlement adaptation and
  evidence extraction (\<open>x402.ts\<close>), the configuration loader (\<open>x402-config.ts\<close>) and the operator's
  reconciliation (\<open>operator.ts\<close>). SHA-256, base58, Ed25519, key files and RPC replies are parameters.
\<close>

subsection \<open>Configuration (x402-config.ts)\<close>

definition SOLANA_DEVNET_CAIP2 :: string where
  "SOLANA_DEVNET_CAIP2 = ''solana:EtWTRABZaYq6iMfeYKouRu166VU2xqa1''"

definition USDC_DEVNET_MINT :: string where
  "USDC_DEVNET_MINT = ''4zMMC9srt5Ri5X14GAgXhaHii3GnPAEERYPJgZJDncDU''"

record devnet_config =
  dc_facilitatorUrl :: string
  dc_solanaRpcUrl :: "string option"
  dc_payerSecretKey :: "nat list"
  dc_payerPublicKey :: string
  dc_payeePublicKey :: string
  dc_devnetUsdcMint :: string
  dc_amountMinor :: int

record mock_x402_config =
  mc_payeeWallet :: string
  mc_agentWallet :: string
  mc_usdcMint :: string
  mc_amountMinor :: int

datatype x402_config = X402_devnet devnet_config | X402_mock mock_x402_config

text \<open>The libraries the loader calls: reading and parsing a key file, base58 and Ed25519.\<close>

record key_lib =
  read_key_file :: "string \<Rightarrow> int list option"
  base58_encode :: "nat list \<Rightarrow> string"
  ed25519_public :: "nat list \<Rightarrow> nat list option"

definition derivePublicKeyBase58 :: "key_lib \<Rightarrow> nat list \<Rightarrow> string option" where
  "derivePublicKeyBase58 kl sk =
     (if length sk = 64 then Some (base58_encode kl (drop 32 sk))
      else if length sk = 32 then map_option (base58_encode kl) (ed25519_public kl sk)
      else None)"

definition loadKeypairBytes :: "key_lib \<Rightarrow> string \<Rightarrow> nat list option" where
  "loadKeypairBytes kl path =
     (case read_key_file kl path of
        None \<Rightarrow> None
      | Some arr \<Rightarrow> if length arr \<noteq> 32 \<and> length arr \<noteq> 64 then None else Some (map (\<lambda>n. nat (n mod 256)) arr))"

definition parseAmountMinor :: "string option \<Rightarrow> int \<Rightarrow> int throws" where
  "parseAmountMinor value fallback =
     (case value of
        None \<Rightarrow> Inr fallback
      | Some v \<Rightarrow>
          if v = [] then Inr fallback
          else (case js_integer v of
                  None \<Rightarrow> Inl (''X402_AMOUNT_MINOR must be a positive integer. Got: '' @ [CHR 0x22] @ v @ [CHR 0x22])
                | Some n \<Rightarrow> if n \<le> 0
                    then Inl (''X402_AMOUNT_MINOR must be a positive integer. Got: '' @ [CHR 0x22] @ v @ [CHR 0x22])
                    else Inr n))"

text \<open>\<open>value || fallback\<close>.\<close>

definition or_falsy :: "string option \<Rightarrow> string \<Rightarrow> string" where
  "or_falsy v d = (case v of None \<Rightarrow> d | Some x \<Rightarrow> if x = [] then d else x)"

definition load_devnet :: "key_lib \<Rightarrow> (string \<Rightarrow> string option) \<Rightarrow> x402_config throws" where
  "load_devnet kl env =
     (if \<not> truthy (env ''X402_PAYER_KEYPAIR_PATH'')
      then Inl ''X402_PAYER_KEYPAIR_PATH is required when X402_MODE=devnet''
      else if \<not> truthy (env ''X402_PAYEE_PUBLIC_KEY'') \<or> env ''X402_PAYEE_PUBLIC_KEY'' = Some ''PLACEHOLDER_PAYEE_PUBLIC_KEY''
      then Inl ''X402_PAYEE_PUBLIC_KEY is required when X402_MODE=devnet''
      else (case loadKeypairBytes kl (or_falsy (env ''X402_PAYER_KEYPAIR_PATH'') []) of
              None \<Rightarrow> Inl ''Failed to load payer keypair. Verify the keypair file exists, contains a valid JSON array of 32 or 64 numbers, and is readable.''
            | Some sk \<Rightarrow>
                (case derivePublicKeyBase58 kl sk of
                   None \<Rightarrow> Inl ''Failed to derive public key from payer keypair. Ensure the keypair file contains a valid ed25519 secret key.''
                 | Some pk \<Rightarrow>
                     (case parseAmountMinor (env ''X402_AMOUNT_MINOR'') 10000 of
                        Inl e \<Rightarrow> Inl e
                      | Inr amount \<Rightarrow> Inr (X402_devnet
                          \<lparr>dc_facilitatorUrl = or_falsy (env ''X402_FACILITATOR_URL'') ''https://x402.org/facilitator'',
                           dc_solanaRpcUrl = (if truthy (env ''X402_SOLANA_RPC_URL'') then env ''X402_SOLANA_RPC_URL'' else None),
                           dc_payerSecretKey = sk, dc_payerPublicKey = pk,
                           dc_payeePublicKey = or_falsy (env ''X402_PAYEE_PUBLIC_KEY'') [],
                           dc_devnetUsdcMint = or_falsy (env ''X402_DEVNET_USDC_MINT'') USDC_DEVNET_MINT,
                           dc_amountMinor = amount\<rparr>)))))"

definition loadX402Config :: "key_lib \<Rightarrow> (string \<Rightarrow> string option) \<Rightarrow> x402_config throws" where
  "loadX402Config kl env =
     (let rawMode = toLowerCase (trim (case env ''X402_MODE'' of None \<Rightarrow> ''mock'' | Some m \<Rightarrow> m)) in
      if rawMode \<notin> {''mock'', ''devnet''}
      then Inl (''X402_MODE must be one of: mock, devnet. Received: '' @ [CHR 0x22] @
                (case env ''X402_MODE'' of None \<Rightarrow> ''undefined'' | Some m \<Rightarrow> m) @ [CHR 0x22] @
                ''. Do not silently fall back to mock '' @ [CHR 0xE2, CHR 0x80, CHR 0x94] @ '' fix the configuration.'')
      else if rawMode = ''devnet'' then load_devnet kl env
      else (case parseAmountMinor (env ''X402_AMOUNT_MINOR'') 10000 of
              Inl e \<Rightarrow> Inl e
            | Inr amount \<Rightarrow> Inr (X402_mock
                \<lparr>mc_payeeWallet = or_falsy (env ''X402_DEMO_PAYEE_WALLET'') ''demo_payee_RunVista_mock'',
                 mc_agentWallet = or_falsy (env ''X402_DEMO_AGENT_WALLET'') ''demo_agent_wallet_mock'',
                 mc_usdcMint = or_falsy (env ''X402_DEMO_USDC_MINT'') ''usdc_devnet_mock_mint'',
                 mc_amountMinor = amount\<rparr>)))"

subsection \<open>Requests, digests and requirements (x402.ts)\<close>

definition memoForEnvelope :: "string \<Rightarrow> string" where
  "memoForEnvelope envelopeHash = ''agentcart:v1:'' @ envelopeHash"

record tool_spend_request =
  ts_orderId :: string
  ts_intentVersion :: int
  ts_resource :: string
  ts_amountMinor :: int
  ts_network :: string
  ts_asset :: string
  ts_payee :: string
  ts_purpose :: string

definition DEVNET_FIT_SCORE_RESOURCE :: string where
  "DEVNET_FIT_SCORE_RESOURCE = ''/api/resources/premium-fit-score''"

definition buildDevnetToolSpendRequest :: "devnet_config \<Rightarrow> string \<Rightarrow> int \<Rightarrow> tool_spend_request" where
  "buildDevnetToolSpendRequest config orderId intentVersion =
     \<lparr>ts_orderId = orderId, ts_intentVersion = intentVersion, ts_resource = DEVNET_FIT_SCORE_RESOURCE,
      ts_amountMinor = dc_amountMinor config, ts_network = SOLANA_DEVNET_CAIP2,
      ts_asset = dc_devnetUsdcMint config, ts_payee = dc_payeePublicKey config, ts_purpose = ''fit_scoring''\<rparr>"

definition toolSpendJson :: "tool_spend_request \<Rightarrow> json" where
  "toolSpendJson req = JObj
     [(''orderId'', JStr (ts_orderId req)), (''intentVersion'', JNum (ts_intentVersion req)),
      (''resource'', JStr (ts_resource req)), (''amountMinor'', JNum (ts_amountMinor req)),
      (''network'', JStr (ts_network req)), (''asset'', JStr (ts_asset req)), (''payee'', JStr (ts_payee req)),
      (''purpose'', JStr (ts_purpose req))]"

definition canonicalToolSpendRequestDigest :: "(string \<Rightarrow> string) \<Rightarrow> tool_spend_request \<Rightarrow> string" where
  "canonicalToolSpendRequestDigest sha256 req = sha256 (JSON_stringify (toolSpendJson req))"

record order_payment_request =
  op_logicalOrderId :: string
  op_envelopeDigest :: string
  op_network :: string
  op_asset :: string
  op_amountMinor :: int
  op_currency :: string
  op_payee :: string
  op_purpose :: string

definition orderPaymentJson :: "order_payment_request \<Rightarrow> json" where
  "orderPaymentJson req = JObj
     [(''logicalOrderId'', JStr (op_logicalOrderId req)), (''envelopeDigest'', JStr (op_envelopeDigest req)),
      (''network'', JStr (op_network req)), (''asset'', JStr (op_asset req)),
      (''amountMinor'', JNum (op_amountMinor req)), (''currency'', JStr (op_currency req)),
      (''payee'', JStr (op_payee req)), (''purpose'', JStr (op_purpose req))]"

definition canonicalOrderPaymentRequestDigest :: "(string \<Rightarrow> string) \<Rightarrow> order_payment_request \<Rightarrow> string" where
  "canonicalOrderPaymentRequestDigest sha256 req = sha256 (JSON_stringify (orderPaymentJson req))"

definition mockOrderPaymentIdentifier :: "string \<Rightarrow> string" where
  "mockOrderPaymentIdentifier requestDigest = ''x402ord_'' @ slice_to 12 requestDigest"

record canonical_requirements =
  cq_scheme :: string
  cq_network :: string
  cq_asset :: string
  cq_amount :: string
  cq_payTo :: string
  cq_maxTimeoutSeconds :: int
  cq_memo :: string

definition buildCanonicalRequirements :: "devnet_config \<Rightarrow> string \<Rightarrow> canonical_requirements" where
  "buildCanonicalRequirements config requestDigest =
     \<lparr>cq_scheme = ''exact'', cq_network = SOLANA_DEVNET_CAIP2, cq_asset = dc_devnetUsdcMint config,
      cq_amount = int_str (dc_amountMinor config), cq_payTo = dc_payeePublicKey config,
      cq_maxTimeoutSeconds = 300, cq_memo = memoForEnvelope requestDigest\<rparr>"

record supplied_requirements =
  su_scheme :: "string option"
  su_network :: "string option"
  su_asset :: "string option"
  su_amount :: "string option"
  su_payTo :: "string option"
  su_memo :: "string option"

definition undef_str :: "string option \<Rightarrow> string" where
  "undef_str s = (case s of None \<Rightarrow> ''undefined'' | Some x \<Rightarrow> x)"

definition verifyCanonicalRequirements ::
  "supplied_requirements \<Rightarrow> canonical_requirements \<Rightarrow> string list throws" where
  "verifyCanonicalRequirements supplied canonical =
     (let errors =
        when_code (su_scheme supplied \<noteq> Some (cq_scheme canonical))
          (''scheme must be '' @ cq_scheme canonical @ '', got '' @ undef_str (su_scheme supplied)) @
        when_code (su_network supplied \<noteq> Some (cq_network canonical))
          (''wrong network: expected '' @ cq_network canonical @ '', got '' @ undef_str (su_network supplied)) @
        when_code (su_asset supplied \<noteq> Some (cq_asset canonical))
          (''wrong asset: expected '' @ cq_asset canonical @ '', got '' @ undef_str (su_asset supplied)) @
        when_code (su_payTo supplied \<noteq> Some (cq_payTo canonical))
          (''wrong payee: expected '' @ cq_payTo canonical @ '', got '' @ undef_str (su_payTo supplied)) @
        when_code (su_memo supplied \<noteq> Some (cq_memo canonical))
          (''memo mismatch: expected '' @ cq_memo canonical @ '', got '' @ undef_str (su_memo supplied))
      in case su_amount supplied of
           None \<Rightarrow> Inr errors
         | Some amount \<Rightarrow>
             (case js_BigInt amount of
                None \<Rightarrow> Inl (''Cannot convert '' @ amount @ '' to a BigInt'')
              | Some suppliedAtomic \<Rightarrow>
                  (case js_BigInt (cq_amount canonical) of
                     None \<Rightarrow> Inl (''Cannot convert '' @ cq_amount canonical @ '' to a BigInt'')
                   | Some canonicalAtomic \<Rightarrow>
                       Inr (errors @ when_code (suppliedAtomic < canonicalAtomic)
                         (''underpayment: expected at least '' @ cq_amount canonical @ '', got '' @ amount)))))"

record raw_settlement =
  rs_success :: bool
  rs_transaction :: "string option"
  rs_network :: "string option"
  rs_payer :: "string option"
  rs_amount :: "string option"

record settlement_overrides =
  so_payee :: string
  so_asset :: string
  so_facilitatorUrl :: string
  so_paymentIdentifier :: string
  so_amount :: "string option"

record adapted_settlement =
  as_success :: bool
  as_transactionHash :: string
  as_payer :: string
  as_payee :: string
  as_network :: string
  as_asset :: string
  as_amount :: string
  as_facilitatorUrl :: string
  as_paymentIdentifier :: string

definition settlement_amount :: "raw_settlement \<Rightarrow> settlement_overrides \<Rightarrow> string" where
  "settlement_amount raw ov = or_falsy (rs_amount raw) (or_falsy (so_amount ov) [])"

definition adaptSettlement :: "raw_settlement \<Rightarrow> settlement_overrides \<Rightarrow> adapted_settlement throws" where
  "adaptSettlement raw ov =
     (if \<not> rs_success raw then
        (if settlement_amount raw ov = []
         then Inl ''Settlement did not provide an amount and no verified canonical amount was available.''
         else Inr \<lparr>as_success = False, as_transactionHash = or_else (rs_transaction raw) [],
                as_payer = or_else (rs_payer raw) [], as_payee = so_payee ov, as_network = or_else (rs_network raw) [],
                as_asset = so_asset ov, as_amount = settlement_amount raw ov,
                as_facilitatorUrl = so_facilitatorUrl ov, as_paymentIdentifier = so_paymentIdentifier ov\<rparr>)
      else if \<not> truthy (rs_transaction raw)
      then Inl ''Settlement returned success but no transaction signature was provided.''
      else if \<not> truthy (rs_payer raw)
      then Inl ''Settlement returned success but no payer was provided.''
      else if settlement_amount raw ov = []
      then Inl ''Settlement did not provide an amount and no verified canonical amount was available.''
      else Inr \<lparr>as_success = True, as_transactionHash = or_else (rs_transaction raw) [],
             as_payer = or_else (rs_payer raw) [], as_payee = so_payee ov,
             as_network = or_else (rs_network raw) SOLANA_DEVNET_CAIP2, as_asset = so_asset ov,
             as_amount = settlement_amount raw ov, as_facilitatorUrl = so_facilitatorUrl ov,
             as_paymentIdentifier = so_paymentIdentifier ov\<rparr>)"

subsection \<open>Evidence from the chain (x402.ts)\<close>

text \<open>
  The compact length prefix of a wire transaction, read with JavaScript's 32-bit shifts. The result is
  the position after the prefix and the accumulated count.
\<close>

fun read_compact :: "8 word list \<Rightarrow> nat \<Rightarrow> nat \<Rightarrow> 32 word \<Rightarrow> nat \<times> 32 word" where
  "read_compact [] offset shift cnt = (offset, cnt)"
| "read_compact (byte # bytes) offset shift cnt =
     (if shift > 28 then (offset, cnt)
      else let cnt' = cnt OR push_bit shift (ucast (byte AND 0x7f))
           in if byte AND 0x80 = 0 then (offset + 1, cnt')
              else read_compact bytes (offset + 1) (shift + 7) cnt')"

definition extractSignatureBytes :: "8 word list \<Rightarrow> 8 word list option" where
  "extractSignatureBytes bytes =
     (case read_compact bytes 0 0 0 of (offset, cnt) \<Rightarrow>
        if sint cnt < 1 \<or> offset + 64 > length bytes then None
        else Some (take 64 (drop offset bytes)))"

record blockhash_validity =
  bv_expired :: bool
  bv_slot :: "int option"
  bv_blockhash :: string

text \<open>An RPC reply: no answer or an unparsable one, an error status, or the fields of the result.\<close>

datatype rpc_reply = Rpc_failed | Rpc_not_ok | Rpc_result json json

definition checkBlockhashExpired :: "string \<Rightarrow> rpc_reply \<Rightarrow> blockhash_validity" where
  "checkBlockhashExpired blockhash reply =
     (case reply of
        Rpc_result (JBool value) slot \<Rightarrow>
          \<lparr>bv_expired = (value = False), bv_slot = (case slot of JNum n \<Rightarrow> Some n | _ \<Rightarrow> None), bv_blockhash = blockhash\<rparr>
      | _ \<Rightarrow> \<lparr>bv_expired = False, bv_slot = None, bv_blockhash = blockhash\<rparr>)"

subsection \<open>Operator (operator.ts)\<close>

text \<open>The value after the first occurrence of a flag.\<close>

fun flag_value :: "string \<Rightarrow> string list \<Rightarrow> string option" where
  "flag_value flag [] = None"
| "flag_value flag (a # rest) =
     (if a = flag then (case rest of [] \<Rightarrow> None | v # _ \<Rightarrow> Some v) else flag_value flag rest)"

record release_args =
  ra_operationId :: string
  ra_operatorId :: string
  ra_newApprovalEventId :: string
  ra_blockhash :: "string option"
  ra_transferVerification :: transfer_verification
  ra_note :: string

definition parseReleaseArgs :: "string list \<Rightarrow> release_args throws" where
  "parseReleaseArgs argv =
     (let get = (\<lambda>flag. or_else (flag_value flag argv) []);
          transfer = get ''--transfer''
      in if get ''--operation'' = [] then Inl ''--operation <operation-id> is required''
         else if get ''--operator'' = [] then Inl ''--operator <operator-id> is required''
         else if get ''--new-approval'' = [] then Inl ''--new-approval <appr_...> is required''
         else if transfer = [] then Inl ''--transfer <verification-state> is required''
         else if transfer \<noteq> ''mismatch'' \<and> transfer \<noteq> ''unavailable''
         then Inl ''--transfer must be mismatch or unavailable; verified transfers must be reconciled''
         else if get ''--note'' = [] then Inl ''--note <text> is required''
         else Inr \<lparr>ra_operationId = get ''--operation'', ra_operatorId = get ''--operator'',
                ra_newApprovalEventId = get ''--new-approval'', ra_blockhash = flag_value ''--blockhash'' argv,
                ra_transferVerification = (if transfer = ''mismatch'' then TV_mismatch else TV_unavailable),
                ra_note = get ''--note''\<rparr>)"

definition resolveReleaseBlockhash :: "string option \<Rightarrow> string option \<Rightarrow> string throws" where
  "resolveReleaseBlockhash rowBlockhash flagValue =
     (if truthy flagValue then
        (if \<not> truthy rowBlockhash
         then Inl ''attempt has no staged blockhash; resolve via incident track, release is refused''
         else if flagValue \<noteq> rowBlockhash
         then Inl ''flagged blockhash does not match the attempt's staged blockhash''
         else Inr (or_else flagValue []))
      else if \<not> truthy rowBlockhash
      then Inl ''attempt has no staged blockhash; resolve via incident track, release is refused''
      else Inr (or_else rowBlockhash []))"

record reconcile_settled_args =
  rc_operationId :: string
  rc_operatorId :: string
  rc_txHash :: string
  rc_checkedSlot :: int
  rc_note :: string

definition parseReconcileSettledArgs :: "string list \<Rightarrow> reconcile_settled_args throws" where
  "parseReconcileSettledArgs argv =
     (let get = (\<lambda>flag. or_else (flag_value flag argv) [])
      in if get ''--operation'' = [] then Inl ''--operation <operation-id> is required''
         else if get ''--operator'' = [] then Inl ''--operator <operator-id> is required''
         else if get ''--tx'' = [] then Inl ''--tx <finalized-transaction-signature> is required''
         else if get ''--slot'' = [] then Inl ''--slot <checked-slot> is required''
         else (case js_integer (get ''--slot'') of
                 None \<Rightarrow> Inl ''--slot must be the integer chain slot of the finality inspection''
               | Some slot \<Rightarrow>
                   if slot < 0 then Inl ''--slot must be the integer chain slot of the finality inspection''
                   else if get ''--note'' = [] then Inl ''--note <text> is required''
                   else Inr \<lparr>rc_operationId = get ''--operation'', rc_operatorId = get ''--operator'',
                          rc_txHash = get ''--tx'', rc_checkedSlot = slot, rc_note = get ''--note''\<rparr>))"

definition validateReconcileSettledEvidence :: "reconcile_settled_args \<Rightarrow> string list" where
  "validateReconcileSettledEvidence ev =
     when_code (rc_operatorId ev = []) ''operator identity is required'' @
     when_code (length (rc_txHash ev) < 32) ''a finalized transaction signature is required'' @
     when_code (rc_checkedSlot ev < 0) ''checkedSlot must be the integer chain slot of the finality inspection'' @
     when_code (rc_note ev = []) ''operator note is required''"

datatype reconcile_result = Reconcile_ok stored_attempt bool | Reconcile_refused "string list"

definition json_field :: "string \<Rightarrow> (string \<times> json) list \<Rightarrow> string option" where
  "json_field k kvs = (case map_of kvs k of Some (JStr s) \<Rightarrow> Some s | _ \<Rightarrow> None)"

text \<open>The checks before the lease is taken: an early answer, or nothing.\<close>

definition reconcile_precheck ::
  "reconcile_settled_args \<Rightarrow> (string \<times> json) list \<Rightarrow> stored_attempt option \<Rightarrow> reconcile_result option" where
  "reconcile_precheck input evidence row =
     (case row of
        None \<Rightarrow> Some (Reconcile_refused [''unknown operation''])
      | Some r \<Rightarrow>
          if sa_status r = AS_settled then
            Some (if sa_txHash r = Some (rc_txHash input) then Reconcile_ok r True
                  else Reconcile_refused [''attempt is already settled with a different transaction signature''])
          else if sa_status r \<noteq> AS_settling \<and> sa_status r \<noteq> AS_awaiting_evidence
          then Some (Reconcile_refused [''reconcile requires status settling/awaiting_evidence (current: '' @
                 attempt_state_str (sa_status r) @ '')''])
          else if truthy (sa_txHash r) \<and> sa_txHash r \<noteq> Some (rc_txHash input)
          then Some (Reconcile_refused [''a different transaction signature is already bound to this attempt''])
          else if \<not> truthy (sa_payer r) then Some (Reconcile_refused [''attempt has no verified payer''])
          else if json_field ''transactionHash'' evidence \<notin> {None, Some (rc_txHash input)}
          then Some (Reconcile_refused [''evidence transaction signature does not match the cited signature''])
          else if json_field ''requestDigest'' evidence \<notin> {None, Some (sa_requestDigest r)}
          then Some (Reconcile_refused [''evidence request digest does not match the attempt''])
          else if json_field ''paymentIdentifier'' evidence \<noteq> None \<and>
                  json_field ''paymentIdentifier'' evidence \<noteq> sa_callerPaymentId r
          then Some (Reconcile_refused [''evidence payment identifier does not match the attempt''])
          else None)"

text \<open>
  \<open>persistReconciledSettlement\<close> on the PostgreSQL store. Other workers run between its awaits:
  \<open>w1\<close> after the first read, \<open>w2\<close> after the takeover, \<open>w3\<close> after the transition.
\<close>

definition persistReconciledSettlement ::
  "int \<Rightarrow> int \<Rightarrow> string \<Rightarrow> (settlement_db \<Rightarrow> settlement_db) \<Rightarrow> (settlement_db \<Rightarrow> settlement_db) \<Rightarrow>
   (settlement_db \<Rightarrow> settlement_db) \<Rightarrow> reconcile_settled_args \<Rightarrow> (string \<times> json) list \<Rightarrow> settlement_db \<Rightarrow>
   (reconcile_result \<times> settlement_db) throws" where
  "persistReconciledSettlement now1 now2 fence w1 w2 w3 input evidence db =
     (let reasons = validateReconcileSettledEvidence input @
            when_code (rc_operationId input = []) ''operation identity is required''
      in if reasons \<noteq> [] then Inr (Reconcile_refused reasons, db)
         else (case reconcile_precheck input evidence (getByOperationId (rc_operationId input) db) of
                 Some res \<Rightarrow> Inr (res, db)
               | None \<Rightarrow>
                   (case pg_claimRowForTakeover now1 fence (rc_operationId input) (''operator-'' @ rc_operatorId input) 60000 (w1 db) of
                      Inl e \<Rightarrow> Inl e
                    | Inr (None, db1) \<Rightarrow>
                        Inr (Reconcile_refused [''could not claim the attempt (lease still active or status changed)''], db1)
                    | Inr (Some claimed, db1) \<Rightarrow>
                        (case pg_transition now2 (rc_operationId input) [AS_settling, AS_awaiting_evidence] AS_settled
                                (no_update\<lparr>up_txHash := Some (Some (rc_txHash input)), up_evidenceJson := Some (JObj evidence)\<rparr>)
                                (sa_leaseOwner claimed) (sa_fenceToken claimed) ''operator-reconcile''
                                (rc_operatorId input @ '': '' @ rc_note input @ '' (tx='' @ slice_to 8 (rc_txHash input) @
                                 ''..., slot='' @ int_str (rc_checkedSlot input) @ '')'') (w2 db1) of
                           Inl e \<Rightarrow> Inl e
                         | Inr (Some settled, db2) \<Rightarrow> Inr (Reconcile_ok settled False, db2)
                         | Inr (None, db2) \<Rightarrow>
                             (case getByOperationId (rc_operationId input) (w3 db2) of
                                Some current \<Rightarrow>
                                  if sa_status current = AS_settled \<and> sa_txHash current = Some (rc_txHash input)
                                  then Inr (Reconcile_ok current True, w3 db2)
                                  else Inr (Reconcile_refused [''reconcile transition refused (lease lost or status changed)''], w3 db2)
                              | None \<Rightarrow>
                                  Inr (Reconcile_refused [''reconcile transition refused (lease lost or status changed)''], w3 db2))))))"

subsection \<open>Facts\<close>

lemma num_char_not_space: "num_char c \<Longrightarrow> \<not> is_space c"
  by (auto simp: num_char_def is_space_def is_digit_def)

lemma dropWhile_int_str: "(\<And>c. c \<in> set s \<Longrightarrow> num_char c) \<Longrightarrow> dropWhile is_space s = s"
  by (cases s) (auto simp: num_char_not_space)

lemma trim_num: "(\<And>c. c \<in> set s \<Longrightarrow> num_char c) \<Longrightarrow> trim s = s"
  using dropWhile_int_str [of s] dropWhile_int_str [of "rev s"] by (simp add: trim_def)

lemma radix_literal_num:
  assumes "\<And>c. c \<in> set s \<Longrightarrow> num_char c" shows "radix_literal s = None"
proof -
  have "take 2 s \<noteq> [CHR ''0'', x]" if "\<not> num_char x" for x
  proof
    assume "take 2 s = [CHR ''0'', x]"
    then have "x \<in> set (take 2 s)" by (simp only: set_simps insertI1 insertI2)
    then have "x \<in> set s" by (rule in_set_takeD)
    with assms that show False by blast
  qed
  then have "take 2 s \<notin> {''0x'', ''0X'', ''0o'', ''0O'', ''0b'', ''0B''}"
    by (auto simp: num_char_def is_digit_def)
  then show ?thesis by (auto simp: radix_literal_def Let_def)
qed

lemma split_sign_int_str:
  "split_sign (int_str i) = (i < 0, nat_str (nat \<bar>i\<bar>))"
proof (cases "i < 0")
  case False
  obtain c r where c: "nat_str (nat i) = c # r" by (cases "nat_str (nat i)") auto
  then have "is_digit c" using nat_str_digits [of "nat i"] by simp
  then have "c \<noteq> CHR ''-''" "c \<noteq> CHR ''+''" by (auto simp: is_digit_def)
  with False c show ?thesis by (simp add: int_str_def split_sign_def)
qed (simp add: int_str_def split_sign_def)

lemma js_BigInt_int_str: "js_BigInt (int_str i) = Some i"
proof -
  have n: "\<And>c. c \<in> set (int_str i) \<Longrightarrow> num_char c" by (rule int_str_num_chars)
  show ?thesis
    using trim_num [OF n] radix_literal_num [OF n] nat_str_digits [of "nat \<bar>i\<bar>"]
    by (simp add: js_BigInt_def Let_def split_sign_int_str str_nat_nat_str list_all_iff)
qed

lemma or_falsy_truthy: "truthy v \<Longrightarrow> v = Some (or_falsy v d)"
  by (cases v) (auto simp: or_falsy_def)

text \<open>A settlement reported as successful always names its transaction, its payer and an amount.\<close>

lemma adaptSettlement_success:
  assumes "adaptSettlement raw ov = Inr a" "as_success a"
  shows "rs_success raw \<and> rs_transaction raw = Some (as_transactionHash a) \<and> as_transactionHash a \<noteq> [] \<and>
         rs_payer raw = Some (as_payer a) \<and> as_payer a \<noteq> [] \<and> as_amount a \<noteq> [] \<and>
         as_payee a = so_payee ov \<and> as_asset a = so_asset ov \<and> as_paymentIdentifier a = so_paymentIdentifier ov"
  using assms
  by (cases "rs_transaction raw"; cases "rs_payer raw") (auto simp: adaptSettlement_def or_else_def split: if_splits)

lemma read_compact_offset:
  "read_compact bs off sh c = (off', c') \<Longrightarrow> off \<le> off' \<and> off' \<le> off + length bs"
  by (induction bs off sh c rule: read_compact.induct) (auto simp: Let_def split: if_splits)

text \<open>Signature extraction never reads outside the transaction's bytes.\<close>

lemma extractSignature_in_bounds:
  assumes "extractSignatureBytes bytes = Some sig"
  shows "length sig = 64 \<and> (\<exists>off. off + 64 \<le> length bytes \<and> sig = take 64 (drop off bytes))"
  using assms by (auto simp: extractSignatureBytes_def not_less split: prod.splits if_splits)

subsection \<open>Properties of the protocol layer\<close>

text \<open>C31: A payment offer passes the requirement check exactly when it names the canonical scheme,
  network, asset, payee and memo, and its amount, if it states one, is a number not below the canonical
  amount; the memo carries the request digest.\<close>

theorem requirements_accepted_iff:
  "verifyCanonicalRequirements supplied (buildCanonicalRequirements config digest) = Inr [] \<longleftrightarrow>
   su_scheme supplied = Some ''exact'' \<and> su_network supplied = Some SOLANA_DEVNET_CAIP2 \<and>
   su_asset supplied = Some (dc_devnetUsdcMint config) \<and> su_payTo supplied = Some (dc_payeePublicKey config) \<and>
   su_memo supplied = Some (''agentcart:v1:'' @ digest) \<and>
   (su_amount supplied = None \<or>
    (\<exists>a n. su_amount supplied = Some a \<and> js_BigInt a = Some n \<and> dc_amountMinor config \<le> n))"
  by (cases "su_amount supplied")
     (auto simp: verifyCanonicalRequirements_def buildCanonicalRequirements_def memoForEnvelope_def
        js_BigInt_int_str Let_def split: option.splits)

text \<open>The digest of a tool-spend request binds order, intent version, resource, amount, network,
  asset, payee and purpose: equal digests mean equal requests or a hash collision.\<close>

theorem tool_spend_digest_binds:
  assumes "canonicalToolSpendRequestDigest sha256 a = canonicalToolSpendRequestDigest sha256 b"
  shows "a = b \<or> (\<exists>s t. s \<noteq> t \<and> sha256 s = sha256 t \<and>
           s = JSON_stringify (toolSpendJson a) \<and> t = JSON_stringify (toolSpendJson b))"
proof (cases "JSON_stringify (toolSpendJson a) = JSON_stringify (toolSpendJson b)")
  case True
  have "toolSpendJson a = toolSpendJson b" by (rule stringify_inj [OF _ _ True]) (simp_all add: toolSpendJson_def)
  then show ?thesis by (simp add: toolSpendJson_def)
next
  case False
  with assms show ?thesis by (auto simp: canonicalToolSpendRequestDigest_def)
qed

definition demo_devnet :: devnet_config where
  "demo_devnet = \<lparr>dc_facilitatorUrl = ''f'', dc_solanaRpcUrl = None, dc_payerSecretKey = [], dc_payerPublicKey = ''payer'',
     dc_payeePublicKey = ''payee'', dc_devnetUsdcMint = ''mint'', dc_amountMinor = 10000\<rparr>"

theorem tool_spend_digest_binds_witness:
  "let a = buildDevnetToolSpendRequest demo_devnet ''o'' 1 in
   a = a \<or> (\<exists>s t. s \<noteq> t \<and> rev s = rev t \<and> s = JSON_stringify (toolSpendJson a) \<and> t = JSON_stringify (toolSpendJson a))"
  unfolding Let_def by (rule tool_spend_digest_binds) (rule refl)

definition demo_reconcile :: reconcile_settled_args where
  "demo_reconcile = \<lparr>rc_operationId = ''op'', rc_operatorId = ''me'', rc_txHash = replicate 40 CHR ''x'',
     rc_checkedSlot = 5, rc_note = ''n''\<rparr>"

text \<open>C32: Operator reconciliation is honest: it reports success only for an attempt that the store holds
  as settled under exactly the cited transaction signature, whatever other workers do in between, and
  it reports a fresh settlement only for an attempt that was unresolved and leased to the operator.\<close>

theorem reconcile_reports_settled:
  assumes inv: "db_inv db" and w1: "\<And>d. db_inv d \<Longrightarrow> db_inv (w1 d)" and w2: "\<And>d. db_inv d \<Longrightarrow> db_inv (w2 d)"
    and res: "persistReconciledSettlement now1 now2 fence w1 w2 w3 input evidence db = Inr (Reconcile_ok row already, db')"
  shows "getByOperationId (rc_operationId input) db' = Some row \<and> sa_status row = AS_settled \<and>
         sa_txHash row = Some (rc_txHash input) \<and>
         (\<not> already \<longrightarrow> (\<exists>r d. getByOperationId (rc_operationId input) d = Some r \<and>
            sa_status r \<in> {AS_settling, AS_awaiting_evidence} \<and> sa_fenceToken r = Some fence \<and>
            sa_leaseOwner r = Some (''operator-'' @ rc_operatorId input)))"
proof (cases "reconcile_precheck input evidence (getByOperationId (rc_operationId input) db)")
  case (Some pre)
  with res show ?thesis
    by (auto simp: persistReconciledSettlement_def reconcile_precheck_def Let_def split: option.splits if_splits)
next
  case None
  let ?i = "rc_operationId input"
  from res None obtain claimed db1 where
    take: "pg_claimRowForTakeover now1 fence ?i (''operator-'' @ rc_operatorId input) 60000 (w1 db) = Inr (Some claimed, db1)"
    by (auto simp: persistReconciledSettlement_def Let_def split: sum.splits option.splits if_splits)
  from pg_lease.takeover_law [OF w1 [OF inv] take]
  have claimed: "db_inv db1" "sa_leaseOwner claimed = Some (''operator-'' @ rc_operatorId input)" "sa_fenceToken claimed = Some fence"
    by (auto simp: lease_row_def)
  let ?u = "no_update\<lparr>up_txHash := Some (Some (rc_txHash input)), up_evidenceJson := Some (JObj evidence)\<rparr>"
  let ?nt = "rc_operatorId input @ '': '' @ rc_note input @ '' (tx='' @ slice_to 8 (rc_txHash input) @
      ''..., slot='' @ int_str (rc_checkedSlot input) @ '')''"
  from res None take claimed obtain x db2 where
    move: "pg_transition now2 ?i [AS_settling, AS_awaiting_evidence] AS_settled ?u
        (Some (''operator-'' @ rc_operatorId input)) (Some fence) ''operator-reconcile'' ?nt (w2 db1) = Inr (x, db2)"
    by (cases "pg_transition now2 ?i [AS_settling, AS_awaiting_evidence] AS_settled ?u
        (Some (''operator-'' @ rc_operatorId input)) (Some fence) ''operator-reconcile'' ?nt (w2 db1)")
       (auto simp: persistReconciledSettlement_def Let_def split: if_splits)
  show ?thesis
  proof (cases x)
    case (Some settled)
    from pg_transition_cases [OF move] Some obtain r h where
      r: "getByOperationId ?i (w2 db1) = Some r"
        "lease_guard now2 [AS_settling, AS_awaiting_evidence] (Some (''operator-'' @ rc_operatorId input)) (Some fence) r"
        "settled = apply_update AS_settled ?u now2 r" "db2 = append_history h (put_row settled (w2 db1))"
      by auto
    have "row = settled" "already = False" "db' = db2"
      using res None take claimed move Some
      by (auto simp: persistReconciledSettlement_def Let_def split: if_splits)
    moreover have "sa_operationId r = ?i" using get_in_rows [OF w2 [OF claimed(1)] r(1)] by blast
    ultimately show ?thesis using r by (auto simp: apply_update_def no_update_def lease_guard_def)
  next
    case None': None
    with res None take claimed move show ?thesis
      by (auto simp: persistReconciledSettlement_def Let_def split: if_splits option.splits)
  qed
qed

definition demo_paid :: settlement_db where
  "demo_paid = put_row ((claim_row 0 ''w1'' ''f1'' 100 None None demo_row)\<lparr>sa_payer := Some ''p''\<rparr>) empty_db"

theorem reconcile_reports_settled_witness:
  "\<exists>row db'. persistReconciledSettlement 200 201 ''f9'' (\<lambda>d. d) (\<lambda>d. d) (\<lambda>d. d) demo_reconcile [] demo_paid =
       Inr (Reconcile_ok row False, db') \<and> sa_status row = AS_settled"
proof -
  have inv: "db_inv demo_paid"
    unfolding demo_paid_def by (rule db_inv_put_row [OF db_inv_empty]) (simp add: unique_ok_def rows_def empty_db_def)
  obtain row db' where
    p: "persistReconciledSettlement 200 201 ''f9'' (\<lambda>d. d) (\<lambda>d. d) (\<lambda>d. d) demo_reconcile [] demo_paid =
       Inr (Reconcile_ok row False, db')"
    by (simp add: persistReconciledSettlement_def demo_reconcile_def validateReconcileSettledEvidence_def when_code_def
        reconcile_precheck_def demo_paid_def demo_row_def new_row_def demo_input_def claim_row_def lease_row_def
        json_field_def pg_claimRowForTakeover_def sql_update_def takeover_ok_def unique_ok_def rows_def put_row_def
        empty_db_def map_set_def getByOperationId_def map_get_def pg_transition_def lease_guard_def apply_update_def no_update_def)
  from reconcile_reports_settled [OF inv _ _ p] p show ?thesis by auto
qed

end
