(* ===== verification/DevnetMachine.thy ===== *)
theory DevnetMachine
  imports X402
begin

text \<open>
  The paid resource on Solana devnet, \<open>packages/payments/src/devnet-machine.ts\<close>: transaction inspection,
  staging of signed payments, completion of a settlement, joining a stored attempt and \<open>accept\<close>, the
  request handler, split into its stages. Every await on the settlement store is one step on the
  PostgreSQL store of \<open>SettlementStore\<close>: before it other workers run (\<open>me_others\<close>), the clock is
  read anew (\<open>me_now\<close>) and the database may be down (\<open>me_down\<close>). The facilitator's verify and
  settle calls leave a trace. Exceptions are \<open>Inl\<close>. The decoding of headers, the payment-identifier
  extension, blockhash extraction, the facilitator and the RPC node are parameters. The prose of error
  details and of history notes is not carried; error codes, identifiers, flags and triggers are.
\<close>

subsection \<open>State, environment and steps\<close>

datatype ext_event = Ext_verify string | Ext_settle string string string

text \<open>The trace keeps each facilitator call with the store as it stood when the call was made.\<close>

record mstate =
  ms_db :: settlement_db
  ms_tick :: nat
  ms_trace :: "(ext_event \<times> settlement_db) list"

record accepted_requirements =
  ac_supplied :: supplied_requirements
  ac_feePayer :: "string option"

record signed_payload =
  sp_accepted :: "accepted_requirements option"
  sp_paymentIdentifier :: "string option"

record verify_response =
  vf_isValid :: bool
  vf_payer :: "string option"

datatype verify_reply = Verify_throws | Verify_response verify_response

record settle_response =
  sr_success :: bool
  sr_transaction :: "string option"
  sr_network :: "string option"
  sr_payer :: "string option"
  sr_amount :: "string option"

text \<open>
  A thrown settle error is the JSON view of the error object. \<open>me_decode\<close> is base64url and
  \<open>JSON.parse\<close> of the header: \<open>None\<close> when it throws, \<open>Some None\<close> for the JSON value
  \<open>null\<close>. The environment variable \<open>X402_SETTLEMENT_ENABLED\<close> is \<open>me_settlementEnabled\<close>
  (false only for the string \<open>false\<close>).
\<close>

datatype settle_reply = Settle_throws json | Settle_malformed | Settle_response settle_response

record machine_env =
  me_config :: devnet_config
  me_sha256 :: "string \<Rightarrow> string"
  me_now :: "nat \<Rightarrow> int"
  me_uuid :: "nat \<Rightarrow> string"
  me_others :: "nat \<Rightarrow> settlement_db \<Rightarrow> settlement_db"
  me_down :: "nat \<Rightarrow> bool"
  me_leaseTtlMs :: int
  me_gcm :: gcm_lib
  me_encKey :: string
  me_iv :: "nat \<Rightarrow> string"
  me_initialized :: bool
  me_settlementEnabled :: bool
  me_decode :: "string \<Rightarrow> signed_payload option option"
  me_extractBlockhash :: "string \<Rightarrow> string option"
  me_supportedFeePayer :: "string option option"
  me_verify :: "string \<Rightarrow> verify_reply"
  me_settle :: "string \<Rightarrow> settle_reply"
  me_rpc :: "nat \<Rightarrow> string \<Rightarrow> json option"

type_synonym 'a mm = "(mstate, 'a) action"

definition store_call ::
  "machine_env \<Rightarrow> (int \<Rightarrow> settlement_db \<Rightarrow> ('a \<times> settlement_db) throws) \<Rightarrow> 'a mm" where
  "store_call env f = (\<lambda>st.
     let n = ms_tick st; db = me_others env n (ms_db st); st1 = st\<lparr>ms_db := db, ms_tick := n + 1\<rparr>
     in if me_down env n then (Inl ''persistence unavailable'', st1)
        else case f (me_now env n) db of
               Inl e \<Rightarrow> (Inl e, st1)
             | Inr (x, db') \<Rightarrow> (Inr x, st1\<lparr>ms_db := db'\<rparr>))"

definition read_clock :: "machine_env \<Rightarrow> int mm" where
  "read_clock env = (\<lambda>st. (Inr (me_now env (ms_tick st)), st))"

definition fresh_uuid :: "machine_env \<Rightarrow> string mm" where
  "fresh_uuid env = (\<lambda>st. (Inr (me_uuid env (ms_tick st)), st\<lparr>ms_tick := ms_tick st + 1\<rparr>))"

definition emit :: "ext_event \<Rightarrow> unit mm" where
  "emit e = (\<lambda>st. (Inr (), st\<lparr>ms_trace := ms_trace st @ [(e, ms_db st)]\<rparr>))"

definition s_get :: "machine_env \<Rightarrow> string \<Rightarrow> stored_attempt option mm" where
  "s_get env i = store_call env (\<lambda>now db. Inr (getByOperationId i db, db))"

definition s_findByPaymentId :: "machine_env \<Rightarrow> string \<Rightarrow> stored_attempt list mm" where
  "s_findByPaymentId env pid = store_call env (\<lambda>now db. Inr (findByPaymentId pid db, db))"

definition s_transition ::
  "machine_env \<Rightarrow> string \<Rightarrow> attempt_state list \<Rightarrow> attempt_state \<Rightarrow> attempt_update \<Rightarrow> string option \<Rightarrow> string option \<Rightarrow>
   string \<Rightarrow> stored_attempt option mm" where
  "s_transition env i from to u owner fence trigger =
     store_call env (\<lambda>now db. pg_transition now i from to u owner fence trigger [] db)"

definition s_takeover :: "machine_env \<Rightarrow> string \<Rightarrow> string \<Rightarrow> stored_attempt option mm" where
  "s_takeover env i owner = mbind (fresh_uuid env) (\<lambda>fence.
     store_call env (\<lambda>now db. pg_claimRowForTakeover now fence i owner (me_leaseTtlMs env) db))"

definition s_revalidate :: "machine_env \<Rightarrow> string \<Rightarrow> string \<Rightarrow> string \<Rightarrow> stored_attempt option mm" where
  "s_revalidate env i owner fence =
     store_call env (\<lambda>now db. pg_revalidateForSettle now i owner fence (me_leaseTtlMs env) db)"

definition s_claim :: "machine_env \<Rightarrow> string \<Rightarrow> string \<Rightarrow> string \<Rightarrow> string \<Rightarrow> stored_attempt option mm" where
  "s_claim env i owner sealed payloadDigest = mbind (fresh_uuid env) (\<lambda>fence.
     store_call env (\<lambda>now db. pg_claimForSettle now fence i owner (me_leaseTtlMs env) (Some sealed) (Some payloadDigest) db))"

text \<open>The reads of \<open>resolveOrCreate\<close> and its insert are two steps.\<close>

definition s_resolve :: "machine_env \<Rightarrow> resolve_input \<Rightarrow> resolve_result mm" where
  "s_resolve env input = mbind (fresh_uuid env) (\<lambda>uuid.
     mbind (store_call env (\<lambda>now db. Inr (pg_resolve_read (me_sha256 env) uuid input db, db))) (\<lambda>step.
       case step of
         Resolve_done r \<Rightarrow> mret r
       | Resolve_open auth i \<Rightarrow> store_call env (\<lambda>now db. pg_resolve_insert input auth i now db)))"

subsection \<open>Responses\<close>

record dev_error =
  de_error :: string
  de_paymentIdentifier :: "string option"
  de_requestDigest :: "string option"
  de_manual :: bool
  de_retryable :: bool
  de_transactionHash :: "string option"

record fit_resource =
  fr_resourceName :: string
  fr_scoredAt :: string
  fr_fit :: string
  fr_scores :: "(string \<times> int \<times> string) list"

datatype dev_body =
    Body_error dev_error
  | Body_resource fit_resource json bool

record dev_result =
  dr_status :: int
  dr_body :: dev_body

definition plain_error :: "int \<Rightarrow> string \<Rightarrow> dev_result" where
  "plain_error status code = \<lparr>dr_status = status, dr_body = Body_error
     \<lparr>de_error = code, de_paymentIdentifier = None, de_requestDigest = None, de_manual = False, de_retryable = False,
      de_transactionHash = None\<rparr>\<rparr>"

definition attempt_error :: "int \<Rightarrow> string \<Rightarrow> string \<Rightarrow> string \<Rightarrow> bool \<Rightarrow> bool \<Rightarrow> string option \<Rightarrow> dev_result" where
  "attempt_error status code pid digest manual retryable tx = \<lparr>dr_status = status, dr_body = Body_error
     \<lparr>de_error = code, de_paymentIdentifier = Some pid, de_requestDigest = Some digest, de_manual = manual,
      de_retryable = retryable, de_transactionHash = tx\<rparr>\<rparr>"

definition score :: "devnet_config \<Rightarrow> int \<Rightarrow> string \<Rightarrow> string \<Rightarrow> fit_resource" where
  "score config now payer transactionHash =
     \<lparr>fr_resourceName = ''RunVista Premium Fit-Scoring API'', fr_scoredAt = toISOString now,
      fr_fit = (if payer = dc_payerPublicKey config then ''wide'' else ''unknown''),
      fr_scores =
        [(''p_vista_max'', 95, ''Wide last, max cushioning, outstanding arch support for wide feet''),
         (''p_streak_4'', 72, ''Standard fit runs snug on wide feet''),
         (''p_stride_lite'', 45, ''Narrow last unsuitable for wide fit''),
         (''p_trail_rock'', 68, ''Standard fit, roomy toebox but narrow midfoot''),
         (''p_gym_pace'', 60, ''Standard fit, medium width''),
         (''p_casual_day'', 88, ''Wide fit, relaxed everyday silhouette'')]\<rparr>"

subsection \<open>Transaction inspection\<close>

datatype memo_verification = Memo_verified | Memo_missing | Memo_unavailable

record transfer_evidence =
  te_mint :: string
  te_amount :: string
  te_recipient :: string
  te_payer :: string

record expected_transfer =
  xt_asset :: string
  xt_amount :: string
  xt_payee :: string
  xt_payer :: string

record transaction_inspection =
  ti_memo :: memo_verification
  ti_transfer_state :: transfer_verification
  ti_transfer :: "transfer_evidence option"

definition inspection_unavailable :: transaction_inspection where
  "inspection_unavailable = \<lparr>ti_memo = Memo_unavailable, ti_transfer_state = TV_unavailable, ti_transfer = None\<rparr>"

text \<open>Property access: \<open>None\<close> is the \<open>TypeError\<close> on \<open>null\<close> and \<open>undefined\<close>; \<open>opt_prop\<close> is \<open>?.\<close>.\<close>

definition jprop :: "string \<Rightarrow> json \<Rightarrow> json option" where
  "jprop k v = (case v of JNull \<Rightarrow> None | JUndefined \<Rightarrow> None
     | JObj kvs \<Rightarrow> Some (case map_of kvs k of None \<Rightarrow> JUndefined | Some x \<Rightarrow> x)
     | _ \<Rightarrow> Some JUndefined)"

definition opt_prop :: "string \<Rightarrow> json \<Rightarrow> json" where
  "opt_prop k v = (case jprop k v of None \<Rightarrow> JUndefined | Some x \<Rightarrow> x)"

definition stringValue :: "json \<Rightarrow> string option" where
  "stringValue v = (case v of JStr s \<Rightarrow> (if s = [] then None else Some s) | _ \<Rightarrow> None)"

definition json_falsy :: "json \<Rightarrow> bool" where
  "json_falsy v = (v \<in> {JNull, JUndefined, JBool False, JNum 0, JStr [], JNonFinite ''NaN''})"

definition json_array :: "json \<Rightarrow> json list" where
  "json_array v = (case v of JArr xs \<Rightarrow> xs | _ \<Rightarrow> [])"

definition has_own :: "string \<Rightarrow> json \<Rightarrow> bool" where
  "has_own k v = (case v of JObj kvs \<Rightarrow> map_of kvs k \<noteq> None | _ \<Rightarrow> False)"

definition alt :: "'a option \<Rightarrow> 'a option \<Rightarrow> 'a option" where
  "alt a b = (case a of None \<Rightarrow> b | Some x \<Rightarrow> Some x)"

definition MEMO_PROGRAM_ID :: string where
  "MEMO_PROGRAM_ID = ''MemoSq4gqABAXKb96qnH8TysNcWxMyWCqXgDLGmfcHr''"

definition TOKEN_PROGRAM_IDS :: "string list" where
  "TOKEN_PROGRAM_IDS = [''TokenkegQfeZyiNwAJbNbGKPFXCWuBvf9Ss623VQ5DA'', ''TokenzQdBNbLqP5VEhdkAS6EPFLC1sT3L4f5Y7W8X9Y'']"

fun some_memo :: "string \<Rightarrow> json list \<Rightarrow> bool option" where
  "some_memo memo [] = Some False"
| "some_memo memo (ix # rest) =
     (case jprop ''program'' ix of
        None \<Rightarrow> None
      | Some program \<Rightarrow>
          if program = JStr ''spl-memo'' \<and> opt_prop ''programId'' ix = JStr MEMO_PROGRAM_ID \<and> opt_prop ''parsed'' ix = JStr memo
          then Some True else some_memo memo rest)"

definition index_of :: "string \<Rightarrow> string list \<Rightarrow> int" where
  "index_of x xs = (if x \<in> set xs then int (length (takeWhile (\<lambda>y. y \<noteq> x) xs)) else - 1)"

text \<open>\<open>balances.find(b => b.accountIndex === i)\<close>; the inner \<open>None\<close> is \<open>undefined\<close>.\<close>

fun find_balance :: "int \<Rightarrow> json list \<Rightarrow> json option option" where
  "find_balance i [] = Some None"
| "find_balance i (b # rest) =
     (case jprop ''accountIndex'' b of
        None \<Rightarrow> None
      | Some k \<Rightarrow> if k = JNum i then Some (Some b) else find_balance i rest)"

definition balance_prop :: "string \<Rightarrow> json option \<Rightarrow> string option" where
  "balance_prop k b = (case b of None \<Rightarrow> None | Some v \<Rightarrow> stringValue (opt_prop k v))"

definition parse_transfer :: "string list \<Rightarrow> json list \<Rightarrow> json list \<Rightarrow> json \<Rightarrow> transfer_evidence list option" where
  "parse_transfer accountKeys post pre ix =
     (case jprop ''programId'' ix of
        None \<Rightarrow> None
      | Some pid \<Rightarrow>
        (let programId = stringValue pid; program = stringValue (opt_prop ''program'' ix) in
         if (programId \<noteq> None \<and> or_else programId [] \<notin> set TOKEN_PROGRAM_IDS) \<or> (programId = None \<and> program \<noteq> Some ''spl-token'')
         then Some []
         else let parsed = opt_prop ''parsed'' ix; info = opt_prop ''info'' parsed; type = stringValue (opt_prop ''type'' parsed)
              in if json_falsy info \<or> (type \<noteq> Some ''transfer'' \<and> type \<noteq> Some ''transferChecked'') then Some []
                 else (case stringValue (opt_prop ''destination'' info) of
                    None \<Rightarrow> Some []
                  | Some destination \<Rightarrow>
                      (let source = stringValue (opt_prop ''source'' info);
                           di = index_of destination accountKeys;
                           si = index_of (or_else source []) accountKeys
                       in case find_balance di post of
                            None \<Rightarrow> None
                          | Some db \<Rightarrow>
                              (case find_balance si pre of
                                 None \<Rightarrow> None
                               | Some sb \<Rightarrow>
                                   (case (alt (stringValue (opt_prop ''mint'' info)) (balance_prop ''mint'' db),
                                          alt (stringValue (opt_prop ''amount'' (opt_prop ''tokenAmount'' info))) (stringValue (opt_prop ''amount'' info)),
                                          alt (stringValue (opt_prop ''authority'' info))
                                            (alt (stringValue (opt_prop ''owner'' info)) (balance_prop ''owner'' sb))) of
                                      (Some mint, Some amount, Some payer) \<Rightarrow>
                                        Some [\<lparr>te_mint = mint, te_amount = amount,
                                               te_recipient = (case balance_prop ''owner'' db of Some o' \<Rightarrow> o' | None \<Rightarrow> destination),
                                               te_payer = payer\<rparr>]
                                    | _ \<Rightarrow> Some []))))))"

fun parse_transfers :: "string list \<Rightarrow> json list \<Rightarrow> json list \<Rightarrow> json list \<Rightarrow> transfer_evidence list option" where
  "parse_transfers accountKeys post pre [] = Some []"
| "parse_transfers accountKeys post pre (ix # rest) =
     (case parse_transfer accountKeys post pre ix of
        None \<Rightarrow> None
      | Some ts \<Rightarrow> (case parse_transfers accountKeys post pre rest of None \<Rightarrow> None | Some us \<Rightarrow> Some (ts @ us)))"

definition account_key :: "json \<Rightarrow> string" where
  "account_key key = (case key of JStr s \<Rightarrow> s | _ \<Rightarrow> (case stringValue (opt_prop ''pubkey'' key) of None \<Rightarrow> [] | Some s \<Rightarrow> s))"

definition transfer_matches :: "expected_transfer \<Rightarrow> transfer_evidence \<Rightarrow> bool" where
  "transfer_matches x t =
     (te_mint t = xt_asset x \<and> te_amount t = xt_amount x \<and> te_recipient t = xt_payee x \<and> te_payer t = xt_payer x)"

definition all_instructions :: "json \<Rightarrow> json list" where
  "all_instructions result =
     (let meta = opt_prop ''meta'' result; message = opt_prop ''message'' (opt_prop ''transaction'' result)
      in json_array (opt_prop ''instructions'' message) @
         concat (map (\<lambda>g. json_array (opt_prop ''instructions'' g)) (json_array (opt_prop ''innerInstructions'' meta))))"

definition inspect_result :: "json \<Rightarrow> string \<Rightarrow> expected_transfer \<Rightarrow> transaction_inspection option" where
  "inspect_result result expectedMemo x =
     (let meta = opt_prop ''meta'' result; message = opt_prop ''message'' (opt_prop ''transaction'' result);
          ixs = all_instructions result
      in case some_memo expectedMemo ixs of
           None \<Rightarrow> None
         | Some found \<Rightarrow>
             (let memo = (if found then Memo_verified else Memo_missing);
                  mismatch = \<lparr>ti_memo = memo, ti_transfer_state = TV_mismatch, ti_transfer = None\<rparr>
              in if json_falsy meta \<or> \<not> has_own ''err'' meta \<or> opt_prop ''err'' meta \<noteq> JNull then Some mismatch
                 else (case parse_transfers (map account_key (json_array (opt_prop ''accountKeys'' message)))
                              (json_array (opt_prop ''postTokenBalances'' meta)) (json_array (opt_prop ''preTokenBalances'' meta)) ixs of
                         None \<Rightarrow> None
                       | Some transfers \<Rightarrow>
                           (let matching = filter (transfer_matches x) transfers
                            in if length transfers \<noteq> 1 \<or> length matching \<noteq> 1 then Some mismatch
                               else Some \<lparr>ti_memo = memo, ti_transfer_state = TV_verified, ti_transfer = js_head matching\<rparr>))))"

definition inspectTransaction ::
  "devnet_config \<Rightarrow> (string \<Rightarrow> json option) \<Rightarrow> string \<Rightarrow> string \<Rightarrow> expected_transfer \<Rightarrow> transaction_inspection" where
  "inspectTransaction config rpc transactionHash expectedMemo x =
     (if \<not> truthy (dc_solanaRpcUrl config) then inspection_unavailable
      else case rpc transactionHash of
             None \<Rightarrow> inspection_unavailable
           | Some data \<Rightarrow>
               (case jprop ''result'' data of
                  None \<Rightarrow> inspection_unavailable
                | Some result \<Rightarrow>
                    if json_falsy result then inspection_unavailable
                    else (case inspect_result result expectedMemo x of None \<Rightarrow> inspection_unavailable | Some i \<Rightarrow> i)))"

definition inspect :: "machine_env \<Rightarrow> string \<Rightarrow> string \<Rightarrow> expected_transfer \<Rightarrow> transaction_inspection mm" where
  "inspect env tx memo x = (\<lambda>st.
     (Inr (inspectTransaction (me_config env) (me_rpc env (ms_tick st)) tx memo x), st\<lparr>ms_tick := ms_tick st + 1\<rparr>))"

subsection \<open>Digests, sealing and lookups\<close>

definition digestOfEncodedPayment :: "machine_env \<Rightarrow> string \<Rightarrow> string" where
  "digestOfEncodedPayment env encodedPayment = me_sha256 env encodedPayment"

definition settlementAmount :: "string option \<Rightarrow> string \<Rightarrow> string" where
  "settlementAmount value fallback = (case value of None \<Rightarrow> fallback | Some v \<Rightarrow> if length v > 0 then v else fallback)"

definition transactionHashFromUnknown :: "json \<Rightarrow> string option" where
  "transactionHashFromUnknown value =
     alt (stringValue (opt_prop ''transactionHash'' value))
       (alt (stringValue (opt_prop ''transaction'' value)) (stringValue (opt_prop ''signature'' value)))"

definition buildRequestDigest :: "machine_env \<Rightarrow> tool_spend_request \<Rightarrow> string" where
  "buildRequestDigest env req = canonicalToolSpendRequestDigest (me_sha256 env) req"

definition getCanonicalRequirements :: "machine_env \<Rightarrow> string \<Rightarrow> canonical_requirements" where
  "getCanonicalRequirements env requestDigest = buildCanonicalRequirements (me_config env) requestDigest"

definition requirements_json :: "canonical_requirements \<Rightarrow> json" where
  "requirements_json q = JObj
     [(''scheme'', JStr (cq_scheme q)), (''network'', JStr (cq_network q)), (''asset'', JStr (cq_asset q)),
      (''amount'', JStr (cq_amount q)), (''payTo'', JStr (cq_payTo q)),
      (''maxTimeoutSeconds'', JNum (cq_maxTimeoutSeconds q)), (''extra'', JObj [(''memo'', JStr (cq_memo q))])]"

definition sealSignedPayload :: "machine_env \<Rightarrow> string \<Rightarrow> string mm" where
  "sealSignedPayload env plaintext = (\<lambda>st.
     (Inr (encryptPayload (me_gcm env) (me_encKey env) (me_iv env (ms_tick st)) plaintext),
      st\<lparr>ms_tick := ms_tick st + 1\<rparr>))"

definition RESOURCE_URL :: string where
  "RESOURCE_URL = ''/api/resources/premium-fit-score''"

definition s_findByDigestPayment :: "machine_env \<Rightarrow> string \<Rightarrow> string \<Rightarrow> stored_attempt option mm" where
  "s_findByDigestPayment env digest pid = store_call env (\<lambda>now db. Inr (findByDigestPayment digest pid db, db))"

definition hasProcessed :: "machine_env \<Rightarrow> string \<Rightarrow> string \<Rightarrow> bool mm" where
  "hasProcessed env paymentIdentifier requestDigest =
     mbind (s_findByDigestPayment env requestDigest paymentIdentifier) (\<lambda>row.
       mret (case row of None \<Rightarrow> False | Some r \<Rightarrow> sa_status r = AS_settled))"

definition str_or :: "json \<Rightarrow> string \<Rightarrow> string" where
  "str_or v fallback = (case stringValue v of None \<Rightarrow> fallback | Some s \<Rightarrow> s)"

definition lastSettlement :: "machine_env \<Rightarrow> string \<Rightarrow> string \<Rightarrow> adapted_settlement option mm" where
  "lastSettlement env paymentIdentifier requestDigest =
     mbind (s_findByDigestPayment env requestDigest paymentIdentifier) (\<lambda>found.
       mret (case found of
         None \<Rightarrow> None
       | Some row \<Rightarrow>
           if sa_status row \<noteq> AS_settled then None
           else let evidence = sa_evidenceJson row; config = me_config env in Some
             \<lparr>as_success = True, as_transactionHash = or_else (sa_txHash row) [],
              as_payer = str_or (opt_prop ''payer'' evidence) [],
              as_payee = str_or (opt_prop ''payee'' evidence) (dc_payeePublicKey config),
              as_network = str_or (opt_prop ''network'' evidence) SOLANA_DEVNET_CAIP2,
              as_asset = str_or (opt_prop ''asset'' evidence) (dc_devnetUsdcMint config),
              as_amount = str_or (opt_prop ''amount'' evidence) [],
              as_facilitatorUrl = str_or (opt_prop ''facilitatorUrl'' evidence) (dc_facilitatorUrl config),
              as_paymentIdentifier = or_else (sa_callerPaymentId row) []\<rparr>))"

definition stage_resolved ::
  "machine_env \<Rightarrow> string \<Rightarrow> string \<Rightarrow> string \<Rightarrow> stored_attempt \<Rightarrow> (string \<times> string) mm" where
  "stage_resolved env digest encodedPayment paymentIdentifier row =
     (let payloadDigest = digestOfEncodedPayment env encodedPayment in
      if sa_requestDigest row \<noteq> digest
      then mthrow ''Payment identifier is already reserved for a different spending request.''
      else if truthy (sa_payloadDigest row) \<and> sa_payloadDigest row \<noteq> Some payloadDigest
      then mthrow ''Payment identifier is already bound to a different signed payment payload.''
      else if \<not> truthy (sa_payloadDigest row)
      then mbind (sealSignedPayload env encodedPayment) (\<lambda>sealed.
             mbind (s_transition env (sa_operationId row) [AS_pending] AS_pending
               (no_update\<lparr>up_signedPayloadEnc := Some (Some sealed), up_payloadDigest := Some (Some payloadDigest),
                  up_callerPaymentId := Some (Some paymentIdentifier)\<rparr>) None None ''prepare-stage'')
               (\<lambda>_. mret (sa_operationId row, digest)))
      else mret (sa_operationId row, digest))"

definition stagePreparedAttempt ::
  "machine_env \<Rightarrow> tool_spend_request \<Rightarrow> string \<Rightarrow> string \<Rightarrow> string option \<Rightarrow> (string \<times> string) mm" where
  "stagePreparedAttempt env spendingRequest paymentIdentifier encodedPayment approvalEventId =
     (let digest = buildRequestDigest env spendingRequest in
      mbind (s_resolve env
        \<lparr>ri_logicalOrderId = ts_orderId spendingRequest, ri_intentVersion = ts_intentVersion spendingRequest,
         ri_requestDigest = digest, ri_resource = RESOURCE_URL, ri_approvalEventId = approvalEventId,
         ri_callerPaymentId = paymentIdentifier,
         ri_requirementsJson = requirements_json (getCanonicalRequirements env digest)\<rparr>) (\<lambda>resolution.
        case resolution of
          RR_release_required _ detail \<Rightarrow> mthrow (''Release required: '' @ detail)
        | RR_approval_mismatch _ detail \<Rightarrow> mthrow (''Approval mismatch: '' @ detail)
        | RR_created row \<Rightarrow> stage_resolved env digest encodedPayment paymentIdentifier row
        | RR_existing row \<Rightarrow> stage_resolved env digest encodedPayment paymentIdentifier row))"

subsection \<open>Completing a settlement\<close>

fun js_String :: "json \<Rightarrow> string" where
  "js_String JNull = ''null''"
| "js_String JUndefined = ''undefined''"
| "js_String (JBool b) = (if b then ''true'' else ''false'')"
| "js_String (JNum n) = int_str n"
| "js_String (JNonFinite n) = n"
| "js_String (JStr s) = s"
| "js_String (JArr xs) = join '','' (map (\<lambda>x. if x = JNull \<or> x = JUndefined then [] else js_String x) xs)"
| "js_String (JObj kvs) = ''[object Object]''"

text \<open>\<open>String(v ?? "")\<close>.\<close>

definition string_or_empty :: "json \<Rightarrow> string" where
  "string_or_empty v = (if v = JNull \<or> v = JUndefined then [] else js_String v)"

fun memo_str :: "memo_verification \<Rightarrow> string" where
  "memo_str Memo_verified = ''verified''"
| "memo_str Memo_missing = ''missing''"
| "memo_str Memo_unavailable = ''unavailable''"

definition transfer_json :: "transfer_evidence option \<Rightarrow> json" where
  "transfer_json t = (case t of None \<Rightarrow> JUndefined | Some e \<Rightarrow> JObj
     [(''mint'', JStr (te_mint e)), (''amount'', JStr (te_amount e)), (''recipient'', JStr (te_recipient e)),
      (''payer'', JStr (te_payer e))])"

definition settlementEvidence ::
  "adapted_settlement \<Rightarrow> string \<Rightarrow> string \<Rightarrow> string \<Rightarrow> string \<Rightarrow> int \<Rightarrow> transaction_inspection \<Rightarrow> json" where
  "settlementEvidence adapted paymentIdentifier feePayer settlementResult requestDigest now inspection = JObj
     [(''paymentIdentifier'', JStr paymentIdentifier), (''network'', JStr (as_network adapted)),
      (''asset'', JStr (as_asset adapted)), (''amount'', JStr (as_amount adapted)), (''payer'', JStr (as_payer adapted)),
      (''payee'', JStr (as_payee adapted)), (''feePayer'', JStr feePayer),
      (''transactionHash'', JStr (as_transactionHash adapted)), (''facilitatorUrl'', JStr (as_facilitatorUrl adapted)),
      (''verificationResult'', JStr ''verified''), (''settlementResult'', JStr settlementResult),
      (''requestDigest'', JStr requestDigest), (''timestamp'', JStr (toISOString now)),
      (''explorerUrl'', JStr (''https://explorer.solana.com/tx/'' @ as_transactionHash adapted @ ''?cluster=devnet'')),
      (''memoVerification'', JStr (memo_str (ti_memo inspection))),
      (''transferVerification'', JStr (transfer_verification_str (ti_transfer_state inspection))),
      (''transfer'', transfer_json (ti_transfer inspection))]"

definition failClosed ::
  "machine_env \<Rightarrow> string \<Rightarrow> string option \<Rightarrow> string option \<Rightarrow> string \<Rightarrow> string \<Rightarrow> string \<Rightarrow> bool \<Rightarrow> string \<Rightarrow> bool \<Rightarrow>
   dev_result mm" where
  "failClosed env operationId owner fence transactionHash paymentIdentifier requestDigest awaiting code retryable =
     mbind (mcatch (mbind (s_transition env operationId [AS_settling, AS_awaiting_evidence]
                             (if awaiting then AS_awaiting_evidence else AS_manual)
                             (no_update\<lparr>up_txHash := Some (Some transactionHash)\<rparr>) owner fence ''complete-settlement'')
                      (\<lambda>_. mret ())) (mret ()))
       (\<lambda>_. mret (attempt_error (if awaiting then 202 else 502) code paymentIdentifier requestDigest
                    (\<not> awaiting) retryable (if awaiting then Some transactionHash else None)))"

definition completeInspected ::
  "machine_env \<Rightarrow> string \<Rightarrow> string option \<Rightarrow> string option \<Rightarrow> adapted_settlement \<Rightarrow> string \<Rightarrow> string \<Rightarrow> string \<Rightarrow>
   string \<Rightarrow> transaction_inspection \<Rightarrow> dev_result mm" where
  "completeInspected env operationId owner fence adapted settlementResult requestDigest paymentIdentifier feePayer inspection =
     (let tx = as_transactionHash adapted;
          fail = failClosed env operationId owner fence tx paymentIdentifier requestDigest
      in if ti_memo inspection = Memo_unavailable \<or> ti_transfer_state inspection = TV_unavailable
         then fail True ''settlement_ambiguous'' True
         else if ti_memo inspection = Memo_missing \<or> ti_transfer_state inspection = TV_mismatch
         then fail False ''settlement_transaction_mismatch'' False
         else mbind (read_clock env) (\<lambda>now.
           let resource = score (me_config env) now (as_payer adapted) tx;
               evidence = settlementEvidence adapted paymentIdentifier feePayer settlementResult requestDigest now inspection
           in mbind (mcatch (mbind (s_transition env operationId [AS_settling, AS_awaiting_evidence] AS_settled
                                     (no_update\<lparr>up_txHash := Some (Some tx), up_evidenceJson := Some evidence\<rparr>)
                                     owner fence ''complete-settlement'') (\<lambda>settled. mret (Some settled)))
                            (mret None))
                (\<lambda>settled. case settled of
                   None \<Rightarrow> mret (attempt_error 202 ''settlement_ambiguous'' paymentIdentifier requestDigest False True (Some tx))
                 | Some (Some _) \<Rightarrow> mret \<lparr>dr_status = 200, dr_body = Body_resource resource evidence False\<rparr>
                 | Some None \<Rightarrow>
                     mbind (s_get env operationId) (\<lambda>current. mbind (read_clock env) (\<lambda>now'.
                       case current of
                         None \<Rightarrow> fail True ''settlement_ambiguous'' True
                       | Some c \<Rightarrow>
                           if sa_status c = AS_settled
                           then mret \<lparr>dr_status = 200, dr_body = Body_resource
                                  (score (me_config env) now' (string_or_empty (opt_prop ''payer'' (sa_evidenceJson c)))
                                     (or_else (sa_txHash c) [])) (sa_evidenceJson c) True\<rparr>
                           else fail True ''settlement_ambiguous'' True)))))"

definition completeSettlement ::
  "machine_env \<Rightarrow> string \<Rightarrow> string option \<Rightarrow> string option \<Rightarrow> adapted_settlement \<Rightarrow> string \<Rightarrow> expected_transfer \<Rightarrow>
   string \<Rightarrow> string \<Rightarrow> string \<Rightarrow> transaction_inspection option \<Rightarrow> dev_result mm" where
  "completeSettlement env operationId owner fence adapted settlementResult expected requestDigest paymentIdentifier feePayer initial =
     mbind (case initial of Some i \<Rightarrow> mret i
            | None \<Rightarrow> inspect env (as_transactionHash adapted) (memoForEnvelope requestDigest) expected)
       (completeInspected env operationId owner fence adapted settlementResult requestDigest paymentIdentifier feePayer)"

subsection \<open>Joining a stored attempt\<close>

text \<open>
  \<open>Join_null\<close> is the returned \<open>null\<close>. The handler calls itself again after a lost take-over; the
  number of nested calls is bounded by fuel, and \<open>Join_out_of_fuel\<close> is a run that needs more.
\<close>

datatype join_outcome = Join_response dev_result | Join_null | Join_out_of_fuel

definition expectedMemoFor :: "stored_attempt \<Rightarrow> string" where
  "expectedMemoFor row = memoForEnvelope (sa_requestDigest row)"

definition knownPayer :: "stored_attempt \<Rightarrow> string" where
  "knownPayer row = (if truthy (sa_payer row) then or_else (sa_payer row) []
                     else string_or_empty (opt_prop ''payer'' (sa_evidenceJson row)))"

definition is_leased :: "stored_attempt \<Rightarrow> int \<Rightarrow> bool" where
  "is_leased row now = (case sa_leaseExpiresAt row of None \<Rightarrow> False | Some t \<Rightarrow> t > now)"

definition pending_error :: "string \<Rightarrow> stored_attempt \<Rightarrow> dev_result" where
  "pending_error code row =
     attempt_error 202 code (or_else (sa_callerPaymentId row) []) (sa_requestDigest row) False True None"

definition reconcile_inspected ::
  "machine_env \<Rightarrow> stored_attempt \<Rightarrow> string \<Rightarrow> string option \<Rightarrow> string option \<Rightarrow> dev_result mm" where
  "reconcile_inspected env row tx owner fence =
     (let config = me_config env; requestDigest = sa_requestDigest row;
          paymentIdentifier = or_else (sa_callerPaymentId row) [];
          amount = cq_amount (getCanonicalRequirements env requestDigest);
          expected = \<lparr>xt_asset = dc_devnetUsdcMint config, xt_amount = amount, xt_payee = dc_payeePublicKey config,
                      xt_payer = knownPayer row\<rparr>
      in mbind (inspect env tx (expectedMemoFor row) expected) (\<lambda>inspection.
           if ti_memo inspection = Memo_verified \<and> ti_transfer_state inspection = TV_verified
           then completeSettlement env (sa_operationId row) owner fence
                  \<lparr>as_success = True, as_transactionHash = tx, as_payer = knownPayer row,
                   as_payee = dc_payeePublicKey config, as_network = SOLANA_DEVNET_CAIP2,
                   as_asset = dc_devnetUsdcMint config, as_amount = amount,
                   as_facilitatorUrl = dc_facilitatorUrl config, as_paymentIdentifier = paymentIdentifier\<rparr>
                  ''reconciled'' expected requestDigest paymentIdentifier
                  (string_or_empty (opt_prop ''feePayer'' (sa_evidenceJson row))) (Some inspection)
           else if ti_memo inspection = Memo_missing \<or> ti_transfer_state inspection = TV_mismatch
           then mbind (s_transition env (sa_operationId row) [AS_awaiting_evidence] AS_mismatch no_update owner fence
                        ''join-inspect-mismatch'')
                  (\<lambda>_. mret (attempt_error 502 ''settlement_transaction_mismatch'' paymentIdentifier requestDigest True False None))
           else mret (pending_error ''settlement_ambiguous'' row)))"

definition reconcile_fenced ::
  "machine_env \<Rightarrow> stored_attempt \<Rightarrow> string \<Rightarrow> string option \<Rightarrow> string option \<Rightarrow> join_outcome mm" where
  "reconcile_fenced env row tx owner fence =
     (if \<not> truthy owner \<or> \<not> truthy fence then mret (Join_response (pending_error ''settlement_ambiguous'' row))
      else mbind (reconcile_inspected env row tx owner fence) (\<lambda>r. mret (Join_response r)))"

definition join_final :: "machine_env \<Rightarrow> stored_attempt \<Rightarrow> join_outcome mm" where
  "join_final env row =
     (let pid = or_else (sa_callerPaymentId row) []; digest = sa_requestDigest row in
      case sa_status row of
        AS_settled \<Rightarrow> mbind (read_clock env) (\<lambda>now. mret (Join_response \<lparr>dr_status = 200, dr_body = Body_resource
            (score (me_config env) now (knownPayer row) (or_else (sa_txHash row) [])) (sa_evidenceJson row) True\<rparr>))
      | AS_rejected \<Rightarrow> mret (Join_response (plain_error 402 ''payment_verification_failed''))
      | AS_manual \<Rightarrow> mret (Join_response (attempt_error 202 ''settlement_ambiguous'' pid digest True False None))
      | AS_mismatch \<Rightarrow> mret (Join_response (attempt_error 502 ''settlement_transaction_mismatch'' pid digest True False None))
      | AS_released \<Rightarrow> mret (Join_response (plain_error 409 ''release_consumed''))
      | _ \<Rightarrow> mret Join_null)"

fun joinStoredRow :: "nat \<Rightarrow> machine_env \<Rightarrow> stored_attempt \<Rightarrow> join_outcome mm" where
  "joinStoredRow 0 env row = mret Join_out_of_fuel"
| "joinStoredRow (Suc fuel) env row =
     (let i = sa_operationId row in
      if sa_status row = AS_awaiting_evidence then
        (if \<not> truthy (sa_txHash row) then mret (Join_response (pending_error ''settlement_ambiguous'' row))
         else let tx = or_else (sa_txHash row) [] in
           mbind (read_clock env) (\<lambda>now.
           if is_leased row now then reconcile_fenced env row tx (sa_leaseOwner row) (sa_fenceToken row)
           else mbind (fresh_uuid env) (\<lambda>uuid. mbind (s_takeover env i (''reconcile-'' @ uuid)) (\<lambda>taken.
             case taken of
               Some t \<Rightarrow> reconcile_fenced env row tx (sa_leaseOwner t) (sa_fenceToken t)
             | None \<Rightarrow> mbind (s_get env i) (\<lambda>current.
                 case current of
                   None \<Rightarrow> mret (Join_response (pending_error ''settlement_in_progress'' row))
                 | Some c \<Rightarrow> if sa_status c \<noteq> AS_awaiting_evidence then joinStoredRow fuel env c
                     else mret (Join_response (pending_error ''settlement_in_progress'' row)))))))
      else if sa_status row = AS_settling then
        mbind (read_clock env) (\<lambda>now.
        if is_leased row now then mret (Join_response (pending_error ''settlement_in_progress'' row))
        else mbind (fresh_uuid env) (\<lambda>uuid. mbind (s_takeover env i (''takeover-'' @ uuid)) (\<lambda>taken.
          case taken of
            None \<Rightarrow> mbind (s_get env i) (\<lambda>current. joinStoredRow fuel env (case current of None \<Rightarrow> row | Some c \<Rightarrow> c))
          | Some t \<Rightarrow> mbind (s_transition env (sa_operationId t) [AS_settling] AS_pending no_update
                             (sa_leaseOwner t) (sa_fenceToken t) ''join-takeover'') (\<lambda>_. mret Join_null))))
      else join_final env row)"

subsection \<open>Accepting a payment\<close>

text \<open>
  The handler \<open>accept\<close> is cut at its early returns into stages, each ending in the next one.
  \<open>None\<close> is a run whose \<open>joinStoredRow\<close> needs more fuel.
\<close>

definition with_join :: "join_outcome mm \<Rightarrow> dev_result option mm \<Rightarrow> dev_result option mm" where
  "with_join j k = mbind j (\<lambda>out.
     case out of Join_response r \<Rightarrow> mret (Some r) | Join_null \<Rightarrow> k | Join_out_of_fuel \<Rightarrow> mret None)"

record attempt_ctx =
  cx_header :: string
  cx_digest :: string
  cx_paymentId :: string
  cx_payloadDigest :: string
  cx_feePayer :: string
  cx_operationId :: string
  cx_worker :: string
  cx_fence :: string

definition ctx_error :: "int \<Rightarrow> string \<Rightarrow> attempt_ctx \<Rightarrow> bool \<Rightarrow> string option \<Rightarrow> dev_result option mm" where
  "ctx_error status code cx retryable tx =
     mret (Some (attempt_error status code (cx_paymentId cx) (cx_digest cx) (\<not> retryable) retryable tx))"

definition cx_transition ::
  "machine_env \<Rightarrow> attempt_ctx \<Rightarrow> attempt_state \<Rightarrow> attempt_update \<Rightarrow> string \<Rightarrow> stored_attempt option mm" where
  "cx_transition env cx to u trigger =
     s_transition env (cx_operationId cx) [AS_settling] to u (Some (cx_worker cx)) (Some (cx_fence cx)) trigger"

text \<open>The re-read and join after a lost lease.\<close>

definition lost_lease :: "nat \<Rightarrow> machine_env \<Rightarrow> attempt_ctx \<Rightarrow> dev_result option mm" where
  "lost_lease fuel env cx = mbind (s_get env (cx_operationId cx)) (\<lambda>reread.
     case reread of
       None \<Rightarrow> ctx_error 202 ''settlement_in_progress'' cx True None
     | Some r \<Rightarrow> with_join (joinStoredRow fuel env r) (ctx_error 202 ''settlement_in_progress'' cx True None))"

definition nonempty :: "string option \<Rightarrow> string option" where
  "nonempty v = (case v of None \<Rightarrow> None | Some s \<Rightarrow> if s = [] then None else Some s)"

definition settle_answered ::
  "machine_env \<Rightarrow> attempt_ctx \<Rightarrow> string option \<Rightarrow> settle_response \<Rightarrow> dev_result option mm" where
  "settle_answered env cx payerFromVerify settleResult =
     (let canonical = getCanonicalRequirements env (cx_digest cx); config = me_config env;
          verifiedPayer = or_else payerFromVerify []; settledPayer = or_else (sr_payer settleResult) [];
          payer = (if verifiedPayer \<noteq> [] then verifiedPayer else settledPayer);
          responseAmount = settlementAmount (sr_amount settleResult) (cq_amount canonical);
          responseTransaction = nonempty (sr_transaction settleResult);
          responseNetwork = or_else (nonempty (sr_network settleResult)) (cq_network canonical);
          evidence = no_update\<lparr>up_txHash := Some (Some (or_else responseTransaction [])), up_payer := Some (Some payer)\<rparr>
      in if verifiedPayer \<noteq> [] \<and> settledPayer \<noteq> [] \<and> verifiedPayer \<noteq> settledPayer
         then mbind (cx_transition env cx AS_manual evidence ''settle-payer-mismatch'')
                (\<lambda>_. ctx_error 502 ''settlement_transaction_mismatch'' cx False None)
         else case adaptSettlement
                \<lparr>rs_success = sr_success settleResult, rs_transaction = responseTransaction, rs_network = Some responseNetwork,
                 rs_payer = Some payer, rs_amount = Some responseAmount\<rparr>
                \<lparr>so_payee = dc_payeePublicKey config, so_asset = dc_devnetUsdcMint config,
                 so_facilitatorUrl = dc_facilitatorUrl config, so_paymentIdentifier = cx_paymentId cx,
                 so_amount = Some (cq_amount canonical)\<rparr> of
            Inl _ \<Rightarrow> mbind (cx_transition env cx (if responseTransaction \<noteq> None then AS_awaiting_evidence else AS_manual)
                        evidence ''settle-adapt-failed'')
                      (\<lambda>_. ctx_error 202 ''settlement_ambiguous'' cx (responseTransaction \<noteq> None) responseTransaction)
          | Inr adapted \<Rightarrow>
              if \<not> as_success adapted
              then mbind (cx_transition env cx (if as_transactionHash adapted \<noteq> [] then AS_awaiting_evidence else AS_manual)
                     (no_update\<lparr>up_txHash := Some (Some (as_transactionHash adapted)), up_payer := Some (Some payer)\<rparr>)
                     ''settle-unsuccessful'')
                   (\<lambda>_. ctx_error 202 ''settlement_ambiguous'' cx (as_transactionHash adapted \<noteq> []) None)
              else mbind (completeSettlement env (cx_operationId cx) (Some (cx_worker cx)) (Some (cx_fence cx)) adapted ''settled''
                     \<lparr>xt_asset = as_asset adapted, xt_amount = as_amount adapted, xt_payee = as_payee adapted,
                      xt_payer = as_payer adapted\<rparr> (cx_digest cx) (cx_paymentId cx) (cx_feePayer cx) None)
                   (\<lambda>r. mret (Some r)))"

definition accept_settle :: "machine_env \<Rightarrow> attempt_ctx \<Rightarrow> string option \<Rightarrow> dev_result option mm" where
  "accept_settle env cx payerFromVerify =
     mbind (emit (Ext_settle (cx_operationId cx) (cx_worker cx) (cx_fence cx))) (\<lambda>_.
       case me_settle env (cx_header cx) of
         Settle_throws err \<Rightarrow>
           (let known = transactionHashFromUnknown err in
            mbind (cx_transition env cx (if known \<noteq> None then AS_awaiting_evidence else AS_manual)
                     (no_update\<lparr>up_txHash := map_option Some known, up_payer := map_option Some payerFromVerify\<rparr>)
                     ''settle-transport-failed'')
              (\<lambda>_. ctx_error 202 ''settlement_ambiguous'' cx (known \<noteq> None) known))
       | Settle_malformed \<Rightarrow>
           mbind (cx_transition env cx AS_manual no_update ''settle-malformed'')
             (\<lambda>_. ctx_error 202 ''settlement_ambiguous'' cx False None)
       | Settle_response settleResult \<Rightarrow> settle_answered env cx payerFromVerify settleResult)"

definition accept_guarded :: "nat \<Rightarrow> machine_env \<Rightarrow> attempt_ctx \<Rightarrow> string option \<Rightarrow> dev_result option mm" where
  "accept_guarded fuel env cx payerFromVerify =
     mbind (s_revalidate env (cx_operationId cx) (cx_worker cx) (cx_fence cx)) (\<lambda>stillValid.
       case stillValid of
         None \<Rightarrow> lost_lease fuel env cx
       | Some _ \<Rightarrow> accept_settle env cx payerFromVerify)"

definition accept_verify :: "nat \<Rightarrow> machine_env \<Rightarrow> attempt_ctx \<Rightarrow> dev_result option mm" where
  "accept_verify fuel env cx =
     mbind (emit (Ext_verify (cx_operationId cx))) (\<lambda>_.
       let rejected = mbind (cx_transition env cx AS_rejected no_update ''verify-failed'')
             (\<lambda>_. mret (Some (plain_error 402 ''payment_verification_failed'')))
       in case me_verify env (cx_header cx) of
            Verify_throws \<Rightarrow> rejected
          | Verify_response v \<Rightarrow>
              if \<not> vf_isValid v then rejected
              else if truthy (vf_payer v)
              then mbind (cx_transition env cx AS_settling (no_update\<lparr>up_payer := map_option Some (vf_payer v)\<rparr>) ''verify-passed'')
                     (\<lambda>persisted. case persisted of
                        None \<Rightarrow> lost_lease fuel env cx
                      | Some _ \<Rightarrow> accept_guarded fuel env cx (vf_payer v))
              else accept_guarded fuel env cx (vf_payer v))"

definition accept_owned :: "nat \<Rightarrow> machine_env \<Rightarrow> attempt_ctx \<Rightarrow> dev_result option mm" where
  "accept_owned fuel env cx =
     mbind (s_revalidate env (cx_operationId cx) (cx_worker cx) (cx_fence cx)) (\<lambda>valid.
       case valid of
         None \<Rightarrow> lost_lease fuel env cx
       | Some _ \<Rightarrow> accept_verify fuel env cx)"

definition accept_claimed :: "nat \<Rightarrow> machine_env \<Rightarrow> attempt_ctx \<Rightarrow> stored_attempt \<Rightarrow> dev_result option mm" where
  "accept_claimed fuel env cx claimed =
     (if truthy (sa_payloadDigest claimed) \<and> sa_payloadDigest claimed \<noteq> Some (cx_payloadDigest cx)
      then mbind (cx_transition env cx AS_pending no_update ''claim-digest-abandon'')
             (\<lambda>_. mret (Some (plain_error 409 ''payment_ownership_conflict'')))
      else if \<not> truthy (sa_blockhash claimed) \<and> truthy (me_extractBlockhash env (cx_header cx))
      then mbind (cx_transition env cx AS_settling
                    (no_update\<lparr>up_blockhash := map_option Some (me_extractBlockhash env (cx_header cx))\<rparr>) ''claim-blockhash'')
             (\<lambda>_. accept_owned fuel env cx)
      else accept_owned fuel env cx)"

definition accept_claim :: "nat \<Rightarrow> machine_env \<Rightarrow> attempt_ctx \<Rightarrow> dev_result option mm" where
  "accept_claim fuel env cx =
     mbind (sealSignedPayload env (cx_header cx)) (\<lambda>sealed.
     mbind (s_claim env (cx_operationId cx) (cx_worker cx) sealed (cx_payloadDigest cx)) (\<lambda>claimed.
       case claimed of
         None \<Rightarrow>
           mbind (s_get env (cx_operationId cx)) (\<lambda>reread.
             case reread of
               None \<Rightarrow> mret (Some (plain_error 500 ''internal_error''))
             | Some r \<Rightarrow> with_join (joinStoredRow fuel env r) (ctx_error 202 ''settlement_in_progress'' cx True None))
       | Some c \<Rightarrow> accept_claimed fuel env (cx\<lparr>cx_fence := or_else (sa_fenceToken c) []\<rparr>) c))"

definition accept_row :: "nat \<Rightarrow> machine_env \<Rightarrow> attempt_ctx \<Rightarrow> stored_attempt \<Rightarrow> dev_result option mm" where
  "accept_row fuel env cx row =
     (if sa_requestDigest row \<noteq> cx_digest cx then mret (Some (plain_error 409 ''idempotency_conflict''))
      else if truthy (sa_payloadDigest row) \<and> sa_payloadDigest row \<noteq> Some (cx_payloadDigest cx)
      then mret (Some (plain_error 409 ''payment_ownership_conflict''))
      else with_join (joinStoredRow fuel env row) (accept_claim fuel env (cx\<lparr>cx_operationId := sa_operationId row\<rparr>)))"

definition accept_intake ::
  "nat \<Rightarrow> machine_env \<Rightarrow> attempt_ctx \<Rightarrow> tool_spend_request \<Rightarrow> string option \<Rightarrow> dev_result option mm" where
  "accept_intake fuel env cx spendingRequest approvalEventId =
     mbind (s_findByPaymentId env (cx_paymentId cx)) (\<lambda>samePidRows.
       if list_ex (\<lambda>r. sa_requestDigest r \<noteq> cx_digest cx) samePidRows
       then mret (Some (plain_error 409 ''idempotency_conflict''))
       else mbind (s_resolve env
         \<lparr>ri_logicalOrderId = ts_orderId spendingRequest, ri_intentVersion = ts_intentVersion spendingRequest,
          ri_requestDigest = cx_digest cx, ri_resource = RESOURCE_URL, ri_approvalEventId = approvalEventId,
          ri_callerPaymentId = cx_paymentId cx,
          ri_requirementsJson = requirements_json (getCanonicalRequirements env (cx_digest cx))\<rparr>) (\<lambda>resolution.
         case resolution of
           RR_release_required _ _ \<Rightarrow> mret (Some (plain_error 409 ''release_required''))
         | RR_approval_mismatch _ _ \<Rightarrow> mret (Some (plain_error 409 ''approval_mismatch''))
         | RR_created row \<Rightarrow> accept_row fuel env cx row
         | RR_existing row \<Rightarrow> accept_row fuel env cx row))"

definition fee_payer_errors :: "machine_env \<Rightarrow> accepted_requirements \<Rightarrow> string list" where
  "fee_payer_errors env supplied =
     (case me_supportedFeePayer env of
        None \<Rightarrow> []
      | Some expectedFeePayer \<Rightarrow>
          when_code (expectedFeePayer = None \<or> ac_feePayer supplied \<noteq> expectedFeePayer)
            ''feePayer does not match facilitator-supported requirements'')"

text \<open>The checks before any store access: an answer, or the context of the attempt.\<close>

datatype accept_check = Reject dev_result | Proceed attempt_ctx

definition accept_validate :: "machine_env \<Rightarrow> string \<Rightarrow> string \<Rightarrow> tool_spend_request \<Rightarrow> accept_check throws" where
  "accept_validate env header requestDigest spendingRequest =
     (if \<not> me_initialized env then Inl ''x402 resource server initialization failed''
      else if \<not> me_settlementEnabled env then Inr (Reject (plain_error 503 ''settlement_unavailable''))
      else if header = [] then Inr (Reject (plain_error 402 ''payment_required''))
      else case me_decode env header of
        None \<Rightarrow> Inr (Reject (plain_error 400 ''malformed_payment_signature''))
      | Some None \<Rightarrow> Inl ''TypeError''
      | Some (Some signedPayload) \<Rightarrow>
          (case sp_accepted signedPayload of
             None \<Rightarrow> Inr (Reject (plain_error 400 ''missing_accepted_requirements''))
           | Some supplied \<Rightarrow>
               if requestDigest \<noteq> buildRequestDigest env spendingRequest
               then Inr (Reject (plain_error 400 ''request_digest_mismatch''))
               else (case verifyCanonicalRequirements (ac_supplied supplied) (getCanonicalRequirements env requestDigest) of
                       Inl e \<Rightarrow> Inl e
                     | Inr errors \<Rightarrow>
                         if errors @ fee_payer_errors env supplied \<noteq> [] then Inr (Reject (plain_error 402 ''payment_rejected''))
                         else (case sp_paymentIdentifier signedPayload of
                                 None \<Rightarrow> Inr (Reject (plain_error 400 ''payment_identifier_required''))
                               | Some paymentId \<Rightarrow>
                                   if paymentId = [] then Inr (Reject (plain_error 400 ''payment_identifier_required''))
                                   else Inr (Proceed \<lparr>cx_header = header, cx_digest = requestDigest, cx_paymentId = paymentId,
                                     cx_payloadDigest = digestOfEncodedPayment env header,
                                     cx_feePayer = or_else (ac_feePayer supplied) [], cx_operationId = [],
                                     cx_worker = [], cx_fence = []\<rparr>)))))"

definition accept ::
  "nat \<Rightarrow> machine_env \<Rightarrow> string \<Rightarrow> string \<Rightarrow> tool_spend_request \<Rightarrow> string option \<Rightarrow> dev_result option mm" where
  "accept fuel env header requestDigest spendingRequest approvalEventId =
     (case accept_validate env header requestDigest spendingRequest of
        Inl e \<Rightarrow> mthrow e
      | Inr (Reject r) \<Rightarrow> mret (Some r)
      | Inr (Proceed cx) \<Rightarrow>
          mbind (fresh_uuid env) (\<lambda>uuid.
            accept_intake fuel env (cx\<lparr>cx_worker := ''worker-'' @ uuid\<rparr>) spendingRequest approvalEventId))"

end
