(* ===== verification/DevnetRuns.thy ===== *)
theory DevnetRuns
  imports DevnetMachine
begin

text \<open>
  Correctness of the paid resource on Solana devnet. A small program logic over the runs of
  \<open>DevnetMachine\<close> (consistent store in, consistent store out, which facilitator calls were made)
  carries the properties of \<open>accept\<close> and \<open>joinStoredRow\<close>, for every interleaving with other
  workers and every pattern of store failures.
\<close>

subsection \<open>A logic for runs\<close>

text \<open>
  \<open>runs t P m Q\<close>: started with trace \<open>t\<close> in a consistent store satisfying \<open>P\<close>, the run makes no
  facilitator call, keeps the store consistent and every normal result satisfies \<open>Q\<close>. Other workers
  use the same store, so they keep it consistent too (\<open>env_ok\<close>).
\<close>

definition env_ok :: "machine_env \<Rightarrow> bool" where
  "env_ok env = (\<forall>n db. db_inv db \<longrightarrow> db_inv (me_others env n db))"

definition runs :: "(ext_event \<times> settlement_db) list \<Rightarrow> (settlement_db \<Rightarrow> bool) \<Rightarrow> 'a mm \<Rightarrow> ('a \<Rightarrow> settlement_db \<Rightarrow> bool) \<Rightarrow> bool" where
  "runs t P m Q = (\<forall>st r st'. m st = (r, st') \<longrightarrow> db_inv (ms_db st) \<longrightarrow> ms_trace st = t \<longrightarrow> P (ms_db st) \<longrightarrow>
     db_inv (ms_db st') \<and> ms_trace st' = t \<and> (\<forall>x. r = Inr x \<longrightarrow> Q x (ms_db st')))"

lemma runs_mono: "runs t P m Q \<Longrightarrow> (\<And>d. P' d \<Longrightarrow> P d) \<Longrightarrow> (\<And>x d. Q x d \<Longrightarrow> Q' x d) \<Longrightarrow> runs t P' m Q'"
  by (fastforce simp: runs_def)

lemma runs_ret: "(\<And>d. P d \<Longrightarrow> Q x d) \<Longrightarrow> runs t P (mret x) Q"
  by (auto simp: runs_def mret_def)

lemma runs_throw: "runs t P (mthrow e) Q"
  by (auto simp: runs_def mthrow_def)

lemma runs_bind:
  assumes "runs t P m R" "\<And>x. runs t (R x) (f x) Q"
  shows "runs t P (mbind m f) Q"
  unfolding runs_def
proof (intro allI impI)
  fix st r st'
  assume run: "mbind m f st = (r, st')" and pre: "db_inv (ms_db st)" "ms_trace st = t" "P (ms_db st)"
  obtain r1 st1 where m: "m st = (r1, st1)" by (cases "m st")
  with assms(1) pre have first: "db_inv (ms_db st1)" "ms_trace st1 = t" "\<And>x. r1 = Inr x \<Longrightarrow> R x (ms_db st1)"
    by (auto simp: runs_def)
  show "db_inv (ms_db st') \<and> ms_trace st' = t \<and> (\<forall>x. r = Inr x \<longrightarrow> Q x (ms_db st'))"
  proof (cases r1)
    case (Inl e)
    with run m first show ?thesis by (auto simp: mbind_def)
  next
    case (Inr x)
    with run m have "f x st1 = (r, st')" by (simp add: mbind_def)
    with assms(2) [of x] first Inr show ?thesis by (auto simp: runs_def)
  qed
qed

lemma runs_catch:
  assumes "runs t P m Q" "runs t (\<lambda>_. True) h Q"
  shows "runs t P (mcatch m h) Q"
  unfolding runs_def
proof (intro allI impI)
  fix st r st'
  assume run: "mcatch m h st = (r, st')" and pre: "db_inv (ms_db st)" "ms_trace st = t" "P (ms_db st)"
  obtain r1 st1 where m: "m st = (r1, st1)" by (cases "m st")
  with assms(1) pre have first: "db_inv (ms_db st1)" "ms_trace st1 = t" "\<And>x. r1 = Inr x \<Longrightarrow> Q x (ms_db st1)"
    by (auto simp: runs_def)
  show "db_inv (ms_db st') \<and> ms_trace st' = t \<and> (\<forall>x. r = Inr x \<longrightarrow> Q x (ms_db st'))"
  proof (cases r1)
    case (Inl e)
    with run m have "h st1 = (r, st')" by (simp add: mcatch_def)
    with assms(2) first show ?thesis by (auto simp: runs_def)
  next
    case (Inr x)
    with run m first show ?thesis by (auto simp: mcatch_def)
  qed
qed

lemma runs_clock: "runs t P (read_clock env) (\<lambda>_. P)"
  and runs_uuid: "runs t P (fresh_uuid env) (\<lambda>_. P)"
  and runs_inspect: "runs t P (inspect env tx memo x) (\<lambda>_. P)"
  and runs_seal: "runs t P (sealSignedPayload env s) (\<lambda>_. P)"
  by (auto simp: runs_def read_clock_def fresh_uuid_def inspect_def sealSignedPayload_def)

lemma runs_store:
  assumes "env_ok env"
    "\<And>now db x db'. db_inv db \<Longrightarrow> f now db = Inr (x, db') \<Longrightarrow> db_inv db' \<and> R x db'"
  shows "runs t P (store_call env f) R"
  unfolding runs_def
proof (intro allI impI)
  fix st r st'
  assume run: "store_call env f st = (r, st')" and "db_inv (ms_db st)" and tr: "ms_trace st = t"
  with assms(1) have inv: "db_inv (me_others env (ms_tick st) (ms_db st))" by (simp add: env_ok_def)
  show "db_inv (ms_db st') \<and> ms_trace st' = t \<and> (\<forall>x. r = Inr x \<longrightarrow> R x (ms_db st'))"
    using run tr inv assms(2) [OF inv]
    by (auto simp: store_call_def Let_def split: if_splits sum.splits prod.splits)
qed

lemma runs_get: "env_ok env \<Longrightarrow>
   runs t P (s_get env i) (\<lambda>x d. x = getByOperationId i d \<and> (\<forall>c. x = Some c \<longrightarrow> sa_operationId c = i))"
  unfolding s_get_def by (rule runs_store) (auto dest: get_in_rows)

lemma runs_find: "env_ok env \<Longrightarrow> runs t P (s_findByPaymentId env i) (\<lambda>_ _. True)"
  unfolding s_findByPaymentId_def by (rule runs_store) auto

text \<open>What each store operation returns is the row it leaves behind.\<close>

lemma transition_post:
  assumes "db_inv db" "pg_transition now i from to u owner f trig n db = Inr (x, db')"
  shows "db_inv db' \<and> (\<forall>row. x = Some row \<longrightarrow>
    getByOperationId i db' = Some row \<and> (\<exists>r now. row = apply_update to u now r))"
  using pg_transition_cases [OF assms(2)]
proof
  assume "x = None \<and> db' = db"
  with assms(1) show ?thesis by simp
next
  assume "\<exists>r h. getByOperationId i db = Some r \<and> lease_guard now from owner f r \<and>
      ((from = [AS_pending] \<and> to = AS_pending \<and> owner = None) \<or> (owner \<noteq> None \<and> f \<noteq> None)) \<and>
      unique_ok (apply_update to u now r) db \<and> x = Some (apply_update to u now r) \<and>
      db' = append_history h (put_row (apply_update to u now r) db) \<and>
      h = \<lparr>hi_operationId = i, hi_from = sa_status r, hi_to = to, hi_trigger = trig, hi_note = n, hi_leaseOwner = owner\<rparr>"
  then obtain r h where r: "getByOperationId i db = Some r" "unique_ok (apply_update to u now r) db"
    "x = Some (apply_update to u now r)" "db' = append_history h (put_row (apply_update to u now r) db)" by blast
  from get_in_rows [OF assms(1) r(1)] have "sa_operationId r = i" by simp
  then have "sa_operationId (apply_update to u now r) = i" by (simp add: apply_update_def)
  with r assms(1) show ?thesis by (auto intro: db_inv_put_row)
qed

lemma sql_update_post:
  assumes "db_inv db" "sql_update i P f db = Inr (x, db')" "\<And>r. sa_operationId (f r) = sa_operationId r"
  shows "db_inv db' \<and> (\<forall>row. x = Some row \<longrightarrow> getByOperationId i db' = Some row \<and> (\<exists>r. P r \<and> row = f r))"
  using sql_update_cases [OF assms(2)] sql_update_inv [OF assms(1,2)] get_in_rows [OF assms(1)] assms(3) by auto

lemma runs_transition: "env_ok env \<Longrightarrow> runs t P (s_transition env i from to u owner f trig)
   (\<lambda>x d. \<forall>row. x = Some row \<longrightarrow> getByOperationId i d = Some row \<and> (\<exists>r now. row = apply_update to u now r))"
  unfolding s_transition_def by (rule runs_store) (auto dest: transition_post)

lemma runs_takeover: "env_ok env \<Longrightarrow> runs t P (s_takeover env i owner) (\<lambda>_ _. True)"
  unfolding s_takeover_def
  by (rule runs_bind [OF runs_uuid runs_store]) (auto simp: pg_claimRowForTakeover_def dest: sql_update_inv)

lemma runs_claim: "env_ok env \<Longrightarrow> runs t P (s_claim env i owner s d) (\<lambda>_ _. True)"
  unfolding s_claim_def
  by (rule runs_bind [OF runs_uuid runs_store]) (auto simp: pg_claimForSettle_def dest: sql_update_inv)

definition held :: "machine_env \<Rightarrow> string \<Rightarrow> string \<Rightarrow> string \<Rightarrow> settlement_db \<Rightarrow> bool" where
  "held env i owner fence d = (\<exists>row now. getByOperationId i d = Some row \<and> sa_status row = AS_settling \<and>
     sa_leaseOwner row = Some owner \<and> sa_fenceToken row = Some fence \<and>
     sa_leaseExpiresAt row = Some (now + me_leaseTtlMs env))"

lemma runs_revalidate: "env_ok env \<Longrightarrow> runs t P (s_revalidate env i owner f) (\<lambda>x d. x \<noteq> None \<longrightarrow> held env i owner f d)"
  unfolding s_revalidate_def
proof (rule runs_store)
  fix now db x db'
  assume "db_inv db" and upd: "pg_revalidateForSettle now i owner f (me_leaseTtlMs env) db = Inr (x, db')"
  from sql_update_post [OF this [unfolded pg_revalidateForSettle_def]]
  show "db_inv db' \<and> (x \<noteq> None \<longrightarrow> held env i owner f db')" by (auto simp: held_def)
qed assumption

text \<open>A 200 answer hands out the evidence of a settled row; a fresh one was verified on chain.\<close>

definition paid_ok :: "dev_result \<Rightarrow> settlement_db \<Rightarrow> bool" where
  "paid_ok res d = (dr_status res = 200 \<longrightarrow>
     (\<exists>i row resource replay. getByOperationId i d = Some row \<and> sa_status row = AS_settled \<and>
        dr_body res = Body_resource resource (sa_evidenceJson row) replay \<and>
        (\<not> replay \<longrightarrow> opt_prop ''memoVerification'' (sa_evidenceJson row) = JStr ''verified'' \<and>
           opt_prop ''transferVerification'' (sa_evidenceJson row) = JStr ''verified'')))"

lemma paid_ok_error [simp]:
  "s \<noteq> 200 \<Longrightarrow> paid_ok (attempt_error s c p d m r t) db" "s \<noteq> 200 \<Longrightarrow> paid_ok (plain_error s c) db"
  "paid_ok (pending_error c row) db"
  by (simp_all add: paid_ok_def attempt_error_def plain_error_def pending_error_def)

lemma evidence_fields [simp]:
  "opt_prop ''memoVerification'' (settlementEvidence a p f s r n i) = JStr (memo_str (ti_memo i))"
  "opt_prop ''transferVerification'' (settlementEvidence a p f s r n i) = JStr (transfer_verification_str (ti_transfer_state i))"
  by (simp_all add: settlementEvidence_def opt_prop_def jprop_def)

lemma runs_failClosed: "env_ok env \<Longrightarrow> runs t P (failClosed env i owner f tx pid dig aw code rt) paid_ok"
  unfolding failClosed_def
  by (rule runs_bind [OF runs_catch [OF runs_bind [OF runs_transition runs_ret] runs_ret] runs_ret]) auto

lemma runs_replay: "(\<And>d. P d \<Longrightarrow> getByOperationId i d = Some row) \<Longrightarrow> sa_status row = AS_settled \<Longrightarrow>
   runs t P (mret \<lparr>dr_status = 200, dr_body = Body_resource res (sa_evidenceJson row) True\<rparr>) paid_ok"
  by (rule runs_ret) (fastforce simp: paid_ok_def)

lemma runs_completeInspected:
  assumes "env_ok env"
  shows "runs t P (completeInspected env i owner f adapted sres dig pid fee insp) paid_ok"
proof (cases "ti_memo insp = Memo_verified \<and> ti_transfer_state insp = TV_verified")
  case False
  then show ?thesis
    by (cases "ti_memo insp"; cases "ti_transfer_state insp") (simp_all add: completeInspected_def runs_failClosed [OF assms])
next
  case True
  define ev where "ev now = settlementEvidence adapted pid fee sres dig now insp" for now
  have step: "runs t P' (mcatch (mbind (s_transition env i [AS_settling, AS_awaiting_evidence] AS_settled
        (no_update\<lparr>up_txHash := Some (Some (as_transactionHash adapted)), up_evidenceJson := Some (ev now)\<rparr>)
        owner f ''complete-settlement'') (\<lambda>settled. mret (Some settled))) (mret None))
      (\<lambda>s d. \<forall>row. s = Some (Some row) \<longrightarrow> getByOperationId i d = Some row \<and> sa_status row = AS_settled \<and> sa_evidenceJson row = ev now)"
    for now P'
    by (rule runs_catch [OF runs_bind [OF runs_transition [OF assms] runs_ret] runs_ret]) (auto simp: apply_update_def)
  have fin: "runs t (\<lambda>d. \<forall>row. s = Some (Some row) \<longrightarrow> getByOperationId i d = Some row \<and> sa_status row = AS_settled \<and> sa_evidenceJson row = ev now)
      (case s of None \<Rightarrow> mret (attempt_error 202 ''settlement_ambiguous'' pid dig False True (Some (as_transactionHash adapted)))
       | Some (Some _) \<Rightarrow> mret \<lparr>dr_status = 200, dr_body = Body_resource res (ev now) False\<rparr>
       | Some None \<Rightarrow> mbind (s_get env i) (\<lambda>current. mbind (read_clock env) (\<lambda>now'. case current of
             None \<Rightarrow> failClosed env i owner f (as_transactionHash adapted) pid dig True ''settlement_ambiguous'' True
           | Some c \<Rightarrow> if sa_status c = AS_settled
               then mret \<lparr>dr_status = 200, dr_body = Body_resource
                 (score (me_config env) now' (string_or_empty (opt_prop ''payer'' (sa_evidenceJson c))) (or_else (sa_txHash c) []))
                 (sa_evidenceJson c) True\<rparr>
               else failClosed env i owner f (as_transactionHash adapted) pid dig True ''settlement_ambiguous'' True))) paid_ok"
    for s now res
  proof (cases s)
    case None
    then show ?thesis by (auto intro: runs_ret)
  next
    case (Some s')
    show ?thesis
    proof (cases s')
      case None
      show ?thesis unfolding Some None option.case
        by (rule runs_bind [OF runs_get [OF assms] runs_bind [OF runs_clock]])
           (auto split: option.splits intro!: runs_failClosed [OF assms] runs_replay)
    next
      case (Some row)
      with \<open>s = Some s'\<close> True show ?thesis
        by (auto intro!: runs_ret simp: paid_ok_def ev_def) fastforce
    qed
  qed
  from True show ?thesis
    unfolding completeInspected_def Let_def
    by (simp, intro runs_bind [OF runs_clock] runs_bind [OF step [unfolded ev_def]] fin [unfolded ev_def])
qed

lemma runs_completeSettlement:
  assumes "env_ok env"
  shows "runs t P (completeSettlement env i owner f a s x dig pid fee init) paid_ok"
  unfolding completeSettlement_def
  by (cases init) (auto intro!: runs_completeInspected [OF assms] runs_bind [OF runs_inspect runs_completeInspected [OF assms]])

definition join_ok :: "join_outcome \<Rightarrow> settlement_db \<Rightarrow> bool" where
  "join_ok out d = (\<forall>r. out = Join_response r \<longrightarrow> paid_ok r d)"

lemma runs_reconcile:
  assumes "env_ok env"
  shows "runs t P (reconcile_fenced env row tx owner f) join_ok"
proof -
  have "runs t P (reconcile_inspected env row tx owner f) paid_ok"
    unfolding reconcile_inspected_def Let_def
    by (rule runs_bind [OF runs_inspect])
       (auto intro!: runs_completeSettlement [OF assms] runs_bind [OF runs_transition [OF assms] runs_ret] runs_ret)
  then show ?thesis
    unfolding reconcile_fenced_def
    by (auto simp: join_ok_def intro!: runs_ret runs_bind [where R = paid_ok])
qed

lemma runs_join_final: "(\<And>d. P d \<Longrightarrow> sa_status row = AS_settled \<longrightarrow> getByOperationId i d = Some row) \<Longrightarrow>
   runs t P (join_final env row) join_ok"
  unfolding join_final_def Let_def
  by (cases "sa_status row")
     (auto intro!: runs_bind [OF runs_clock] runs_ret simp: join_ok_def paid_ok_def plain_error_def attempt_error_def; fastforce)+

lemma runs_join:
  assumes "env_ok env"
  shows "(\<And>d. P d \<Longrightarrow> sa_status row = AS_settled \<longrightarrow> getByOperationId (sa_operationId row) d = Some row) \<Longrightarrow>
     runs t P (joinStoredRow fuel env row) join_ok"
proof (induction fuel arbitrary: row P)
  case 0
  show ?case by (auto intro: runs_ret simp: join_ok_def)
next
  case (Suc fuel)
  have ret: "runs t R (mret (Join_response (pending_error c row))) join_ok" "runs t R (mret Join_null) join_ok" for R c
    by (auto intro: runs_ret simp: join_ok_def)
  have again: "runs t (\<lambda>d. x = getByOperationId i d \<and> (\<forall>c. x = Some c \<longrightarrow> sa_operationId c = i))
      (joinStoredRow fuel env (case x of None \<Rightarrow> row | Some c \<Rightarrow> c)) join_ok"
    if "sa_status row \<noteq> AS_settled" for x i
    using that by (auto split: option.splits intro!: Suc.IH)
  have joined: "runs t (\<lambda>d. x = getByOperationId i d \<and> (\<forall>c. x = Some c \<longrightarrow> sa_operationId c = i))
      (case x of None \<Rightarrow> mret (Join_response (pending_error ''settlement_in_progress'' row))
       | Some c \<Rightarrow> if sa_status c \<noteq> AS_awaiting_evidence then joinStoredRow fuel env c
           else mret (Join_response (pending_error ''settlement_in_progress'' row))) join_ok" for x i
    by (auto split: option.splits intro!: Suc.IH ret)
  note rec = runs_reconcile [OF assms] runs_bind [OF runs_uuid runs_bind [OF runs_takeover [OF assms]]]
    runs_bind [OF runs_get [OF assms]] runs_bind [OF runs_transition [OF assms]]
  show ?case
  proof (cases "sa_status row = AS_awaiting_evidence \<or> sa_status row = AS_settling")
    case False
    with runs_join_final [OF Suc.prems] show ?thesis by simp
  next
    case True
    then show ?thesis
      by (auto simp: Let_def split: option.splits intro!: ret runs_bind [OF runs_clock] rec joined again)
  qed
qed

text \<open>
  \<open>calls t P m N Q\<close>: as \<open>runs\<close>, for a run that may call the facilitator; \<open>N\<close> says which calls it
  adds to the trace.
\<close>

definition calls ::
  "(ext_event \<times> settlement_db) list \<Rightarrow> (settlement_db \<Rightarrow> bool) \<Rightarrow> 'a mm \<Rightarrow> ((ext_event \<times> settlement_db) list \<Rightarrow> bool) \<Rightarrow>
   ('a \<Rightarrow> settlement_db \<Rightarrow> bool) \<Rightarrow> bool" where
  "calls t P m N Q = (\<forall>st r st'. m st = (r, st') \<longrightarrow> db_inv (ms_db st) \<longrightarrow> ms_trace st = t \<longrightarrow> P (ms_db st) \<longrightarrow>
     (\<exists>new. ms_trace st' = t @ new \<and> N new \<and> (\<forall>x. r = Inr x \<longrightarrow> Q x (ms_db st'))))"

lemma runs_calls: "runs t P m Q \<Longrightarrow> N [] \<Longrightarrow> calls t P m N Q"
  by (fastforce simp: runs_def calls_def)

lemma callsD: "calls t P m N Q \<Longrightarrow> m st = (r, st') \<Longrightarrow> db_inv (ms_db st) \<Longrightarrow> ms_trace st = t \<Longrightarrow> P (ms_db st) \<Longrightarrow>
   \<exists>new. ms_trace st' = t @ new \<and> N new \<and> (\<forall>x. r = Inr x \<longrightarrow> Q x (ms_db st'))"
  by (simp add: calls_def)

lemma calls_mono:
  assumes "calls t P m N Q" "\<And>d. P' d \<Longrightarrow> P d" "\<And>new. N new \<Longrightarrow> N' new"
  shows "calls t P' m N' Q"
  unfolding calls_def
proof (intro allI impI)
  fix st r st'
  assume "m st = (r, st')" "db_inv (ms_db st)" "ms_trace st = t" "P' (ms_db st)"
  from callsD [OF assms(1) this(1-3) assms(2) [OF this(4)]]
  show "\<exists>new. ms_trace st' = t @ new \<and> N' new \<and> (\<forall>x. r = Inr x \<longrightarrow> Q x (ms_db st'))" by (blast intro: assms(3))
qed

lemma calls_bind:
  assumes "runs t P m R" "\<And>x. calls t (R x) (f x) N Q" "N []"
  shows "calls t P (mbind m f) N Q"
  unfolding calls_def
proof (intro allI impI)
  fix st r st'
  assume run: "mbind m f st = (r, st')" and pre: "db_inv (ms_db st)" "ms_trace st = t" "P (ms_db st)"
  obtain r1 st1 where m: "m st = (r1, st1)" by (cases "m st")
  with assms(1) pre have first: "db_inv (ms_db st1)" "ms_trace st1 = t" "\<And>x. r1 = Inr x \<Longrightarrow> R x (ms_db st1)"
    by (auto simp: runs_def)
  show "\<exists>new. ms_trace st' = t @ new \<and> N new \<and> (\<forall>x. r = Inr x \<longrightarrow> Q x (ms_db st'))"
  proof (cases r1)
    case (Inl e)
    with run m first assms(3) show ?thesis by (auto simp: mbind_def)
  next
    case (Inr x)
    with run m have "f x st1 = (r, st')" by (simp add: mbind_def)
    with assms(2) [of x] first Inr show ?thesis by (auto simp: calls_def)
  qed
qed

lemma calls_emit:
  assumes "\<And>d. P d \<Longrightarrow> calls (t @ [(e, d)]) (\<lambda>_. True) (f ()) (\<lambda>new. N ((e, d) # new)) Q"
  shows "calls t P (mbind (emit e) f) N Q"
  unfolding calls_def
proof (intro allI impI)
  fix st r st'
  assume run: "mbind (emit e) f st = (r, st')" and pre: "db_inv (ms_db st)" "ms_trace st = t" "P (ms_db st)"
  then have "f () (st\<lparr>ms_trace := t @ [(e, ms_db st)]\<rparr>) = (r, st')" by (simp add: mbind_def emit_def)
  with assms [OF pre(3)] pre have "\<exists>new. ms_trace st' = (t @ [(e, ms_db st)]) @ new \<and> N ((e, ms_db st) # new) \<and>
      (\<forall>x. r = Inr x \<longrightarrow> Q x (ms_db st'))"
    unfolding calls_def by (metis (no_types, lifting) mstate.select_convs(1,3) mstate.surjective mstate.update_convs(3))
  then show "\<exists>new. ms_trace st' = t @ new \<and> N new \<and> (\<forall>x. r = Inr x \<longrightarrow> Q x (ms_db st'))" by auto
qed

definition answer_ok :: "dev_result option \<Rightarrow> settlement_db \<Rightarrow> bool" where
  "answer_ok out d = (\<forall>r. out = Some r \<longrightarrow> paid_ok r d)"

lemma runs_answer: "dr_status r \<noteq> 200 \<Longrightarrow> runs t P (mret (Some r)) answer_ok"
  by (rule runs_ret) (simp add: answer_ok_def paid_ok_def)

lemma runs_ctx_error: "s \<noteq> 200 \<Longrightarrow> runs t P (ctx_error s c cx r tx) answer_ok"
  unfolding ctx_error_def by (rule runs_answer) (simp add: attempt_error_def)

lemma runs_after_join:
  assumes "runs t P j join_ok" "runs t (\<lambda>_. True) k answer_ok"
  shows "runs t P (with_join j k) answer_ok"
  unfolding with_join_def
proof (rule runs_bind [OF assms(1)])
  fix x
  show "runs t (join_ok x) (case x of Join_response r \<Rightarrow> mret (Some r) | Join_null \<Rightarrow> k | Join_out_of_fuel \<Rightarrow> mret None) answer_ok"
    using assms(2) by (cases x) (auto intro!: runs_ret runs_mono [OF assms(2)] simp: answer_ok_def join_ok_def)
qed

lemma runs_lost_lease:
  assumes "env_ok env"
  shows "runs t P (lost_lease fuel env cx) answer_ok"
  unfolding lost_lease_def
  by (rule runs_bind [OF runs_get [OF assms]])
     (auto split: option.splits intro!: runs_ctx_error runs_after_join runs_join [OF assms])

lemmas runs_move = runs_bind [OF runs_transition]

lemma runs_moved: "env_ok env \<Longrightarrow> s \<noteq> 200 \<Longrightarrow>
   runs t P (mbind (cx_transition env cx to u trig) (\<lambda>_. ctx_error s c cx' r tx)) answer_ok"
  unfolding cx_transition_def by (rule runs_move [OF _ runs_ctx_error])

lemma runs_completed: "env_ok env \<Longrightarrow>
   runs t P (mbind (completeSettlement env i owner f a s x dig pid fee init) (\<lambda>r. mret (Some r))) answer_ok"
  by (rule runs_bind [OF runs_completeSettlement runs_ret]) (simp_all add: answer_ok_def)

lemma runs_settle_answered: "env_ok env \<Longrightarrow> runs t P (settle_answered env cx pv sr) answer_ok"
  unfolding settle_answered_def Let_def
  by (simp only: runs_moved runs_completed split: sum.split if_split) (simp add: runs_moved)

text \<open>The calls of one run: nothing, a verify, or a verify and one settle under a live lease.\<close>

definition settle_call_ok :: "machine_env \<Rightarrow> attempt_ctx \<Rightarrow> ext_event \<times> settlement_db \<Rightarrow> bool" where
  "settle_call_ok env cx ev = (\<exists>d. ev = (Ext_settle (cx_operationId cx) (cx_worker cx) (cx_fence cx), d) \<and>
     held env (cx_operationId cx) (cx_worker cx) (cx_fence cx) d)"

lemma calls_settle:
  assumes "env_ok env"
  shows "calls t (held env (cx_operationId cx) (cx_worker cx) (cx_fence cx)) (accept_settle env cx pv)
    (\<lambda>new. \<exists>ev. new = [ev] \<and> settle_call_ok env cx ev) answer_ok"
  unfolding accept_settle_def
proof (rule calls_emit, rule runs_calls)
  fix d assume "held env (cx_operationId cx) (cx_worker cx) (cx_fence cx) d"
  then show "\<exists>ev. [(Ext_settle (cx_operationId cx) (cx_worker cx) (cx_fence cx), d)] = [ev] \<and> settle_call_ok env cx ev"
    by (simp add: settle_call_ok_def)
  show "runs (t @ [(Ext_settle (cx_operationId cx) (cx_worker cx) (cx_fence cx), d)]) (\<lambda>_. True)
     (case me_settle env (cx_header cx) of
        Settle_throws err \<Rightarrow> let known = transactionHashFromUnknown err
          in mbind (cx_transition env cx (if known \<noteq> None then AS_awaiting_evidence else AS_manual)
               (no_update\<lparr>up_txHash := map_option Some known, up_payer := map_option Some pv\<rparr>) ''settle-transport-failed'')
               (\<lambda>_. ctx_error 202 ''settlement_ambiguous'' cx (known \<noteq> None) known)
      | Settle_malformed \<Rightarrow> mbind (cx_transition env cx AS_manual no_update ''settle-malformed'')
          (\<lambda>_. ctx_error 202 ''settlement_ambiguous'' cx False None)
      | Settle_response settleResult \<Rightarrow> settle_answered env cx pv settleResult) answer_ok"
    by (simp add: assms Let_def runs_moved runs_settle_answered split: settle_reply.split)
qed

lemma calls_guarded:
  assumes "env_ok env"
  shows "calls t P (accept_guarded fuel env cx pv) (\<lambda>new. new = [] \<or> (\<exists>ev. new = [ev] \<and> settle_call_ok env cx ev)) answer_ok"
  unfolding accept_guarded_def
proof (rule calls_bind [OF runs_revalidate [OF assms]])
  fix x
  show "calls t (\<lambda>d. x \<noteq> None \<longrightarrow> held env (cx_operationId cx) (cx_worker cx) (cx_fence cx) d)
     (case x of None \<Rightarrow> lost_lease fuel env cx | Some _ \<Rightarrow> accept_settle env cx pv)
     (\<lambda>new. new = [] \<or> (\<exists>ev. new = [ev] \<and> settle_call_ok env cx ev)) answer_ok"
  proof (cases x)
    case None
    then show ?thesis by (auto intro!: runs_calls runs_lost_lease [OF assms])
  next
    case (Some a)
    then show ?thesis by (auto intro: calls_mono [OF calls_settle [OF assms]])
  qed
qed simp

definition run_calls :: "machine_env \<Rightarrow> string \<Rightarrow> (ext_event \<times> settlement_db) list \<Rightarrow> bool" where
  "run_calls env header new =
     (new = [] \<or> (\<exists>i d. new = [(Ext_verify i, d)]) \<or>
      (\<exists>i owner fence d d' v. new = [(Ext_verify i, d), (Ext_settle i owner fence, d')] \<and> held env i owner fence d' \<and>
         me_verify env header = Verify_response v \<and> vf_isValid v))"

lemma calls_verify:
  assumes "env_ok env" "cx_header cx = header"
  shows "calls t P (accept_verify fuel env cx) (run_calls env header) answer_ok"
proof -
  define i where "i = cx_operationId cx"
  have guarded: "calls (t @ [(Ext_verify i, d)]) R (accept_guarded fuel env cx pv) (\<lambda>new. run_calls env header ((Ext_verify i, d) # new)) answer_ok"
    if "me_verify env header = Verify_response v" "vf_isValid v" for d R pv v
    using that by (auto intro!: calls_mono [OF calls_guarded [OF assms(1)]] simp: run_calls_def settle_call_ok_def i_def)
  have base: "run_calls env header [(Ext_verify i, d)]" for d by (simp add: run_calls_def)
  have quiet: "calls (t @ [(Ext_verify i, d)]) R m (\<lambda>new. run_calls env header ((Ext_verify i, d) # new)) answer_ok"
    if "runs (t @ [(Ext_verify i, d)]) R m answer_ok" for d R m
    using that base by (rule runs_calls)
  have rejected: "runs t' R (mbind (cx_transition env cx AS_rejected no_update ''verify-failed'')
      (\<lambda>_. mret (Some (plain_error 402 ''payment_verification_failed'')))) answer_ok" for t' R
    unfolding cx_transition_def by (auto intro!: runs_move [OF assms(1)] runs_answer simp: plain_error_def)
  show ?thesis
    unfolding accept_verify_def
  proof (rule calls_emit, fold i_def)
    fix d
    show "calls (t @ [(Ext_verify i, d)]) (\<lambda>_. True)
      (let rejected = mbind (cx_transition env cx AS_rejected no_update ''verify-failed'')
             (\<lambda>_. mret (Some (plain_error 402 ''payment_verification_failed'')))
       in case me_verify env (cx_header cx) of
            Verify_throws \<Rightarrow> rejected
          | Verify_response v \<Rightarrow>
              if \<not> vf_isValid v then rejected
              else if truthy (vf_payer v)
              then mbind (cx_transition env cx AS_settling (no_update\<lparr>up_payer := map_option Some (vf_payer v)\<rparr>) ''verify-passed'')
                     (\<lambda>persisted. case persisted of
                        None \<Rightarrow> lost_lease fuel env cx
                      | Some _ \<Rightarrow> accept_guarded fuel env cx (vf_payer v))
              else accept_guarded fuel env cx (vf_payer v))
      (\<lambda>new. run_calls env header ((Ext_verify i, d) # new)) answer_ok"
    proof (cases "me_verify env header")
      case Verify_throws
      with assms(2) show ?thesis by (simp add: Let_def quiet rejected)
    next
      case (Verify_response v)
      have persisted: "calls (t @ [(Ext_verify i, d)]) (\<lambda>_. True)
         (mbind (cx_transition env cx AS_settling u ''verify-passed'')
           (\<lambda>p. case p of None \<Rightarrow> lost_lease fuel env cx | Some _ \<Rightarrow> accept_guarded fuel env cx (vf_payer v)))
         (\<lambda>new. run_calls env header ((Ext_verify i, d) # new)) answer_ok" if "vf_isValid v" for u
        unfolding cx_transition_def
        by (rule calls_bind [OF runs_transition [OF assms(1)]])
           (use guarded [OF Verify_response that] base in \<open>auto split: option.split intro!: quiet runs_lost_lease [OF assms(1)]\<close>)
      with Verify_response assms(2) show ?thesis by (simp add: Let_def quiet rejected guarded)
    qed
  qed
qed

lemma run_calls_Nil [simp]: "run_calls env header []"
  by (simp add: run_calls_def)

lemma calls_owned:
  assumes "env_ok env" "cx_header cx = header"
  shows "calls t P (accept_owned fuel env cx) (run_calls env header) answer_ok"
  unfolding accept_owned_def
  by (rule calls_bind [OF runs_revalidate [OF assms(1)]])
     (auto split: option.split intro!: runs_calls runs_lost_lease [OF assms(1)] calls_verify assms)

lemma calls_claimed:
  assumes "env_ok env" "cx_header cx = header"
  shows "calls t P (accept_claimed fuel env cx c) (run_calls env header) answer_ok"
proof -
  have "calls t P (mbind (cx_transition env cx AS_pending no_update ''claim-digest-abandon'')
      (\<lambda>_. mret (Some (plain_error 409 ''payment_ownership_conflict'')))) (run_calls env header) answer_ok"
    unfolding cx_transition_def
    by (intro runs_calls runs_move [OF assms(1)] runs_answer) (simp_all add: plain_error_def)
  moreover have "calls t P (mbind (cx_transition env cx AS_settling u ''claim-blockhash'') (\<lambda>_. accept_owned fuel env cx))
      (run_calls env header) answer_ok" for u
    unfolding cx_transition_def
    by (intro calls_bind [OF runs_transition [OF assms(1)]] calls_owned assms) simp
  ultimately show ?thesis by (simp add: accept_claimed_def calls_owned assms)
qed

lemma calls_claim:
  assumes "env_ok env" "cx_header cx = header"
  shows "calls t P (accept_claim fuel env cx) (run_calls env header) answer_ok"
  unfolding accept_claim_def
proof (rule calls_bind [OF runs_seal calls_bind [OF runs_claim [OF assms(1)]]])
  fix x
  have lost: "runs t Q (mbind (s_get env (cx_operationId cx)) (\<lambda>reread. case reread of
        None \<Rightarrow> mret (Some (plain_error 500 ''internal_error''))
      | Some r \<Rightarrow> with_join (joinStoredRow fuel env r) (ctx_error 202 ''settlement_in_progress'' cx True None))) answer_ok" for Q
    by (rule runs_bind [OF runs_get [OF assms(1)]])
       (auto split: option.splits intro!: runs_answer runs_ctx_error runs_after_join runs_join [OF assms(1)] simp: plain_error_def)
  show "calls t (\<lambda>_. True) (case x of
      None \<Rightarrow> mbind (s_get env (cx_operationId cx)) (\<lambda>reread. case reread of
          None \<Rightarrow> mret (Some (plain_error 500 ''internal_error''))
        | Some r \<Rightarrow> with_join (joinStoredRow fuel env r) (ctx_error 202 ''settlement_in_progress'' cx True None))
    | Some c \<Rightarrow> accept_claimed fuel env (cx\<lparr>cx_fence := or_else (sa_fenceToken c) []\<rparr>) c) (run_calls env header) answer_ok"
    using assms by (cases x) (simp_all add: runs_calls [OF lost] calls_claimed)
qed simp_all

lemma calls_after_join:
  assumes "runs t P j join_ok" "\<And>P. calls t P k N answer_ok" "N []"
  shows "calls t P (with_join j k) N answer_ok"
  unfolding with_join_def
proof (rule calls_bind [OF assms(1)])
  fix x
  show "calls t (join_ok x) (case x of Join_response r \<Rightarrow> mret (Some r) | Join_null \<Rightarrow> k | Join_out_of_fuel \<Rightarrow> mret None) N answer_ok"
    using assms(2,3) by (cases x) (auto intro!: runs_calls runs_ret simp: answer_ok_def join_ok_def)
qed (rule assms(3))

lemma calls_row:
  assumes "env_ok env" "cx_header cx = header"
    and "\<And>d. P d \<Longrightarrow> getByOperationId (sa_operationId row) d = Some row"
  shows "calls t P (accept_row fuel env cx row) (run_calls env header) answer_ok"
proof -
  have "runs t P (joinStoredRow fuel env row) join_ok" using assms(3) by (intro runs_join [OF assms(1)]) auto
  then show ?thesis using assms(2)
    by (auto simp: accept_row_def plain_error_def intro!: runs_calls [OF runs_answer] calls_after_join calls_claim assms(1))
qed

lemma newest_in: "newest rs = Some r \<Longrightarrow> r \<in> set rs"
  by (auto simp: newest_def dest: js_head_in)

lemma lookup_in_rows:
  "findByDigestPayment g p db = Some r \<Longrightarrow> r \<in> set (rows db)"
  "findActiveAttempt q v db = Some r \<Longrightarrow> r \<in> set (rows db)"
  "findSettledAttempt q v g u db = Some r \<Longrightarrow> r \<in> set (rows db)"
  "r \<in> set (findByPaymentId p db) \<Longrightarrow> r \<in> set (rows db)"
  by (auto simp: findByDigestPayment_def findActiveAttempt_def findSettledAttempt_def findByPaymentId_def
      dest!: js_head_in newest_in)

lemma classify_existing: "classify r a = RR_existing row \<longleftrightarrow> row = r \<and> \<not> approvalMismatch (sa_authRevision r) a"
  by (auto simp: classify_def)

lemma resolve_read_existing: "pg_resolve_read sha uuid input db = Resolve_done (RR_existing row) \<Longrightarrow> row \<in> set (rows db)"
  by (auto simp: pg_resolve_read_def Let_def classify_existing split: option.splits if_splits
      dest: lookup_in_rows dest!: js_head_in)

lemma resolve_insert_post:
  assumes "db_inv db" "pg_resolve_insert input auth i now db = Inr (res, db')"
  shows "db_inv db' \<and> (\<forall>row. res = RR_created row \<or> res = RR_existing row \<longrightarrow> getByOperationId (sa_operationId row) db' = Some row)"
proof (cases "sql_insert (new_row i input auth now) db")
  case (Inr d)
  define row where "row = new_row i input auth now"
  from Inr have d: "d = put_row row db" by (simp add: sql_insert_def row_def split: if_splits)
  from Inr assms(2) obtain h where "res = RR_created row" "db' = append_history h d"
    by (auto simp: pg_resolve_insert_def Let_def row_def)
  with sql_insert_inv [OF assms(1) Inr] d show ?thesis by auto
next
  case (Inl e)
  define cs where "cs = [getByOperationId i db, findByDigestPayment (ri_requestDigest input) (ri_callerPaymentId input) db] @
     map Some (findByPaymentId (ri_callerPaymentId input) db) @
     [findActiveAttempt (ri_logicalOrderId input) (ri_intentVersion input) db,
      findSettledAttempt (ri_logicalOrderId input) (ri_intentVersion input) (ri_requestDigest input) (ri_resource input) db]"
  from assms(2) have "(case js_find (\<lambda>c. c \<noteq> None) cs of
      Some (Some winner) \<Rightarrow> Inr (classify winner (ri_approvalEventId input), db)
    | _ \<Rightarrow> Inl ''Unique conflict without a readable winner; retry the accept.'') = Inr (res, db')"
    unfolding pg_resolve_insert_def Let_def cs_def Inl sum.case .
  then obtain w where w: "js_find (\<lambda>c. c \<noteq> None) cs = Some (Some w)" "res = classify w (ri_approvalEventId input)" "db' = db"
    by (auto split: option.splits)
  from w(1) have "Some w \<in> set cs" by (blast dest: js_find_SomeD)
  then have "w \<in> set (rows db)"
    unfolding cs_def using get_in_rows [OF assms(1)]
    by (auto dest!: sym [of "Some w"] dest: lookup_in_rows)
  with w(2,3) assms(1) show ?thesis by (auto simp: classify_existing rows_get)
qed

lemma runs_resolve: "env_ok env \<Longrightarrow> runs t P (s_resolve env input)
   (\<lambda>res d. \<forall>row. res = RR_created row \<or> res = RR_existing row \<longrightarrow> getByOperationId (sa_operationId row) d = Some row)"
  unfolding s_resolve_def
proof (rule runs_bind [OF runs_uuid], rule runs_bind [OF runs_store])
  fix uuid step
  assume ok: "env_ok env"
  show "runs t (\<lambda>d. db_inv d \<and> (\<forall>res. step = Resolve_done res \<longrightarrow>
        (\<forall>row. res = RR_created row \<or> res = RR_existing row \<longrightarrow> getByOperationId (sa_operationId row) d = Some row)))
     (case step of Resolve_done r \<Rightarrow> mret r | Resolve_open auth i \<Rightarrow> store_call env (\<lambda>now db. pg_resolve_insert input auth i now db))
     (\<lambda>res d. \<forall>row. res = RR_created row \<or> res = RR_existing row \<longrightarrow> getByOperationId (sa_operationId row) d = Some row)"
  proof (cases step)
    case (Resolve_done r)
    then show ?thesis by (auto intro!: runs_ret)
  next
    case (Resolve_open auth i)
    then show ?thesis by (auto intro!: runs_store [OF ok] dest: resolve_insert_post)
  qed
next
  fix uuid now db x db'
  assume "db_inv db" "Inr (pg_resolve_read (me_sha256 env) uuid input db, db) = Inr (x, db')"
  then show "db_inv db' \<and> db_inv db' \<and> (\<forall>res. x = Resolve_done res \<longrightarrow>
        (\<forall>row. res = RR_created row \<or> res = RR_existing row \<longrightarrow> getByOperationId (sa_operationId row) db' = Some row))"
    by (auto simp: resolve_read_not_created intro!: rows_get resolve_read_existing)
qed simp_all

lemma calls_accept:
  assumes "env_ok env"
  shows "calls t P (accept fuel env header dig req appr) (run_calls env header) answer_ok"
proof -
  have reject: "runs t P' (mret (Some r)) answer_ok" if "accept_validate env header dig req = Inr (Reject r)" for r P'
    using that by (intro runs_answer)
      (auto simp: accept_validate_def plain_error_def split: if_splits option.splits sum.splits)
  have header: "cx_header cx = header" if "accept_validate env header dig req = Inr (Proceed cx)" for cx
    using that by (auto simp: accept_validate_def split: if_splits option.splits sum.splits)
  have intake: "calls t P' (accept_intake fuel env cx req appr) (run_calls env header) answer_ok" if "cx_header cx = header" for cx P'
    unfolding accept_intake_def
  proof (rule calls_bind [OF runs_find [OF assms]])
    fix rs
    have resolved: "calls t Q' (mbind (s_resolve env inp) (\<lambda>resolution. case resolution of
           RR_release_required _ _ \<Rightarrow> mret (Some (plain_error 409 ''release_required''))
         | RR_approval_mismatch _ _ \<Rightarrow> mret (Some (plain_error 409 ''approval_mismatch''))
         | RR_created row \<Rightarrow> accept_row fuel env cx row
         | RR_existing row \<Rightarrow> accept_row fuel env cx row)) (run_calls env header) answer_ok" for inp Q'
      by (rule calls_bind [OF runs_resolve [OF assms]])
         (auto split: resolve_result.split simp: plain_error_def intro!: runs_calls [OF runs_answer] calls_row assms that)
    show "calls t (\<lambda>_. True) (if list_ex (\<lambda>r. sa_requestDigest r \<noteq> cx_digest cx) rs
       then mret (Some (plain_error 409 ''idempotency_conflict''))
       else mbind (s_resolve env
         \<lparr>ri_logicalOrderId = ts_orderId req, ri_intentVersion = ts_intentVersion req,
          ri_requestDigest = cx_digest cx, ri_resource = RESOURCE_URL, ri_approvalEventId = appr,
          ri_callerPaymentId = cx_paymentId cx,
          ri_requirementsJson = requirements_json (getCanonicalRequirements env (cx_digest cx))\<rparr>) (\<lambda>resolution.
         case resolution of
           RR_release_required _ _ \<Rightarrow> mret (Some (plain_error 409 ''release_required''))
         | RR_approval_mismatch _ _ \<Rightarrow> mret (Some (plain_error 409 ''approval_mismatch''))
         | RR_created row \<Rightarrow> accept_row fuel env cx row
         | RR_existing row \<Rightarrow> accept_row fuel env cx row)) (run_calls env header) answer_ok"
      using resolved by (auto intro!: runs_calls [OF runs_answer] simp: plain_error_def)
  qed simp
  show ?thesis
    unfolding accept_def
    by (auto split: sum.split accept_check.split intro!: runs_calls runs_throw reject calls_bind [OF runs_uuid] intake simp: header)
qed

subsection \<open>The properties of the handler\<close>

definition demo_request :: tool_spend_request where
  "demo_request = buildDevnetToolSpendRequest demo_devnet ''ord_1'' 1"

definition demo_offer :: accepted_requirements where
  "demo_offer = \<lparr>ac_supplied = \<lparr>su_scheme = Some ''exact'', su_network = Some SOLANA_DEVNET_CAIP2, su_asset = Some ''mint'',
     su_amount = None, su_payTo = Some ''payee'', su_memo = Some ''agentcart:v1:d''\<rparr>, ac_feePayer = Some ''fp''\<rparr>"

text \<open>A small environment: one worker, a clock that stands still, a facilitator that accepts and settles.\<close>

definition demo_env :: machine_env where
  "demo_env = \<lparr>me_config = demo_devnet, me_sha256 = (\<lambda>_. ''d''), me_now = (\<lambda>_. 0), me_uuid = (\<lambda>n. ''u''),
     me_others = (\<lambda>_ db. db), me_down = (\<lambda>_. False), me_leaseTtlMs = 100,
     me_gcm = \<lparr>gcm_enc = (\<lambda>k iv p. ([], p)), gcm_dec = (\<lambda>k iv t c. Some c), b64 = (\<lambda>b. b), unb64 = (\<lambda>b. b)\<rparr>,
     me_encKey = ''k'', me_iv = (\<lambda>_. ''iv''), me_initialized = True, me_settlementEnabled = True,
     me_decode = (\<lambda>_. Some (Some \<lparr>sp_accepted = Some demo_offer, sp_paymentIdentifier = Some ''pid''\<rparr>)),
     me_extractBlockhash = (\<lambda>_. Some ''bh''), me_supportedFeePayer = Some (Some ''fp''),
     me_verify = (\<lambda>_. Verify_response \<lparr>vf_isValid = True, vf_payer = Some ''payer''\<rparr>),
     me_settle = (\<lambda>_. Settle_response \<lparr>sr_success = True, sr_transaction = Some ''tx'', sr_network = None,
        sr_payer = Some ''payer'', sr_amount = None\<rparr>),
     me_rpc = (\<lambda>_ _. None)\<rparr>"

lemma demo_env_ok: "env_ok demo_env"
  by (simp add: env_ok_def demo_env_def)

definition demo_state :: "settlement_db \<Rightarrow> mstate" where
  "demo_state db = \<lparr>ms_db = db, ms_tick = 0, ms_trace = []\<rparr>"

definition demo_settled :: settlement_db where
  "demo_settled = put_row (demo_row\<lparr>sa_status := AS_settled, sa_txHash := Some ''tx''\<rparr>) empty_db"

lemma demo_settled_inv: "db_inv demo_settled"
  unfolding demo_settled_def by (rule db_inv_put_row [OF db_inv_empty]) (simp add: unique_ok_def rows_def empty_db_def)



text \<open>C6: The paid resource is handed out only for a settled attempt. When the handler answers 200,
  the settlement table holds a settled row at that moment and the evidence in the answer is the
  evidence stored in that row; unless the answer is marked as a replay, that evidence records a
  verified memo and a verified on-chain transfer.\<close>

theorem resource_only_when_settled:
  assumes "env_ok env" "db_inv (ms_db st)"
    and "accept fuel env header requestDigest req approval st = (Inr (Some res), st')" "dr_status res = 200"
  shows "\<exists>i row resource replay. getByOperationId i (ms_db st') = Some row \<and> sa_status row = AS_settled \<and>
     dr_body res = Body_resource resource (sa_evidenceJson row) replay \<and>
     (\<not> replay \<longrightarrow> opt_prop ''memoVerification'' (sa_evidenceJson row) = JStr ''verified'' \<and>
        opt_prop ''transferVerification'' (sa_evidenceJson row) = JStr ''verified'')"
proof -
  from callsD [OF calls_accept [OF assms(1), where P = "\<lambda>_. True"] assms(3,2) refl]
  have "answer_ok (Some res) (ms_db st')" by blast
  with assms(4) show ?thesis by (simp add: answer_ok_def paid_ok_def)
qed

definition demo_ctx :: attempt_ctx where
  "demo_ctx = \<lparr>cx_header = ''hdr'', cx_digest = ''d'', cx_paymentId = ''pid'', cx_payloadDigest = ''d'', cx_feePayer = ''fp'',
     cx_operationId = [], cx_worker = [], cx_fence = []\<rparr>"

lemma demo_validate: "accept_validate demo_env ''hdr'' ''d'' demo_request = Inr (Proceed demo_ctx)"
  by (simp add: accept_validate_def demo_env_def demo_offer_def demo_devnet_def demo_ctx_def buildRequestDigest_def
      canonicalToolSpendRequestDigest_def verifyCanonicalRequirements_def getCanonicalRequirements_def buildCanonicalRequirements_def
      memoForEnvelope_def fee_payer_errors_def digestOfEncodedPayment_def when_code_def or_else_def)

lemma demo_env_simps [simp]:
  "me_config demo_env = demo_devnet" "me_sha256 demo_env s = ''d''" "me_now demo_env n = 0" "me_uuid demo_env n = ''u''"
  "me_others demo_env n db = db" "\<not> me_down demo_env n" "me_leaseTtlMs demo_env = 100"
  by (simp_all add: demo_env_def)

lemmas mm_eval = mbind_def mret_def mcatch_def store_call_def read_clock_def fresh_uuid_def Let_def

lemma demo_replay:
  "accept 1 demo_env ''hdr'' ''d'' demo_request None (demo_state demo_settled) =
   (Inr (Some \<lparr>dr_status = 200, dr_body = Body_resource (score demo_devnet 0 [] ''tx'') JNull True\<rparr>),
    (demo_state demo_settled)\<lparr>ms_tick := 4\<rparr>)"
proof -
  define row where "row = demo_row\<lparr>sa_status := AS_settled, sa_txHash := Some ''tx''\<rparr>"
  have row: "sa_requestDigest row = ''d''" "sa_callerPaymentId row = Some ''pid''" "sa_status row = AS_settled"
    "sa_txHash row = Some ''tx''" "sa_evidenceJson row = JNull" "sa_payer row = None" "sa_payloadDigest row = None"
    "sa_authRevision row = ''sauth_1''"
    by (simp_all add: row_def demo_row_def new_row_def demo_input_def)
  have rows: "rows demo_settled = [row]" 
    by (simp add: demo_settled_def row_def rows_def put_row_def empty_db_def map_set_def)
  have find: "findByPaymentId ''pid'' demo_settled = [row]" "findByDigestPayment ''d'' ''pid'' demo_settled = Some row"
    by (simp_all add: findByPaymentId_def findByDigestPayment_def rows row)
  show ?thesis
    by (simp add: accept_def demo_validate accept_intake_def mm_eval s_findByPaymentId_def s_resolve_def pg_resolve_read_def
      accept_row_def with_join_def join_final_def demo_ctx_def demo_state_def find row classify_def approvalMismatch_def
      starts_with_def knownPayer_def string_or_empty_def opt_prop_def jprop_def or_else_def numeral_eq_Suc)
qed

theorem resource_only_when_settled_witness:
  "\<exists>i row resource replay. getByOperationId i (ms_db ((demo_state demo_settled)\<lparr>ms_tick := 4\<rparr>)) = Some row \<and>
     sa_status row = AS_settled \<and>
     dr_body \<lparr>dr_status = 200, dr_body = Body_resource (score demo_devnet 0 [] ''tx'') JNull True\<rparr> =
       Body_resource resource (sa_evidenceJson row) replay"
  using resource_only_when_settled [OF demo_env_ok _ demo_replay] by (auto simp: demo_state_def demo_settled_inv)



subsection \<open>What a verified inspection means\<close>

lemma some_memo_iff: "some_memo memo ixs = Some found \<Longrightarrow>
   found \<longleftrightarrow> (\<exists>ix \<in> set ixs. opt_prop ''program'' ix = JStr ''spl-memo'' \<and>
     opt_prop ''programId'' ix = JStr MEMO_PROGRAM_ID \<and> opt_prop ''parsed'' ix = JStr memo)"
proof (induction ixs)
  case (Cons ix ixs)
  then obtain p where p: "jprop ''program'' ix = Some p" by (cases "jprop ''program'' ix") simp_all
  then have "opt_prop ''program'' ix = p" by (simp add: opt_prop_def)
  with Cons p show ?case by (auto split: if_splits)
qed simp

text \<open>The only way to a verified transfer.\<close>

lemma inspect_result_verified:
  assumes "inspect_result result memo x = Some i" "ti_transfer_state i = TV_verified"
  obtains found t where "some_memo memo (all_instructions result) = Some found"
    "has_own ''err'' (opt_prop ''meta'' result)" "opt_prop ''err'' (opt_prop ''meta'' result) = JNull"
    "parse_transfers (map account_key (json_array (opt_prop ''accountKeys'' (opt_prop ''message'' (opt_prop ''transaction'' result)))))
       (json_array (opt_prop ''postTokenBalances'' (opt_prop ''meta'' result)))
       (json_array (opt_prop ''preTokenBalances'' (opt_prop ''meta'' result))) (all_instructions result) = Some [t]"
    "transfer_matches x t"
    "i = \<lparr>ti_memo = (if found then Memo_verified else Memo_missing), ti_transfer_state = TV_verified, ti_transfer = Some t\<rparr>"
proof -
  define meta where "meta = opt_prop ''meta'' result"
  define parsed where "parsed = parse_transfers (map account_key (json_array (opt_prop ''accountKeys'' (opt_prop ''message'' (opt_prop ''transaction'' result)))))
       (json_array (opt_prop ''postTokenBalances'' meta)) (json_array (opt_prop ''preTokenBalances'' meta)) (all_instructions result)"
  note def = assms(1) [unfolded inspect_result_def Let_def, folded meta_def, folded parsed_def]
  from def obtain found where found: "some_memo memo (all_instructions result) = Some found"
    by (cases "some_memo memo (all_instructions result)") simp_all
  from def assms(2) found have err: "has_own ''err'' meta" "opt_prop ''err'' meta = JNull" "\<not> json_falsy meta"
    by (auto split: if_splits)
  with def found obtain ts where ts: "parsed = Some ts" by (cases parsed) simp_all
  with def assms(2) found err have len: "length ts = 1" "length (filter (transfer_matches x) ts) = 1"
    and i: "i = \<lparr>ti_memo = (if found then Memo_verified else Memo_missing), ti_transfer_state = TV_verified,
       ti_transfer = js_head (filter (transfer_matches x) ts)\<rparr>"
    by (auto split: if_splits)
  from len obtain t where t: "ts = [t]" "transfer_matches x t" by (cases ts) (auto split: if_splits)
  show thesis
    using that found err(1,2) ts t i unfolding parsed_def meta_def by simp
qed

text \<open>C17: Transaction inspection reports a verified transfer only for a transaction that the node
  reports without error and that contains exactly one token transfer in all its top-level and inner
  instructions, and that transfer has the expected mint, amount, recipient owner and payer; a verified
  memo means an instruction of the memo program carrying exactly the expected memo.\<close>

theorem verified_transfer_is_exact:
  assumes "inspectTransaction config rpc tx memo x = i" "ti_transfer_state i = TV_verified"
  shows "\<exists>data t. rpc tx = Some data \<and>
    (let result = opt_prop ''result'' data; meta = opt_prop ''meta'' result;
         message = opt_prop ''message'' (opt_prop ''transaction'' result) in
     has_own ''err'' meta \<and> opt_prop ''err'' meta = JNull \<and>
     parse_transfers (map account_key (json_array (opt_prop ''accountKeys'' message)))
       (json_array (opt_prop ''postTokenBalances'' meta)) (json_array (opt_prop ''preTokenBalances'' meta))
       (all_instructions result) = Some [t] \<and>
     ti_transfer i = Some t \<and> te_mint t = xt_asset x \<and> te_amount t = xt_amount x \<and> te_recipient t = xt_payee x \<and>
     te_payer t = xt_payer x \<and>
     (ti_memo i = Memo_verified \<longleftrightarrow>
        (\<exists>ix \<in> set (all_instructions result). opt_prop ''program'' ix = JStr ''spl-memo'' \<and>
           opt_prop ''programId'' ix = JStr MEMO_PROGRAM_ID \<and> opt_prop ''parsed'' ix = JStr memo)))"
proof -
  have "ti_transfer_state inspection_unavailable \<noteq> TV_verified" by (simp add: inspection_unavailable_def)
  with assms obtain data result where d: "rpc tx = Some data" "jprop ''result'' data = Some result"
    and insp: "inspect_result result memo x = Some i"
    by (auto simp: inspectTransaction_def split: if_splits option.splits)
  from d(2) have r: "opt_prop ''result'' data = result" by (simp add: opt_prop_def)
  from insp assms(2) show ?thesis
  proof (rule inspect_result_verified)
    fix found t
    assume "some_memo memo (all_instructions result) = Some found" "transfer_matches x t"
      and "has_own ''err'' (opt_prop ''meta'' result)" "opt_prop ''err'' (opt_prop ''meta'' result) = JNull"
        "parse_transfers (map account_key (json_array (opt_prop ''accountKeys'' (opt_prop ''message'' (opt_prop ''transaction'' result)))))
         (json_array (opt_prop ''postTokenBalances'' (opt_prop ''meta'' result)))
         (json_array (opt_prop ''preTokenBalances'' (opt_prop ''meta'' result))) (all_instructions result) = Some [t]"
        "i = \<lparr>ti_memo = (if found then Memo_verified else Memo_missing), ti_transfer_state = TV_verified, ti_transfer = Some t\<rparr>"
    with some_memo_iff [OF this(1)] d(1) show ?thesis
      unfolding Let_def by (intro exI [of _ data] exI [of _ t]) (simp add: r transfer_matches_def)
  qed
qed

definition demo_tx :: json where
  "demo_tx = JObj [(''result'', JObj
     [(''meta'', JObj [(''err'', JNull)]),
      (''transaction'', JObj [(''message'', JObj [(''instructions'', JArr
         [JObj [(''program'', JStr ''spl-memo''), (''programId'', JStr MEMO_PROGRAM_ID), (''parsed'', JStr ''m'')],
          JObj [(''program'', JStr ''spl-token''), (''parsed'', JObj [(''type'', JStr ''transferChecked''),
             (''info'', JObj [(''mint'', JStr ''mint''), (''destination'', JStr ''payee''), (''authority'', JStr ''payer''),
                (''tokenAmount'', JObj [(''amount'', JStr ''10000'')])])])]])])])])]"

definition demo_transfer :: expected_transfer where
  "demo_transfer = \<lparr>xt_asset = ''mint'', xt_amount = ''10000'', xt_payee = ''payee'', xt_payer = ''payer''\<rparr>"

lemma demo_inspection:
  "inspectTransaction (demo_devnet\<lparr>dc_solanaRpcUrl := Some ''rpc''\<rparr>) (\<lambda>_. Some demo_tx) ''tx'' ''m'' demo_transfer =
   \<lparr>ti_memo = Memo_verified, ti_transfer_state = TV_verified,
    ti_transfer = Some \<lparr>te_mint = ''mint'', te_amount = ''10000'', te_recipient = ''payee'', te_payer = ''payer''\<rparr>\<rparr>"
  by (simp add: inspectTransaction_def inspect_result_def demo_tx_def demo_transfer_def demo_devnet_def jprop_def opt_prop_def
      json_falsy_def all_instructions_def json_array_def has_own_def parse_transfer_def stringValue_def alt_def balance_prop_def
      transfer_matches_def MEMO_PROGRAM_ID_def TOKEN_PROGRAM_IDS_def or_else_def index_of_def)

theorem verified_transfer_is_exact_witness:
  "has_own ''err'' (opt_prop ''meta'' (opt_prop ''result'' demo_tx)) \<and> ''10000'' = xt_amount demo_transfer \<and>
   (\<exists>ix \<in> set (all_instructions (opt_prop ''result'' demo_tx)). opt_prop ''parsed'' ix = JStr ''m'')"
  using verified_transfer_is_exact [OF demo_inspection] by (auto simp: Let_def)

subsection \<open>Runs that must succeed\<close>

text \<open>
  A quiet environment: the store is up and no other worker touches it. \<open>finishes P m Q\<close>: from every
  consistent store satisfying \<open>P\<close> the run returns normally, in a consistent store, with \<open>Q\<close>.
\<close>

definition quiet :: "machine_env \<Rightarrow> bool" where
  "quiet env = ((\<forall>n db. me_others env n db = db) \<and> (\<forall>n. \<not> me_down env n))"

definition finishes :: "(settlement_db \<Rightarrow> bool) \<Rightarrow> 'a mm \<Rightarrow> ('a \<Rightarrow> settlement_db \<Rightarrow> bool) \<Rightarrow> bool" where
  "finishes P m Q = (\<forall>st. db_inv (ms_db st) \<longrightarrow> P (ms_db st) \<longrightarrow>
     (\<exists>x st'. m st = (Inr x, st') \<and> db_inv (ms_db st') \<and> Q x (ms_db st')))"

lemma finishesD: "finishes P m Q \<Longrightarrow> db_inv (ms_db st) \<Longrightarrow> P (ms_db st) \<Longrightarrow>
   \<exists>x st'. m st = (Inr x, st') \<and> db_inv (ms_db st') \<and> Q x (ms_db st')"
  by (simp add: finishes_def)

lemma finishes_ret: "(\<And>d. P d \<Longrightarrow> Q x d) \<Longrightarrow> finishes P (mret x) Q"
  by (simp add: finishes_def mret_def)

lemma finishes_bind:
  assumes "finishes P m R" "\<And>x. finishes (R x) (f x) Q"
  shows "finishes P (mbind m f) Q"
  unfolding finishes_def
proof (intro allI impI)
  fix st :: mstate assume pre: "db_inv (ms_db st)" "P (ms_db st)"
  from finishesD [OF assms(1) pre] obtain x st1 where m: "m st = (Inr x, st1)" "db_inv (ms_db st1)" "R x (ms_db st1)" by blast
  from finishesD [OF assms(2) m(2,3)] m(1)
  show "\<exists>y st'. mbind m f st = (Inr y, st') \<and> db_inv (ms_db st') \<and> Q y (ms_db st')" by (auto simp: mbind_def)
qed

lemma finishes_catch:
  assumes "finishes P m Q" shows "finishes P (mcatch m h) Q"
  unfolding finishes_def
proof (intro allI impI)
  fix st :: mstate assume pre: "db_inv (ms_db st)" "P (ms_db st)"
  from finishesD [OF assms pre]
  show "\<exists>y st'. mcatch m h st = (Inr y, st') \<and> db_inv (ms_db st') \<and> Q y (ms_db st')" by (auto simp: mcatch_def)
qed

lemma finishes_clock: "finishes P (read_clock env) (\<lambda>_. P)"
  and finishes_inspect: "finishes P (inspect env tx memo x) (\<lambda>_. P)"
  and finishes_emit: "finishes P (emit e) (\<lambda>_. P)"
  by (auto simp: finishes_def read_clock_def inspect_def emit_def)

text \<open>The worker's lease outlives every clock reading of the run; the row is then its own to change.\<close>

definition live :: "machine_env \<Rightarrow> string \<Rightarrow> string \<Rightarrow> string \<Rightarrow> settlement_db \<Rightarrow> bool" where
  "live env i owner fence d = (\<exists>row e. getByOperationId i d = Some row \<and> sa_status row = AS_settling \<and>
     sa_leaseOwner row = Some owner \<and> sa_fenceToken row = Some fence \<and> sa_leaseExpiresAt row = Some e \<and>
     (\<forall>n. me_now env n < e))"

definition in_state :: "string \<Rightarrow> attempt_state \<Rightarrow> settlement_db \<Rightarrow> bool" where
  "in_state i s d = (\<exists>row. getByOperationId i d = Some row \<and> sa_status row = s)"

lemma update_safe: "sa_status r = AS_settling \<Longrightarrow> up_callerPaymentId u = None \<Longrightarrow> index_safe r (apply_update to u now r)"
  by (simp add: index_safe_def apply_update_def)

lemma finishes_transition:
  assumes "quiet env" "AS_settling \<in> set frm" "up_callerPaymentId u = None"
  shows "finishes (live env i w f) (s_transition env i frm to u (Some w) (Some f) trig)
     (\<lambda>x d. x \<noteq> None \<and> in_state i to d)"
  unfolding finishes_def
proof (intro allI impI)
  fix st :: mstate assume inv: "db_inv (ms_db st)" and "live env i w f (ms_db st)"
  then obtain row e where row: "getByOperationId i (ms_db st) = Some row" "sa_status row = AS_settling"
      "sa_leaseOwner row = Some w" "sa_fenceToken row = Some f" "sa_leaseExpiresAt row = Some e" "\<forall>n. me_now env n < e"
    unfolding live_def by blast
  define now where "now = me_now env (ms_tick st)"
  define row' where "row' = apply_update to u now row"
  have guard: "lease_guard now frm (Some w) (Some f) row"
    using row assms(2) by (simp add: lease_guard_def now_def)
  have ok: "unique_ok row' (ms_db st)"
    unfolding row'_def by (rule unique_ok_index_safe [OF inv row(1) update_safe [OF row(2) assms(3)]])
  from get_in_rows [OF inv row(1)] have "sa_operationId row' = i" by (simp add: row'_def apply_update_def)
  moreover have "\<exists>h. pg_transition now i frm to u (Some w) (Some f) trig [] (ms_db st) =
      Inr (Some row', append_history h (put_row row' (ms_db st)))"
    using row(1,2) guard ok assms(2) by (auto simp: pg_transition_def sql_update_def row'_def)
  ultimately show "\<exists>x st'. s_transition env i frm to u (Some w) (Some f) trig st = (Inr x, st') \<and> db_inv (ms_db st') \<and>
       x \<noteq> None \<and> in_state i to (ms_db st')"
    using assms(1) db_inv_put_row [OF inv ok]
    by (auto simp: s_transition_def store_call_def Let_def quiet_def now_def [symmetric] in_state_def row'_def apply_update_def)
qed

text \<open>The states that keep the active slot occupied or final: nothing reopens the attempt.\<close>

definition closed :: "string \<Rightarrow> settlement_db \<Rightarrow> bool" where
  "closed i d = (in_state i AS_awaiting_evidence d \<or> in_state i AS_manual d \<or> in_state i AS_settled d)"

lemma finishes_moved:
  assumes "quiet env" "up_callerPaymentId u = None" "to \<in> {AS_awaiting_evidence, AS_manual}"
  shows "finishes (live env (cx_operationId cx) (cx_worker cx) (cx_fence cx))
     (mbind (cx_transition env cx to u trig) (\<lambda>_. ctx_error s c cx r tx)) (\<lambda>_. closed (cx_operationId cx))"
  unfolding cx_transition_def ctx_error_def
  by (rule finishes_bind [OF finishes_transition [OF assms(1)] finishes_ret]) (use assms in \<open>auto simp: closed_def\<close>)

lemma finishes_failClosed:
  assumes "quiet env"
  shows "finishes (live env i w f) (failClosed env i (Some w) (Some f) tx pid dig aw code rt) (\<lambda>_. closed i)"
  unfolding failClosed_def
  by (rule finishes_bind [OF finishes_catch [OF finishes_bind [OF finishes_transition [OF assms] finishes_ret]] finishes_ret])
     (auto simp: closed_def no_update_def split: if_splits)

lemma finishes_completeSettlement:
  assumes "quiet env"
  shows "finishes (live env i w f) (completeSettlement env i (Some w) (Some f) a s x dig pid fee None) (\<lambda>_. closed i)"
proof -
  have settled: "finishes (live env i w f) (mcatch (mbind (s_transition env i [AS_settling, AS_awaiting_evidence] AS_settled u
        (Some w) (Some f) ''complete-settlement'') (\<lambda>settled. mret (Some settled))) (mret None))
      (\<lambda>y d. (\<exists>row. y = Some (Some row)) \<and> in_state i AS_settled d)" if "up_callerPaymentId u = None" for u
    by (rule finishes_catch [OF finishes_bind [OF finishes_transition [OF assms _ that] finishes_ret]]) auto
  have insp: "finishes (live env i w f) (completeInspected env i (Some w) (Some f) a s dig pid fee insp) (\<lambda>_. closed i)" for insp
  proof (cases "ti_memo insp = Memo_verified \<and> ti_transfer_state insp = TV_verified")
    case False
    then show ?thesis
      by (cases "ti_memo insp"; cases "ti_transfer_state insp") (simp_all add: completeInspected_def finishes_failClosed [OF assms])
  next
    case True
    then show ?thesis
      unfolding completeInspected_def Let_def
      by (simp, intro finishes_bind [OF finishes_clock] finishes_bind [OF settled])
         (auto simp: no_update_def finishes_def mret_def closed_def)
  qed
  show ?thesis
    unfolding completeSettlement_def option.case by (rule finishes_bind [OF finishes_inspect insp])
qed

lemma finishes_settle_answered:
  assumes "quiet env"
  shows "finishes (live env (cx_operationId cx) (cx_worker cx) (cx_fence cx)) (settle_answered env cx pv sr)
     (\<lambda>_. closed (cx_operationId cx))"
proof -
  have compl: "finishes (live env (cx_operationId cx) (cx_worker cx) (cx_fence cx))
     (mbind (completeSettlement env (cx_operationId cx) (Some (cx_worker cx)) (Some (cx_fence cx)) a s x dig pid fee None) (\<lambda>r. mret (Some r)))
     (\<lambda>_. closed (cx_operationId cx))" for a s x dig pid fee
    by (rule finishes_bind [OF finishes_completeSettlement [OF assms] finishes_ret]) simp
  show ?thesis
    unfolding settle_answered_def Let_def
    by (simp add: compl finishes_moved assms no_update_def split: sum.split)
qed


lemma demo_quiet: "quiet demo_env"
  by (simp add: quiet_def)

definition demo_owned :: attempt_ctx where
  "demo_owned = demo_ctx\<lparr>cx_operationId := ''op'', cx_worker := ''w1'', cx_fence := ''f1''\<rparr>"


subsection \<open>Joining returns\<close>

definition answers :: "join_outcome mm \<Rightarrow> mstate \<Rightarrow> bool" where
  "answers m st = (fst (m st) \<noteq> Inr Join_out_of_fuel)"

lemma answers_bind: "(\<And>x st'. m st = (Inr x, st') \<Longrightarrow> answers (f x) st') \<Longrightarrow> answers (mbind m f) st"
  by (auto simp: answers_def mbind_def split: sum.splits prod.splits)

lemma answers_ret [simp]: "out \<noteq> Join_out_of_fuel \<Longrightarrow> answers (mret out) st"
  by (simp add: answers_def mret_def)

lemma answers_reconcile: "answers (reconcile_fenced env row tx owner f) st"
  by (auto simp: reconcile_fenced_def intro: answers_bind)

lemma answers_final: "answers (join_final env row) st"
  by (cases "sa_status row") (auto simp: join_final_def Let_def intro: answers_bind)

definition clock_monotone :: "machine_env \<Rightarrow> bool" where
  "clock_monotone env = (\<forall>m n. m \<le> n \<longrightarrow> me_now env m \<le> me_now env n)"

lemma takeover_succeeds:
  assumes "quiet env" "clock_monotone env" "db_inv (ms_db st)" "getByOperationId i (ms_db st) = Some row"
    and "sa_status row \<in> {AS_settling, AS_awaiting_evidence}" "\<not> is_leased row (me_now env n)" "n \<le> ms_tick st"
    and run: "s_takeover env i owner st = (Inr x, st')"
  shows "x \<noteq> None"
proof -
  define now where "now = me_now env (Suc (ms_tick st))"
  have "me_now env n \<le> now" using assms(2,7) by (simp add: clock_monotone_def now_def)
  with assms(5,6) have "takeover_ok now row" by (auto simp: takeover_ok_def is_leased_def split: option.splits)
  moreover have "unique_ok (lease_row now owner fence ttl row) (ms_db st)" for fence ttl
    by (rule unique_ok_index_safe [OF assms(3,4) lease_row_safe])
  ultimately show ?thesis using run assms(1,4)
    by (auto simp: s_takeover_def mbind_def fresh_uuid_def store_call_def Let_def quiet_def pg_claimRowForTakeover_def
        sql_update_def now_def [symmetric])
qed

lemma quiet_store_get:
  assumes "quiet env" "s_get env i st = (Inr x, st')"
  shows "x = getByOperationId i (ms_db st) \<and> ms_db st' = ms_db st"
  using assms by (auto simp: s_get_def store_call_def Let_def quiet_def)

lemma takeover_lost:
  assumes "quiet env" "s_takeover env i owner st = (Inr None, st')"
  shows "ms_db st' = ms_db st"
  using assms sql_update_cases
  by (fastforce simp: s_takeover_def mbind_def fresh_uuid_def store_call_def Let_def quiet_def pg_claimRowForTakeover_def
      split: sum.splits prod.splits)

lemma uuid_run: "fresh_uuid env st = (Inr x, st') \<Longrightarrow> ms_db st' = ms_db st \<and> ms_tick st' = ms_tick st + 1"
  and clock_run: "read_clock env st = (Inr y, st') \<Longrightarrow> y = me_now env (ms_tick st) \<and> st' = st"
  by (auto simp: fresh_uuid_def read_clock_def)

text \<open>On the current row one call suffices: an unleased row is taken over.\<close>

lemma join_current:
  assumes "quiet env" "clock_monotone env" "db_inv (ms_db st)" "getByOperationId (sa_operationId row) (ms_db st) = Some row"
  shows "answers (joinStoredRow (Suc n) env row) st"
proof -
  show ?thesis
  proof (cases "sa_status row = AS_awaiting_evidence \<or> sa_status row = AS_settling")
    case False
    then show ?thesis by (simp add: answers_final)
  next
    case True
    have taken: False
      if "s_takeover env (sa_operationId row) owner st2 = (Inr None, st3)" "fresh_uuid env st1 = (Inr u, st2)"
        "read_clock env st = (Inr y, st1)" "\<not> is_leased row y" for y u st1 st2 st3 owner
    proof -
      from clock_run [OF that(3)] uuid_run [OF that(2)]
      have eq: "y = me_now env (ms_tick st)" "ms_db st2 = ms_db st" "ms_tick st \<le> ms_tick st2" by auto
      have "None \<noteq> (None :: stored_attempt option)"
        by (rule takeover_succeeds [OF assms(1,2), of st2 "sa_operationId row" row "ms_tick st" owner None st3])
           (use True assms(3,4) that(1,4) eq in auto)
      then show ?thesis by simp
    qed
    from True show ?thesis
      by (auto simp: Let_def answers_reconcile intro!: answers_bind split: option.split) (blast dest: taken)+
  qed
qed



text \<open>Without that record the call never ends: a lost take-over falls back to the same row again.\<close>

lemma join_vanished_diverges:
  assumes "quiet env" "getByOperationId (sa_operationId row) (ms_db st) = None" "sa_status row = AS_settling"
    "sa_leaseExpiresAt row = None"
  shows "fst (joinStoredRow fuel env row st) = Inr Join_out_of_fuel"
  using assms(2)
proof (induction fuel arbitrary: st)
  case 0
  show ?case by (simp add: mret_def)
next
  case (Suc fuel)
  then show ?case using assms(1,3,4)
    by (simp add: Let_def mbind_def read_clock_def is_leased_def fresh_uuid_def s_takeover_def store_call_def quiet_def
        pg_claimRowForTakeover_def sql_update_def s_get_def)
qed

end
