(* ===== verification/Machine.thy ===== *)
theory Machine
  imports DevnetMachine
begin

text \<open>
  The client side of the paid fit-scoring resource, \<open>apps/web/lib/machine.ts\<close>: the in-process mock
  resource with its client, and the devnet client that prepares a signed payment, posts it to the resource
  and classifies the answer. The header helpers of \<open>x402.ts\<close> that both use are here too. Headers are
  base64url-encoded JSON; \<open>encode\<close> and \<open>decode\<close> stand for \<open>Buffer\<close> and \<open>JSON\<close>, as a record of two functions.
\<close>

subsection \<open>Numbers with a fraction\<close>

text \<open>
  What \<open>Number(v)\<close> can be: \<open>NaN\<close>, an infinity (with its sign), or the decimal \<open>m * 10 ^ e\<close>. Decimals are exact; the
  rounding of doubles past fifteen digits is not reflected.
\<close>

datatype js_num = Not_a_number | Infinite bool | Num int int

definition js_toNumber :: "string \<Rightarrow> js_num" where
  "js_toNumber s =
     (let t = trim s in
      if t = [] then Num 0 0
      else case radix_literal t of Some v \<Rightarrow> Num v 0
        | None \<Rightarrow> (case split_sign t of (neg, u) \<Rightarrow>
            if u = ''Infinity'' then Infinite neg
            else
            (let ip = takeWhile is_digit u; r1 = dropWhile is_digit u;
                 dot = (r1 \<noteq> [] \<and> hd r1 = CHR ''.'');
                 fp = (if dot then takeWhile is_digit (tl r1) else []);
                 r2 = (if dot then dropWhile is_digit (tl r1) else r1);
                 m = int (str_nat (ip @ fp))
             in if ip @ fp = [] then Not_a_number
                else (case exponent_part r2 of
                        None \<Rightarrow> Not_a_number
                      | Some e \<Rightarrow> Num (if neg then - m else m) (e - int (length fp))))))"

text \<open>\<open>Number(v)\<close> of a parsed JSON value: an array converts through its string, an object is \<open>NaN\<close>.\<close>

definition json_toNumber :: "json \<Rightarrow> js_num" where
  "json_toNumber v = (case v of
      JNull \<Rightarrow> Num 0 0
    | JUndefined \<Rightarrow> Not_a_number
    | JBool b \<Rightarrow> Num (if b then 1 else 0) 0
    | JNum n \<Rightarrow> Num n 0
    | JNonFinite n \<Rightarrow> js_toNumber n
    | JStr s \<Rightarrow> js_toNumber s
    | JArr xs \<Rightarrow> js_toNumber (js_String (JArr xs))
    | JObj _ \<Rightarrow> Not_a_number)"

text \<open>\<open>x < n / 10^k\<close>; every comparison with \<open>NaN\<close> is false.\<close>

definition num_less :: "js_num \<Rightarrow> int \<Rightarrow> nat \<Rightarrow> bool" where
  "num_less x n k = (case x of
      Not_a_number \<Rightarrow> False
    | Infinite neg \<Rightarrow> neg
    | Num m e \<Rightarrow> m * 10 ^ nat e * 10 ^ k < n * 10 ^ nat (- e))"

definition fixed_digits :: "nat \<Rightarrow> nat \<Rightarrow> string" where
  "fixed_digits k n = nat_str (n div 10 ^ k) @ (if k = 0 then [] else ''.'' @ pad k (nat_str (n mod 10 ^ k)))"

text \<open>
  \<open>(x / 10^k).toFixed(k)\<close>: the integer closest to \<open>x\<close>, halves away from zero, printed with \<open>k\<close> decimals.
\<close>

definition round_dec :: "nat \<Rightarrow> int \<Rightarrow> nat" where
  "round_dec m e = nat (if e \<ge> 0 then int m * 10 ^ nat e else round_div (int m) (10 ^ nat (- e)))"

definition toFixed_scaled :: "nat \<Rightarrow> js_num \<Rightarrow> string" where
  "toFixed_scaled k x = (case x of
      Not_a_number \<Rightarrow> ''NaN''
    | Infinite neg \<Rightarrow> (if neg then ''-Infinity'' else ''Infinity'')
    | Num m e \<Rightarrow> (if m < 0 then ''-'' else []) @ fixed_digits k (round_dec (nat \<bar>m\<bar>) e))"

definition formatX402Amount :: "js_num \<Rightarrow> string" where
  "formatX402Amount amountMinor = toFixed_scaled 6 amountMinor"

text \<open>The same printing with two decimals and a currency sign is \<open>formatMinor\<close> of the catalogue.\<close>

definition formatMinor :: "int \<Rightarrow> string \<Rightarrow> string" where
  "formatMinor amountMinor currency =
     (if currency = ''USDC'' then ''$'' @ toFixed_scaled 6 (Num amountMinor 0)
      else [CHR 0xE2, CHR 0x82, CHR 0xB9] @ toFixed_scaled 2 (Num amountMinor 0))"

definition inrToMinor :: "js_num \<Rightarrow> js_num" where
  "inrToMinor amount = (case amount of
      Num m e \<Rightarrow> Num (if e + 2 \<ge> 0 then m * 10 ^ nat (e + 2) else round_div m (10 ^ nat (- (e + 2)))) 0
    | x \<Rightarrow> x)"


subsection \<open>Headers\<close>

record header_codec =
  hx_encode :: "json \<Rightarrow> string"
  hx_decode :: "string \<Rightarrow> json option"

text \<open>
  What the sources rely on: a header is not empty, and decoding gives back an encoded value that has no
  \<open>undefined\<close> in it.
\<close>

definition codec_ok :: "header_codec \<Rightarrow> bool" where
  "codec_ok c = (\<forall>v. hx_encode c v \<noteq> [] \<and> (json_clean v \<longrightarrow> hx_decode c (hx_encode c v) = Some v))"

definition encodeHeader :: "header_codec \<Rightarrow> json \<Rightarrow> string" where
  "encodeHeader c v = hx_encode c v"

definition decodeHeader :: "header_codec \<Rightarrow> string \<Rightarrow> json throws" where
  "decodeHeader c header = (case hx_decode c header of None \<Rightarrow> Inl ''SyntaxError'' | Some v \<Rightarrow> Inr v)"

record x402_payment_option =
  po_scheme :: string
  po_network :: string
  po_asset :: string
  po_amount :: string
  po_payee :: string
  po_timeout :: string
  po_paymentIdentifier :: "(bool \<times> int) option"
  po_extra :: "(string \<times> int) option"

definition optionJson :: "x402_payment_option \<Rightarrow> json" where
  "optionJson o' = JObj
     [(''scheme'', JStr (po_scheme o')), (''network'', JStr (po_network o')), (''asset'', JStr (po_asset o')),
      (''amount'', JStr (po_amount o')), (''payee'', JStr (po_payee o')), (''timeout'', JStr (po_timeout o')),
      (''paymentIdentifier'', case po_paymentIdentifier o' of None \<Rightarrow> JUndefined
         | Some (req, len) \<Rightarrow> JObj [(''required'', JBool req), (''maxLength'', JNum len)]),
      (''extra'', case po_extra o' of None \<Rightarrow> JUndefined
         | Some (memo, len) \<Rightarrow> JObj [(''memo'', JStr memo), (''maxMemoLength'', JNum len)])]"

definition buildPaymentRequired :: "header_codec \<Rightarrow> string \<Rightarrow> x402_payment_option list \<Rightarrow> string" where
  "buildPaymentRequired c resource options =
     encodeHeader c (JObj [(''resource'', JStr resource), (''options'', JArr (map optionJson options))])"

definition is_array :: "json \<Rightarrow> bool" where
  "is_array v = (case v of JArr _ \<Rightarrow> True | _ \<Rightarrow> False)"

definition parsePaymentRequired :: "header_codec \<Rightarrow> string \<Rightarrow> json throws" where
  "parsePaymentRequired c header =
     (case decodeHeader c header of
        Inl e \<Rightarrow> Inl e
      | Inr parsed \<Rightarrow>
          (case jprop ''resource'' parsed of
             None \<Rightarrow> Inl ''TypeError''
           | Some resource \<Rightarrow>
               if json_falsy resource \<or> \<not> is_array (opt_prop ''options'' parsed) \<or>
                  json_array (opt_prop ''options'' parsed) = []
               then Inl ''Malformed PAYMENT-REQUIRED payload'' else Inr parsed))"

definition buildPaymentResponse :: "header_codec \<Rightarrow> json \<Rightarrow> string" where
  "buildPaymentResponse c settlement = encodeHeader c settlement"

definition parsePaymentResponse :: "header_codec \<Rightarrow> string \<Rightarrow> json throws" where
  "parsePaymentResponse c header =
     (case decodeHeader c header of
        Inl e \<Rightarrow> Inl e
      | Inr parsed \<Rightarrow>
          (case jprop ''success'' parsed of
             None \<Rightarrow> Inl ''TypeError''
           | Some (JBool _) \<Rightarrow> Inr parsed
           | Some _ \<Rightarrow> Inl ''Malformed PAYMENT-RESPONSE payload''))"

definition isMemoValid :: "json \<Rightarrow> string \<Rightarrow> bool" where
  "isMemoValid memo expected = (memo = JStr expected)"

fun memoVerificationLabel :: "memo_verification \<Rightarrow> string" where
  "memoVerificationLabel Memo_verified = ''on-chain memo verified''"
| "memoVerificationLabel Memo_missing = ''memo instruction not found in confirmed transaction''"
| "memoVerificationLabel Memo_unavailable =
     ''on-chain verification unavailable (RPC query did not return results)''"

subsection \<open>The mock resource\<close>

record machine_spend_config =
  sc_resourceName :: string
  sc_payeeWallet :: string
  sc_usdcMint :: string
  sc_amountMinor :: int
  sc_network :: string
  sc_agentWallet :: string

definition DEFAULT_MACHINE_SPEND :: machine_spend_config where
  "DEFAULT_MACHINE_SPEND =
     \<lparr>sc_resourceName = ''RunVista Premium Fit-Scoring API'', sc_payeeWallet = ''demo_payee_RunVista_mock'',
      sc_usdcMint = ''usdc_devnet_mock_mint'', sc_amountMinor = 10000, sc_network = SOLANA_DEVNET_CAIP2,
      sc_agentWallet = ''demo_agent_wallet_mock''\<rparr>"

text \<open>
  The two maps are keyed by the payment identifier of the header. A parsed object or array is a new
  object each time, so as a key it is never found again: \<open>key_get\<close> looks up primitive keys only.
\<close>

record demo_resource =
  dm_processed :: "(json, json) jsmap"
  dm_cachedResource :: "(json, fit_resource) jsmap"

definition new_resource :: demo_resource where
  "new_resource = \<lparr>dm_processed = [], dm_cachedResource = []\<rparr>"

definition is_primitive :: "json \<Rightarrow> bool" where
  "is_primitive v = (case v of JArr _ \<Rightarrow> False | JObj _ \<Rightarrow> False | _ \<Rightarrow> True)"

definition key_get :: "json \<Rightarrow> (json, 'v) jsmap \<Rightarrow> 'v option" where
  "key_get k m = (if is_primitive k then map_get k m else None)"

definition demo_hasProcessed :: "string \<Rightarrow> demo_resource \<Rightarrow> bool" where
  "demo_hasProcessed paymentIdentifier d = (key_get (JStr paymentIdentifier) (dm_processed d) \<noteq> None)"

definition demo_reset :: "demo_resource \<Rightarrow> demo_resource" where
  "demo_reset d = d\<lparr>dm_processed := [], dm_cachedResource := []\<rparr>"

definition demo_option :: "machine_spend_config \<Rightarrow> int \<Rightarrow> string \<Rightarrow> x402_payment_option" where
  "demo_option cfg now envelopeHash =
     \<lparr>po_scheme = ''exact'', po_network = sc_network cfg, po_asset = ''USDC'',
      po_amount = formatX402Amount (Num (sc_amountMinor cfg) 0), po_payee = sc_payeeWallet cfg,
      po_timeout = toISOString (now + 5 * 60 * 1000), po_paymentIdentifier = Some (True, 128),
      po_extra = Some (memoForEnvelope envelopeHash, 256)\<rparr>"

definition demo_quote :: "header_codec \<Rightarrow> machine_spend_config \<Rightarrow> int \<Rightarrow> string \<Rightarrow> string" where
  "demo_quote c cfg now envelopeHash =
     buildPaymentRequired c (sc_resourceName cfg) [demo_option cfg now envelopeHash]"

definition demo_score :: "machine_spend_config \<Rightarrow> int \<Rightarrow> json \<Rightarrow> fit_resource" where
  "demo_score cfg now payer =
     \<lparr>fr_resourceName = sc_resourceName cfg, fr_scoredAt = toISOString now,
      fr_fit = (if payer = JStr (sc_agentWallet cfg) then ''wide'' else ''unknown''),
      fr_scores =
        [(''p_vista_max'', 95, ''Wide last, max cushioning, outstanding arch support for wide feet''),
         (''p_streak_4'', 72, ''Standard fit runs snug on wide feet''),
         (''p_stride_lite'', 45, ''Narrow last unsuitable for wide fit''),
         (''p_trail_rock'', 68, ''Standard fit, roomy toebox but narrow midfoot''),
         (''p_gym_pace'', 60, ''Standard fit, medium width''),
         (''p_casual_day'', 88, ''Wide fit, relaxed everyday silhouette'')]\<rparr>"

text \<open>
  The answers of \<open>accept\<close>: 402 with a quote, 400, 402 with the reasons, and 200 with the resource, the
  replay note when it is a cached one, and the settlement header.
\<close>

datatype demo_response =
    Demo_payment_required string
  | Demo_malformed
  | Demo_rejected "string list"
  | Demo_paid "fit_resource option" bool string

definition demo_errors :: "machine_spend_config \<Rightarrow> string \<Rightarrow> json \<Rightarrow> string list" where
  "demo_errors cfg envelopeHash payload =
     (let pay = opt_prop ''paymentPayload'' payload in
      (if opt_prop ''scheme'' payload \<noteq> JStr ''exact'' then [''scheme must be exact''] else []) @
      (if opt_prop ''network'' payload \<noteq> JStr (sc_network cfg)
       then [''wrong network '' @ js_String (opt_prop ''network'' payload)] else []) @
      (if json_falsy (opt_prop ''paymentIdentifier'' payload) then [''payment-identifier required''] else []) @
      (if num_less (json_toNumber (opt_prop ''amount'' pay)) (sc_amountMinor cfg) 6 then [''underpayment''] else []) @
      (if \<not> json_falsy (opt_prop ''payee'' pay) \<and> opt_prop ''payee'' pay \<noteq> JStr (sc_payeeWallet cfg)
       then [''wrong recipient''] else []) @
      (if \<not> isMemoValid (opt_prop ''memo'' pay) (memoForEnvelope envelopeHash) then [''memo mismatch''] else []))"

definition demo_settlement :: "machine_spend_config \<Rightarrow> json \<Rightarrow> json" where
  "demo_settlement cfg payload =
     (let pay = opt_prop ''paymentPayload'' payload; pid = opt_prop ''paymentIdentifier'' payload in JObj
      [(''success'', JBool True), (''network'', JStr (sc_network cfg)), (''payer'', opt_prop ''payer'' pay),
       (''amount'', opt_prop ''amount'' pay), (''transactionHash'', JStr (''tx_mock_'' @ js_String pid)),
       (''paymentIdentifier'', pid), (''memo'', opt_prop ''memo'' pay)])"

text \<open>\<open>Inl\<close> is the \<open>TypeError\<close> of a header that decodes to \<open>null\<close>. The clock is read at every call.\<close>

definition demo_accept ::
  "header_codec \<Rightarrow> machine_spend_config \<Rightarrow> int \<Rightarrow> string \<Rightarrow> string \<Rightarrow> demo_resource \<Rightarrow> demo_response throws \<times> demo_resource" where
  "demo_accept c cfg now header envelopeHash d =
     (if header = [] then (Inr (Demo_payment_required (demo_quote c cfg now envelopeHash)), d)
      else case decodeHeader c header of
        Inl _ \<Rightarrow> (Inr Demo_malformed, d)
      | Inr payload \<Rightarrow>
          if payload = JNull then (Inl ''TypeError'', d)
          else let errors = demo_errors cfg envelopeHash payload; pid = opt_prop ''paymentIdentifier'' payload in
            if errors \<noteq> [] then (Inr (Demo_rejected errors), d)
            else case key_get pid (dm_processed d) of
              Some settlement \<Rightarrow>
                (Inr (Demo_paid (key_get pid (dm_cachedResource d)) True (buildPaymentResponse c settlement)), d)
            | None \<Rightarrow>
                (let settlement = demo_settlement cfg payload;
                     resource = demo_score cfg now (opt_prop ''payer'' (opt_prop ''paymentPayload'' payload))
                 in (Inr (Demo_paid (Some resource) False (buildPaymentResponse c settlement)),
                     d\<lparr>dm_processed := map_set pid settlement (dm_processed d),
                       dm_cachedResource := map_set pid resource (dm_cachedResource d)\<rparr>)))"


definition agentWallet :: "machine_spend_config \<Rightarrow> string" where
  "agentWallet cfg = sc_agentWallet cfg"

definition signAsAgent :: "header_codec \<Rightarrow> json \<Rightarrow> string" where
  "signAsAgent c payload = encodeHeader c payload"

record machine_spend_outcome =
  mo_ok :: bool
  mo_settlement :: "json option"
  mo_resource :: "fit_resource option"
  mo_error :: "string option"

definition agent_payment :: "machine_spend_config \<Rightarrow> json \<Rightarrow> string \<Rightarrow> json" where
  "agent_payment cfg option' paymentIdentifier = JObj
     [(''scheme'', JStr ''exact''), (''network'', opt_prop ''network'' option'), (''paymentIdentifier'', JStr paymentIdentifier),
      (''paymentPayload'', JObj
        [(''transaction'', JStr (''tx_signed_mock_'' @ paymentIdentifier)), (''payer'', JStr (agentWallet cfg)),
         (''amount'', opt_prop ''amount'' option'), (''payee'', opt_prop ''payee'' option'),
         (''memo'', opt_prop ''memo'' (opt_prop ''extra'' option'))])]"

text \<open>The clock is read once for the quote and once by the resource.\<close>

definition runMachineSpend ::
  "header_codec \<Rightarrow> machine_spend_config \<Rightarrow> int \<Rightarrow> int \<Rightarrow> string \<Rightarrow> string \<Rightarrow> demo_resource \<Rightarrow>
   machine_spend_outcome throws \<times> demo_resource" where
  "runMachineSpend c cfg now now' envelopeHash paymentIdentifier d =
     (case parsePaymentRequired c (demo_quote c cfg now envelopeHash) of
        Inl e \<Rightarrow> (Inl e, d)
      | Inr required \<Rightarrow>
          (let option' = hd (json_array (opt_prop ''options'' required));
               paymentSignature = signAsAgent c (agent_payment cfg option' paymentIdentifier)
           in case demo_accept c cfg now' paymentSignature envelopeHash d of
                (Inl e, d') \<Rightarrow> (Inl e, d')
              | (Inr (Demo_paid resource _ header), d') \<Rightarrow>
                  (case parsePaymentResponse c header of
                     Inl e \<Rightarrow> (Inl e, d')
                   | Inr settlement \<Rightarrow> (Inr \<lparr>mo_ok = True, mo_settlement = Some settlement, mo_resource = resource,
                                             mo_error = None\<rparr>, d'))
              | (Inr _, d') \<Rightarrow> (Inr \<lparr>mo_ok = False, mo_settlement = None, mo_resource = None,
                                  mo_error = Some ''[object Object]''\<rparr>, d')))"

subsection \<open>The mock resource charges once\<close>

text \<open>What a settlement of the mock resource says, and the invariant of its two maps.\<close>

definition settles_for :: "machine_spend_config \<Rightarrow> json \<Rightarrow> json \<Rightarrow> bool" where
  "settles_for cfg pid settlement =
     (opt_prop ''paymentIdentifier'' settlement = pid \<and>
      opt_prop ''transactionHash'' settlement = JStr (''tx_mock_'' @ js_String pid) \<and>
      opt_prop ''network'' settlement = JStr (sc_network cfg) \<and>
      \<not> num_less (json_toNumber (opt_prop ''amount'' settlement)) (sc_amountMinor cfg) 6 \<and>
      (\<exists>h. opt_prop ''memo'' settlement = JStr (memoForEnvelope h)))"

definition demo_inv :: "machine_spend_config \<Rightarrow> demo_resource \<Rightarrow> bool" where
  "demo_inv cfg d =
     (\<forall>pid. (\<forall>s. map_get pid (dm_processed d) = Some s \<longrightarrow> settles_for cfg pid s) \<and>
       (map_get pid (dm_processed d) = None \<longleftrightarrow> map_get pid (dm_cachedResource d) = None))"

lemma errors_nil_settles:
  "demo_errors cfg h payload = [] \<Longrightarrow>
   settles_for cfg (opt_prop ''paymentIdentifier'' payload) (demo_settlement cfg payload)"
  by (auto simp: demo_errors_def settles_for_def demo_settlement_def opt_prop_def [of _ "JObj _"] jprop_def
      isMemoValid_def Let_def split: if_splits)

lemma demo_accept_inv: "demo_inv cfg d \<Longrightarrow> demo_inv cfg (snd (demo_accept c cfg now header h d))"
  by (auto simp: demo_inv_def demo_accept_def Let_def errors_nil_settles split: sum.splits option.splits)

lemma demo_accept_keeps:
  assumes "key_get pid (dm_processed d) = Some s"
  shows "key_get pid (dm_processed (snd (demo_accept c cfg now header h d))) = Some s"
  using assms
  by (auto simp: demo_accept_def Let_def key_get_def split: sum.splits option.splits if_splits)


lemma demo_accept_keeps_resource:
  assumes "key_get pid (dm_processed d) = Some s"
  shows "key_get pid (dm_cachedResource (snd (demo_accept c cfg now header h d))) = key_get pid (dm_cachedResource d)"
  using assms
  by (auto simp: demo_accept_def Let_def key_get_def split: sum.splits option.splits if_splits)

text \<open>The payment identifier a header names, \<open>None\<close> when the header does not decode.\<close>

definition named_payment :: "header_codec \<Rightarrow> string \<Rightarrow> json option" where
  "named_payment c header = map_option (opt_prop ''paymentIdentifier'') (hx_decode c header)"

lemma demo_paid_records:
  assumes "demo_accept c cfg now header h d = (Inr (Demo_paid res replay hdr), d')"
    and "named_payment c header = Some (JStr pid)" and "demo_inv cfg d"
  shows "\<exists>s. key_get (JStr pid) (dm_processed d') = Some s \<and> hdr = buildPaymentResponse c s \<and>
    key_get (JStr pid) (dm_cachedResource d') = res \<and> settles_for cfg (JStr pid) s"
  using assms errors_nil_settles
  by (fastforce simp: demo_accept_def named_payment_def decodeHeader_def Let_def key_get_def is_primitive_def demo_inv_def
      split: option.splits if_splits sum.splits)

lemma demo_paid_replays:
  assumes "demo_accept c cfg now header h d = (Inr (Demo_paid res replay hdr), d')"
    and "named_payment c header = Some (JStr pid)" and "key_get (JStr pid) (dm_processed d) = Some s"
  shows "replay \<and> hdr = buildPaymentResponse c s \<and> res = key_get (JStr pid) (dm_cachedResource d)"
  using assms
  by (auto simp: demo_accept_def named_payment_def decodeHeader_def Let_def split: option.splits if_splits sum.splits)

fun demo_run ::
  "header_codec \<Rightarrow> machine_spend_config \<Rightarrow> (int \<times> string \<times> string) list \<Rightarrow> demo_resource \<Rightarrow>
   demo_response throws list \<times> demo_resource" where
  "demo_run c cfg [] d = ([], d)"
| "demo_run c cfg ((now, header, h) # calls) d =
     (case demo_accept c cfg now header h d of (r, d1) \<Rightarrow>
        case demo_run c cfg calls d1 of (rs, d2) \<Rightarrow> (r # rs, d2))"

lemma demo_run_length: "length (fst (demo_run c cfg calls d)) = length calls"
  by (induction c cfg calls d rule: demo_run.induct) (auto split: prod.splits)

lemma demo_run_inv: "demo_inv cfg d \<Longrightarrow> demo_inv cfg (snd (demo_run c cfg calls d))"
proof (induction c cfg calls d rule: demo_run.induct)
  case (2 c cfg now header h calls d)
  then show ?case using demo_accept_inv [of cfg d c now header h] by (auto split: prod.splits)
qed simp

text \<open>Once a payment is recorded, every later paid answer for it is the recorded one.\<close>

lemma demo_run_recorded:
  assumes "key_get (JStr pid) (dm_processed d) = Some s" and "key_get (JStr pid) (dm_cachedResource d) = res"
    and "j < length calls" and "named_payment c (fst (snd (calls ! j))) = Some (JStr pid)"
    and "fst (demo_run c cfg calls d) ! j = Inr (Demo_paid res' replay hdr)"
  shows "replay \<and> hdr = buildPaymentResponse c s \<and> res' = res"
  using assms
proof (induction c cfg calls d arbitrary: j rule: demo_run.induct)
  case (2 c cfg now header h calls d)
  obtain r d1 where first: "demo_accept c cfg now header h d = (r, d1)" by fastforce
  show ?case
  proof (cases j)
    case 0
    with 2 first show ?thesis by (auto split: prod.splits dest!: demo_paid_replays)
  next
    case (Suc i)
    have "key_get (JStr pid) (dm_processed d1) = Some s" "key_get (JStr pid) (dm_cachedResource d1) = res"
      using demo_accept_keeps [OF "2.prems"(1), of c cfg now header h] first
        demo_accept_keeps_resource [OF "2.prems"(1), of c cfg now header h] "2.prems"(2) by simp_all
    with "2.IH" [OF first [symmetric], of i] 2 first Suc show ?thesis by (auto split: prod.splits)
  qed
qed simp

lemma demo_run_paid_once:
  assumes "demo_inv cfg d" and "i < j" and "j < length calls"
    and "named_payment c (fst (snd (calls ! i))) = Some (JStr pid)" "named_payment c (fst (snd (calls ! j))) = Some (JStr pid)"
    and "fst (demo_run c cfg calls d) ! i = Inr (Demo_paid res replay hdr)"
    and "fst (demo_run c cfg calls d) ! j = Inr (Demo_paid res' replay' hdr')"
  shows "replay' \<and> hdr' = hdr \<and> res' = res \<and> (\<exists>s. hdr = buildPaymentResponse c s \<and> settles_for cfg (JStr pid) s)"
  using assms
proof (induction c cfg calls d arbitrary: i j rule: demo_run.induct)
  case (2 c cfg now header h calls d)
  obtain r d1 where first: "demo_accept c cfg now header h d = (r, d1)" by fastforce
  then have inv: "demo_inv cfg d1" using demo_accept_inv [OF "2.prems"(1), of c now header h] by simp
  from \<open>i < j\<close> obtain j' where j: "j = Suc j'" by (cases j) auto
  show ?case
  proof (cases i)
    case 0
    with 2 first have r: "r = Inr (Demo_paid res replay hdr)" "named_payment c header = Some (JStr pid)"
      by (auto split: prod.splits)
    from demo_paid_records [OF first [unfolded r(1)] r(2) "2.prems"(1)] obtain s
      where s: "key_get (JStr pid) (dm_processed d1) = Some s" "hdr = buildPaymentResponse c s"
        "key_get (JStr pid) (dm_cachedResource d1) = res" "settles_for cfg (JStr pid) s" by blast
    have "replay' \<and> hdr' = buildPaymentResponse c s \<and> res' = res"
      by (rule demo_run_recorded [OF s(1,3), where cfg = cfg and j = j' and calls = calls]) (use 2 first j in \<open>auto split: prod.splits\<close>)
    with s show ?thesis by blast
  next
    case (Suc i')
    with "2.IH" [OF first [symmetric] inv, of i' j'] 2 first j show ?thesis by (auto split: prod.splits)
  qed
qed simp


subsection \<open>A mock spend succeeds\<close>

lemma foldl_digits:
  "foldl (\<lambda>a c. 10 * a + g c) x b = x * 10 ^ length b + foldl (\<lambda>a c. 10 * a + g c) (0 :: nat) b"
proof (induction b arbitrary: x)
  case (Cons c b)
  have "foldl (\<lambda>a c. 10 * a + g c) (10 * x + g c) b
      = (10 * x + g c) * 10 ^ length b + foldl (\<lambda>a c. 10 * a + g c) 0 b" by (rule Cons)
  moreover have "foldl (\<lambda>a c. 10 * a + g c) (g c) b = g c * 10 ^ length b + foldl (\<lambda>a c. 10 * a + g c) 0 b" by (rule Cons)
  ultimately show ?case by (simp add: algebra_simps)
qed simp

lemma str_nat_append: "str_nat (a @ b) = str_nat a * 10 ^ length b + str_nat b"
  unfolding str_nat_def foldl_append by (rule foldl_digits)

lemma nat_str_length: "0 < k \<Longrightarrow> n < 10 ^ k \<Longrightarrow> length (nat_str n) \<le> k"
proof (induction n arbitrary: k rule: nat_str.induct)
  case (1 n)
  show ?case
  proof (cases "n < 10")
    case False
    with 1 obtain k' where k: "k = Suc k'" "0 < k'" by (cases k; cases "k - 1") auto
    from 1(3) k have "n div 10 < 10 ^ k'" by (simp add: less_mult_imp_div_less mult.commute)
    with 1(1) False k have "length (nat_str (n div 10)) \<le> k'" by simp
    with False k show ?thesis by (subst nat_str.simps) simp
  qed (use 1 in \<open>subst nat_str.simps; simp\<close>)
qed

lemma pad_digits: "\<forall>c \<in> set (pad k (nat_str n)). is_digit c"
  using nat_str_digits [of n] by (auto simp: pad_def is_digit_def)

lemma str_nat_pad: "str_nat (pad k (nat_str n)) = n"
proof -
  have "str_nat (replicate m CHR ''0'') = 0" for m by (induction m) (simp_all add: str_nat_def)
  then show ?thesis by (simp add: pad_def str_nat_append str_nat_nat_str)
qed

text \<open>A printed amount reads back as the amount.\<close>

lemma toNumber_fixed_digits: "0 < k \<Longrightarrow> js_toNumber (fixed_digits k n) = Num (int n) (- int k)"
proof -
  assume k: "0 < k"
  let ?ip = "nat_str (n div 10 ^ k)" and ?fp = "pad k (nat_str (n mod 10 ^ k))"
  have s: "fixed_digits k n = ?ip @ CHR ''.'' # ?fp" using k by (simp add: fixed_digits_def)
  have len: "length ?fp = k" using k nat_str_length [of k "n mod 10 ^ k"] by (simp add: pad_def)
  have digits: "\<forall>c \<in> set ?ip. is_digit c" "\<forall>c \<in> set ?fp. is_digit c" by (rule nat_str_digits, rule pad_digits)
  obtain c cs where ip: "?ip = c # cs" by (cases ?ip) auto
  obtain d ds where fp: "rev ?fp = d # ds" using len k by (cases "rev ?fp") auto
  have c: "is_digit c" using digits(1) ip by simp
  have d: "is_digit d" using digits(2) fp by (metis list.set_intros(1) set_rev)
  have not_space: "\<not> is_space x" if "is_digit x" for x using that by (auto simp: is_space_def is_digit_def)
  have trim: "trim (fixed_digits k n) = fixed_digits k n"
    unfolding s trim_def using ip fp not_space [OF c] not_space [OF d] by (simp add: append_eq_Cons_conv)
  have point: "\<not> is_digit CHR ''.''" by (simp add: is_digit_def)
  have no_x: "x \<notin> {CHR ''x'', CHR ''X'', CHR ''o'', CHR ''O'', CHR ''b'', CHR ''B''}" if "is_digit x \<or> x = CHR ''.''" for x
    using that by (auto simp: is_digit_def)
  have second: "is_digit (hd (cs @ CHR ''.'' # ?fp)) \<or> hd (cs @ CHR ''.'' # ?fp) = CHR ''.''"
    using digits(1) ip by (cases cs) auto
  have radix: "radix_literal (fixed_digits k n) = None"
    unfolding s ip radix_literal_def Let_def using no_x [OF second] by (cases cs) (auto simp: take_Suc)
  have sign: "split_sign (fixed_digits k n) = (False, fixed_digits k n)"
    unfolding s ip split_sign_def using c by (auto simp: is_digit_def)
  have inf: "fixed_digits k n \<noteq> ''Infinity''" unfolding s ip using c by (auto simp: is_digit_def)
  have tw: "takeWhile is_digit (fixed_digits k n) = ?ip" "dropWhile is_digit (fixed_digits k n) = CHR ''.'' # ?fp"
    "takeWhile is_digit ?fp = ?fp" "dropWhile is_digit ?fp = []"
    unfolding s using digits point by (auto simp: takeWhile_append dropWhile_append)
  have val: "str_nat (?ip @ ?fp) = n" by (simp add: str_nat_append str_nat_nat_str str_nat_pad len mult.commute)
  show ?thesis
    unfolding js_toNumber_def trim radix sign Let_def option.case prod.case tw list.sel
    using inf val len tw(3,4) k by (simp add: exponent_part_def s)
qed


lemma decode_encode: "codec_ok c \<Longrightarrow> json_clean v \<Longrightarrow> decodeHeader c (encodeHeader c v) = Inr v"
  by (simp add: codec_ok_def decodeHeader_def encodeHeader_def)

lemma parse_quote:
  assumes "codec_ok c" and "sc_resourceName cfg \<noteq> []"
  shows "parsePaymentRequired c (demo_quote c cfg now h) =
    Inr (JObj [(''resource'', JStr (sc_resourceName cfg)), (''options'', JArr [optionJson (demo_option cfg now h)])])"
  using assms
  by (simp add: parsePaymentRequired_def demo_quote_def buildPaymentRequired_def decode_encode optionJson_def
      demo_option_def jprop_def opt_prop_def json_falsy_def is_array_def json_array_def)

definition full_payment :: "machine_spend_config \<Rightarrow> string \<Rightarrow> string \<Rightarrow> json" where
  "full_payment cfg h paymentIdentifier = JObj
     [(''scheme'', JStr ''exact''), (''network'', JStr (sc_network cfg)), (''paymentIdentifier'', JStr paymentIdentifier),
      (''paymentPayload'', JObj
        [(''transaction'', JStr (''tx_signed_mock_'' @ paymentIdentifier)), (''payer'', JStr (sc_agentWallet cfg)),
         (''amount'', JStr (formatX402Amount (Num (sc_amountMinor cfg) 0))), (''payee'', JStr (sc_payeeWallet cfg)),
         (''memo'', JStr (memoForEnvelope h))])]"

lemma agent_pays_the_quote: "agent_payment cfg (optionJson (demo_option cfg now h)) pid = full_payment cfg h pid"
  by (simp add: agent_payment_def full_payment_def optionJson_def demo_option_def agentWallet_def opt_prop_def jprop_def)

lemma price_not_underpaid:
  "0 \<le> n \<Longrightarrow> \<not> num_less (js_toNumber (formatX402Amount (Num n 0))) n 6"
  by (simp add: formatX402Amount_def toFixed_scaled_def round_dec_def toNumber_fixed_digits num_less_def)

lemma full_payment_valid: "0 \<le> sc_amountMinor cfg \<Longrightarrow> pid \<noteq> [] \<Longrightarrow> demo_errors cfg h (full_payment cfg h pid) = []"
  using price_not_underpaid [of "sc_amountMinor cfg"]
  by (simp add: demo_errors_def full_payment_def opt_prop_def jprop_def json_falsy_def json_toNumber_def isMemoValid_def)

definition full_settlement :: "machine_spend_config \<Rightarrow> string \<Rightarrow> string \<Rightarrow> json" where
  "full_settlement cfg h pid = JObj
     [(''success'', JBool True), (''network'', JStr (sc_network cfg)), (''payer'', JStr (sc_agentWallet cfg)),
      (''amount'', JStr (formatX402Amount (Num (sc_amountMinor cfg) 0))), (''transactionHash'', JStr (''tx_mock_'' @ pid)),
      (''paymentIdentifier'', JStr pid), (''memo'', JStr (memoForEnvelope h))]"

lemma settlement_of_full_payment: "demo_settlement cfg (full_payment cfg h pid) = full_settlement cfg h pid"
  by (simp add: demo_settlement_def full_payment_def full_settlement_def opt_prop_def jprop_def)

lemma full_payment_fields:
  "opt_prop ''paymentIdentifier'' (full_payment cfg h pid) = JStr pid"
  "opt_prop ''payer'' (opt_prop ''paymentPayload'' (full_payment cfg h pid)) = JStr (sc_agentWallet cfg)"
  "full_payment cfg h pid \<noteq> JNull"
  by (simp_all add: full_payment_def opt_prop_def jprop_def)

lemma encoded_payment:
  "codec_ok c \<Longrightarrow> encodeHeader c (full_payment cfg h pid) \<noteq> []"
  "codec_ok c \<Longrightarrow> decodeHeader c (encodeHeader c (full_payment cfg h pid)) = Inr (full_payment cfg h pid)"
  by (simp add: encodeHeader_def codec_ok_def) (rule decode_encode, simp_all add: full_payment_def)

lemma accept_full_payment:
  assumes "header \<noteq> []" "decodeHeader c header = Inr (full_payment cfg h pid)" "0 \<le> sc_amountMinor cfg" "pid \<noteq> []"
  shows "key_get (JStr pid) (dm_processed d) = None \<Longrightarrow> demo_accept c cfg now header h d =
    (Inr (Demo_paid (Some (demo_score cfg now (JStr (sc_agentWallet cfg)))) False
       (buildPaymentResponse c (full_settlement cfg h pid))),
     d\<lparr>dm_processed := map_set (JStr pid) (full_settlement cfg h pid) (dm_processed d),
       dm_cachedResource := map_set (JStr pid) (demo_score cfg now (JStr (sc_agentWallet cfg))) (dm_cachedResource d)\<rparr>)"
    and "key_get (JStr pid) (dm_processed d) = Some s \<Longrightarrow> demo_accept c cfg now header h d =
    (Inr (Demo_paid (key_get (JStr pid) (dm_cachedResource d)) True (buildPaymentResponse c s)), d)"
  using assms full_payment_valid [OF assms(3,4), of h]
  by (simp_all add: demo_accept_def Let_def settlement_of_full_payment full_payment_fields)

lemma run_machine_spend_eq:
  assumes "codec_ok c" "sc_resourceName cfg \<noteq> []" "0 \<le> sc_amountMinor cfg" "pid \<noteq> []"
    "key_get (JStr pid) (dm_processed d) = None"
  shows "fst (runMachineSpend c cfg now now' h pid d) =
      Inr \<lparr>mo_ok = True, mo_settlement = Some (full_settlement cfg h pid),
           mo_resource = Some (demo_score cfg now' (JStr (sc_agentWallet cfg))), mo_error = None\<rparr>"
    and "snd (runMachineSpend c cfg now now' h pid d) =
      d\<lparr>dm_processed := map_set (JStr pid) (full_settlement cfg h pid) (dm_processed d),
        dm_cachedResource := map_set (JStr pid) (demo_score cfg now' (JStr (sc_agentWallet cfg))) (dm_cachedResource d)\<rparr>"
proof -
  have opt: "hd (json_array (opt_prop ''options'' (JObj [(''resource'', JStr (sc_resourceName cfg)),
      (''options'', JArr [optionJson (demo_option cfg now h)])]))) = optionJson (demo_option cfg now h)"
    by (simp add: opt_prop_def jprop_def json_array_def)
  have "parsePaymentResponse c (buildPaymentResponse c (full_settlement cfg h pid)) = Inr (full_settlement cfg h pid)"
    unfolding parsePaymentResponse_def buildPaymentResponse_def
    using decode_encode [OF assms(1), of "full_settlement cfg h pid"] by (simp add: full_settlement_def jprop_def)
  with accept_full_payment(1) [OF encoded_payment [OF assms(1)] assms(3,4,5)] parse_quote [OF assms(1,2)] opt
  show "fst (runMachineSpend c cfg now now' h pid d) =
      Inr \<lparr>mo_ok = True, mo_settlement = Some (full_settlement cfg h pid),
           mo_resource = Some (demo_score cfg now' (JStr (sc_agentWallet cfg))), mo_error = None\<rparr>"
    and "snd (runMachineSpend c cfg now now' h pid d) =
      d\<lparr>dm_processed := map_set (JStr pid) (full_settlement cfg h pid) (dm_processed d),
        dm_cachedResource := map_set (JStr pid) (demo_score cfg now' (JStr (sc_agentWallet cfg))) (dm_cachedResource d)\<rparr>"
    by (simp_all add: runMachineSpend_def Let_def agent_pays_the_quote signAsAgent_def)
qed


subsection \<open>Properties of the mock resource\<close>

text \<open>C37: However often the mock resource is called, with whatever headers, a payment identifier is charged at
  most once: of two paid answers for the same identifier the later one is marked as a replay and repeats the
  resource and the settlement header of the earlier one, and that settlement names the identifier and its
  transaction, carries the memo of some envelope and does not pay less than the price.
\<close>

theorem mock_charges_once:
  assumes "i < j" and "j < length calls"
    and "named_payment c (fst (snd (calls ! i))) = Some (JStr pid)" "named_payment c (fst (snd (calls ! j))) = Some (JStr pid)"
    and "fst (demo_run c cfg calls new_resource) ! i = Inr (Demo_paid res replay hdr)"
    and "fst (demo_run c cfg calls new_resource) ! j = Inr (Demo_paid res' replay' hdr')"
  shows "replay' \<and> hdr' = hdr \<and> res' = res \<and> (\<exists>s. hdr = buildPaymentResponse c s \<and> settles_for cfg (JStr pid) s)"
  by (rule demo_run_paid_once [OF _ assms]) (simp add: demo_inv_def new_resource_def)

text \<open>A header codec that meets \<open>codec_ok\<close>: the JSON text itself, read back through its injectivity.\<close>

definition plain_codec :: header_codec where
  "plain_codec = \<lparr>hx_encode = JSON_stringify,
     hx_decode = (\<lambda>h. if \<exists>v. json_clean v \<and> JSON_stringify v = h then Some (THE v. json_clean v \<and> JSON_stringify v = h) else None)\<rparr>"

lemma plain_codec_ok: "codec_ok plain_codec"
proof -
  have "(THE u. json_clean u \<and> JSON_stringify u = JSON_stringify v) = v" if "json_clean v" for v
    using that by (rule_tac the_equality) (auto intro: stringify_inj)
  moreover have "JSON_stringify v \<noteq> []" for v using stringify_value_start [of v] by (auto simp: value_start_def)
  ultimately show ?thesis by (auto simp: codec_ok_def plain_codec_def)
qed

text \<open>A table codec for one payment, on which the resource can be run.\<close>

definition table_codec :: header_codec where
  "table_codec = \<lparr>hx_encode = (\<lambda>_. ''settled''),
     hx_decode = (\<lambda>h. if h = ''pay'' then Some (full_payment DEFAULT_MACHINE_SPEND ''hash'' ''pid_1'') else None)\<rparr>"

lemma table_run:
  "fst (demo_run table_codec DEFAULT_MACHINE_SPEND [(5, ''pay'', ''hash''), (9, ''pay'', ''hash'')] new_resource) =
     [Inr (Demo_paid (Some (demo_score DEFAULT_MACHINE_SPEND 5 (JStr ''demo_agent_wallet_mock''))) False ''settled''),
      Inr (Demo_paid (Some (demo_score DEFAULT_MACHINE_SPEND 5 (JStr ''demo_agent_wallet_mock''))) True ''settled'')]"
proof -
  have dec: "decodeHeader table_codec ''pay'' = Inr (full_payment DEFAULT_MACHINE_SPEND ''hash'' ''pid_1'')"
    by (simp add: decodeHeader_def table_codec_def)
  have cfg: "0 \<le> sc_amountMinor DEFAULT_MACHINE_SPEND" "sc_agentWallet DEFAULT_MACHINE_SPEND = ''demo_agent_wallet_mock''"
    by (simp_all add: DEFAULT_MACHINE_SPEND_def)
  have enc: "buildPaymentResponse table_codec v = ''settled''" for v
    by (simp add: buildPaymentResponse_def encodeHeader_def table_codec_def)
  show ?thesis
    using accept_full_payment [OF _ dec cfg(1)] cfg(2)
    by (simp add: enc key_get_def is_primitive_def new_resource_def)
qed

theorem mock_charges_once_witness:
  "\<exists>s. ''settled'' = buildPaymentResponse table_codec s \<and> settles_for DEFAULT_MACHINE_SPEND (JStr ''pid_1'') s"
proof -
  have "named_payment table_codec ''pay'' = Some (JStr ''pid_1'')"
    by (simp add: named_payment_def table_codec_def full_payment_def opt_prop_def jprop_def)
  with mock_charges_once [where i = 0 and j = 1 and calls = "[(5, ''pay'', ''hash''), (9, ''pay'', ''hash'')]"
      and c = table_codec and pid = "''pid_1''" and cfg = DEFAULT_MACHINE_SPEND and replay = False and replay' = True]
  show ?thesis by (simp add: table_run del: demo_run.simps)
qed

text \<open>A mock spend under a new payment identifier succeeds: the quote is parsed, the agent pays exactly the
  quoted price to the quoted payee, and the settlement it gets back has the price, the agent as payer, the
  transaction of this identifier and the memo of the envelope; the resource is scored for a wide foot, and
  running the same identifier again leaves the records of the resource as they are.
\<close>

theorem mock_spend_succeeds:
  assumes "codec_ok c" and "sc_resourceName cfg \<noteq> []" and "0 \<le> sc_amountMinor cfg" and "pid \<noteq> []"
    and "\<not> demo_hasProcessed pid d"
  shows "fst (runMachineSpend c cfg now now' h pid d) =
      Inr \<lparr>mo_ok = True, mo_settlement = Some (full_settlement cfg h pid),
           mo_resource = Some (demo_score cfg now' (JStr (sc_agentWallet cfg))), mo_error = None\<rparr> \<and>
    fr_fit (demo_score cfg now' (JStr (sc_agentWallet cfg))) = ''wide'' \<and>
    (let d' = snd (runMachineSpend c cfg now now' h pid d) in
     demo_hasProcessed pid d' \<and> snd (demo_accept c cfg now'' (encodeHeader c (full_payment cfg h pid)) h d') = d')"
proof -
  have new: "key_get (JStr pid) (dm_processed d) = None" using assms(5) by (simp add: demo_hasProcessed_def)
  have "snd (demo_accept c cfg now'' (encodeHeader c (full_payment cfg h pid)) h d') = d'"
    if "key_get (JStr pid) (dm_processed d') = Some s" for d' s
    using accept_full_payment(2) [OF encoded_payment [OF assms(1)] assms(3,4) that] by simp
  then show ?thesis
    using run_machine_spend_eq [OF assms(1-4) new, of now now' h]
    by (simp add: Let_def demo_hasProcessed_def key_get_def is_primitive_def demo_score_def)
qed

theorem mock_spend_succeeds_witness:
  "fst (runMachineSpend plain_codec DEFAULT_MACHINE_SPEND 0 0 ''hash'' ''pid_1'' new_resource) =
     Inr \<lparr>mo_ok = True, mo_settlement = Some (full_settlement DEFAULT_MACHINE_SPEND ''hash'' ''pid_1''),
          mo_resource = Some (demo_score DEFAULT_MACHINE_SPEND 0 (JStr ''demo_agent_wallet_mock'')), mo_error = None\<rparr>"
  using mock_spend_succeeds [OF plain_codec_ok, of DEFAULT_MACHINE_SPEND "''pid_1''" new_resource 0 0 "''hash''"]
  by (simp add: DEFAULT_MACHINE_SPEND_def demo_hasProcessed_def key_get_def new_resource_def)

text \<open>
  Two things the checks of the mock resource let through: an amount that is no number is not an underpayment, and the
  price in whole tokens, formatted a second time as minor units, prints as zero.
\<close>

lemma amount_not_a_number_accepted: "\<not> num_less (json_toNumber (JStr ''free'')) n 6"
proof -
  have "json_toNumber (JStr ''free'') = Not_a_number"
    by (simp add: json_toNumber_def js_toNumber_def trim_def is_space_def radix_literal_def split_sign_def is_digit_def)
  then show ?thesis by (simp add: num_less_def)
qed

lemma mock_requested_amount_zero:
  "formatX402Amount (js_toNumber (formatX402Amount (Num (sc_amountMinor DEFAULT_MACHINE_SPEND) 0))) = ''0.000000''"
proof -
  have "fixed_digits 6 0 = ''0.000000''"
  proof -
    have "nat_str 0 = ''0''" by code_simp
    moreover have "replicate 5 (CHR ''0'') = ''00000''" by (simp add: eval_nat_numeral)
    ultimately show ?thesis by (simp add: fixed_digits_def pad_def)
  qed
  then show ?thesis
    by (simp add: formatX402Amount_def toFixed_scaled_def DEFAULT_MACHINE_SPEND_def round_dec_def toNumber_fixed_digits round_div_def)
qed

end
