(* ===== verification/Dialogue.thy ===== *)
theory Dialogue
  imports Catalog
begin

text \<open>
  Parsed intents and the dialogue memory of a session, \<open>apps/web/lib/intent.ts\<close> (the record, its
  digest and merge) and \<open>apps/web/lib/dialogue.ts\<close>. The memory is a record passed in and out where
  the code mutates it in place. Non-ASCII punctuation is written as its UTF-8 bytes.
\<close>

subsection \<open>Intents (intent.ts)\<close>

record parsed_intent =
  in_size :: "string option"
  in_colour :: "string option"
  in_useCase :: "string option"
  in_maxAmountMinor :: "int option"
  in_mustBeReturnable :: "bool option"
  in_deliverBy :: "string option"
  in_distanceKm :: "int option"
  in_fit :: "string option"
  in_cushioning :: "string option"

definition empty_intent :: parsed_intent where
  "empty_intent = \<lparr>in_size = None, in_colour = None, in_useCase = None, in_maxAmountMinor = None,
     in_mustBeReturnable = None, in_deliverBy = None, in_distanceKm = None, in_fit = None, in_cushioning = None\<rparr>"

definition SIZES :: "string list" where
  "SIZES = [''UK 6'', ''UK 7'', ''UK 8'', ''UK 9'', ''UK 10'', ''UK 11'']"

definition later :: "'a option \<Rightarrow> 'a option \<Rightarrow> 'a option" where
  "later old new = (case new of None \<Rightarrow> old | Some v \<Rightarrow> Some v)"

definition mergeIntents :: "parsed_intent \<Rightarrow> parsed_intent \<Rightarrow> parsed_intent" where
  "mergeIntents c i =
     \<lparr>in_size = later (in_size c) (in_size i), in_colour = later (in_colour c) (in_colour i),
      in_useCase = later (in_useCase c) (in_useCase i),
      in_maxAmountMinor = later (in_maxAmountMinor c) (in_maxAmountMinor i),
      in_mustBeReturnable = later (in_mustBeReturnable c) (in_mustBeReturnable i),
      in_deliverBy = later (in_deliverBy c) (in_deliverBy i), in_distanceKm = later (in_distanceKm c) (in_distanceKm i),
      in_fit = later (in_fit c) (in_fit i), in_cushioning = later (in_cushioning c) (in_cushioning i)\<rparr>"

definition num_opt :: "int option \<Rightarrow> json" where
  "num_opt v = (case v of None \<Rightarrow> JUndefined | Some n \<Rightarrow> JNum n)"

definition bool_opt :: "bool option \<Rightarrow> json" where
  "bool_opt v = (case v of None \<Rightarrow> JUndefined | Some b \<Rightarrow> JBool b)"

definition intentJson :: "parsed_intent \<Rightarrow> json" where
  "intentJson i = JObj
     [(''size'', json_opt (in_size i)), (''colour'', json_opt (in_colour i)), (''useCase'', json_opt (in_useCase i)),
      (''maxAmountMinor'', num_opt (in_maxAmountMinor i)), (''mustBeReturnable'', bool_opt (in_mustBeReturnable i)),
      (''deliverBy'', json_opt (in_deliverBy i)), (''distanceKm'', num_opt (in_distanceKm i)),
      (''fit'', json_opt (in_fit i)), (''cushioning'', json_opt (in_cushioning i))]"

definition intentDigest :: "parsed_intent \<Rightarrow> string" where
  "intentDigest intent = (case canonicalize (intentJson intent) of Inr s \<Rightarrow> s | Inl _ \<Rightarrow> [])"

subsection \<open>Memory (dialogue.ts)\<close>

record dialogue_memory =
  dm_intentVersion :: int
  dm_recommendationVersion :: int
  dm_recommendationIntentVersion :: "int option"
  dm_recommendationActionToken :: "string option"
  dm_requirements :: "string list"
  dm_preferences :: "string list"
  dm_unresolved :: "string list"
  dm_shownProductIds :: "string list"
  dm_comparedProductIds :: "string list"
  dm_selectedProductId :: "string option"
  dm_quoteProductId :: "string option"
  dm_quoteValid :: bool
  dm_quoteIntentVersion :: "int option"
  dm_quoteRecommendationVersion :: "int option"
  dm_quoteActionToken :: "string option"
  dm_recentActions :: "string list"
  dm_evidence :: "string list"

definition MAX_RECENT_ACTIONS :: nat where
  "MAX_RECENT_ACTIONS = 10"

definition createDialogueMemory :: dialogue_memory where
  "createDialogueMemory =
     \<lparr>dm_intentVersion = 0, dm_recommendationVersion = 0, dm_recommendationIntentVersion = None,
      dm_recommendationActionToken = None, dm_requirements = [], dm_preferences = [], dm_unresolved = [],
      dm_shownProductIds = [], dm_comparedProductIds = [], dm_selectedProductId = None, dm_quoteProductId = None,
      dm_quoteValid = False, dm_quoteIntentVersion = None, dm_quoteRecommendationVersion = None,
      dm_quoteActionToken = None, dm_recentActions = [], dm_evidence = []\<rparr>"

definition num_truthy :: "int option \<Rightarrow> bool" where
  "num_truthy v = (case v of None \<Rightarrow> False | Some n \<Rightarrow> n \<noteq> 0)"

definition isFieldResolved :: "parsed_intent \<Rightarrow> string \<Rightarrow> bool" where
  "isFieldResolved intent name =
     (if name = ''size'' then truthy (in_size intent)
      else if name = ''useCase'' then truthy (in_useCase intent)
      else if name = ''colour'' then truthy (in_colour intent)
      else if name = ''maxAmountMinor'' then num_truthy (in_maxAmountMinor intent)
      else if name = ''mustBeReturnable'' then in_mustBeReturnable intent = Some True
      else if name = ''deliverBy'' then truthy (in_deliverBy intent)
      else False)"

definition nextClarification :: "parsed_intent \<Rightarrow> string list \<Rightarrow> string option" where
  "nextClarification intent missing =
     (let stillMissing = filter (\<lambda>name. \<not> isFieldResolved intent name) missing in
      if stillMissing = [] then None
      else if ''size'' \<in> set stillMissing then Some ''size''
      else if ''useCase'' \<in> set stillMissing then Some ''useCase''
      else js_head stillMissing)"

text \<open>\<open>(minor / 100).toFixed(0)\<close>.\<close>

definition toFixed0 :: "int \<Rightarrow> string" where
  "toFixed0 minor = (if minor < 0 then ''-'' @ int_str (round_div (- minor) 100) else int_str (round_div minor 100))"

definition ack_correction :: "parsed_intent \<Rightarrow> string \<Rightarrow> string list" where
  "ack_correction intent field =
     (case (field = ''size'', in_size intent) of
        (True, Some v) \<Rightarrow> [''Got it'' @ [CHR 0xE2, CHR 0x80, CHR 0x94] @ v @ '' instead.''] | _ \<Rightarrow> []) @
     (case (field = ''maxAmountMinor'', in_maxAmountMinor intent) of
        (True, Some v) \<Rightarrow> [''Budget updated to '' @ [CHR 0xE2, CHR 0x82, CHR 0xB9] @ toFixed0 v @ ''.''] | _ \<Rightarrow> [])"

definition ack_removal :: "string \<Rightarrow> string" where
  "ack_removal field =
     (if field = ''colour'' then ''Black is no longer required.''
      else if field = ''cushioning'' then ''I'' @ [CHR 0xE2, CHR 0x80, CHR 0x99] @ ''ve removed cushioning as a preference.''
      else if field = ''fit'' then ''Fit preference removed.''
      else field @ '' removed.'')"

definition acknowledgeChange :: "string list \<Rightarrow> string list \<Rightarrow> parsed_intent \<Rightarrow> string option" where
  "acknowledgeChange corrections removals intent =
     (let parts = concat (map (ack_correction intent) corrections) @ map ack_removal removals
      in if length parts > 0 then Some (join '' '' parts) else None)"

text \<open>\<open>xs.slice(-n)\<close>.\<close>

definition last_n :: "nat \<Rightarrow> 'a list \<Rightarrow> 'a list" where
  "last_n n xs = drop (length xs - n) xs"

definition syncMemory ::
  "parsed_intent \<Rightarrow> string list \<Rightarrow> string list \<Rightarrow> string \<Rightarrow> string \<Rightarrow> dialogue_memory \<Rightarrow> dialogue_memory" where
  "syncMemory intent shownIds missing recentAction userEvidence memory =
     memory\<lparr>dm_requirements :=
         (if truthy (in_size intent) then [''size '' @ opt_str (in_size intent)] else []) @
         (if truthy (in_colour intent) then [''colour '' @ opt_str (in_colour intent)] else []) @
         (if truthy (in_useCase intent) then [''use case '' @ opt_str (in_useCase intent)] else []) @
         (case in_maxAmountMinor intent of
            None \<Rightarrow> []
          | Some v \<Rightarrow> if v = 0 then [] else [''budget '' @ [CHR 0xE2, CHR 0x82, CHR 0xB9] @ toFixed0 v]) @
         (if in_mustBeReturnable intent = Some True then [''returnable''] else []),
       dm_preferences :=
         (if truthy (in_fit intent) then [''fit '' @ opt_str (in_fit intent)] else []) @
         (if truthy (in_cushioning intent) then [''cushioning '' @ opt_str (in_cushioning intent)] else []) @
         (case in_distanceKm intent of None \<Rightarrow> [] | Some v \<Rightarrow> if v = 0 then [] else [''distance '' @ int_str v @ ''K'']),
       dm_unresolved := missing, dm_shownProductIds := shownIds,
       dm_recentActions := last_n MAX_RECENT_ACTIONS (dm_recentActions memory @ [recentAction]),
       dm_evidence := (if userEvidence \<noteq> [] \<and> userEvidence \<notin> set (dm_evidence memory)
                       then last_n 8 (dm_evidence memory @ [userEvidence]) else dm_evidence memory)\<rparr>"

definition invalidateQuote :: "dialogue_memory \<Rightarrow> dialogue_memory" where
  "invalidateQuote memory =
     memory\<lparr>dm_quoteValid := False, dm_selectedProductId := None, dm_quoteProductId := None,
       dm_quoteIntentVersion := None, dm_quoteRecommendationVersion := None, dm_quoteActionToken := None,
       dm_comparedProductIds := []\<rparr>"

definition invalidateRecommendations :: "dialogue_memory \<Rightarrow> dialogue_memory" where
  "invalidateRecommendations memory =
     memory\<lparr>dm_shownProductIds := [], dm_recommendationIntentVersion := None, dm_recommendationActionToken := None\<rparr>"

subsection \<open>Facts\<close>

lemma set_last_n: "set (last_n n xs) \<subseteq> set xs"
  by (simp add: last_n_def set_drop_subset)

lemma length_last_n [simp]: "length (last_n n xs) = min n (length xs)"
  by (simp add: last_n_def)

lemma distinct_last_n: "distinct xs \<Longrightarrow> distinct (last_n n xs)"
  by (simp add: last_n_def)

lemma sync_keeps [simp]:
  "dm_intentVersion (syncMemory i s m a e mem) = dm_intentVersion mem"
  "dm_recommendationVersion (syncMemory i s m a e mem) = dm_recommendationVersion mem"
  "dm_recommendationIntentVersion (syncMemory i s m a e mem) = dm_recommendationIntentVersion mem"
  "dm_recommendationActionToken (syncMemory i s m a e mem) = dm_recommendationActionToken mem"
  "dm_quoteValid (syncMemory i s m a e mem) = dm_quoteValid mem"
  "dm_shownProductIds (syncMemory i s m a e mem) = s"
  by (simp_all add: syncMemory_def)

lemma invalidate_keeps [simp]:
  "dm_intentVersion (invalidateQuote mem) = dm_intentVersion mem"
  "dm_recommendationVersion (invalidateQuote mem) = dm_recommendationVersion mem"
  "dm_recommendationIntentVersion (invalidateQuote mem) = dm_recommendationIntentVersion mem"
  "dm_intentVersion (invalidateRecommendations mem) = dm_intentVersion mem"
  "dm_quoteValid (invalidateQuote mem) = False"
  "dm_recommendationIntentVersion (invalidateRecommendations mem) = None"
  by (simp_all add: invalidateQuote_def invalidateRecommendations_def)

text \<open>The intent digest is the canonical text itself, so it identifies the intent.\<close>

lemma opt_json_simps [simp]:
  "num_opt None = JUndefined" "num_opt (Some n) = JNum n" "num_opt a = JUndefined \<longleftrightarrow> a = None"
  "json_normal (num_opt a) = num_opt a" "num_opt a = num_opt b \<longleftrightarrow> a = b"
  "bool_opt None = JUndefined" "bool_opt (Some c) = JBool c" "bool_opt d = JUndefined \<longleftrightarrow> d = None"
  "json_normal (bool_opt d) = bool_opt d" "bool_opt d = bool_opt e \<longleftrightarrow> d = e"
  by (auto simp: num_opt_def bool_opt_def split: option.splits)

lemma intentDigest_eq: "intentDigest i = JSON_stringify (json_normal (intentJson i))"
proof -
  have "canonicalize (intentJson i) = Inr (JSON_stringify (json_normal (intentJson i)))"
    unfolding canonicalize_def
    by (rule canonical_is_normal_stringify)
       (auto simp: intentJson_def json_opt_def num_opt_def bool_opt_def split: option.splits)
  then show ?thesis by (simp add: intentDigest_def)
qed

lemma intentDigest_inj [simp]: "intentDigest a = intentDigest b \<longleftrightarrow> a = b"
proof
  assume eq: "intentDigest a = intentDigest b"
  have clean: "json_clean (json_normal (intentJson i))" for i
    by (auto simp: intentJson_def json_opt_def num_opt_def bool_opt_def split: option.splits)
  have norm: "json_normal (intentJson a) = json_normal (intentJson b)"
    using eq by (intro stringify_inj clean) (simp add: intentDigest_eq)
  define fields where "fields i = (case intentJson i of JObj kvs \<Rightarrow> kvs | _ \<Rightarrow> [])" for i
  have fields: "intentJson i = JObj (fields i)" "distinct (map fst (fields i))" for i
    by (simp_all add: fields_def intentJson_def)
  note look = normal_JObj_lookup [OF norm [unfolded fields(1)] fields(2) fields(2)]
  have "in_size a = in_size b" using look [of "''size''"] by (auto simp: fields_def intentJson_def split: if_splits)
  moreover have "in_colour a = in_colour b" using look [of "''colour''"] by (auto simp: fields_def intentJson_def split: if_splits)
  moreover have "in_useCase a = in_useCase b" using look [of "''useCase''"] by (auto simp: fields_def intentJson_def split: if_splits)
  moreover have "in_maxAmountMinor a = in_maxAmountMinor b"
    using look [of "''maxAmountMinor''"] by (auto simp: fields_def intentJson_def split: if_splits)
  moreover have "in_mustBeReturnable a = in_mustBeReturnable b"
    using look [of "''mustBeReturnable''"] by (auto simp: fields_def intentJson_def split: if_splits)
  moreover have "in_deliverBy a = in_deliverBy b" using look [of "''deliverBy''"] by (auto simp: fields_def intentJson_def split: if_splits)
  moreover have "in_distanceKm a = in_distanceKm b" using look [of "''distanceKm''"] by (auto simp: fields_def intentJson_def split: if_splits)
  moreover have "in_fit a = in_fit b" using look [of "''fit''"] by (auto simp: fields_def intentJson_def split: if_splits)
  moreover have "in_cushioning a = in_cushioning b" using look [of "''cushioning''"] by (auto simp: fields_def intentJson_def split: if_splits)
  ultimately show "a = b" by simp
qed simp

end
