(* ===== verification/Orders.thy ===== *)
theory Orders
  imports Operations AuditLedger Payments Machine Dialogue
begin

text \<open>
  The order lifecycle of \<open>apps/web/lib/services.ts\<close>: sessions, recommendations, quotes, approval, the two
  payment rails, fulfilment, compensation, the tampering demo, what webhooks call, intent patches and
  reset. Every handler is an action on the service's state, in the order of the code and with its early
  returns; a thrown \<open>Error\<close> is \<open>Inl\<close> of its message (a \<open>QuoteValidationError\<close> also carries the rejected
  selection, which \<open>validateCurrentSelection\<close> returns here). Handlers that await a payment adapter are
  split at the await. Definitions only; the theorems are in \<open>OrderLogic\<close> to \<open>OrderProps\<close>. Audit summaries are prose
  and are not carried.
\<close>

subsection \<open>Types\<close>

record recommendation_binding =
  rb_intentVersion :: int
  rb_recommendationVersion :: int
  rb_recommendationActionToken :: string

datatype x402_status = X_pending | X_verified

record x402_order_payment =
  xp_paymentIdentifier :: string
  xp_requestDigest :: string
  xp_envelopeDigest :: string
  xp_network :: string
  xp_asset :: string
  xp_amountMinor :: int
  xp_currency :: string
  xp_recipient :: string
  xp_mockTxHash :: "string option"
  xp_status :: x402_status

datatype spend_status = Sp_pending | Sp_settled | Sp_manual_reconciliation_required | Sp_rejected

record machine_spend_attempt =
  msa_paymentIdentifier :: string
  msa_requestDigest :: string
  msa_spendingRequest :: tool_spend_request
  msa_signedAttempt :: string
  msa_status :: spend_status
  msa_retryable :: bool
  msa_lastError :: "string option"

record fit_score =
  fs_productId :: string
  fs_fitScore :: int
  fs_note :: string

record machine_spend =
  msp_paymentIdentifier :: string
  msp_settlementHash :: string
  msp_fitScores :: "fit_score list"
  msp_requestDigest :: string
  msp_network :: string
  msp_asset :: string
  msp_amount :: string
  msp_payer :: string
  msp_payee :: string
  msp_feePayer :: string
  msp_memoVerification :: string
  msp_transferVerification :: string
  msp_transfer :: "transfer_evidence option"
  msp_explorerUrl :: string
  msp_settlementMode :: string

record compensation_note =
  cn_refundId :: "string option"
  cn_reason :: "string option"
  cn_ok :: bool

record held_webhook =
  hw_eventId :: string
  hw_paymentId :: string
  hw_orderId :: string

text \<open>The prepared Agent Pay payment is an object of its own, shared with results handed out earlier.\<close>

record session =
  sn_logicalOrderId :: string
  sn_customerId :: string
  sn_createdAt :: string
  sn_state :: order_state
  sn_message :: string
  sn_intent :: parsed_intent
  sn_lastRanking :: "ranking_result option"
  sn_approvalEventId :: "string option"
  sn_approvedDigest :: "string option"
  sn_externalOrderId :: "string option"
  sn_externalPaymentId :: "string option"
  sn_verification :: "verification_result option"
  sn_compensation :: "compensation_note option"
  sn_machineSpendAttempt :: "machine_spend_attempt option"
  sn_x402OrderPayment :: "nat option"
  sn_machineSpend :: "machine_spend option"
  sn_heldWebhook :: "held_webhook option"
  sn_dialogue :: dialogue_memory

record envelope_record =
  er_envelope :: commerce_envelope
  er_digest :: string
  er_signature :: string
  er_issuedAt :: string
  er_recommendation :: recommendation_binding
  er_intentDigest :: string

datatype payment_view = Pay_ref nat | Pay_copy x402_order_payment

text \<open>The object every payment handler answers with; an absent property is \<open>None\<close>.\<close>

record order_result =
  rs_ok :: bool
  rs_state :: order_state
  rs_error :: "string option"
  rs_reasonCodes :: "string list option"
  rs_approvalEventId :: "string option"
  rs_attempt :: "payment_attempt option"
  rs_payment :: "payment_view option"
  rs_refundId :: "string option"

record quote_result =
  qr_envelope :: commerce_envelope
  qr_digest :: string
  qr_signature :: string
  qr_approvalEventId :: "string option"
  qr_state :: order_state
  qr_binding :: recommendation_binding

text \<open>What a conversation turn answers with.\<close>

record spend_receipt =
  sx_mock :: bool
  sx_paymentIdentifier :: string
  sx_txHash :: string
  sx_network :: string
  sx_amount :: string

record attempt_summary =
  sm_paymentIdentifier :: string
  sm_requestDigest :: string
  sm_status :: spend_status
  sm_retryable :: bool

record selection_rejection =
  sj_matches :: "product_match list"
  sj_binding :: recommendation_binding
  sj_rejectedProductId :: string
  sj_parsedIntent :: parsed_intent

record shortlist =
  sl_message :: string
  sl_matches :: "product_match list"
  sl_fitScores :: "fit_score list option"
  sl_machineSpend :: "spend_receipt option"
  sl_machineSpendAttempt :: "attempt_summary option"
  sl_state :: order_state
  sl_parsedIntent :: parsed_intent
  sl_binding :: recommendation_binding

datatype respond_result =
    R_clarify string "string list" "string list" order_state parsed_intent
  | R_shortlist shortlist
  | R_error string order_state "selection_rejection option"
  | R_compare product_match product_match "string list" "string list" "string list" order_state
  | R_explain product_match string order_state
  | R_cheaper product_match "product_match option" string order_state
  | R_select string string order_state recommendation_binding
  | R_restart order_state

text \<open>What an operation stores for replay. A session is stored by reference.\<close>

datatype payload = PL_session nat | PL_quote quote_result | PL_order order_result | PL_respond respond_result

text \<open>
  A handler runs without interruption up to its answer or up to the await on a payment adapter. What it
  holds on to across the await is a \<open>pending\<close> value: order, operation, session object, envelope record and the
  arguments of the adapter call; \<open>Await\<close> hands it over.
\<close>

datatype pending =
    P_initiate string "string option" nat adapter envelope_record
  | P_verify string "string option" nat adapter envelope_record string string string
  | P_compensate string "string option" nat adapter envelope_record string

datatype outcome = Answer payload | Await pending

subsection \<open>State and environment\<close>

text \<open>
  The maps of the service with the objects they point to: sessions and prepared payments live in
  heaps, \<open>sessions\<close> holds references, so a handler that kept a session across an await still writes to
  the object it read, even when the map has dropped or replaced it.
\<close>

record core =
  co_heap :: "nat \<Rightarrow> session"
  co_next :: nat
  co_payments :: "nat \<Rightarrow> x402_order_payment"
  co_pnext :: nat
  co_sessions :: "(string, nat) jsmap"
  co_envelopes :: "(string, envelope_record) jsmap"
  co_mandates :: "(string, purchase_mandate) jsmap"
  co_webhookDedup :: "(string, string) jsmap"

record app =
  ap_core :: core
  ap_ops :: "payload op_store"
  ap_audit :: audit_store
  ap_tick :: nat
  ap_machine :: demo_resource

text \<open>Clock and random identifiers are read by position; the adapters are those of the registry.\<close>

record services_env =
  sv_sha256 :: "string \<Rightarrow> string"
  sv_hmac :: "string \<Rightarrow> string \<Rightarrow> string"
  sv_signingSecret :: string
  sv_razorpayKeySecret :: string
  sv_adapters :: "adapter list"
  sv_now :: "nat \<Rightarrow> int"
  sv_rnd :: "nat \<Rightarrow> string"

definition isMock :: "services_env \<Rightarrow> bool" where
  "isMock env = registry_isMock Razorpay_checkout (sv_adapters env)"

type_synonym 'a act = "(app, 'a) action"

definition now_ms :: "services_env \<Rightarrow> int act" where
  "now_ms env = (\<lambda>st. (Inr (sv_now env (ap_tick st)), st\<lparr>ap_tick := Suc (ap_tick st)\<rparr>))"

definition now_iso :: "services_env \<Rightarrow> string act" where
  "now_iso env = mbind (now_ms env) (\<lambda>t. mret (toISOString t))"

definition new_id :: "services_env \<Rightarrow> string \<Rightarrow> string act" where
  "new_id env prefix = (\<lambda>st. (Inr (newId prefix (sv_rnd env (ap_tick st))), st\<lparr>ap_tick := Suc (ap_tick st)\<rparr>))"

definition read_core :: "(core \<Rightarrow> 'a) \<Rightarrow> 'a act" where
  "read_core f = (\<lambda>st. (Inr (f (ap_core st)), st))"

definition upd_core :: "(core \<Rightarrow> core) \<Rightarrow> unit act" where
  "upd_core f = (\<lambda>st. (Inr (), st\<lparr>ap_core := f (ap_core st)\<rparr>))"

definition log_event :: "services_env \<Rightarrow> audit_input \<Rightarrow> unit act" where
  "log_event env input = (\<lambda>st. (Inr (), st\<lparr>ap_audit := snd (audit_log (sv_rnd env (ap_tick st))
       (toISOString (sv_now env (ap_tick st))) input (ap_audit st)), ap_tick := Suc (ap_tick st)\<rparr>))"

definition event :: "string \<Rightarrow> string \<Rightarrow> audit_actor \<Rightarrow> audit_input" where
  "event orderId typ actor = \<lparr>ai_logicalOrderId = orderId, ai_type = typ, ai_actor = actor, ai_occurredAt = None,
     ai_inputDigest = None, ai_outputDigest = None, ai_externalReferences = [], ai_decision = None, ai_reasonCodes = []\<rparr>"

definition get_session_ref :: "string \<Rightarrow> nat option act" where
  "get_session_ref orderId = read_core (\<lambda>c. map_get orderId (co_sessions c))"

definition get_s :: "nat \<Rightarrow> session act" where
  "get_s r = read_core (\<lambda>c. co_heap c r)"

definition get_envelope :: "string \<Rightarrow> envelope_record option act" where
  "get_envelope orderId = read_core (\<lambda>c. map_get orderId (co_envelopes c))"

definition upd_s :: "nat \<Rightarrow> (session \<Rightarrow> session) \<Rightarrow> unit act" where
  "upd_s r f = upd_core (\<lambda>c. c\<lparr>co_heap := (co_heap c)(r := f (co_heap c r))\<rparr>)"

definition upd_dialogue :: "nat \<Rightarrow> (dialogue_memory \<Rightarrow> dialogue_memory) \<Rightarrow> unit act" where
  "upd_dialogue r f = upd_s r (\<lambda>s. s\<lparr>sn_dialogue := f (sn_dialogue s)\<rparr>)"

definition set_envelope :: "string \<Rightarrow> envelope_record \<Rightarrow> unit act" where
  "set_envelope orderId rec = upd_core (\<lambda>c. c\<lparr>co_envelopes := map_set orderId rec (co_envelopes c)\<rparr>)"

definition del_envelope :: "string \<Rightarrow> unit act" where
  "del_envelope orderId = upd_core (\<lambda>c. c\<lparr>co_envelopes := map_del orderId (co_envelopes c)\<rparr>)"

definition mark_webhook :: "services_env \<Rightarrow> string \<Rightarrow> unit act" where
  "mark_webhook env eventId = mbind (now_iso env) (\<lambda>now.
     upd_core (\<lambda>c. c\<lparr>co_webhookDedup := map_set eventId now (co_webhookDedup c)\<rparr>))"

text \<open>\<open>session?.state ?? "DRAFT"\<close>.\<close>

definition state_or_draft :: "string \<Rightarrow> order_state act" where
  "state_or_draft orderId = read_core (\<lambda>c.
     case map_get orderId (co_sessions c) of None \<Rightarrow> DRAFT | Some r \<Rightarrow> sn_state (co_heap c r))"

text \<open>\<open>session.x402OrderPayment\<close> with the object behind it.\<close>

definition payment_of :: "session \<Rightarrow> core \<Rightarrow> x402_order_payment option" where
  "payment_of s c = map_option (co_payments c) (sn_x402OrderPayment s)"

definition is_verified :: "x402_order_payment option \<Rightarrow> bool" where
  "is_verified pay = (case pay of None \<Rightarrow> False | Some p \<Rightarrow> xp_status p = X_verified)"

definition payment_refs :: "x402_order_payment option \<Rightarrow> (string \<times> string) list" where
  "payment_refs pay = (case pay of None \<Rightarrow> [] | Some p \<Rightarrow> [(''paymentIdentifier'', xp_paymentIdentifier p)])"

definition set_state :: "nat \<Rightarrow> order_state \<Rightarrow> unit act" where
  "set_state r next_state = mbind (get_s r) (\<lambda>s.
     if sn_state s = next_state then mret ()
     else case transitionState (sn_state s) next_state of
            TransitionOk _ _ \<Rightarrow> upd_s r (\<lambda>s. s\<lparr>sn_state := next_state\<rparr>)
          | TransitionRefused _ _ reason \<Rightarrow> mthrow reason)"

subsection \<open>Operations and results\<close>

definition begin_op ::
  "services_env \<Rightarrow> string option \<Rightarrow> operation_type \<Rightarrow> operation_request \<Rightarrow> string \<Rightarrow> payload idempotency_result option act" where
  "begin_op env operationId t req orderId =
     (if truthy operationId
      then mbind (now_iso env) (\<lambda>now st.
             case coord_begin mem_get mem_set (sv_sha256 env) now (opt_str operationId) t req orderId (ap_ops st) of
               (res, ops) \<Rightarrow> (Inr (Some res), st\<lparr>ap_ops := ops\<rparr>))
      else mret None)"

definition complete_op ::
  "services_env \<Rightarrow> string option \<Rightarrow> operation_outcome \<Rightarrow> string option \<Rightarrow> string option \<Rightarrow> payload \<Rightarrow> unit act" where
  "complete_op env operationId out resultRef errorRef result =
     (if truthy operationId
      then mbind (now_iso env) (\<lambda>now st.
             case coord_complete mem_get mem_set now (opt_str operationId) out resultRef errorRef (Some result) (ap_ops st) of
               Inl e \<Rightarrow> (Inl e, st) | Inr ops \<Rightarrow> (Inr (), st\<lparr>ap_ops := ops\<rparr>))
      else mret ())"

definition success :: "order_state \<Rightarrow> order_result" where
  "success s = \<lparr>rs_ok = True, rs_state = s, rs_error = None, rs_reasonCodes = None, rs_approvalEventId = None,
     rs_attempt = None, rs_payment = None, rs_refundId = None\<rparr>"

definition failure :: "order_state \<Rightarrow> string \<Rightarrow> order_result" where
  "failure s err = (success s)\<lparr>rs_ok := False, rs_error := Some err\<rparr>"

text \<open>
  The two endings of a handler: \<open>if (operationId) coordinator.complete(...)\<close>, then the result.
  A failed operation records the result's own error message.
\<close>

definition finish_ok :: "services_env \<Rightarrow> string option \<Rightarrow> string option \<Rightarrow> order_result \<Rightarrow> outcome act" where
  "finish_ok env operationId resultRef r =
     mbind (complete_op env operationId Out_success resultRef None (PL_order r)) (\<lambda>_. mret (Answer (PL_order r)))"

definition finish_fail :: "services_env \<Rightarrow> string option \<Rightarrow> order_result \<Rightarrow> outcome act" where
  "finish_fail env operationId r =
     mbind (complete_op env operationId Out_failure None (rs_error r) (PL_order r)) (\<lambda>_. mret (Answer (PL_order r)))"

definition conflict_text :: "string option \<Rightarrow> string" where
  "conflict_text operationId =
     ''Operation ID conflict: '' @ opt_str operationId @ '' was already used with a different request''"

definition phase_str :: "operation_phase \<Rightarrow> string" where
  "phase_str p = (case p of Op_pending \<Rightarrow> ''pending'' | Op_in_progress \<Rightarrow> ''in_progress'' | Op_completed \<Rightarrow> ''completed''
     | Op_failed \<Rightarrow> ''failed'' | Op_rejected \<Rightarrow> ''rejected'')"

text \<open>
  The prologues of the handlers: \<open>Some\<close> is an early return. \<open>createSession\<close> and \<open>buildQuote\<close> throw,
  \<open>approve\<close> and \<open>initiatePayment\<close> answer, and so on; each differs in what a replay of an unfinished or
  failed operation gets.
\<close>

definition throwing_prologue :: "string option \<Rightarrow> payload idempotency_result option \<Rightarrow> payload option act" where
  "throwing_prologue operationId idem =
     (case idem of
        None \<Rightarrow> mret None
      | Some (Idem_new _) \<Rightarrow> mret None
      | Some (Idem_conflict _ _) \<Rightarrow> mthrow (conflict_text operationId)
      | Some (Idem_replay rec) \<Rightarrow>
          if or_phase rec = Op_completed \<and> or_resultPayload rec \<noteq> None then mret (or_resultPayload rec)
          else if or_phase rec \<in> {Op_failed, Op_rejected}
          then mthrow (or_else (or_errorRef rec) (''Operation '' @ phase_str (or_phase rec)))
          else mthrow ''Operation in progress'')"

definition answering_prologue ::
  "string option \<Rightarrow> string \<Rightarrow> string list option \<Rightarrow> string list option \<Rightarrow> payload idempotency_result option \<Rightarrow> payload option act" where
  "answering_prologue operationId orderId conflictCodes pendingCodes idem =
     (case idem of
        None \<Rightarrow> mret None
      | Some (Idem_new _) \<Rightarrow> mret None
      | Some (Idem_conflict _ _) \<Rightarrow>
          mret (Some (PL_order ((failure DRAFT (conflict_text operationId))\<lparr>rs_reasonCodes := conflictCodes\<rparr>)))
      | Some (Idem_replay rec) \<Rightarrow>
          if or_phase rec = Op_completed \<and> or_resultPayload rec \<noteq> None then mret (or_resultPayload rec)
          else if or_phase rec \<noteq> Op_completed
          then if or_phase rec \<in> {Op_failed, Op_rejected} \<and> or_resultPayload rec \<noteq> None then mret (or_resultPayload rec)
               else mbind (state_or_draft orderId) (\<lambda>s.
                      mret (Some (PL_order ((failure s ''Operation in progress'')\<lparr>rs_reasonCodes := pendingCodes\<rparr>))))
          else mret None)"

definition x402_prologue :: "string option \<Rightarrow> string \<Rightarrow> payload idempotency_result option \<Rightarrow> payload option act" where
  "x402_prologue operationId orderId idem =
     (case idem of
        None \<Rightarrow> mret None
      | Some (Idem_new _) \<Rightarrow> mret None
      | Some (Idem_conflict _ _) \<Rightarrow> mret (Some (PL_order (failure DRAFT (conflict_text operationId))))
      | Some (Idem_replay rec) \<Rightarrow>
          if or_phase rec = Op_completed \<and> or_resultPayload rec \<noteq> None then mret (or_resultPayload rec)
          else if or_phase rec \<noteq> Op_completed
          then mbind (state_or_draft orderId) (\<lambda>s. mret (Some (PL_order (failure s ''Operation in progress''))))
          else mret None)"

definition verify_prologue :: "string option \<Rightarrow> payload idempotency_result option \<Rightarrow> payload option act" where
  "verify_prologue operationId idem =
     (case idem of
        None \<Rightarrow> mret None
      | Some (Idem_new _) \<Rightarrow> mret None
      | Some (Idem_conflict _ _) \<Rightarrow> mret (Some (PL_order (failure DRAFT (conflict_text operationId))))
      | Some (Idem_replay rec) \<Rightarrow>
          if or_phase rec \<in> {Op_completed, Op_failed, Op_rejected} \<and> or_resultPayload rec \<noteq> None
          then mret (or_resultPayload rec)
          else mret (Some (PL_order (failure DRAFT ''Operation in progress''))))"

definition fulfil_prologue :: "string option \<Rightarrow> string \<Rightarrow> payload idempotency_result option \<Rightarrow> payload option act" where
  "fulfil_prologue operationId orderId idem =
     (case idem of
        None \<Rightarrow> mret None
      | Some (Idem_new _) \<Rightarrow> mret None
      | Some (Idem_conflict _ _) \<Rightarrow> mret (Some (PL_order (failure DRAFT (conflict_text operationId))))
      | Some (Idem_replay rec) \<Rightarrow>
          if or_phase rec \<in> {Op_completed, Op_failed, Op_rejected} \<and> or_resultPayload rec \<noteq> None
          then mret (or_resultPayload rec)
          else mbind (state_or_draft orderId) (\<lambda>s. mret (Some (PL_order (failure s ''Operation in progress'')))))"

text \<open>An early return of the prologue or the rest of the handler.\<close>

definition unless_done :: "payload option act \<Rightarrow> outcome act \<Rightarrow> outcome act" where
  "unless_done prologue rest = mbind prologue (\<lambda>early. case early of None \<Rightarrow> rest | Some p \<Rightarrow> mret (Answer p))"

text \<open>
  The lookup that opens every handler: an unknown order fails the operation with state \<open>DRAFT\<close>, an order
  without envelope fails it with the session's state.
\<close>

definition with_session :: "services_env \<Rightarrow> string option \<Rightarrow> string \<Rightarrow> (nat \<Rightarrow> outcome act) \<Rightarrow> outcome act" where
  "with_session env operationId orderId rest =
     mbind (get_session_ref orderId) (\<lambda>found.
       case found of
         None \<Rightarrow> finish_fail env operationId (failure DRAFT ''Unknown session'')
       | Some r \<Rightarrow> rest r)"

definition with_envelope ::
  "services_env \<Rightarrow> string option \<Rightarrow> string \<Rightarrow> nat \<Rightarrow> string \<Rightarrow> (envelope_record \<Rightarrow> outcome act) \<Rightarrow> outcome act" where
  "with_envelope env operationId orderId r err rest =
     mbind (get_envelope orderId) (\<lambda>found.
       case found of
         None \<Rightarrow> mbind (get_s r) (\<lambda>s. finish_fail env operationId (failure (sn_state s) err))
       | Some rec \<Rightarrow> rest rec)"
subsection \<open>Recommendations\<close>

definition hasIntentChanged :: "parsed_intent \<Rightarrow> parsed_intent \<Rightarrow> bool" where
  "hasIntentChanged before after =
     (in_size before \<noteq> in_size after \<or> in_colour before \<noteq> in_colour after \<or> in_useCase before \<noteq> in_useCase after \<or>
      in_maxAmountMinor before \<noteq> in_maxAmountMinor after \<or> in_mustBeReturnable before \<noteq> in_mustBeReturnable after \<or>
      in_deliverBy before \<noteq> in_deliverBy after \<or> in_distanceKm before \<noteq> in_distanceKm after \<or>
      in_fit before \<noteq> in_fit after \<or> in_cushioning before \<noteq> in_cushioning after)"

definition buildPurchaseIntent :: "session \<Rightarrow> purchase_intent" where
  "buildPurchaseIntent s =
     (let i = sn_intent s in
      \<lparr>pi_merchantId = cat_merchantId SHOE_CATALOG, pi_category = ''running_shoes'',
       pi_hardConstraints =
         \<lparr>hc_maxAmountMinor = or_else (in_maxAmountMinor i) 1000000, hc_size = in_size i, hc_colour = in_colour i,
          hc_useCase = in_useCase i, hc_mustBeReturnable = in_mustBeReturnable i, hc_deliverBy = in_deliverBy i\<rparr>,
       pi_softPreferences =
         [\<lparr>sp_name = ''distance'', sp_value = int_str (or_else (in_distanceKm i) 0), sp_weight = 1\<rparr>,
          \<lparr>sp_name = ''fit'', sp_value = or_else (in_fit i) [], sp_weight = 1\<rparr>,
          \<lparr>sp_name = ''cushioning'', sp_value = or_else (in_cushioning i) [], sp_weight = 1\<rparr>]\<rparr>)"

definition recordRecommendation :: "services_env \<Rightarrow> nat \<Rightarrow> ranking_result \<Rightarrow> unit act" where
  "recordRecommendation env r ranking =
     mbind (new_id env ''rec'') (\<lambda>token.
     mbind (upd_s r (\<lambda>s. s\<lparr>sn_lastRanking := Some ranking\<rparr>)) (\<lambda>_.
       upd_dialogue r (\<lambda>d. d\<lparr>dm_recommendationVersion := dm_recommendationVersion d + 1,
         dm_recommendationIntentVersion := Some (dm_intentVersion d), dm_recommendationActionToken := Some token\<rparr>)))"

definition isCurrentRecommendation :: "session \<Rightarrow> bool" where
  "isCurrentRecommendation s =
     (sn_lastRanking s \<noteq> None \<and> dm_recommendationVersion (sn_dialogue s) > 0 \<and>
      dm_recommendationIntentVersion (sn_dialogue s) = Some (dm_intentVersion (sn_dialogue s)) \<and>
      truthy (dm_recommendationActionToken (sn_dialogue s)))"

definition recommendationBinding :: "session \<Rightarrow> recommendation_binding throws" where
  "recommendationBinding s =
     (if \<not> isCurrentRecommendation s then Inl ''No current recommendation result''
      else Inr \<lparr>rb_intentVersion = dm_intentVersion (sn_dialogue s),
                rb_recommendationVersion = dm_recommendationVersion (sn_dialogue s),
                rb_recommendationActionToken = opt_str (dm_recommendationActionToken (sn_dialogue s))\<rparr>)"

definition sameRecommendationBinding :: "recommendation_binding \<Rightarrow> recommendation_binding \<Rightarrow> bool" where
  "sameRecommendationBinding a b =
     (rb_intentVersion a = rb_intentVersion b \<and> rb_recommendationVersion a = rb_recommendationVersion b \<and>
      rb_recommendationActionToken a = rb_recommendationActionToken b)"

text \<open>
  The guard that approval and payment share: the quote belongs to the current recommendation and to the
  current intent. The binding is read only after \<open>isCurrentRecommendation\<close>, so it does not throw.
\<close>

definition quote_active :: "session \<Rightarrow> envelope_record \<Rightarrow> bool" where
  "quote_active s rec =
     (dm_quoteValid (sn_dialogue s) \<and> isCurrentRecommendation s \<and>
      (case recommendationBinding s of Inl _ \<Rightarrow> False | Inr b \<Rightarrow> sameRecommendationBinding (er_recommendation rec) b) \<and>
      er_intentDigest rec = intentDigest (sn_intent s))"

definition lift_throws :: "'a throws \<Rightarrow> 'a act" where
  "lift_throws x = (\<lambda>st. (x, st))"

definition match_ids :: "ranking_result \<Rightarrow> string list" where
  "match_ids ranking = map (\<lambda>m. cp_productId (pm_product m)) (rr_matches ranking)"

definition currentRecommendation :: "services_env \<Rightarrow> nat \<Rightarrow> (ranking_result \<times> recommendation_binding) act" where
  "currentRecommendation env r =
     mbind (get_s r) (\<lambda>s.
     mbind (if isCurrentRecommendation s then mret ()
            else mbind (now_ms env) (\<lambda>now.
                 let ranking = rankProducts (buildPurchaseIntent s) SHOE_CATALOG now in
                 mbind (recordRecommendation env r ranking) (\<lambda>_.
                   upd_dialogue r (syncMemory (sn_intent s) (match_ids ranking) (map mi_name (rr_missing ranking)) ''refresh'' []))))
       (\<lambda>_.
     mbind (get_s r) (\<lambda>s.
     mbind (lift_throws (recommendationBinding s)) (\<lambda>binding.
       case sn_lastRanking s of
         None \<Rightarrow> mthrow ''TypeError''
       | Some ranking \<Rightarrow> mret (ranking, binding)))))"

datatype selection =
    Sel_ok catalog_product catalog_variant recommendation_binding
  | Sel_rejected string ranking_result recommendation_binding "string list"

text \<open>
  The checks of \<open>validateCurrentSelection\<close>, in order, on the current recommendation. A catalogue product
  is a running shoe priced in INR by its type, so the last check of the source never fires.
\<close>

definition selection_variant :: "session \<Rightarrow> catalog_product \<Rightarrow> catalog_variant option" where
  "selection_variant s p =
     (if truthy (in_size (sn_intent s)) then js_find (\<lambda>v. Some (cv_size v) = in_size (sn_intent s)) (cp_variants p) else None)"

definition eligible_match :: "product_match \<Rightarrow> bool" where
  "eligible_match m =
     (let e = pm_eligibility m in length (el_rejectionReasons e) = 0 \<and> el_withinBudget e \<and> el_sizeAvailable e \<and>
      el_inStock e \<and> el_returnable e \<and> el_deliveryMet e)"

definition check_selection ::
  "int \<Rightarrow> session \<Rightarrow> ranking_result \<Rightarrow> recommendation_binding \<Rightarrow> string \<Rightarrow> recommendation_binding option \<Rightarrow> selection" where
  "check_selection now s ranking binding productId supplied =
     (let i = sn_intent s; maxAmountMinor = or_else (in_maxAmountMinor i) 1000000;
          bindingMatches = (case supplied of None \<Rightarrow> True | Some b \<Rightarrow> sameRecommendationBinding b binding);
          refreshed = '' I refreshed your options.''
      in case js_find (\<lambda>p. cp_productId p = productId) (cat_products SHOE_CATALOG) of
        None \<Rightarrow> Sel_rejected (''Unknown product: '' @ productId @ ''.'' @ refreshed) ranking binding [''unknown_product'']
      | Some product \<Rightarrow>
          if cp_priceMinor product > maxAmountMinor
          then Sel_rejected (cp_name product @ '' no longer fits your '' @ fmtPrice maxAmountMinor @ '' budget.'' @ refreshed)
                 ranking binding (''budget_exceeded'' # (if bindingMatches then [] else [''stale_recommendation'']))
          else if \<not> bindingMatches
          then Sel_rejected (cp_name product @ '' is from an older recommendation.'' @ refreshed) ranking binding
                 [''stale_recommendation'', ''recommendation_version_mismatch'']
          else if \<not> truthy (in_size i)
          then Sel_rejected (''Choose a size before selecting a shoe.'' @ refreshed) ranking binding [''size_required'']
          else case selection_variant s product of
            None \<Rightarrow> Sel_rejected (cp_name product @ '' is not available in '' @ opt_str (in_size i) @ ''.'' @ refreshed)
                      ranking binding [''size_unavailable'']
          | Some v \<Rightarrow>
              if cv_inStock v \<le> 0
              then Sel_rejected (cp_name product @ '' in '' @ opt_str (in_size i) @ '' is out of stock.'' @ refreshed)
                     ranking binding [''out_of_stock'']
              else if productId \<notin> set (match_ids ranking) \<or> productId \<notin> set (dm_shownProductIds (sn_dialogue s))
              then Sel_rejected (cp_name product @ '' is not in your current eligible recommendations.'' @ refreshed)
                     ranking binding [''not_current_recommendation'']
              else if \<not> list_all eligible_match (take 1 (filter (\<lambda>m. cp_productId (pm_product m) = productId) (rr_matches ranking)))
              then Sel_rejected (cp_name product @ '' no longer satisfies your current requirements.'' @ refreshed)
                     ranking binding [''eligibility_failed'']
              else if truthy (in_colour i) \<and> opt_str (in_colour i) \<notin> set (cp_colour product)
              then Sel_rejected (cp_name product @ '' does not match your requested colour.'' @ refreshed)
                     ranking binding [''colour_constraint_failed'']
              else if in_mustBeReturnable i = Some True \<and> \<not> cp_returnable product
              then Sel_rejected (cp_name product @ '' is not returnable as required.'' @ refreshed)
                     ranking binding [''returnability_constraint_failed'']
              else if truthy (in_deliverBy i) \<and>
                      se_deliverBy (estimateShipping (cp_deliveryLeadDays product) now) > opt_str (in_deliverBy i)
              then Sel_rejected (cp_name product @ '' cannot meet your delivery deadline.'' @ refreshed)
                     ranking binding [''delivery_constraint_failed'']
              else Sel_ok product v binding)"

definition validateCurrentSelection ::
  "services_env \<Rightarrow> nat \<Rightarrow> string \<Rightarrow> recommendation_binding option \<Rightarrow> selection act" where
  "validateCurrentSelection env r productId supplied =
     mbind (currentRecommendation env r) (\<lambda>current.
     mbind (get_s r) (\<lambda>s.
     mbind (now_ms env) (\<lambda>now.
       mret (check_selection now s (fst current) (snd current) productId supplied))))"

subsection \<open>Sessions and quotes\<close>

definition MANDATE_EXPIRY_MS :: int where "MANDATE_EXPIRY_MS = 24 * 60 * 60 * 1000"

definition QUOTE_EXPIRY_MS :: int where "QUOTE_EXPIRY_MS = 15 * 60 * 1000"

definition DEMO_CUSTOMER :: string where "DEMO_CUSTOMER = ''cust_demo_01''"

definition MAX_CACHED_SESSIONS :: nat where "MAX_CACHED_SESSIONS = 500"

definition buildMandate :: "services_env \<Rightarrow> string \<Rightarrow> purchase_mandate act" where
  "buildMandate env customerId =
     mbind (new_id env ''mdt'') (\<lambda>mandateId.
     mbind (now_ms env) (\<lambda>now. mret
       \<lparr>mnd_mandateId = mandateId, mnd_customerId = customerId, mnd_allowedMerchantIds = [cat_merchantId SHOE_CATALOG],
        mnd_allowedProductIds = None, mnd_allowedRails = [Razorpay_checkout, X402_solana], mnd_maxAmountMinor = 1000000,
        mnd_autoApproveBelowMinor = None, mnd_expiresAt = toISOString (now + MANDATE_EXPIRY_MS),
        mnd_humanConfirmationRequired = True\<rparr>))"

text \<open>The loop drops the oldest entry while the map is too large; the map shrinks, so it ends.\<close>

fun prune_from :: "(string, nat) jsmap \<Rightarrow> (string, envelope_record) jsmap \<Rightarrow> (string, nat) jsmap \<times> (string, envelope_record) jsmap" where
  "prune_from [] envs = ([], envs)"
| "prune_from ((oldest, r) # rest) envs =
     (if length ((oldest, r) # rest) > MAX_CACHED_SESSIONS then prune_from rest (map_del oldest envs)
      else ((oldest, r) # rest, envs))"

definition pruneSessionCache :: "unit act" where
  "pruneSessionCache = upd_core (\<lambda>c. case prune_from (co_sessions c) (co_envelopes c) of
     (sessions, envelopes) \<Rightarrow> c\<lparr>co_sessions := sessions, co_envelopes := envelopes\<rparr>)"

definition new_session :: "string \<Rightarrow> string \<Rightarrow> string \<Rightarrow> session" where
  "new_session logicalOrderId customerId createdAt =
     \<lparr>sn_logicalOrderId = logicalOrderId, sn_customerId = customerId, sn_createdAt = createdAt, sn_state = DRAFT,
      sn_message = [], sn_intent = empty_intent, sn_lastRanking = None, sn_approvalEventId = None, sn_approvedDigest = None,
      sn_externalOrderId = None, sn_externalPaymentId = None, sn_verification = None, sn_compensation = None,
      sn_machineSpendAttempt = None, sn_x402OrderPayment = None, sn_machineSpend = None, sn_heldWebhook = None,
      sn_dialogue = createDialogueMemory\<rparr>"

definition alloc_session :: "session \<Rightarrow> nat act" where
  "alloc_session s = mbind (read_core co_next) (\<lambda>r.
     mbind (upd_core (\<lambda>c. c\<lparr>co_heap := (co_heap c)(r := s), co_next := Suc r\<rparr>)) (\<lambda>_. mret r))"

definition createSession :: "services_env \<Rightarrow> string option \<Rightarrow> outcome act" where
  "createSession env operationId =
     mbind (new_id env ''ord'') (\<lambda>logicalOrderId.
     mbind (begin_op env operationId Session_create (SessionCreateRequest DEMO_CUSTOMER) logicalOrderId) (\<lambda>idem.
     unless_done (throwing_prologue operationId idem)
       (mbind (buildMandate env DEMO_CUSTOMER) (\<lambda>mandate.
        mbind (upd_core (\<lambda>c. c\<lparr>co_mandates := map_set DEMO_CUSTOMER mandate (co_mandates c)\<rparr>)) (\<lambda>_.
        mbind (now_iso env) (\<lambda>now.
        mbind (alloc_session (new_session logicalOrderId DEMO_CUSTOMER now)) (\<lambda>r.
        mbind (upd_core (\<lambda>c. c\<lparr>co_sessions := map_set logicalOrderId r (co_sessions c)\<rparr>)) (\<lambda>_.
        mbind pruneSessionCache (\<lambda>_.
        mbind (log_event env ((event logicalOrderId ''session.created'' A_system)
                 \<lparr>ai_externalReferences := [(''mandateId'', mnd_mandateId mandate)]\<rparr>)) (\<lambda>_.
        mbind (complete_op env operationId Out_success (Some logicalOrderId) None (PL_session r)) (\<lambda>_.
          mret (Answer (PL_session r)))))))))))))"

definition returnPolicyJson :: "return_policy \<Rightarrow> json" where
  "returnPolicyJson p = JObj [(''policyId'', JStr (rp_policyId p)), (''returnable'', JBool (rp_returnable p)),
     (''windowDays'', JNum (rp_windowDays p)), (''condition'', JStr (rp_condition p))]"

definition quote_envelope ::
  "services_env \<Rightarrow> string \<Rightarrow> session \<Rightarrow> catalog_product \<Rightarrow> catalog_variant \<Rightarrow> string \<Rightarrow> int \<Rightarrow> string \<Rightarrow> string \<Rightarrow> string \<Rightarrow> commerce_envelope" where
  "quote_envelope env orderId s product v mandateId now quoteId holdId nonce =
     (let subtotal = cp_priceMinor product * 1; taxMinor = 0;
          shippingMinor = se_feeMinor (estimateShipping (cp_deliveryLeadDays product) now) in
      \<lparr>env_logicalOrderId = orderId, env_merchantId = cat_merchantId SHOE_CATALOG, env_quoteId = quoteId,
       env_customerId = sn_customerId s, env_buyerAgentId = None,
       env_items = [\<lparr>item_productId = cp_productId product, item_sku = cv_sku v,
          item_variant = [(''size'', opt_str (in_size (sn_intent s))), (''colour'', or_else (in_colour (sn_intent s)) ''black'')],
          item_quantity = 1, item_unitAmountMinor = cp_priceMinor product\<rparr>],
       env_subtotalMinor = subtotal, env_taxMinor = taxMinor, env_shippingMinor = shippingMinor,
       env_totalMinor = subtotal + shippingMinor + taxMinor, env_currency = INR, env_inventoryHoldId = holdId,
       env_returnPolicyDigest = sv_sha256 env (JSON_stringify (returnPolicyJson (cat_returnPolicy SHOE_CATALOG))),
       env_shippingDestinationDigest = sv_sha256 env ''Bengaluru, Karnataka, India'', env_mandateId = mandateId,
       env_approvalEventId = None, env_issuedAt = toISOString now, env_expiresAt = toISOString (now + QUOTE_EXPIRY_MS),
       env_nonce = nonce\<rparr>)"

definition seal_envelope ::
  "services_env \<Rightarrow> commerce_envelope \<Rightarrow> string \<Rightarrow> recommendation_binding \<Rightarrow> string \<Rightarrow> envelope_record" where
  "seal_envelope env e issuedAt binding digest =
     \<lparr>er_envelope = e, er_digest = envelopeDigest (sv_sha256 env) e,
      er_signature = signEnvelope (sv_sha256 env) (sv_hmac env) e (sv_signingSecret env),
      er_issuedAt = issuedAt, er_recommendation = binding, er_intentDigest = digest\<rparr>"

definition buildQuote ::
  "services_env \<Rightarrow> string \<Rightarrow> string \<Rightarrow> recommendation_binding option \<Rightarrow> string option \<Rightarrow> outcome act" where
  "buildQuote env orderId productId supplied operationId =
     mbind (begin_op env operationId Quote_build (QuoteBuildRequest orderId productId) orderId) (\<lambda>idem.
     unless_done (throwing_prologue operationId idem)
       (mbind (get_session_ref orderId) (\<lambda>found.
          case found of
            None \<Rightarrow> mthrow ''Unknown session''
          | Some r \<Rightarrow>
              mbind (validateCurrentSelection env r productId supplied) (\<lambda>selection.
                case selection of
                  Sel_rejected message _ _ _ \<Rightarrow> mthrow message
                | Sel_ok product v binding \<Rightarrow>
                    mbind (get_s r) (\<lambda>s.
                    mbind (now_ms env) (\<lambda>now.
                    mbind (new_id env ''qt'') (\<lambda>quoteId.
                    mbind (new_id env ''hold'') (\<lambda>holdId.
                    mbind (read_core (\<lambda>c. map_get (sn_customerId s) (co_mandates c))) (\<lambda>mandate.
                    mbind (new_id env ''nonce'') (\<lambda>nonce.
                    let rec = seal_envelope env (quote_envelope env orderId s product v
                                (case mandate of None \<Rightarrow> [] | Some m \<Rightarrow> mnd_mandateId m) now quoteId holdId nonce)
                                (toISOString now) binding (intentDigest (sn_intent s)) in
                    mbind (set_envelope orderId rec) (\<lambda>_.
                    mbind (upd_dialogue r (\<lambda>d. d\<lparr>dm_quoteProductId := Some productId, dm_quoteValid := True,
                             dm_quoteIntentVersion := Some (rb_intentVersion binding),
                             dm_quoteRecommendationVersion := Some (rb_recommendationVersion binding),
                             dm_quoteActionToken := Some (rb_recommendationActionToken binding)\<rparr>)) (\<lambda>_.
                    mbind (set_state r AWAITING_APPROVAL) (\<lambda>_.
                    mbind (log_event env ((event orderId ''quote.envelope_created'' A_system)
                             \<lparr>ai_inputDigest := Some (er_digest rec)\<rparr>)) (\<lambda>_.
                    mbind (get_s r) (\<lambda>s.
                    let quoteResult = PL_quote \<lparr>qr_envelope = er_envelope rec, qr_digest = er_digest rec,
                          qr_signature = er_signature rec, qr_approvalEventId = sn_approvalEventId s, qr_state = sn_state s,
                          qr_binding = binding\<rparr> in
                    mbind (complete_op env operationId Out_success (Some (er_digest rec)) None quoteResult) (\<lambda>_.
                      mret (Answer quoteResult)))))))))))))))))"
subsection \<open>Approval\<close>

definition approve :: "services_env \<Rightarrow> string \<Rightarrow> string \<Rightarrow> string option \<Rightarrow> outcome act" where
  "approve env orderId digest operationId =
     mbind (begin_op env operationId Approval_grant (ApprovalGrantRequest orderId digest) orderId) (\<lambda>idem.
     unless_done (answering_prologue operationId orderId None None idem)
       (with_session env operationId orderId (\<lambda>r.
        with_envelope env operationId orderId r ''No envelope to approve'' (\<lambda>rec.
        mbind (get_s r) (\<lambda>s.
          if \<not> quote_active s rec
          then finish_fail env operationId (failure (sn_state s) ''This quote is no longer active for the current intent'')
          else if truthy (sn_approvalEventId s) \<and> sn_approvedDigest s = Some digest
          then finish_ok env operationId (sn_approvalEventId s)
                 ((success (sn_state s))\<lparr>rs_approvalEventId := sn_approvalEventId s\<rparr>)
          else if er_digest rec \<noteq> digest
          then finish_fail env operationId
                 (failure (sn_state s) ''Digest mismatch: approval must bind to the exact envelope hash'')
          else mbind (now_iso env) (\<lambda>now.
            if env_expiresAt (er_envelope rec) < now
            then mbind (set_state r EXPIRED) (\<lambda>_.
                 mbind (get_s r) (\<lambda>s. finish_fail env operationId (failure (sn_state s) ''Quote expired'')))
            else
              mbind (new_id env ''appr'') (\<lambda>approvalEventId.
              mbind (upd_s r (\<lambda>s. s\<lparr>sn_approvalEventId := Some approvalEventId, sn_approvedDigest := Some digest\<rparr>)) (\<lambda>_.
              mbind (set_state r APPROVED) (\<lambda>_.
              mbind (log_event env ((event orderId ''approval.granted'' A_customer)
                       \<lparr>ai_inputDigest := Some digest, ai_outputDigest := Some approvalEventId,
                        ai_decision := Some PAllow, ai_reasonCodes := [''approval_binds_hash'']\<rparr>)) (\<lambda>_.
              mbind (get_s r) (\<lambda>s.
                finish_ok env operationId (Some approvalEventId)
                  ((success (sn_state s))\<lparr>rs_approvalEventId := Some approvalEventId\<rparr>))))))))))))"

subsection \<open>Razorpay payment\<close>

fun rail_str :: "payment_rail \<Rightarrow> string" where
  "rail_str Razorpay_checkout = ''razorpay_checkout''"
| "rail_str Razorpay_reserve_pay = ''razorpay_reserve_pay''"
| "rail_str X402_solana = ''x402_solana''"

definition policy_input ::
  "session \<Rightarrow> envelope_record \<Rightarrow> commerce_envelope \<Rightarrow> purchase_mandate option \<Rightarrow> payment_rail \<Rightarrow> string \<Rightarrow> check_envelope_input" where
  "policy_input s rec e mandate rail now =
     \<lparr>cei_envelope = e, cei_mandate = mandate, cei_expectedDigest = er_digest rec, cei_rail = Some rail,
      cei_approved = (truthy (sn_approvalEventId s) \<and> sn_approvedDigest s = Some (er_digest rec)),
      cei_allowAutoApprove = False, cei_nowIso = now\<rparr>"

definition payment_policy :: "services_env \<Rightarrow> session \<Rightarrow> envelope_record \<Rightarrow> payment_rail \<Rightarrow> policy_verdict act" where
  "payment_policy env s rec rail =
     mbind (read_core (\<lambda>c. map_get (sn_customerId s) (co_mandates c))) (\<lambda>mandate.
     mbind (now_iso env) (\<lambda>now.
       mret (checkEnvelopeForPayment (sv_sha256 env) (policy_input s rec (er_envelope rec) mandate rail now))))"

definition paid_state :: "order_state \<Rightarrow> bool" where
  "paid_state st = (st = PAID_VERIFIED \<or> st = FULFILMENT_PENDING \<or> st = FULFILLED)"

definition coded :: "order_state \<Rightarrow> string \<Rightarrow> string list \<Rightarrow> order_result" where
  "coded st err codes = (failure st err)\<lparr>rs_reasonCodes := Some codes\<rparr>"

text \<open>The rest of \<open>initiatePayment\<close> once the policy has allowed the payment.\<close>

definition initiate_allowed ::
  "services_env \<Rightarrow> string \<Rightarrow> payment_rail \<Rightarrow> string option \<Rightarrow> nat \<Rightarrow> envelope_record \<Rightarrow> outcome act" where
  "initiate_allowed env orderId rail operationId r rec =
     mbind (get_s r) (\<lambda>s.
       if env_totalMinor (er_envelope rec) < 100
       then finish_fail env operationId
              (coded (sn_state s) ''Order amount is below Razorpay's 100 paise minimum'' [''amount_below_minimum''])
       else if truthy (sn_externalOrderId s)
       then mbind (if sn_state s = PAYMENT_FAILED then set_state r PAYMENT_PENDING else mret ()) (\<lambda>_.
            mbind (new_id env ''att'') (\<lambda>attemptId.
            mbind (get_s r) (\<lambda>s.
              finish_ok env operationId (sn_externalOrderId s)
                ((success (sn_state s))\<lparr>rs_attempt := Some
                   \<lparr>pa_attemptId = attemptId, pa_logicalOrderId = orderId, pa_rail = Razorpay_checkout,
                    pa_externalOrderId = sn_externalOrderId s, pa_externalPaymentId = None, pa_status = At_created,
                    pa_createdAt = er_issuedAt rec, pa_amountMinor = env_totalMinor (er_envelope rec),
                    pa_currency = currency_str (env_currency (er_envelope rec)), pa_checkoutPayload = JUndefined\<rparr>\<rparr>))))
       else case registry_get rail (sv_adapters env) of
              None \<Rightarrow> finish_fail env operationId (failure (sn_state s) (''No adapter for rail '' @ rail_str rail))
            | Some adapter \<Rightarrow>
                mbind (set_state r PAYMENT_PENDING) (\<lambda>_. mret (Await (P_initiate orderId operationId r adapter rec))))"

definition initiatePayment :: "services_env \<Rightarrow> string \<Rightarrow> payment_rail \<Rightarrow> string option \<Rightarrow> outcome act" where
  "initiatePayment env orderId rail operationId =
     mbind (begin_op env operationId Payment_initiate (PaymentInitiateRequest orderId (rail_str rail)) orderId) (\<lambda>idem.
     unless_done (answering_prologue operationId orderId (Some [''operation_conflict'']) (Some [''operation_pending'']) idem)
       (with_session env operationId orderId (\<lambda>r.
        with_envelope env operationId orderId r ''No envelope'' (\<lambda>rec.
        mbind (get_s r) (\<lambda>s.
        mbind (read_core (payment_of s)) (\<lambda>pay.
          if \<not> quote_active s rec
          then finish_fail env operationId
                 (coded (sn_state s) ''Payment blocked: this quote is no longer active for the current intent'' [''quote_invalidated''])
          else if paid_state (sn_state s)
          then finish_fail env operationId
                 (coded (sn_state s) ''This order already has a successful payment; new rail initiation is rejected.'' [''rail_single_success''])
          else if is_verified pay
          then mbind (log_event env ((event orderId ''payment.rail_rejected'' A_policy)
                 \<lparr>ai_externalReferences := payment_refs pay, ai_decision := Some PBlock, ai_reasonCodes := [''rail_single_success'']\<rparr>)) (\<lambda>_.
               finish_fail env operationId (coded (sn_state s)
                 ''This order already settled via Agent Pay (x402 mock); Razorpay initiation is rejected.'' [''rail_single_success'']))
          else mbind (payment_policy env s rec rail) (\<lambda>verdict.
            if \<not> pv_allow verdict
            then mbind (log_event env ((event orderId ''policy.payment_blocked'' A_policy)
                   \<lparr>ai_inputDigest := Some (er_digest rec), ai_decision := Some (pv_decision verdict),
                    ai_reasonCodes := pv_reasonCodes verdict\<rparr>)) (\<lambda>_.
                 finish_fail env operationId (coded (sn_state s)
                   (''Policy blocked payment: '' @ join '', '' (pv_reasonCodes verdict)) (pv_reasonCodes verdict)))
            else initiate_allowed env orderId rail operationId r rec)))))))"

text \<open>After the await: the \<open>try\<close> block around it, with the reply of the payment gateway.\<close>

definition initiate_resume ::
  "services_env \<Rightarrow> rzp_api \<Rightarrow> string \<Rightarrow> string option \<Rightarrow> nat \<Rightarrow> adapter \<Rightarrow> envelope_record \<Rightarrow> outcome act" where
  "initiate_resume env api orderId operationId r adapter rec =
     mtry
       (mbind (now_iso env) (\<lambda>now.
        mbind (\<lambda>st. (adapter_initiate adapter api (sv_sha256 env) (sv_rnd env (ap_tick st)) now (er_envelope rec),
                     st\<lparr>ap_tick := Suc (ap_tick st)\<rparr>)) (\<lambda>attempt.
        mbind (upd_s r (\<lambda>s. s\<lparr>sn_externalOrderId := pa_externalOrderId attempt\<rparr>)) (\<lambda>_.
        mbind (log_event env ((event orderId ''payment.initiated'' A_payment)
                 \<lparr>ai_externalReferences := [(''orderId'', or_else (pa_externalOrderId attempt) [])], ai_decision := Some PAllow\<rparr>)) (\<lambda>_.
        mbind (get_s r) (\<lambda>s.
          finish_ok env operationId (pa_externalOrderId attempt) ((success (sn_state s))\<lparr>rs_attempt := Some attempt\<rparr>)))))))
       (\<lambda>e.
        mbind (set_state r PAYMENT_FAILED) (\<lambda>_.
        mbind (log_event env ((event orderId ''payment.initiate_failed'' A_payment)\<lparr>ai_decision := Some PReview\<rparr>)) (\<lambda>_.
        mbind (get_s r) (\<lambda>s. finish_fail env operationId (failure (sn_state s) e)))))"

record capture =
  cap_paymentId :: string
  cap_signature :: string
  cap_orderId :: string

definition mockCapture :: "services_env \<Rightarrow> string \<Rightarrow> capture act" where
  "mockCapture env orderId =
     mbind (get_session_ref orderId) (\<lambda>found.
     mbind (read_core (\<lambda>c. case found of None \<Rightarrow> False | Some r \<Rightarrow> is_verified (payment_of (co_heap c r) c))) (\<lambda>settled.
       if settled then mthrow ''Order already settled via Agent Pay (x402 mock); Razorpay capture is rejected.''
       else case found of
              None \<Rightarrow> mthrow ''No initiated order''
            | Some r \<Rightarrow> mbind (get_s r) (\<lambda>s.
                if \<not> truthy (sn_externalOrderId s) then mthrow ''No initiated order''
                else mbind (now_ms env) (\<lambda>now.
                  let ext = opt_str (sn_externalOrderId s); paymentId = ''pay_MOCK_'' @ ext @ ''_'' @ int_str now in
                  mret \<lparr>cap_paymentId = paymentId,
                        cap_signature = razorpaySignature (sv_hmac env) (sv_razorpayKeySecret env) (ext @ ''|'' @ paymentId),
                        cap_orderId = ext\<rparr>))))"

text \<open>Reconciling a webhook that was held back while client verification had failed.\<close>

definition servicesReconcileHeld :: "services_env \<Rightarrow> string \<Rightarrow> nat \<Rightarrow> unit act" where
  "servicesReconcileHeld env orderId r =
     mbind (get_s r) (\<lambda>s.
       case sn_heldWebhook s of
         None \<Rightarrow> mret ()
       | Some held \<Rightarrow>
           mbind (upd_s r (\<lambda>s. s\<lparr>sn_heldWebhook := None\<rparr>)) (\<lambda>_.
           mbind (mark_webhook env (hw_eventId held)) (\<lambda>_.
             log_event env ((event orderId ''webhook.reconciled_after_client_verification'' A_payment)
               \<lparr>ai_externalReferences := [(''eventId'', hw_eventId held), (''paymentId'', hw_paymentId held)],
                ai_decision := Some PAllow, ai_reasonCodes := [''out_of_order_webhook_reconciled'', ''rail_single_success'']\<rparr>))))"

definition verifyPayment ::
  "services_env \<Rightarrow> string \<Rightarrow> string \<Rightarrow> string \<Rightarrow> string \<Rightarrow> string option \<Rightarrow> outcome act" where
  "verifyPayment env orderId externalOrderId externalPaymentId signature operationId =
     mbind (begin_op env operationId Payment_verify (PaymentVerifyRequest orderId externalOrderId externalPaymentId) orderId) (\<lambda>idem.
     unless_done (verify_prologue operationId idem)
       (with_session env operationId orderId (\<lambda>r.
        with_envelope env operationId orderId r ''No envelope'' (\<lambda>rec.
        mbind (get_s r) (\<lambda>s.
          case (case sn_verification s of None \<Rightarrow> None | Some v \<Rightarrow> if vr_verified v then Some v else None) of
            Some v \<Rightarrow>
              if vr_rail v = Razorpay_checkout \<and> Some externalOrderId = sn_externalOrderId s \<and>
                 Some externalPaymentId = sn_externalPaymentId s
              then finish_ok env operationId (Some externalPaymentId) (success (sn_state s))
              else mbind (log_event env ((event orderId ''payment.rail_rejected'' A_policy)
                     \<lparr>ai_externalReferences := [(''paymentId'', externalPaymentId)], ai_decision := Some PBlock,
                      ai_reasonCodes := [''rail_single_success'']\<rparr>)) (\<lambda>_.
                   finish_fail env operationId (failure (sn_state s)
                     ''This order already settled on another rail; Razorpay verification is rejected.''))
          | None \<Rightarrow>
              if Some externalOrderId \<noteq> sn_externalOrderId s
              then mbind (log_event env ((event orderId ''payment.binding_rejected'' A_policy)
                     \<lparr>ai_decision := Some PBlock, ai_reasonCodes := [''order_id_mismatch'']\<rparr>)) (\<lambda>_.
                   mbind (set_state r PAYMENT_FAILED) (\<lambda>_.
                   mbind (get_s r) (\<lambda>s. finish_fail env operationId (failure (sn_state s)
                     ''Submitted Razorpay order does not match this session's order''))))
              else case registry_get Razorpay_checkout (sv_adapters env) of
                     None \<Rightarrow> mthrow ''TypeError''
                   | Some adapter \<Rightarrow>
                       mret (Await (P_verify orderId operationId r adapter rec externalOrderId externalPaymentId signature)))))))"

definition binding_failures :: "verification_result \<Rightarrow> session \<Rightarrow> envelope_record \<Rightarrow> string list" where
  "binding_failures result s rec =
     when_code (Some (vr_externalOrderId result) \<noteq> sn_externalOrderId s)
       (''fetched payment order_id '' @ vr_externalOrderId result @ '' does not match session order'') @
     when_code (vr_amountMinor result \<noteq> env_totalMinor (er_envelope rec))
       (''amount '' @ int_str (vr_amountMinor result) @ '' does not match approved envelope '' @
        int_str (env_totalMinor (er_envelope rec))) @
     when_code (vr_currency result \<noteq> currency_str (env_currency (er_envelope rec)))
       (''currency '' @ vr_currency result @ '' does not match approved envelope '' @ currency_str (env_currency (er_envelope rec))) @
     when_code (vr_status result \<noteq> ''captured'') (''payment status is '' @ vr_status result @ '', not captured'')"

definition verify_resume ::
  "services_env \<Rightarrow> rzp_api \<Rightarrow> string \<Rightarrow> string option \<Rightarrow> nat \<Rightarrow> adapter \<Rightarrow> envelope_record \<Rightarrow> string \<Rightarrow> string \<Rightarrow> string \<Rightarrow> outcome act" where
  "verify_resume env api orderId operationId r adapter rec externalOrderId externalPaymentId signature =
     mbind (lift_throws (adapter_verify adapter api (sv_hmac env)
              \<lparr>vi_logicalOrderId = orderId, vi_envelopeHash = er_digest rec, vi_rail = Razorpay_checkout,
               vi_externalOrderId = externalOrderId, vi_externalPaymentId = externalPaymentId,
               vi_expectedAmountMinor = Some (env_totalMinor (er_envelope rec)), vi_signature = Some signature\<rparr>)) (\<lambda>result.
     mbind (upd_s r (\<lambda>s. s\<lparr>sn_verification := Some result, sn_externalPaymentId := Some externalPaymentId\<rparr>)) (\<lambda>_.
       if \<not> vr_verified result
       then mbind (set_state r PAYMENT_FAILED) (\<lambda>_.
            mbind (log_event env ((event orderId ''payment.verification_failed'' A_payment)
                     \<lparr>ai_externalReferences := [(''paymentId'', externalPaymentId)], ai_decision := Some PBlock,
                      ai_reasonCodes := [''signature_invalid'']\<rparr>)) (\<lambda>_.
            mbind (get_s r) (\<lambda>s. finish_fail env operationId
              (failure (sn_state s) (or_else (vr_reason result) ''Verification failed'')))))
       else mbind (get_s r) (\<lambda>s.
         let bindingFailures = binding_failures result s rec in
         if length bindingFailures > 0
         then mbind (set_state r PAYMENT_FAILED) (\<lambda>_.
              mbind (log_event env ((event orderId ''payment.binding_rejected'' A_policy)
                       \<lparr>ai_externalReferences := [(''paymentId'', externalPaymentId)], ai_decision := Some PBlock,
                        ai_reasonCodes := [''rail_binding_failed'']\<rparr>)) (\<lambda>_.
              mbind (get_s r) (\<lambda>s. finish_fail env operationId
                (failure (sn_state s) (''Payment binding rejected: '' @ join ''; '' bindingFailures)))))
         else mbind (set_state r PAID_VERIFIED) (\<lambda>_.
              mbind (log_event env ((event orderId ''payment.verified'' A_payment)
                       \<lparr>ai_externalReferences := [(''orderId'', externalOrderId), (''paymentId'', externalPaymentId)],
                        ai_decision := Some PAllow,
                        ai_reasonCodes := [''signature_verified'', ''rail_binding_verified'', ''rail_single_success'']\<rparr>)) (\<lambda>_.
              mbind (servicesReconcileHeld env orderId r) (\<lambda>_.
              mbind (get_s r) (\<lambda>s. finish_ok env operationId (Some externalPaymentId) (success (sn_state s)))))))))"
subsection \<open>Agent Pay (mock x402 order payment)\<close>

definition X402_MOCK_ORDER_ASSET :: string where "X402_MOCK_ORDER_ASSET = ''usdc_devnet_mock_mint''"

definition X402_MOCK_ORDER_PAYEE :: string where "X402_MOCK_ORDER_PAYEE = ''demo_payee_RunVista_mock''"

definition X402_MOCK_ORDER_PURPOSE :: string where "X402_MOCK_ORDER_PURPOSE = ''order_payment''"

definition x402_reject ::
  "services_env \<Rightarrow> string option \<Rightarrow> audit_input \<Rightarrow> order_state \<Rightarrow> string \<Rightarrow> string list \<Rightarrow> outcome act" where
  "x402_reject env operationId ev st err codes =
     mbind (log_event env (ev\<lparr>ai_reasonCodes := codes\<rparr>)) (\<lambda>_. finish_fail env operationId (coded st err codes))"

definition rejected :: "string \<Rightarrow> audit_input" where
  "rejected orderId = (event orderId ''x402_order.rejected'' A_policy)\<lparr>ai_decision := Some PBlock\<rparr>"

definition prepared_payment :: "services_env \<Rightarrow> string \<Rightarrow> envelope_record \<Rightarrow> x402_order_payment" where
  "prepared_payment env orderId rec =
     (let request = \<lparr>op_logicalOrderId = orderId, op_envelopeDigest = er_digest rec, op_network = SOLANA_DEVNET_CAIP2,
            op_asset = X402_MOCK_ORDER_ASSET, op_amountMinor = env_totalMinor (er_envelope rec),
            op_currency = currency_str (env_currency (er_envelope rec)), op_payee = X402_MOCK_ORDER_PAYEE,
            op_purpose = X402_MOCK_ORDER_PURPOSE\<rparr>;
          requestDigest = canonicalOrderPaymentRequestDigest (sv_sha256 env) request
      in \<lparr>xp_paymentIdentifier = mockOrderPaymentIdentifier requestDigest, xp_requestDigest = requestDigest,
          xp_envelopeDigest = er_digest rec, xp_network = op_network request, xp_asset = op_asset request,
          xp_amountMinor = op_amountMinor request, xp_currency = op_currency request, xp_recipient = op_payee request,
          xp_mockTxHash = None, xp_status = X_pending\<rparr>)"

definition alloc_payment :: "x402_order_payment \<Rightarrow> nat act" where
  "alloc_payment p = mbind (read_core co_pnext) (\<lambda>i.
     mbind (upd_core (\<lambda>c. c\<lparr>co_payments := (co_payments c)(i := p), co_pnext := Suc i\<rparr>)) (\<lambda>_. mret i))"

text \<open>The rest of \<open>prepareX402OrderPayment\<close> once the policy has allowed the payment.\<close>

definition prepare_allowed ::
  "services_env \<Rightarrow> string \<Rightarrow> string option \<Rightarrow> nat \<Rightarrow> envelope_record \<Rightarrow> outcome act" where
  "prepare_allowed env orderId operationId r rec =
     mbind (get_s r) (\<lambda>s.
     mbind (read_core (payment_of s)) (\<lambda>pay.
       case (case pay of None \<Rightarrow> None | Some p \<Rightarrow> if xp_envelopeDigest p = er_digest rec then Some p else None) of
         Some p \<Rightarrow>
           mbind (log_event env ((event orderId ''x402_order.duplicate'' A_payment)
                    \<lparr>ai_externalReferences := [(''paymentIdentifier'', xp_paymentIdentifier p)],
                     ai_decision := Some PReview, ai_reasonCodes := [''duplicate_prepare_reused'']\<rparr>)) (\<lambda>_.
             finish_ok env operationId (Some (xp_paymentIdentifier p))
               ((success (sn_state s))\<lparr>rs_payment := map_option Pay_ref (sn_x402OrderPayment s)\<rparr>))
       | None \<Rightarrow>
           (let payment = prepared_payment env orderId rec in
            mbind (alloc_payment payment) (\<lambda>i.
            mbind (upd_s r (\<lambda>s. s\<lparr>sn_x402OrderPayment := Some i\<rparr>)) (\<lambda>_.
            mbind (log_event env ((event orderId ''x402_order.prepared'' A_payment)
                     \<lparr>ai_externalReferences := [(''paymentIdentifier'', xp_paymentIdentifier payment),
                        (''requestDigest'', xp_requestDigest payment), (''envelopeDigest'', er_digest rec)],
                      ai_inputDigest := Some (er_digest rec), ai_decision := Some PAllow,
                      ai_reasonCodes := [''rail_selected'', ''mock_order_initiated'']\<rparr>)) (\<lambda>_.
              finish_ok env operationId (Some (xp_paymentIdentifier payment))
                ((success (sn_state s))\<lparr>rs_payment := Some (Pay_ref i)\<rparr>)))))))"

definition verification_ok :: "session \<Rightarrow> bool" where
  "verification_ok s = (case sn_verification s of None \<Rightarrow> False | Some v \<Rightarrow> vr_verified v)"

definition prepareX402OrderPayment :: "services_env \<Rightarrow> string \<Rightarrow> string option \<Rightarrow> outcome act" where
  "prepareX402OrderPayment env orderId operationId =
     mbind (begin_op env operationId X402_order_prepare (X402OrderPrepareRequest orderId) orderId) (\<lambda>idem.
     unless_done (x402_prologue operationId orderId idem)
       (with_session env operationId orderId (\<lambda>r.
        with_envelope env operationId orderId r ''No envelope'' (\<lambda>rec.
        mbind (get_s r) (\<lambda>s.
        mbind (read_core (payment_of s)) (\<lambda>pay.
          if \<not> isMock env
          then x402_reject env operationId (rejected orderId) (sn_state s)
                 ''Agent Pay order payment is a mock simulation; unavailable outside mock mode'' [''mock_only_rail'']
          else if verification_ok s \<or> is_verified pay \<or> paid_state (sn_state s)
          then x402_reject env operationId (rejected orderId) (sn_state s)
                 ''This order already settled on one rail; Agent Pay preparation is rejected.'' [''rail_single_success'']
          else if truthy (sn_externalOrderId s)
          then x402_reject env operationId (rejected orderId) (sn_state s)
                 ''A Razorpay payment was already initiated for this order; Agent Pay is rejected.'' [''rail_already_initiated'']
          else if \<not> quote_active s rec
          then x402_reject env operationId (rejected orderId) (sn_state s)
                 ''Payment blocked: this quote is no longer active for the current intent'' [''quote_invalidated'']
          else mbind (payment_policy env s rec X402_solana) (\<lambda>verdict.
            if \<not> pv_allow verdict
            then x402_reject env operationId
                   ((rejected orderId)\<lparr>ai_inputDigest := Some (er_digest rec), ai_decision := Some (pv_decision verdict)\<rparr>)
                   (sn_state s) (''Policy blocked Agent Pay: '' @ join '', '' (pv_reasonCodes verdict)) (pv_reasonCodes verdict)
            else prepare_allowed env orderId operationId r rec)))))))"

text \<open>The commit of a confirmation: the payment object and the session are written before the state moves.\<close>

definition confirm_commit ::
  "services_env \<Rightarrow> string \<Rightarrow> string \<Rightarrow> string option \<Rightarrow> nat \<Rightarrow> nat \<Rightarrow> envelope_record \<Rightarrow> outcome act" where
  "confirm_commit env orderId paymentIdentifier operationId r i rec =
     mbind (upd_core (\<lambda>c. c\<lparr>co_payments := (co_payments c)(i := (co_payments c i)
              \<lparr>xp_status := X_verified,
               xp_mockTxHash := Some (''x402sim_'' @ slice_to 12 (xp_requestDigest (co_payments c i)))\<rparr>)\<rparr>)) (\<lambda>_.
     mbind (upd_s r (\<lambda>s. s\<lparr>sn_verification := Some
              \<lparr>vr_verified = True, vr_rail = X402_solana, vr_externalOrderId = paymentIdentifier,
               vr_externalPaymentId = paymentIdentifier, vr_amountMinor = env_totalMinor (er_envelope rec),
               vr_currency = currency_str (env_currency (er_envelope rec)), vr_status = ''captured'', vr_reason = None\<rparr>,
              sn_externalPaymentId := Some paymentIdentifier\<rparr>)) (\<lambda>_.
     mbind (set_state r PAYMENT_PENDING) (\<lambda>_.
     mbind (set_state r PAID_VERIFIED) (\<lambda>_.
     mbind (read_core (\<lambda>c. co_payments c i)) (\<lambda>p.
     mbind (log_event env ((event orderId ''x402_order.verified'' A_payment)
              \<lparr>ai_externalReferences := [(''paymentIdentifier'', paymentIdentifier),
                 (''mockTxHash'', opt_str (xp_mockTxHash p)), (''envelopeDigest'', er_digest rec)],
               ai_decision := Some PAllow,
               ai_reasonCodes := [''mock_settlement_verified'', ''rail_binding_verified'', ''rail_single_success'']\<rparr>)) (\<lambda>_.
     mbind (get_s r) (\<lambda>s.
       finish_ok env operationId (Some paymentIdentifier)
         ((success (sn_state s))\<lparr>rs_payment := Some (Pay_copy p)\<rparr>))))))))"

definition confirmX402OrderPayment :: "services_env \<Rightarrow> string \<Rightarrow> string \<Rightarrow> string option \<Rightarrow> outcome act" where
  "confirmX402OrderPayment env orderId paymentIdentifier operationId =
     mbind (begin_op env operationId X402_order_confirm (X402OrderConfirmRequest orderId paymentIdentifier) orderId) (\<lambda>idem.
     unless_done (x402_prologue operationId orderId idem)
       (with_session env operationId orderId (\<lambda>r.
        mbind (get_envelope orderId) (\<lambda>found.
        mbind (get_s r) (\<lambda>s.
        mbind (read_core (payment_of s)) (\<lambda>pay.
          case (found, sn_x402OrderPayment s, pay) of
            (Some rec, Some i, Some pending) \<Rightarrow>
              if xp_paymentIdentifier pending \<noteq> paymentIdentifier
              then x402_reject env operationId (rejected orderId) (sn_state s)
                     ''Unknown Agent Pay payment identifier for this order'' [''identifier_unknown'']
              else if xp_status pending = X_verified
              then mbind (log_event env ((event orderId ''x402_order.duplicate'' A_payment)
                     \<lparr>ai_externalReferences := [(''paymentIdentifier'', paymentIdentifier)], ai_decision := Some PReview,
                      ai_reasonCodes := [''duplicate_confirm_reused'']\<rparr>)) (\<lambda>_.
                   finish_ok env operationId (Some paymentIdentifier) (success (sn_state s)))
              else if er_digest rec \<noteq> xp_envelopeDigest pending \<or> sn_approvedDigest s \<noteq> Some (er_digest rec) \<or>
                      \<not> truthy (sn_approvalEventId s) \<or> \<not> quote_active s rec
              then x402_reject env operationId ((rejected orderId)\<lparr>ai_inputDigest := Some (xp_envelopeDigest pending)\<rparr>)
                     (sn_state s) ''Envelope changed since Agent Pay preparation; approve the exact envelope again'' [''quote_invalidated'']
              else if verification_ok s \<or> truthy (sn_externalOrderId s) \<or> paid_state (sn_state s)
              then x402_reject env operationId (rejected orderId) (sn_state s)
                     ''This order already settled or started on one rail; Agent Pay confirmation is rejected.'' [''rail_single_success'']
              else confirm_commit env orderId paymentIdentifier operationId r i rec
          | _ \<Rightarrow> x402_reject env operationId (rejected orderId) (sn_state s)
                   ''Unknown Agent Pay payment identifier for this order'' [''identifier_unknown'']))))))"

subsection \<open>Fulfilment and compensation\<close>

definition fulfil :: "services_env \<Rightarrow> string \<Rightarrow> bool \<Rightarrow> string option \<Rightarrow> outcome act" where
  "fulfil env orderId fail operationId =
     mbind (begin_op env operationId Fulfilment_complete (FulfilmentCompleteRequest orderId fail) orderId) (\<lambda>idem.
     unless_done (fulfil_prologue operationId orderId idem)
       (with_session env operationId orderId (\<lambda>r.
        mbind (get_s r) (\<lambda>s.
          if sn_state s \<noteq> PAID_VERIFIED
          then finish_fail env operationId (failure (sn_state s)
                 (''Fulfilment requires PAID_VERIFIED, current state '' @ order_state_str (sn_state s)))
          else mbind (set_state r FULFILMENT_PENDING) (\<lambda>_.
            if fail
            then mbind (set_state r FULFILMENT_FAILED) (\<lambda>_.
                 mbind (log_event env ((event orderId ''fulfilment.failed'' A_merchant)
                          \<lparr>ai_decision := Some PReview, ai_reasonCodes := [''inventory_unavailable'']\<rparr>)) (\<lambda>_.
                 mbind (get_s r) (\<lambda>s. finish_fail env operationId
                   (failure (sn_state s) ''Simulated fulfilment failure: inventory unavailable''))))
            else mbind (set_state r FULFILLED) (\<lambda>_.
                 mbind (log_event env ((event orderId ''fulfilment.completed'' A_merchant)\<lparr>ai_decision := Some PAllow\<rparr>)) (\<lambda>_.
                 mbind (get_s r) (\<lambda>s. finish_ok env operationId (Some orderId) (success (sn_state s))))))))))"

definition compensate_mock ::
  "services_env \<Rightarrow> string \<Rightarrow> string option \<Rightarrow> nat \<Rightarrow> string \<Rightarrow> outcome act" where
  "compensate_mock env orderId operationId r paymentId =
     (let compensationId = ''cmp_MOCK_'' @ paymentId in
      mbind (upd_s r (\<lambda>s. s\<lparr>sn_compensation := Some \<lparr>cn_refundId = Some compensationId,
               cn_reason = Some ''mock compensating transfer'', cn_ok = True\<rparr>\<rparr>)) (\<lambda>_.
      mbind (set_state r REFUNDED) (\<lambda>_.
      mbind (log_event env ((event orderId ''compensation.mock_resolved'' A_payment)
               \<lparr>ai_externalReferences := [(''compensationId'', compensationId), (''paymentIdentifier'', paymentId)],
                ai_decision := Some PAllow, ai_reasonCodes := [''mock_compensation_resolved'']\<rparr>)) (\<lambda>_.
      mbind (get_s r) (\<lambda>s.
        finish_ok env operationId (Some compensationId) ((success (sn_state s))\<lparr>rs_refundId := Some compensationId\<rparr>))))))"

definition compensate :: "services_env \<Rightarrow> string \<Rightarrow> string option \<Rightarrow> outcome act" where
  "compensate env orderId operationId =
     mbind (begin_op env operationId Compensation_refund (CompensationRefundRequest orderId) orderId) (\<lambda>idem.
     unless_done (fulfil_prologue operationId orderId idem)
       (with_session env operationId orderId (\<lambda>r.
        mbind (get_s r) (\<lambda>s.
          if sn_state s \<noteq> FULFILMENT_FAILED \<and> sn_state s \<noteq> COMPENSATION_PENDING
          then finish_fail env operationId (failure (sn_state s)
                 (''Compensation requires FULFILMENT_FAILED, current state '' @ order_state_str (sn_state s)))
          else with_envelope env operationId orderId r ''No envelope'' (\<lambda>rec.
            if \<not> truthy (sn_externalPaymentId s)
            then finish_fail env operationId (failure (sn_state s) ''No external payment id'')
            else mbind (set_state r COMPENSATION_PENDING) (\<lambda>_.
              if (case sn_verification s of None \<Rightarrow> False | Some v \<Rightarrow> vr_rail v = X402_solana)
              then compensate_mock env orderId operationId r (opt_str (sn_externalPaymentId s))
              else case registry_get Razorpay_checkout (sv_adapters env) of
                     None \<Rightarrow> mthrow ''TypeError''
                   | Some adapter \<Rightarrow>
                       mret (Await (P_compensate orderId operationId r adapter rec (opt_str (sn_externalPaymentId s))))))))))"

definition compensate_resume ::
  "services_env \<Rightarrow> rzp_api \<Rightarrow> string \<Rightarrow> string option \<Rightarrow> nat \<Rightarrow> adapter \<Rightarrow> envelope_record \<Rightarrow> string \<Rightarrow> outcome act" where
  "compensate_resume env api orderId operationId r adapter rec paymentId =
     mtry
       (mbind (lift_throws (adapter_compensate adapter api
                 \<lparr>ci_logicalOrderId = orderId, ci_envelopeHash = er_digest rec, ci_rail = Razorpay_checkout,
                  ci_externalPaymentId = paymentId, ci_amountMinor = env_totalMinor (er_envelope rec),
                  ci_reason = ''Fulfilment failure '' @ [CHR 0xE2, CHR 0x80, CHR 0x94] @ '' full refund''\<rparr>)) (\<lambda>result.
        mbind (upd_s r (\<lambda>s. s\<lparr>sn_compensation := Some \<lparr>cn_refundId = cr_refundId result,
                 cn_reason = Some ''full refund'', cn_ok = cr_compensated result\<rparr>\<rparr>)) (\<lambda>_.
        mbind (set_state r REFUNDED) (\<lambda>_.
        mbind (log_event env ((event orderId ''compensation.refunded'' A_payment)
                 \<lparr>ai_externalReferences := [(''refundId'', or_else (cr_refundId result) [])], ai_decision := Some PAllow,
                  ai_reasonCodes := [''paid_fulfilment_failure_refunded'']\<rparr>)) (\<lambda>_.
        mbind (get_s r) (\<lambda>s.
          finish_ok env operationId (cr_refundId result) ((success (sn_state s))\<lparr>rs_refundId := cr_refundId result\<rparr>)))))))
       (\<lambda>e.
        mbind (set_state r MANUAL_REVIEW) (\<lambda>_.
        mbind (log_event env ((event orderId ''compensation.manual_review'' A_merchant)\<lparr>ai_decision := Some PReview\<rparr>)) (\<lambda>_.
        mbind (get_s r) (\<lambda>s. finish_fail env operationId (failure (sn_state s) e)))))"
subsection \<open>Tampering demo and policy check\<close>

datatype tamper_field = Field_price | Field_variant

text \<open>\<open>(minor / 100).toFixed(2)\<close>.\<close>

definition toFixed2 :: "int \<Rightarrow> string" where
  "toFixed2 minor = (if minor < 0 then ''-'' else []) @ int_str (\<bar>minor\<bar> div 100) @ ''.'' @ pad 2 (int_str (\<bar>minor\<bar> mod 100))"

definition tampered :: "tamper_field \<Rightarrow> string \<Rightarrow> commerce_envelope \<Rightarrow> commerce_envelope option" where
  "tampered field nonce e =
     (case env_items e of
        [] \<Rightarrow> None
      | item # rest \<Rightarrow> Some
          (case field of
             Field_price \<Rightarrow>
               (let price = item_unitAmountMinor item - 5000 in
                e\<lparr>env_items := item\<lparr>item_unitAmountMinor := price\<rparr> # rest, env_subtotalMinor := price,
                  env_totalMinor := price + env_shippingMinor e, env_nonce := nonce\<rparr>)
           | Field_variant \<Rightarrow>
               e\<lparr>env_items := item\<lparr>item_variant := map_set ''size'' ''UK 10'' (item_variant item)\<rparr> # rest, env_nonce := nonce\<rparr>))"

definition tamper_changes :: "tamper_field \<Rightarrow> commerce_envelope \<Rightarrow> string list" where
  "tamper_changes field candidate =
     (case field of
        Field_price \<Rightarrow> [''price changed by tool retry to '' @ [CHR 0xE2, CHR 0x82, CHR 0xB9] @ toFixed2 (env_totalMinor candidate)]
      | Field_variant \<Rightarrow> [''variant changed by tool retry to UK 10''])"

definition tamper :: "services_env \<Rightarrow> string \<Rightarrow> tamper_field \<Rightarrow> (order_result \<times> string list) act" where
  "tamper env orderId field =
     mbind (get_session_ref orderId) (\<lambda>found.
       case found of
         None \<Rightarrow> mret (failure DRAFT ''Unknown session'', [])
       | Some r \<Rightarrow>
     mbind (get_envelope orderId) (\<lambda>envelope.
       case envelope of
         None \<Rightarrow> mbind (get_s r) (\<lambda>s. mret (failure (sn_state s) ''No envelope'', []))
       | Some rec \<Rightarrow>
     mbind (new_id env ''nonce'') (\<lambda>nonce.
       case tampered field nonce (er_envelope rec) of
         None \<Rightarrow> mthrow ''TypeError''
       | Some candidate \<Rightarrow>
     (let changes = tamper_changes field candidate in
      if \<not> requiresReapproval (er_envelope rec) candidate
      then mbind (get_s r) (\<lambda>s. mret (failure (sn_state s) ''No material change detected'', changes))
      else
        mbind (now_iso env) (\<lambda>now.
        let fresh = seal_envelope env candidate now (er_recommendation rec) (er_intentDigest rec) in
        mbind (set_envelope orderId fresh) (\<lambda>_.
        mbind (upd_s r (\<lambda>s. s\<lparr>sn_approvedDigest := None, sn_approvalEventId := None\<rparr>)) (\<lambda>_.
        mbind (set_state r REAPPROVAL_REQUIRED) (\<lambda>_.
        mbind (log_event env ((event orderId ''policy.reapproval_required'' A_policy)
                 \<lparr>ai_inputDigest := Some (er_digest rec), ai_outputDigest := Some (er_digest fresh),
                  ai_decision := Some PBlock, ai_reasonCodes := [''material_change_reapproval'']\<rparr>)) (\<lambda>_.
        mbind (get_s r) (\<lambda>s. mret (success (sn_state s), changes)))))))))))"

definition policyCheck ::
  "services_env \<Rightarrow> string \<Rightarrow> payment_rail \<Rightarrow> commerce_envelope option \<Rightarrow> (bool \<times> string list) act" where
  "policyCheck env orderId rail candidate =
     mbind (get_session_ref orderId) (\<lambda>found.
     mbind (get_envelope orderId) (\<lambda>envelope.
       case (found, envelope) of
         (Some r, Some rec) \<Rightarrow>
           mbind (get_s r) (\<lambda>s.
           mbind (read_core (\<lambda>c. map_get (sn_customerId s) (co_mandates c))) (\<lambda>mandate.
           mbind (now_iso env) (\<lambda>now.
             let verdict = checkEnvelopeForPayment (sv_sha256 env)
                   (policy_input s rec (or_else candidate (er_envelope rec)) mandate rail now)
             in mret (pv_allow verdict, pv_reasonCodes verdict))))
       | _ \<Rightarrow> mret (False, [''no_envelope''])))"

subsection \<open>What webhooks call\<close>

definition isWebhookProcessed :: "string \<Rightarrow> bool act" where
  "isWebhookProcessed eventId = read_core (\<lambda>c. map_has eventId (co_webhookDedup c))"

definition markWebhookProcessed :: "services_env \<Rightarrow> string \<Rightarrow> unit act" where
  "markWebhookProcessed env eventId = mark_webhook env eventId"

definition holdWebhook :: "string \<Rightarrow> held_webhook \<Rightarrow> unit act" where
  "holdWebhook orderId held =
     mbind (get_session_ref orderId) (\<lambda>found.
       case found of None \<Rightarrow> mret () | Some r \<Rightarrow> upd_s r (\<lambda>s. s\<lparr>sn_heldWebhook := Some held\<rparr>))"

definition findSessionByExternalOrderId :: "string \<Rightarrow> nat option act" where
  "findSessionByExternalOrderId ext =
     read_core (\<lambda>c. js_find (\<lambda>r. sn_externalOrderId (co_heap c r) = Some ext) (map snd (co_sessions c)))"

record webhook_claims =
  wc_amountMinor :: "int option"
  wc_currency :: "string option"
  wc_status :: "string option"

definition claim_failures :: "session \<Rightarrow> envelope_record \<Rightarrow> string \<Rightarrow> webhook_claims \<Rightarrow> string list" where
  "claim_failures s rec ext claims =
     when_code (Some ext \<noteq> sn_externalOrderId s) (''webhook order_id '' @ ext @ '' does not match session order'') @
     (case wc_amountMinor claims of None \<Rightarrow> [] | Some a \<Rightarrow>
        when_code (a \<noteq> env_totalMinor (er_envelope rec))
          (''webhook amount '' @ int_str a @ '' does not match approved envelope '' @ int_str (env_totalMinor (er_envelope rec)))) @
     (case wc_currency claims of None \<Rightarrow> [] | Some a \<Rightarrow>
        when_code (a \<noteq> currency_str (env_currency (er_envelope rec)))
          (''webhook currency '' @ a @ '' does not match approved envelope '' @ currency_str (env_currency (er_envelope rec)))) @
     (case wc_status claims of None \<Rightarrow> [] | Some a \<Rightarrow>
        when_code (a \<noteq> ''captured'') (''webhook status is '' @ a @ '', not captured''))"

definition markVerifiedFromWebhook ::
  "services_env \<Rightarrow> string \<Rightarrow> string \<Rightarrow> string \<Rightarrow> webhook_claims \<Rightarrow> (bool \<times> string list) act" where
  "markVerifiedFromWebhook env orderId paymentId ext claims =
     mbind (get_session_ref orderId) (\<lambda>found.
     mbind (get_envelope orderId) (\<lambda>envelope.
       case (found, envelope) of
         (Some r, Some rec) \<Rightarrow>
           mbind (get_s r) (\<lambda>s.
             let failures = claim_failures s rec ext claims; eventId = ''webhook_mark_'' @ paymentId in
             if length failures > 0
             then mbind (log_event env ((event orderId ''webhook.binding_rejected'' A_policy)
                    \<lparr>ai_externalReferences := [(''paymentId'', paymentId), (''orderId'', ext)], ai_decision := Some PBlock,
                     ai_reasonCodes := [''webhook_binding_failed'']\<rparr>)) (\<lambda>_. mret (False, failures))
             else mbind (isWebhookProcessed eventId) (\<lambda>seen.
               if seen then mret (True, [])
               else
                 mbind (mark_webhook env eventId) (\<lambda>_.
                 mbind (upd_s r (\<lambda>s. s\<lparr>sn_externalPaymentId := Some paymentId, sn_verification := Some
                          \<lparr>vr_verified = True, vr_rail = Razorpay_checkout, vr_externalOrderId = ext,
                           vr_externalPaymentId = paymentId, vr_amountMinor = env_totalMinor (er_envelope rec),
                           vr_currency = currency_str (env_currency (er_envelope rec)), vr_status = ''captured'',
                           vr_reason = None\<rparr>\<rparr>)) (\<lambda>_.
                 mbind (set_state r PAID_VERIFIED) (\<lambda>_.
                 mbind (log_event env ((event orderId ''payment.verified_via_webhook'' A_payment)
                          \<lparr>ai_externalReferences := [(''paymentId'', paymentId), (''orderId'', ext)], ai_decision := Some PAllow,
                           ai_reasonCodes := [''webhook_verified'', ''rail_binding_verified'', ''rail_single_success'']\<rparr>)) (\<lambda>_.
                   mret (True, [])))))))
       | _ \<Rightarrow> mret (False, [''no session or envelope''])))"

definition reset :: "services_env \<Rightarrow> unit act" where
  "reset env =
     mbind (upd_core (\<lambda>c. c\<lparr>co_sessions := [], co_envelopes := [], co_mandates := [], co_webhookDedup := []\<rparr>)) (\<lambda>_.
     mbind (\<lambda>st. (Inr (), st\<lparr>ap_ops := mem_clear (ap_ops st), ap_machine := demo_reset (ap_machine st)\<rparr>)) (\<lambda>_.
       log_event env (event ''system'' ''system.reset'' A_system)))"

subsection \<open>Intent patches\<close>

text \<open>
  A patch is the parsed JSON object of the request (so its numbers are finite), with its properties in
  order. Names inherited from \<open>Object.prototype\<close> count as known keys of \<open>allowedFields\<close>, but never have a
  matching type.
\<close>

type_synonym patch = "(string \<times> json) list"

definition allowedFields :: "(string \<times> string) list" where
  "allowedFields = [(''maxAmountMinor'', ''number''), (''size'', ''string''), (''colour'', ''string''), (''useCase'', ''string''),
     (''fit'', ''string''), (''cushioning'', ''string''), (''distanceKm'', ''number''), (''mustBeReturnable'', ''boolean'')]"

definition prototype_names :: "string list" where
  "prototype_names = [''constructor'', ''hasOwnProperty'', ''isPrototypeOf'', ''propertyIsEnumerable'', ''toLocaleString'',
     ''toString'', ''valueOf'', ''__defineGetter__'', ''__defineSetter__'', ''__lookupGetter__'', ''__lookupSetter__'', ''__proto__'']"

fun js_typeof :: "json \<Rightarrow> string" where
  "js_typeof JNull = ''object''"
| "js_typeof JUndefined = ''undefined''"
| "js_typeof (JBool _) = ''boolean''"
| "js_typeof (JNum _) = ''number''"
| "js_typeof (JNonFinite _) = ''number''"
| "js_typeof (JStr _) = ''string''"
| "js_typeof (JArr _) = ''object''"
| "js_typeof (JObj _) = ''object''"

definition patch_str :: "string \<Rightarrow> patch \<Rightarrow> string option" where
  "patch_str k p = (case map_get k p of Some (JStr s) \<Rightarrow> Some s | _ \<Rightarrow> None)"

definition patch_num :: "string \<Rightarrow> patch \<Rightarrow> int option" where
  "patch_num k p = (case map_get k p of Some (JNum n) \<Rightarrow> Some n | _ \<Rightarrow> None)"

definition patch_bool :: "string \<Rightarrow> patch \<Rightarrow> bool option" where
  "patch_bool k p = (case map_get k p of Some (JBool b) \<Rightarrow> Some b | _ \<Rightarrow> None)"

fun patch_fields_error :: "patch \<Rightarrow> (string \<times> string) option" where
  "patch_fields_error [] = None"
| "patch_fields_error ((key, v) # rest) =
     (case map_get key allowedFields of
        None \<Rightarrow> if key \<in> set prototype_names
                then Some (''Invalid type for '' @ key @ '': expected [native]'', ''invalid_type'')
                else Some (''Unknown intent field: '' @ key, ''invalid_field'')
      | Some expected \<Rightarrow>
          if js_typeof v \<noteq> expected then Some (''Invalid type for '' @ key @ '': expected '' @ expected, ''invalid_type'')
          else patch_fields_error rest)"

definition patch_error :: "patch \<Rightarrow> (string \<times> string) option" where
  "patch_error p =
     (case patch_fields_error p of
        Some e \<Rightarrow> Some e
      | None \<Rightarrow>
          if (case patch_num ''maxAmountMinor'' p of None \<Rightarrow> False | Some n \<Rightarrow> n < 1000 \<or> n > 1000000)
          then Some (''Budget must be between '' @ [CHR 0xE2, CHR 0x82, CHR 0xB9] @ ''100 and '' @
                     [CHR 0xE2, CHR 0x82, CHR 0xB9] @ ''1,00,000'', ''out_of_range'')
          else if (case patch_str ''size'' p of None \<Rightarrow> False | Some x \<Rightarrow> x \<noteq> [] \<and> x \<notin> set SIZES)
          then Some (''Invalid size: '' @ opt_str (patch_str ''size'' p), ''invalid_size'')
          else if (case patch_str ''colour'' p of None \<Rightarrow> False
                   | Some x \<Rightarrow> x \<notin> set [''black'', ''white'', ''grey'', ''navy'', ''blue'', ''red''])
          then Some (''Invalid colour: '' @ opt_str (patch_str ''colour'' p), ''invalid_colour'')
          else if (case patch_str ''useCase'' p of None \<Rightarrow> False | Some x \<Rightarrow> x \<notin> set [''road'', ''trail'', ''gym'', ''casual''])
          then Some (''Invalid use case: '' @ opt_str (patch_str ''useCase'' p), ''invalid_use_case'')
          else None)"

definition patched_str :: "string \<Rightarrow> patch \<Rightarrow> string option \<Rightarrow> string option" where
  "patched_str k p old = (case patch_str k p of None \<Rightarrow> old | Some v \<Rightarrow> if v = [] then None else Some v)"

definition apply_patch :: "patch \<Rightarrow> parsed_intent \<Rightarrow> parsed_intent" where
  "apply_patch p i = i
     \<lparr>in_maxAmountMinor := (case patch_num ''maxAmountMinor'' p of None \<Rightarrow> in_maxAmountMinor i | Some n \<Rightarrow> Some n),
      in_size := patched_str ''size'' p (in_size i), in_colour := patched_str ''colour'' p (in_colour i),
      in_useCase := patched_str ''useCase'' p (in_useCase i), in_fit := patched_str ''fit'' p (in_fit i),
      in_cushioning := patched_str ''cushioning'' p (in_cushioning i),
      in_distanceKm := (case patch_num ''distanceKm'' p of None \<Rightarrow> in_distanceKm i | Some n \<Rightarrow> if n = 0 then None else Some n),
      in_mustBeReturnable := (case patch_bool ''mustBeReturnable'' p of None \<Rightarrow> in_mustBeReturnable i
                              | Some b \<Rightarrow> if b then Some True else None)\<rparr>"

record patch_result =
  pr_base :: order_result
  pr_parsedIntent :: "parsed_intent option"
  pr_intentVersion :: "int option"
  pr_matches :: "product_match list option"
  pr_binding :: "recommendation_binding option"
  pr_fitScores :: "fit_score list option"

definition patch_refused :: "order_result \<Rightarrow> patch_result" where
  "patch_refused r = \<lparr>pr_base = r, pr_parsedIntent = None, pr_intentVersion = None, pr_matches = None,
     pr_binding = None, pr_fitScores = None\<rparr>"

text \<open>What a material change of the intent discards, in \<open>intentPatch\<close> and in \<open>respond\<close> alike.\<close>

definition discard_quote :: "services_env \<Rightarrow> string \<Rightarrow> nat \<Rightarrow> envelope_record option \<Rightarrow> string list \<Rightarrow> unit act" where
  "discard_quote env orderId r previousEnvelope codes =
     mbind (upd_s r (\<lambda>s. s\<lparr>sn_lastRanking := None, sn_approvalEventId := None, sn_approvedDigest := None,
              sn_dialogue := invalidateQuote (invalidateRecommendations
                ((sn_dialogue s)\<lparr>dm_intentVersion := dm_intentVersion (sn_dialogue s) + 1\<rparr>))\<rparr>)) (\<lambda>_.
       case previousEnvelope of
         None \<Rightarrow> mret ()
       | Some old \<Rightarrow>
           mbind (del_envelope orderId) (\<lambda>_.
           mbind (get_s r) (\<lambda>s.
             log_event env ((event orderId ''quote.invalidated'' A_system)
               \<lparr>ai_inputDigest := Some (er_digest old), ai_outputDigest := Some (intentDigest (sn_intent s)),
                ai_decision := Some PBlock, ai_reasonCodes := codes\<rparr>))))"

definition patch_rerank_state :: "nat \<Rightarrow> bool \<Rightarrow> unit act" where
  "patch_rerank_state r materialChange =
     mbind (get_s r) (\<lambda>s.
       if sn_state s = AWAITING_APPROVAL \<and> materialChange then set_state r QUOTED
       else if sn_state s = APPROVED \<and> materialChange then set_state r REAPPROVAL_REQUIRED
       else if sn_state s \<notin> {AWAITING_APPROVAL, REAPPROVAL_REQUIRED, DRAFT, CLARIFYING, APPROVED} then set_state r QUOTED
       else mret ())"

definition patch_keys :: "patch \<Rightarrow> string" where
  "patch_keys p = join '','' (map fst p)"

definition intentPatch :: "services_env \<Rightarrow> string \<Rightarrow> patch \<Rightarrow> int \<Rightarrow> patch_result act" where
  "intentPatch env orderId patch expectedIntentVersion =
     mbind (get_session_ref orderId) (\<lambda>found.
       case found of
         None \<Rightarrow> mret (patch_refused (failure DRAFT ''Unknown session''))
       | Some r \<Rightarrow>
     mbind (get_s r) (\<lambda>s.
       if dm_intentVersion (sn_dialogue s) \<noteq> expectedIntentVersion
       then mret (patch_refused (coded (sn_state s) ''Intent version mismatch. Please refresh.'' [''version_mismatch'']))
       else case patch_error patch of
         Some (err, code) \<Rightarrow> mret (patch_refused (coded (sn_state s) err [code]))
       | None \<Rightarrow>
     mbind (get_envelope orderId) (\<lambda>previousEnvelope.
     mbind (upd_s r (\<lambda>s. s\<lparr>sn_intent := apply_patch patch (sn_intent s)\<rparr>)) (\<lambda>_.
     (let materialChange = hasIntentChanged (sn_intent s) (apply_patch patch (sn_intent s)) in
     mbind (if materialChange then discard_quote env orderId r previousEnvelope [''intent_patch'', ''material_change_refinement'']
            else mret ()) (\<lambda>_.
     mbind (patch_rerank_state r materialChange) (\<lambda>_.
     mbind (get_s r) (\<lambda>s.
     mbind (now_ms env) (\<lambda>now.
     (let ranking = rankProducts (buildPurchaseIntent s) SHOE_CATALOG now in
     mbind (recordRecommendation env r ranking) (\<lambda>_.
     mbind (upd_dialogue r (syncMemory (sn_intent s) (match_ids ranking) (map mi_name (rr_missing ranking)) ''intent_patch''
              (patch_keys patch))) (\<lambda>_.
     mbind (if \<not> rr_ranked ranking then upd_s r (\<lambda>s. s\<lparr>sn_state := CLARIFYING\<rparr>)
            else if sn_state s = CLARIFYING then set_state r QUOTED else mret ()) (\<lambda>_.
     mbind (log_event env ((event orderId ''intent.patched'' A_customer)
              \<lparr>ai_inputDigest := Some (intentDigest (sn_intent s)), ai_decision := Some PAllow,
               ai_reasonCodes := [''intent_patch_applied'']\<rparr>)) (\<lambda>_.
     mbind (get_s r) (\<lambda>s.
     mbind (lift_throws (recommendationBinding s)) (\<lambda>freshBinding.
       mret \<lparr>pr_base = success (sn_state s), pr_parsedIntent = Some (sn_intent s),
             pr_intentVersion = Some (dm_intentVersion (sn_dialogue s)),
             pr_matches = Some (if rr_ranked ranking then rr_matches ranking else []),
             pr_binding = Some freshBinding,
             pr_fitScores = map_option msp_fitScores (sn_machineSpend s)\<rparr>))))))))))))))))"

end
