(* ===== verification/Webhook.thy ===== *)
theory Webhook
  imports Orders
begin

text \<open>
  Razorpay webhooks, \<open>apps/web/lib/webhook.ts\<close>: signature check on the raw body, deduplication, binding to
  a session by the external order, and the effect by session state. \<open>JSON.parse\<close> is a parameter.
\<close>

subsection \<open>Payload\<close>

text \<open>Reading a property: of \<open>null\<close> or \<open>undefined\<close> it throws, of a non-object it is undefined.\<close>

definition js_prop :: "string \<Rightarrow> json \<Rightarrow> json throws" where
  "js_prop k j =
     (case j of
        JNull \<Rightarrow> Inl ''TypeError''
      | JUndefined \<Rightarrow> Inl ''TypeError''
      | JObj kvs \<Rightarrow> Inr (case map_get k kvs of None \<Rightarrow> JUndefined | Some v \<Rightarrow> v)
      | _ \<Rightarrow> Inr JUndefined)"

text \<open>\<open>x?.k\<close>.\<close>

definition js_optional :: "string \<Rightarrow> json \<Rightarrow> json" where
  "js_optional k j = (case js_prop k j of Inl _ \<Rightarrow> JUndefined | Inr v \<Rightarrow> v)"

definition as_str :: "json \<Rightarrow> string option" where
  "as_str j = (case j of JStr s \<Rightarrow> Some s | _ \<Rightarrow> None)"

definition as_num :: "json \<Rightarrow> int option" where
  "as_num j = (case j of JNum n \<Rightarrow> Some n | _ \<Rightarrow> None)"

record webhook_outcome =
  wo_ok :: bool
  wo_deduplicated :: bool
  wo_processed :: bool
  wo_held :: bool
  wo_ignored :: bool
  wo_reasonCode :: string
  wo_error :: "string option"
  wo_event :: "string option"
  wo_eventId :: "string option"
  wo_paymentId :: "string option"
  wo_orderId :: "string option"

definition wo_base :: "string \<Rightarrow> webhook_outcome" where
  "wo_base code = \<lparr>wo_ok = True, wo_deduplicated = False, wo_processed = False, wo_held = False, wo_ignored = False,
     wo_reasonCode = code, wo_error = None, wo_event = None, wo_eventId = None, wo_paymentId = None, wo_orderId = None\<rparr>"

definition wo_fail :: "string \<Rightarrow> string \<Rightarrow> webhook_outcome" where
  "wo_fail code err = (wo_base code)\<lparr>wo_ok := False, wo_error := Some err\<rparr>"

definition SUPPORTED_EVENTS :: "string list" where
  "SUPPORTED_EVENTS = [''payment.captured'', ''payment.authorized'']"

subsection \<open>Processing\<close>

record webhook_event =
  we_event :: "string option"
  we_eventId :: string
  we_paymentId :: string
  we_orderId :: string
  we_amount :: "int option"
  we_currency :: "string option"
  we_status :: "string option"
  we_notesOrderId :: "string option"

definition wo_meta :: "webhook_event \<Rightarrow> webhook_outcome \<Rightarrow> webhook_outcome" where
  "wo_meta ev w = w\<lparr>wo_event := we_event ev, wo_eventId := Some (we_eventId ev), wo_paymentId := Some (we_paymentId ev),
     wo_orderId := Some (we_orderId ev)\<rparr>"

definition webhook_failures :: "envelope_record option \<Rightarrow> webhook_event \<Rightarrow> string list" where
  "webhook_failures record ev =
     (case record of
        None \<Rightarrow> [''no envelope record for this order'']
      | Some rec \<Rightarrow>
          (case we_amount ev of None \<Rightarrow> [] | Some a \<Rightarrow> when_code (a \<noteq> env_totalMinor (er_envelope rec))
             (''amount '' @ int_str a @ '' does not match approved envelope '' @ int_str (env_totalMinor (er_envelope rec)))) @
          (case we_currency ev of None \<Rightarrow> [] | Some a \<Rightarrow> when_code (a \<noteq> currency_str (env_currency (er_envelope rec)))
             (''currency '' @ a @ '' does not match approved envelope '' @ currency_str (env_currency (er_envelope rec)))) @
          when_code (we_status ev \<noteq> Some ''captured'')
            (''payment status is '' @ or_else (we_status ev) ''unknown'' @ '', not captured''))"

text \<open>What a bound and matching webhook does, by the state of its session.\<close>

definition apply_webhook :: "services_env \<Rightarrow> nat \<Rightarrow> webhook_event \<Rightarrow> webhook_outcome act" where
  "apply_webhook env r ev =
     mbind (get_s r) (\<lambda>s.
       if sn_state s = PAYMENT_PENDING
       then mbind (markWebhookProcessed env (we_eventId ev)) (\<lambda>_.
            mbind (markVerifiedFromWebhook env (sn_logicalOrderId s) (we_paymentId ev) (we_orderId ev)
                     \<lparr>wc_amountMinor = we_amount ev, wc_currency = we_currency ev, wc_status = we_status ev\<rparr>) (\<lambda>result.
              mret (wo_meta ev ((wo_base (if fst result then ''accepted'' else ''state_unsuitable''))\<lparr>wo_processed := fst result\<rparr>))))
       else if sn_state s = PAYMENT_FAILED
       then mbind (holdWebhook (sn_logicalOrderId s)
                     \<lparr>hw_eventId = we_eventId ev, hw_paymentId = we_paymentId ev, hw_orderId = we_orderId ev\<rparr>) (\<lambda>_.
            mbind (log_event env ((event (sn_logicalOrderId s) ''webhook.held_for_reconciliation'' A_payment)
                     \<lparr>ai_externalReferences := [(''eventId'', we_eventId ev), (''paymentId'', we_paymentId ev)],
                      ai_decision := Some PReview, ai_reasonCodes := [''out_of_order_webhook_held'']\<rparr>)) (\<lambda>_.
              mret (wo_meta ev ((wo_base ''held'')\<lparr>wo_held := True\<rparr>))))
       else if paid_state (sn_state s)
       then mbind (markWebhookProcessed env (we_eventId ev)) (\<lambda>_.
            mbind (log_event env ((event (sn_logicalOrderId s) ''webhook.duplicate_rail_note'' A_payment)
                     \<lparr>ai_externalReferences := [(''eventId'', we_eventId ev), (''paymentId'', we_paymentId ev)],
                      ai_decision := Some PReview, ai_reasonCodes := [''rail_single_success'']\<rparr>)) (\<lambda>_.
              mret (wo_meta ev ((wo_base ''accepted'')\<lparr>wo_processed := True\<rparr>))))
       else mret (wo_meta ev (wo_fail ''state_unsuitable''
              (''Webhook cannot be applied in state '' @ order_state_str (sn_state s)))))"

definition bound_webhook :: "services_env \<Rightarrow> nat \<Rightarrow> webhook_event \<Rightarrow> webhook_outcome act" where
  "bound_webhook env r ev =
     mbind (get_s r) (\<lambda>s.
     mbind (log_event env ((event (sn_logicalOrderId s) ''webhook.received'' A_payment)
              \<lparr>ai_externalReferences := [(''eventId'', we_eventId ev), (''paymentId'', we_paymentId ev), (''orderId'', we_orderId ev)]\<rparr>)) (\<lambda>_.
     mbind (if truthy (we_notesOrderId ev) \<and> we_notesOrderId ev \<noteq> Some (sn_logicalOrderId s)
            then log_event env ((event (sn_logicalOrderId s) ''webhook.notes_mismatch'' A_payment)
                   \<lparr>ai_decision := Some PReview, ai_reasonCodes := [''webhook_notes_untrusted'']\<rparr>)
            else mret ()) (\<lambda>_.
     mbind (get_envelope (sn_logicalOrderId s)) (\<lambda>record.
       let bindingFailures = webhook_failures record ev in
       if length bindingFailures > 0
       then mbind (log_event env ((event (sn_logicalOrderId s) ''webhook.binding_rejected'' A_policy)
                \<lparr>ai_externalReferences := [(''eventId'', we_eventId ev), (''paymentId'', we_paymentId ev)],
                 ai_decision := Some PBlock, ai_reasonCodes := [''webhook_binding_failed'']\<rparr>)) (\<lambda>_.
              mret (wo_meta ev (wo_fail ''binding_failed'' (''Webhook binding rejected: '' @ join ''; '' bindingFailures))))
       else apply_webhook env r ev))))"

text \<open>\<open>parse\<close> is \<open>JSON.parse\<close>, \<open>None\<close> where it throws. Properties are read with the types of the payload.\<close>

definition processRazorpayWebhookRaw ::
  "services_env \<Rightarrow> (string \<Rightarrow> json option) \<Rightarrow> string \<Rightarrow> string option \<Rightarrow> string option \<Rightarrow> string \<Rightarrow> webhook_outcome act" where
  "processRazorpayWebhookRaw env parse rawBody signature eventIdHeader webhookSecret =
     (if \<not> truthy signature
      then mret ((wo_fail ''missing_signature'' ''Missing x-razorpay-signature header'')\<lparr>wo_event := Some ''unknown''\<rparr>)
      else if \<not> verifyRazorpayWebhookSignature (sv_hmac env) webhookSecret rawBody (opt_str signature)
      then mbind (log_event env ((event ''unknown'' ''webhook.signature_invalid'' A_payment)
             \<lparr>ai_decision := Some PBlock, ai_reasonCodes := [''webhook_signature_invalid'']\<rparr>)) (\<lambda>_.
           mret ((wo_fail ''invalid_signature'' ''Invalid webhook signature'')\<lparr>wo_event := Some ''unknown''\<rparr>))
      else case parse rawBody of
        None \<Rightarrow> mret ((wo_fail ''malformed_json'' ''Malformed JSON webhook body'')\<lparr>wo_event := Some ''unknown''\<rparr>)
      | Some body \<Rightarrow>
          mbind (lift_throws (js_prop ''event'' body)) (\<lambda>eventJson.
          let evt = as_str eventJson;
              entity = js_optional ''entity'' (js_optional ''payment'' (js_optional ''payload'' body));
              paymentId = as_str (js_optional ''id'' entity)
          in if \<not> truthy paymentId
             then mret ((wo_fail ''missing_payment_entity'' ''Malformed webhook payload: no payment entity'')\<lparr>wo_event := evt\<rparr>)
             else
               let eventId = or_else eventIdHeader (opt_str evt @ ''_'' @ opt_str paymentId) in
               mbind (isWebhookProcessed eventId) (\<lambda>seen.
                 if seen
                 then mret ((wo_base ''deduplicated'')\<lparr>wo_deduplicated := True, wo_event := evt, wo_eventId := Some eventId,
                              wo_paymentId := paymentId\<rparr>)
                 else if opt_str evt \<notin> set SUPPORTED_EVENTS
                 then mbind (log_event env ((event ''unknown'' ''webhook.ignored'' A_payment)
                        \<lparr>ai_externalReferences := [(''eventId'', eventId), (''paymentId'', opt_str paymentId)],
                         ai_decision := Some PReview, ai_reasonCodes := [''unsupported_event_ignored'']\<rparr>)) (\<lambda>_.
                      mret ((wo_base ''unsupported_event'')\<lparr>wo_ignored := True, wo_event := evt, wo_eventId := Some eventId,
                              wo_paymentId := paymentId\<rparr>))
                 else case as_str (js_optional ''order_id'' entity) of
                   None \<Rightarrow> mret ((wo_fail ''missing_order_id'' ''Webhook has no payment order_id; cannot bind to a session'')
                                   \<lparr>wo_event := evt, wo_eventId := Some eventId, wo_paymentId := paymentId\<rparr>)
                 | Some orderId \<Rightarrow>
                     if orderId = []
                     then mret ((wo_fail ''missing_order_id'' ''Webhook has no payment order_id; cannot bind to a session'')
                                   \<lparr>wo_event := evt, wo_eventId := Some eventId, wo_paymentId := paymentId\<rparr>)
                     else
                       let ev = \<lparr>we_event = evt, we_eventId = eventId, we_paymentId = opt_str paymentId, we_orderId = orderId,
                             we_amount = as_num (js_optional ''amount'' entity), we_currency = as_str (js_optional ''currency'' entity),
                             we_status = as_str (js_optional ''status'' entity),
                             we_notesOrderId = as_str (js_optional ''logicalOrderId'' (js_optional ''notes'' entity))\<rparr> in
                       mbind (findSessionByExternalOrderId orderId) (\<lambda>found.
                         case found of
                           None \<Rightarrow> mret (wo_meta ev (wo_fail ''unknown_order''
                                     (''Webhook for unknown Razorpay order '' @ orderId)))
                         | Some r \<Rightarrow> bound_webhook env r ev))))"

end
