(* ===== verification/SessionToken.thy ===== *)
theory SessionToken
  imports Orders
begin

text \<open>
  Sealed session snapshots, \<open>apps/web/lib/session-token.ts\<close>, and \<open>exportSession\<close> / \<open>importSession\<close> of
  \<open>services.ts\<close>. The byte encoding of a snapshot (JSON, deflate, base64url) and its inverse are
  parameters (decoding gives \<open>None\<close> where it throws or where the value lacks the shape of a snapshot, which
  \<open>openSnapshot\<close> checks field by field), as is HMAC; the theorems on tokens say what they rely on. A snapshot holds the session by
  value, the prepared Agent Pay payment inlined.
\<close>

subsection \<open>Snapshots (session-token.ts)\<close>

record session_snapshot =
  ss_version :: int
  ss_issuedAt :: string
  ss_expiresAt :: string
  ss_session :: session
  ss_payment :: "x402_order_payment option"
  ss_envelope :: "envelope_record option"
  ss_mandate :: "purchase_mandate option"
  ss_audit :: "audit_event list"

definition SESSION_SNAPSHOT_VERSION :: int where "SESSION_SNAPSHOT_VERSION = 1"

definition SESSION_SNAPSHOT_TTL_MS :: int where "SESSION_SNAPSHOT_TTL_MS = 24 * 60 * 60 * 1000"

text \<open>The text before and after the last dot, as \<open>lastIndexOf\<close> and \<open>slice\<close> cut it; \<open>None\<close> without a dot.\<close>

fun split_last_dot :: "string \<Rightarrow> (string \<times> string) option" where
  "split_last_dot [] = None"
| "split_last_dot (c # s) =
     (case split_last_dot s of
        Some (a, b) \<Rightarrow> Some (c # a, b)
      | None \<Rightarrow> if c = CHR ''.'' then Some ([], s) else None)"

definition sealSnapshot ::
  "(session_snapshot \<Rightarrow> string) \<Rightarrow> (string \<Rightarrow> string \<Rightarrow> string) \<Rightarrow> session_snapshot \<Rightarrow> string \<Rightarrow> string" where
  "sealSnapshot encode hmac snapshot secret =
     (let payload = encode snapshot in payload @ ''.'' @ hmac secret payload)"

definition openSnapshot ::
  "(string \<Rightarrow> session_snapshot option) \<Rightarrow> (string \<Rightarrow> string \<Rightarrow> string) \<Rightarrow> string \<Rightarrow> string \<Rightarrow> string \<Rightarrow> session_snapshot option" where
  "openSnapshot decode hmac token secret now =
     (case split_last_dot token of
        None \<Rightarrow> None
      | Some (payload, signature) \<Rightarrow>
          if payload = [] then None
          else let expected = hmac secret payload in
            if length signature \<noteq> length expected then None
            else if \<not> timingSafeEqual signature expected then None
            else case decode payload of
              None \<Rightarrow> None
            | Some snapshot \<Rightarrow>
                if ss_version snapshot \<noteq> SESSION_SNAPSHOT_VERSION then None
                else if ss_expiresAt snapshot < now then None
                else Some snapshot)"

subsection \<open>Export and import (services.ts)\<close>

definition take_snapshot :: "services_env \<Rightarrow> int \<Rightarrow> string \<Rightarrow> nat \<Rightarrow> app \<Rightarrow> session_snapshot" where
  "take_snapshot env now orderId r st =
     (let c = ap_core st; s = co_heap c r in
      \<lparr>ss_version = SESSION_SNAPSHOT_VERSION, ss_issuedAt = toISOString now,
       ss_expiresAt = toISOString (now + SESSION_SNAPSHOT_TTL_MS), ss_session = s, ss_payment = payment_of s c,
       ss_envelope = map_get orderId (co_envelopes c), ss_mandate = map_get (sn_customerId s) (co_mandates c),
       ss_audit = audit_timeline orderId (ap_audit st)\<rparr>)"

definition exportSession :: "services_env \<Rightarrow> (session_snapshot \<Rightarrow> string) \<Rightarrow> string \<Rightarrow> string option act" where
  "exportSession env encode orderId =
     mbind (get_session_ref orderId) (\<lambda>found.
       case found of
         None \<Rightarrow> mret None
       | Some r \<Rightarrow> mbind (now_ms env) (\<lambda>now st.
           (Inr (Some (sealSnapshot encode (sv_hmac env) (take_snapshot env now orderId r st) (sv_signingSecret env))), st)))"

datatype import_result = Import_ok string order_state | Import_refused string

text \<open>The object graph of the snapshot is put on the heap: a session and, where it has one, its payment.\<close>

definition load_session :: "session_snapshot \<Rightarrow> nat act" where
  "load_session snapshot =
     mbind (case ss_payment snapshot of
              None \<Rightarrow> mret None
            | Some p \<Rightarrow> mbind (alloc_payment p) (\<lambda>i. mret (Some i))) (\<lambda>i.
       alloc_session ((ss_session snapshot)\<lparr>sn_x402OrderPayment := i\<rparr>))"

definition merge_event :: "string \<Rightarrow> audit_event \<Rightarrow> app \<Rightarrow> app" where
  "merge_event orderId ev st =
     (if ae_logicalOrderId ev \<noteq> orderId then st
      else let st = (if audit_has (ae_eventId ev) (ap_audit st) then st
                     else st\<lparr>ap_audit := audit_append ev (ap_audit st)\<rparr>);
               c = ap_core st
           in case map_get ''eventId'' (ae_externalReferences ev) of
                None \<Rightarrow> st
              | Some eventId \<Rightarrow>
                  if map_has eventId (co_webhookDedup c) then st
                  else st\<lparr>ap_core := c\<lparr>co_webhookDedup := map_set eventId (ae_occurredAt ev) (co_webhookDedup c)\<rparr>\<rparr>)"

definition importSession ::
  "services_env \<Rightarrow> (string \<Rightarrow> session_snapshot option) \<Rightarrow> string \<Rightarrow> string option \<Rightarrow> import_result act" where
  "importSession env decode token expectedOrderId =
     mbind (now_iso env) (\<lambda>now.
       case openSnapshot decode (sv_hmac env) token (sv_signingSecret env) now of
         None \<Rightarrow> mret (Import_refused (''Invalid or expired session token '' @ [CHR 0xE2, CHR 0x80, CHR 0x94] @ '' start a new conversation.''))
       | Some snapshot \<Rightarrow>
           let s = ss_session snapshot; orderId = sn_logicalOrderId s in
           if truthy expectedOrderId \<and> expectedOrderId \<noteq> Some orderId
           then mret (Import_refused (''Session token does not match this order '' @ [CHR 0xE2, CHR 0x80, CHR 0x94] @ '' start a new conversation.''))
           else if (case ss_envelope snapshot of None \<Rightarrow> False
                    | Some rec \<Rightarrow> envelopeDigest (sv_sha256 env) (er_envelope rec) \<noteq> er_digest rec)
           then mret (Import_refused (''Session snapshot failed integrity check '' @ [CHR 0xE2, CHR 0x80, CHR 0x94] @ '' start a new conversation.''))
           else
             mbind (load_session snapshot) (\<lambda>r.
             mbind (upd_core (\<lambda>c. c\<lparr>co_sessions := map_set orderId r (co_sessions c)\<rparr>)) (\<lambda>_.
             mbind (case ss_envelope snapshot of None \<Rightarrow> mret () | Some rec \<Rightarrow> set_envelope orderId rec) (\<lambda>_.
             mbind (case ss_mandate snapshot of None \<Rightarrow> mret ()
                    | Some m \<Rightarrow> upd_core (\<lambda>c. c\<lparr>co_mandates := map_set (sn_customerId s) m (co_mandates c)\<rparr>)) (\<lambda>_.
             mbind (\<lambda>st. (Inr (), fold (merge_event orderId) (ss_audit snapshot) st)) (\<lambda>_.
             mbind pruneSessionCache (\<lambda>_.
               mret (Import_ok orderId (sn_state s)))))))))"

subsection \<open>The requests' side (session-token.ts)\<close>

text \<open>The header, the parsed body and the \<open>st\<close> parameter of the address; \<open>None\<close> for an address that does not parse.\<close>

definition readSessionToken :: "string option \<Rightarrow> json \<Rightarrow> string option \<Rightarrow> string option" where
  "readSessionToken header body st =
     (if truthy header \<and> trim (opt_str header) \<noteq> [] then Some (trim (opt_str header))
      else
        let fromBody = (case body of
              JObj kvs \<Rightarrow> (case map_get ''sessionToken'' kvs of Some (JStr v) \<Rightarrow> if v = [] then None else Some v | _ \<Rightarrow> None)
            | _ \<Rightarrow> None)
        in if fromBody \<noteq> None then fromBody
           else if truthy st then st else None)"

definition restoreSession ::
  "services_env \<Rightarrow> (string \<Rightarrow> session_snapshot option) \<Rightarrow> string option \<Rightarrow> string option \<Rightarrow> unit act" where
  "restoreSession env decode orderId token =
     (if \<not> truthy orderId \<or> \<not> truthy token then mret ()
      else mbind (importSession env decode (opt_str token) orderId) (\<lambda>_. mret ()))"

definition tokenFor :: "services_env \<Rightarrow> (session_snapshot \<Rightarrow> string) \<Rightarrow> string option \<Rightarrow> string option act" where
  "tokenFor env encode orderId = (if \<not> truthy orderId then mret None else exportSession env encode (opt_str orderId))"

end
