(* ===== verification/OrderLogic.thy ===== *)
theory OrderLogic
  imports Orders Webhook SessionToken
begin

text \<open>
  The invariant of the order service and the rules its handlers are checked with: \<open>good\<close> says what holds
  of every stored order, \<open>session_step\<close> what one step may do to an order, \<open>goes\<close> puts both together as
  the postcondition of an action, and the \<open>wps\<close> rules carry it through the parts the handlers share.
\<close>

subsection \<open>Weakest preconditions of the steps\<close>

lemma wp_now_ms [wps]: "wp (now_ms env) Q E st = Q (sv_now env (ap_tick st)) (st\<lparr>ap_tick := Suc (ap_tick st)\<rparr>)"
  by (simp add: wp_def now_ms_def)

lemma wp_new_id [wps]: "wp (new_id env p) Q E st = Q (newId p (sv_rnd env (ap_tick st))) (st\<lparr>ap_tick := Suc (ap_tick st)\<rparr>)"
  by (simp add: wp_def new_id_def)

lemma wp_read [wps]: "wp (read_core f) Q E st = Q (f (ap_core st)) st"
  by (simp add: wp_def read_core_def)

lemma wp_upd [wps]: "wp (upd_core g) Q E st = Q () (st\<lparr>ap_core := g (ap_core st)\<rparr>)"
  by (simp add: wp_def upd_core_def)

lemma wp_now_iso [wps]: "wp (now_iso env) Q E st = Q (toISOString (sv_now env (ap_tick st))) (st\<lparr>ap_tick := Suc (ap_tick st)\<rparr>)"
  by (simp add: now_iso_def wps)

lemma wp_log [wps]: "wp (log_event env i) Q E st = Q () (st\<lparr>ap_audit := snd (audit_log (sv_rnd env (ap_tick st))
       (toISOString (sv_now env (ap_tick st))) i (ap_audit st)), ap_tick := Suc (ap_tick st)\<rparr>)"
  by (simp add: wp_def log_event_def)

lemma wp_lift [wps]: "wp (lift_throws x) Q E st = (case x of Inl e \<Rightarrow> E e st | Inr v \<Rightarrow> Q v st)"
  by (simp add: wp_def lift_throws_def split: sum.splits)

lemma wp_get_session [wps]: "wp (get_session_ref i) Q E st = Q (map_get i (co_sessions (ap_core st))) st"
  by (simp add: get_session_ref_def wp_read)

lemma wp_get_s [wps]: "wp (get_s r) Q E st = Q (co_heap (ap_core st) r) st"
  by (simp add: get_s_def wp_read)

lemma wp_get_envelope [wps]: "wp (get_envelope i) Q E st = Q (map_get i (co_envelopes (ap_core st))) st"
  by (simp add: get_envelope_def wp_read)

definition put_session :: "nat \<Rightarrow> session \<Rightarrow> core \<Rightarrow> core" where
  "put_session r s c = c\<lparr>co_heap := (co_heap c)(r := s)\<rparr>"

lemma put_session_simps [simp]:
  "co_heap (put_session r s c) = (co_heap c)(r := s)" "co_next (put_session r s c) = co_next c"
  "co_payments (put_session r s c) = co_payments c" "co_pnext (put_session r s c) = co_pnext c"
  "co_sessions (put_session r s c) = co_sessions c" "co_envelopes (put_session r s c) = co_envelopes c"
  "co_mandates (put_session r s c) = co_mandates c" "co_webhookDedup (put_session r s c) = co_webhookDedup c"
  by (simp_all add: put_session_def)

lemma put_session_twice [simp]: "put_session r s (put_session r s' c) = put_session r s c"
  by (simp add: put_session_def)

lemma put_session_same [simp]: "put_session r (co_heap c r) c = c"
  by (simp add: put_session_def)

lemma payment_of_put [simp]: "payment_of s' (put_session r s c) = payment_of s' c"
  by (simp add: payment_of_def)

lemma wp_upd_s [wps]: "wp (upd_s r f) Q E st = Q () (st\<lparr>ap_core := put_session r (f (co_heap (ap_core st) r)) (ap_core st)\<rparr>)"
  by (simp add: upd_s_def wp_upd put_session_def)

lemma wp_upd_dialogue [wps]: "wp (upd_dialogue r f) Q E st =
    Q () (st\<lparr>ap_core := put_session r ((co_heap (ap_core st) r)\<lparr>sn_dialogue := f (sn_dialogue (co_heap (ap_core st) r))\<rparr>) (ap_core st)\<rparr>)"
  by (simp add: upd_dialogue_def wps)

lemma session_state_same: "s\<lparr>sn_state := sn_state s\<rparr> = (s :: session)"
  by (cases s) simp

lemma wp_set_state [wps]: "wp (set_state r t) Q E st =
    (let s = co_heap (ap_core st) r in
     if order_step (sn_state s) t then Q () (st\<lparr>ap_core := put_session r (s\<lparr>sn_state := t\<rparr>) (ap_core st)\<rparr>)
     else E (''Illegal transition '' @ order_state_str (sn_state s) @ '' -> '' @ order_state_str t) st)"
  by (auto simp: set_state_def wps order_step_iff transitionState_def Let_def session_state_same)

text \<open>A quiet action leaves the maps and objects alone.\<close>

definition quiet :: "'a act \<Rightarrow> bool" where
  "quiet m = (\<forall>st. ap_core (snd (m st)) = ap_core st)"

lemma wp_quiet:
  assumes "quiet m" "\<And>x st'. ap_core st' = ap_core st \<Longrightarrow> Q x st'" "\<And>e st'. ap_core st' = ap_core st \<Longrightarrow> E e st'"
  shows "wp m Q E st"
proof (cases "m st")
  case (Pair x st')
  with assms show ?thesis by (cases x) (auto simp: wp_def quiet_def dest: spec [of _ st])
qed

lemma quiet_ret [simp]: "quiet (mret x)" and quiet_throw [simp]: "quiet (mthrow e)"
  and quiet_read [simp]: "quiet (read_core f)" and quiet_log [simp]: "quiet (log_event env i)"
  by (simp_all add: quiet_def mret_def mthrow_def read_core_def log_event_def)

lemma quiet_bind: "quiet m \<Longrightarrow> (\<And>x. quiet (f x)) \<Longrightarrow> quiet (mbind m f)"
  by (auto simp: quiet_def mbind_def split: sum.splits prod.splits) (metis snd_conv)+

lemma quiet_now [simp]: "quiet (now_iso env)"
  by (simp add: now_iso_def now_ms_def mbind_def quiet_def mret_def)

lemma quiet_begin [simp]: "quiet (begin_op env opid t req agg)"
  by (auto simp: begin_op_def intro!: quiet_bind) (auto simp: quiet_def split: prod.splits)

lemma quiet_complete [simp]: "quiet (complete_op env opid out rr er p)"
  by (auto simp: complete_op_def intro!: quiet_bind) (auto simp: quiet_def split: sum.splits)

lemma quiet_state_or_draft [simp]: "quiet (state_or_draft i)"
  by (simp add: state_or_draft_def)

lemma quiet_finish [simp]: "quiet (finish_ok env opid rr r)" "quiet (finish_fail env opid r)"
  by (auto simp: finish_ok_def finish_fail_def intro!: quiet_bind)

lemma quiet_prologues [simp]:
  "quiet (throwing_prologue opid idem)" "quiet (answering_prologue opid i cs ps idem)" "quiet (x402_prologue opid i idem)"
  "quiet (verify_prologue opid idem)" "quiet (fulfil_prologue opid i idem)"
  by (auto simp: throwing_prologue_def answering_prologue_def x402_prologue_def verify_prologue_def fulfil_prologue_def
        intro!: quiet_bind split: option.splits idempotency_result.splits)

subsection \<open>The invariant\<close>

text \<open>An envelope record as the service seals it: digest and signature are those of the envelope.\<close>

definition sealed :: "services_env \<Rightarrow> string \<Rightarrow> envelope_record \<Rightarrow> bool" where
  "sealed env orderId rec =
     (er_digest rec = envelopeDigest (sv_sha256 env) (er_envelope rec) \<and>
      er_signature rec = signEnvelope (sv_sha256 env) (sv_hmac env) (er_envelope rec) (sv_signingSecret env) \<and>
      env_logicalOrderId (er_envelope rec) = orderId)"

text \<open>
  What every session object satisfies: an approval has both its parts; an order that is past payment has
  a payment and a verification on record; an order settled through Agent Pay has no Razorpay order and
  its verification is that settlement; a refunded order has a successful compensation on record; the
  dialogue memory is bounded.
\<close>

definition mem_ok :: "dialogue_memory \<Rightarrow> bool" where
  "mem_ok d = (length (dm_recentActions d) \<le> MAX_RECENT_ACTIONS \<and> length (dm_evidence d) \<le> 8)"

definition session_ok :: "session \<Rightarrow> x402_order_payment option \<Rightarrow> bool" where
  "session_ok s pay =
     ((sn_approvalEventId s = None \<longleftrightarrow> sn_approvedDigest s = None) \<and>
      (post_payment (sn_state s) \<longrightarrow> sn_externalPaymentId s \<noteq> None \<and> sn_verification s \<noteq> None) \<and>
      (is_verified pay \<longrightarrow> sn_externalOrderId s = None \<and>
         (\<exists>v. sn_verification s = Some v \<and> vr_verified v \<and> vr_rail v = X402_solana)) \<and>
      sn_externalOrderId s \<noteq> Some [] \<and>
      (sn_state s = REFUNDED \<longrightarrow> (\<exists>n. sn_compensation s = Some n \<and> cn_ok n \<and> cn_refundId n \<noteq> None)) \<and>
      mem_ok (sn_dialogue s))"

definition core_ok :: "services_env \<Rightarrow> core \<Rightarrow> bool" where
  "core_ok env c =
     (distinct (map fst (co_sessions c)) \<and> length (co_sessions c) \<le> MAX_CACHED_SESSIONS \<and>
      (\<forall>i r. map_get i (co_sessions c) = Some r \<longrightarrow> r < co_next c \<and> sn_logicalOrderId (co_heap c r) = i) \<and>
      (\<forall>r. r < co_next c \<longrightarrow> session_ok (co_heap c r) (payment_of (co_heap c r) c)) \<and>
      (\<forall>r j. r < co_next c \<longrightarrow> sn_x402OrderPayment (co_heap c r) = Some j \<longrightarrow> j < co_pnext c) \<and>
      (\<forall>r r' j. r < co_next c \<longrightarrow> r' < co_next c \<longrightarrow> sn_x402OrderPayment (co_heap c r) = Some j \<longrightarrow>
         sn_x402OrderPayment (co_heap c r') = Some j \<longrightarrow> r = r') \<and>
      (\<forall>i rec. map_get i (co_envelopes c) = Some rec \<longrightarrow> sealed env i rec))"

text \<open>What a handler may rely on when it resumes after its await.\<close>

fun pend_ok :: "services_env \<Rightarrow> core \<Rightarrow> pending \<Rightarrow> bool" where
  "pend_ok env c (P_initiate i opid r ad rec) =
     (r < co_next c \<and> sn_logicalOrderId (co_heap c r) = i \<and> \<not> is_verified (payment_of (co_heap c r) c))"
| "pend_ok env c (P_verify i opid r ad rec ext pid sig) =
     (r < co_next c \<and> sn_logicalOrderId (co_heap c r) = i \<and> sn_externalOrderId (co_heap c r) \<noteq> None \<and> sealed env i rec)"
| "pend_ok env c (P_compensate i opid r ad rec pid) = (r < co_next c)"

text \<open>The evidence with which an order enters \<open>PAID_VERIFIED\<close>.\<close>

definition paid_evidence :: "services_env \<Rightarrow> core \<Rightarrow> session \<Rightarrow> bool" where
  "paid_evidence env c s =
     (\<exists>v rec. sn_verification s = Some v \<and> vr_verified v \<and> vr_status v = ''captured'' \<and> sn_externalPaymentId s \<noteq> None \<and>
        sealed env (sn_logicalOrderId s) rec \<and> vr_amountMinor v = env_totalMinor (er_envelope rec) \<and>
        vr_currency v = currency_str (env_currency (er_envelope rec)) \<and>
        (vr_rail v = Razorpay_checkout \<and> sn_externalOrderId s = Some (vr_externalOrderId v) \<or>
         vr_rail v = X402_solana \<and> sn_externalOrderId s = None \<and> is_verified (payment_of s c) \<and>
         sn_approvedDigest s = Some (er_digest rec)))"

text \<open>The evidence with which an order enters \<open>PAYMENT_PENDING\<close>: approval of exactly the stored envelope.\<close>

definition approved_evidence :: "core \<Rightarrow> session \<Rightarrow> bool" where
  "approved_evidence c s =
     (\<exists>rec. map_get (sn_logicalOrderId s) (co_envelopes c) = Some rec \<and> truthy (sn_approvalEventId s) \<and>
        sn_approvedDigest s = Some (er_digest rec))"

definition session_step :: "services_env \<Rightarrow> core \<Rightarrow> session \<Rightarrow> session \<Rightarrow> bool" where
  "session_step env c s s' =
     (sn_logicalOrderId s' = sn_logicalOrderId s \<and>
      (post_payment (sn_state s) \<longrightarrow> post_payment (sn_state s')) \<and>
      (post_payment (sn_state s') \<and> \<not> post_payment (sn_state s) \<longrightarrow> paid_evidence env c s') \<and>
      (sn_state s' = PAYMENT_PENDING \<and> sn_state s \<noteq> PAYMENT_PENDING \<longrightarrow> approved_evidence c s') \<and>
      (sn_externalOrderId s \<noteq> None \<longrightarrow> sn_externalOrderId s' \<noteq> None))"

definition goes :: "services_env \<Rightarrow> pending set \<Rightarrow> core \<Rightarrow> core \<Rightarrow> bool" where
  "goes env P c c' =
     (core_ok env c' \<and> (\<forall>p \<in> P. pend_ok env c' p) \<and> co_next c \<le> co_next c' \<and>
      (\<forall>r < co_next c. session_step env c' (co_heap c r) (co_heap c' r)))"

definition good :: "services_env \<Rightarrow> pending set \<Rightarrow> core \<Rightarrow> bool" where
  "good env P c = (core_ok env c \<and> (\<forall>p \<in> P. pend_ok env c p))"

definition answers :: "services_env \<Rightarrow> pending set \<Rightarrow> core \<Rightarrow> outcome \<Rightarrow> app \<Rightarrow> bool" where
  "answers env P c res st = (goes env P c (ap_core st) \<and> (\<forall>p. res = Await p \<longrightarrow> pend_ok env (ap_core st) p))"

definition fails :: "services_env \<Rightarrow> pending set \<Rightarrow> core \<Rightarrow> 'e \<Rightarrow> app \<Rightarrow> bool" where
  "fails env P c e st = goes env P c (ap_core st)"

lemma session_step_refl [simp]: "session_step env c s s"
  by (simp add: session_step_def)

lemma goes_refl: "good env P c \<Longrightarrow> goes env P c c"
  by (simp add: goes_def good_def)

lemma good_goes: "goes env P c c' \<Longrightarrow> good env P c'"
  by (simp add: goes_def good_def)

text \<open>The rule for a handler that changed one session object and possibly envelopes and deduplication marks.\<close>

lemma goes_session:
  assumes "good env P c" "r < co_next c"
    and "co_heap c' = (co_heap c)(r := s')" "co_next c' = co_next c" "co_payments c' = co_payments c"
      "co_pnext c' = co_pnext c" "co_sessions c' = co_sessions c"
    and env: "\<And>i rec. map_get i (co_envelopes c') = Some rec \<Longrightarrow> sealed env i rec"
    and s': "sn_x402OrderPayment s' = sn_x402OrderPayment (co_heap c r)" "session_ok s' (payment_of (co_heap c r) c)"
      "session_step env c' (co_heap c r) s'"
  shows "goes env P c c'"
proof -
  have pay: "payment_of s c' = payment_of s c" for s
    using assms by (simp add: payment_of_def)
  have own: "payment_of s' c = payment_of (co_heap c r) c"
    using s'(1) by (simp add: payment_of_def)
  have core: "core_ok env c'"
    using assms pay own unfolding core_ok_def good_def session_step_def by auto
  have "pend_ok env c' p" if "p \<in> P" for p
  proof -
    from assms(1) that have "pend_ok env c p" by (simp add: good_def)
    then show ?thesis using assms(2-) pay own
      by (cases p) (auto simp: session_step_def)
  qed
  with core assms show ?thesis by (simp add: goes_def)
qed

subsection \<open>Rules for the parts of a handler\<close>

lemma answers_Answer [simp]: "answers env P c (Answer p) st = goes env P c (ap_core st)"
  by (simp add: answers_def)

lemma wp_finish:
  assumes "goes env P c (ap_core st)"
  shows "wp (finish_ok env opid rr r) (answers env P c) (fails env P c) st"
    "wp (finish_fail env opid r) (answers env P c) (fails env P c) st"
  unfolding finish_ok_def finish_fail_def wp_bind wp_ret
  by (rule wp_quiet; simp add: assms fails_def)+

lemma wp_opening:
  assumes "goes env P c (ap_core st)" "\<And>idem. quiet (prologue idem)"
    and "\<And>st'. ap_core st' = ap_core st \<Longrightarrow> wp rest (answers env P c) (fails env P c) st'"
  shows "wp (mbind (begin_op env opid t req agg) (\<lambda>idem. unless_done (prologue idem) rest)) (answers env P c) (fails env P c) st"
  unfolding wp_bind
proof (rule wp_quiet)
  fix idem and st' :: app assume st': "ap_core st' = ap_core st"
  show "wp (unless_done (prologue idem) rest) (answers env P c) (fails env P c) st'"
    unfolding unless_done_def wp_bind
  proof (rule wp_quiet [OF assms(2)])
    fix early and st'' :: app assume "ap_core st'' = ap_core st'"
    with st' assms(1,3) show "wp (case early of None \<Rightarrow> rest | Some p \<Rightarrow> mret (Answer p)) (answers env P c) (fails env P c) st''"
      by (cases early) (simp_all add: wp_ret)
  qed (use assms(1) st' in \<open>simp add: fails_def\<close>)
qed (use assms(1) in \<open>simp_all add: fails_def\<close>)

lemma wp_with_session:
  assumes "goes env P c (ap_core st)"
    and "\<And>r. map_get i (co_sessions (ap_core st)) = Some r \<Longrightarrow> wp (rest r) (answers env P c) (fails env P c) st"
  shows "wp (with_session env opid i rest) (answers env P c) (fails env P c) st"
  using assms by (auto simp: with_session_def wps intro: wp_finish split: option.splits)

lemma wp_with_envelope:
  assumes "goes env P c (ap_core st)"
    and "\<And>rec. map_get i (co_envelopes (ap_core st)) = Some rec \<Longrightarrow> wp (rest rec) (answers env P c) (fails env P c) st"
  shows "wp (with_envelope env opid i r err rest) (answers env P c) (fails env P c) st"
  using assms by (auto simp: with_envelope_def wps intro: wp_finish split: option.splits)

lemma wp_reject:
  "goes env P c (ap_core st) \<Longrightarrow> wp (x402_reject env opid ev s err codes) (answers env P c) (fails env P c) st"
  by (simp add: x402_reject_def wps wp_finish)

lemma known_session:
  assumes "good env P c" "map_get i (co_sessions c) = Some r"
  shows "r < co_next c" "sn_logicalOrderId (co_heap c r) = i" "session_ok (co_heap c r) (payment_of (co_heap c r) c)"
  using assms by (auto simp: good_def core_ok_def)

lemma known_envelope: "good env P c \<Longrightarrow> map_get i (co_envelopes c) = Some rec \<Longrightarrow> sealed env i rec"
  by (auto simp: good_def core_ok_def)

text \<open>From which states a state can be entered.\<close>

lemma order_step_into:
  "order_step s APPROVED \<longleftrightarrow> s \<in> {APPROVED, AWAITING_APPROVAL, REAPPROVAL_REQUIRED}"
  "order_step s AWAITING_APPROVAL \<longleftrightarrow> s \<in> {AWAITING_APPROVAL, QUOTED, REAPPROVAL_REQUIRED}"
  "order_step s QUOTED \<longleftrightarrow> s \<in> {QUOTED, DRAFT, CLARIFYING, AWAITING_APPROVAL, REAPPROVAL_REQUIRED}"
  "order_step s PAYMENT_PENDING \<longleftrightarrow> s \<in> {PAYMENT_PENDING, APPROVED, PAYMENT_FAILED}"
  "order_step s PAYMENT_FAILED \<longleftrightarrow> s \<in> {PAYMENT_FAILED, PAYMENT_PENDING}"
  "order_step s PAID_VERIFIED \<longleftrightarrow> s \<in> {PAID_VERIFIED, PAYMENT_PENDING}"
  "order_step s FULFILMENT_PENDING \<longleftrightarrow> s \<in> {FULFILMENT_PENDING, PAID_VERIFIED, MANUAL_REVIEW}"
  "order_step s FULFILMENT_FAILED \<longleftrightarrow> s \<in> {FULFILMENT_FAILED, PAID_VERIFIED, FULFILMENT_PENDING}"
  "order_step s FULFILLED \<longleftrightarrow> s \<in> {FULFILLED, FULFILMENT_PENDING, MANUAL_REVIEW}"
  "order_step s COMPENSATION_PENDING \<longleftrightarrow> s \<in> {COMPENSATION_PENDING, FULFILMENT_FAILED, MANUAL_REVIEW}"
  "order_step s REFUNDED \<longleftrightarrow> s \<in> {REFUNDED, COMPENSATION_PENDING, MANUAL_REVIEW}"
  "order_step s MANUAL_REVIEW \<longleftrightarrow> s \<in> {MANUAL_REVIEW, COMPENSATION_PENDING}"
  "order_step s REAPPROVAL_REQUIRED \<longleftrightarrow> s \<in> {REAPPROVAL_REQUIRED, QUOTED, AWAITING_APPROVAL, APPROVED, PAYMENT_PENDING}"
  "order_step s EXPIRED \<longleftrightarrow> s \<notin> {PAID_VERIFIED, FULFILMENT_PENDING, FULFILLED, FULFILMENT_FAILED,
      COMPENSATION_PENDING, REFUNDED, MANUAL_REVIEW}"
  by (cases s; simp add: order_step_iff)+

lemmas step_defs = session_step_def post_payment_def order_step_into

text \<open>A handler that looks up its order, and its envelope, before it does anything.\<close>

lemma wp_on_session:
  assumes "good env P (ap_core st)" "\<And>idem. quiet (prologue idem)"
    and "\<And>st' r. ap_core st' = ap_core st \<Longrightarrow> map_get i (co_sessions (ap_core st)) = Some r \<Longrightarrow> r < co_next (ap_core st) \<Longrightarrow>
      sn_logicalOrderId (co_heap (ap_core st) r) = i \<Longrightarrow>
      session_ok (co_heap (ap_core st) r) (payment_of (co_heap (ap_core st) r) (ap_core st)) \<Longrightarrow>
      wp (rest r) (answers env P (ap_core st)) (fails env P (ap_core st)) st'"
  shows "wp (mbind (begin_op env opid t req agg) (\<lambda>idem. unless_done (prologue idem) (with_session env opid i rest)))
    (answers env P (ap_core st)) (fails env P (ap_core st)) st"
  by (rule wp_opening, simp add: goes_refl assms(1), rule assms(2), rule wp_with_session, simp add: goes_refl assms(1))
     (simp add: assms(3) known_session [OF assms(1)])

lemma wp_on_envelope:
  assumes "good env P (ap_core st)" "\<And>idem. quiet (prologue idem)"
    and "\<And>st' r rec. ap_core st' = ap_core st \<Longrightarrow> map_get i (co_sessions (ap_core st)) = Some r \<Longrightarrow> r < co_next (ap_core st) \<Longrightarrow>
      sn_logicalOrderId (co_heap (ap_core st) r) = i \<Longrightarrow>
      session_ok (co_heap (ap_core st) r) (payment_of (co_heap (ap_core st) r) (ap_core st)) \<Longrightarrow>
      map_get i (co_envelopes (ap_core st)) = Some rec \<Longrightarrow> sealed env i rec \<Longrightarrow>
      wp (rest r rec) (answers env P (ap_core st)) (fails env P (ap_core st)) st'"
  shows "wp (mbind (begin_op env opid t req agg) (\<lambda>idem. unless_done (prologue idem)
      (with_session env opid i (\<lambda>r. with_envelope env opid i r err (rest r)))))
    (answers env P (ap_core st)) (fails env P (ap_core st)) st"
  by (rule wp_on_session [OF assms(1,2)], rule wp_with_envelope, simp add: goes_refl assms(1))
     (simp add: assms(3) known_envelope [OF assms(1)])

lemma fails_exc [simp]: "fails env P c e st = goes env P c (ap_core st)"
  by (simp add: fails_def)

text \<open>Changing one known session.\<close>

lemma goes_put:
  assumes "good env P c" "r < co_next c" "sn_x402OrderPayment s' = sn_x402OrderPayment (co_heap c r)"
    "session_ok s' (payment_of (co_heap c r) c)" "session_step env (put_session r s' c) (co_heap c r) s'"
  shows "goes env P c (put_session r s' c)"
  using assms(1) by (rule goes_session) (use assms known_envelope in auto)

end
