(* ===== verification/OrderRuns.thy ===== *)
theory OrderRuns
  imports OrderLogic
begin

text \<open>
  The payment handlers of \<open>services.ts\<close> keep the invariant: approval, the Razorpay rail, Agent Pay,
  fulfilment and compensation, and their continuations once the awaited adapter has replied.
\<close>

lemma post_payment_simps [simp]:
  "post_payment PAID_VERIFIED" "post_payment FULFILMENT_PENDING" "post_payment FULFILLED" "post_payment FULFILMENT_FAILED"
  "post_payment COMPENSATION_PENDING" "post_payment REFUNDED" "post_payment MANUAL_REVIEW"
  "\<not> post_payment DRAFT" "\<not> post_payment CLARIFYING" "\<not> post_payment QUOTED" "\<not> post_payment AWAITING_APPROVAL"
  "\<not> post_payment APPROVED" "\<not> post_payment PAYMENT_PENDING" "\<not> post_payment EXPIRED"
  "\<not> post_payment REAPPROVAL_REQUIRED" "\<not> post_payment PAYMENT_FAILED"
  by (simp_all add: post_payment_def)

lemma not_yet_paid:
  "order_step s EXPIRED \<Longrightarrow> \<not> post_payment s" "order_step s APPROVED \<Longrightarrow> \<not> post_payment s"
  "order_step s AWAITING_APPROVAL \<Longrightarrow> \<not> post_payment s" "order_step s QUOTED \<Longrightarrow> \<not> post_payment s"
  "order_step s PAYMENT_PENDING \<Longrightarrow> \<not> post_payment s" "order_step s PAYMENT_FAILED \<Longrightarrow> \<not> post_payment s"
  "order_step s REAPPROVAL_REQUIRED \<Longrightarrow> \<not> post_payment s"
  using post_payment_step by fastforce+

lemmas session_defs = session_ok_def session_step_def not_yet_paid

lemma approve_goes:
  assumes "good env P (ap_core st)"
  shows "wp (approve env i d opid) (answers env P (ap_core st)) (fails env P (ap_core st)) st"
  unfolding approve_def
  by (rule wp_on_envelope [OF assms], simp)
     (simp add: wps Let_def wp_finish goes_refl [OF assms],
      (intro conjI impI wp_finish; (simp add: goes_refl [OF assms])?; (rule goes_put [OF assms])?); simp add: session_defs)

lemma payment_of_upd [simp]:
  "payment_of (s\<lparr>sn_state := t\<rparr>) c = payment_of s c" "payment_of (s\<lparr>sn_verification := v\<rparr>) c = payment_of s c"
  "payment_of (s\<lparr>sn_externalPaymentId := p\<rparr>) c = payment_of s c" "payment_of (s\<lparr>sn_externalOrderId := p\<rparr>) c = payment_of s c"
  "payment_of (s\<lparr>sn_dialogue := d\<rparr>) c = payment_of s c" "payment_of (s\<lparr>sn_lastRanking := d2\<rparr>) c = payment_of s c"
  by (simp_all add: payment_of_def)

lemma policy_approved:
  "pv_allow (checkEnvelopeForPayment sha (policy_input s rec e m rail now)) \<Longrightarrow>
   truthy (sn_approvalEventId s) \<and> sn_approvedDigest s = Some (er_digest rec)"
  by (auto simp: checkEnvelopeForPayment_def policy_input_def policy_codes_def Let_def when_code_def
        split: option.splits if_splits)

lemma ok_order_id:
  "session_ok s pay \<Longrightarrow> truthy (sn_externalOrderId s) \<longleftrightarrow> sn_externalOrderId s \<noteq> None"
  by (cases "sn_externalOrderId s") (auto simp: session_ok_def truthy_def)

lemma goes_pending:
  assumes "good env P c" "r < co_next c" "session_ok (co_heap c r) (payment_of (co_heap c r) c)"
    "order_step (sn_state (co_heap c r)) PAYMENT_PENDING"
    "map_get (sn_logicalOrderId (co_heap c r)) (co_envelopes c) = Some rec"
    "truthy (sn_approvalEventId (co_heap c r))" "sn_approvedDigest (co_heap c r) = Some (er_digest rec)"
  shows "goes env P c (put_session r ((co_heap c r)\<lparr>sn_state := PAYMENT_PENDING\<rparr>) c)"
  using assms(2-) by (intro goes_put [OF assms(1)]) (auto simp: session_defs approved_evidence_def)

lemma initiate_allowed_goes:
  assumes "good env P (ap_core st)" "ap_core st' = ap_core st" "r < co_next (ap_core st)"
    "session_ok (co_heap (ap_core st) r) (payment_of (co_heap (ap_core st) r) (ap_core st))"
    "map_get i (co_envelopes (ap_core st)) = Some rec" "sn_logicalOrderId (co_heap (ap_core st) r) = i"
    "\<not> is_verified (payment_of (co_heap (ap_core st) r) (ap_core st))"
    "truthy (sn_approvalEventId (co_heap (ap_core st) r))" "sn_approvedDigest (co_heap (ap_core st) r) = Some (er_digest rec)"
  shows "wp (initiate_allowed env i rail opid r rec) (answers env P (ap_core st)) (fails env P (ap_core st)) st'"
  using assms(2-) goes_pending [OF assms(1,3,4)] unfolding initiate_allowed_def
  by (simp add: wps Let_def wp_finish goes_refl [OF assms(1)] answers_def split: option.splits)

lemma initiate_goes:
  assumes "good env P (ap_core st)"
  shows "wp (initiatePayment env i rail opid) (answers env P (ap_core st)) (fails env P (ap_core st)) st"
  unfolding initiatePayment_def
  by (rule wp_on_envelope [OF assms], simp)
     (simp add: wps Let_def payment_policy_def wp_finish goes_refl [OF assms],
      (intro conjI impI initiate_allowed_goes [OF assms]); (use policy_approved in force))

lemma verify_goes:
  assumes "good env P (ap_core st)"
  shows "wp (verifyPayment env i ext pid sig opid) (answers env P (ap_core st)) (fails env P (ap_core st)) st"
  unfolding verifyPayment_def
  by (rule wp_on_envelope [OF assms], simp)
     (simp add: wps Let_def wp_finish goes_refl [OF assms] split: option.splits,
      (intro conjI impI allI wp_finish; (simp add: goes_refl [OF assms])?; (rule goes_put [OF assms])?);
      simp add: session_defs answers_def goes_refl [OF assms]; rule exI, rule sym, assumption)

lemma fulfil_goes:
  assumes "good env P (ap_core st)"
  shows "wp (fulfil env i b opid) (answers env P (ap_core st)) (fails env P (ap_core st)) st"
  unfolding fulfil_def
  by (rule wp_on_session [OF assms], simp)
     (simp add: wps Let_def wp_finish goes_refl [OF assms],
      (intro conjI impI wp_finish; (simp add: goes_refl [OF assms])?; (rule goes_put [OF assms])?); simp add: session_defs)

lemma compensate_mock_goes:
  assumes "good env P (ap_core st)" "r < co_next (ap_core st)"
    "session_ok (co_heap (ap_core st) r) (payment_of (co_heap (ap_core st) r) (ap_core st))"
    "ap_core st' = put_session r ((co_heap (ap_core st) r)\<lparr>sn_state := COMPENSATION_PENDING\<rparr>) (ap_core st)"
    "post_payment (sn_state (co_heap (ap_core st) r))"
  shows "wp (compensate_mock env i opid r pid) (answers env P (ap_core st)) (fails env P (ap_core st)) st'"
  using assms(2-) unfolding compensate_mock_def
  by (simp add: wps Let_def order_step_into)
     (intro wp_finish, simp, rule goes_put [OF assms(1)], simp_all add: session_defs)

lemma compensate_goes:
  assumes "good env P (ap_core st)"
  shows "wp (compensate env i opid) (answers env P (ap_core st)) (fails env P (ap_core st)) st"
  unfolding compensate_def
proof (rule wp_on_session [OF assms], simp)
  fix st' :: app and r
  let ?s = "co_heap (ap_core st) r"
  assume known: "ap_core st' = ap_core st" "r < co_next (ap_core st)" "session_ok ?s (payment_of ?s (ap_core st))"
  have pend: "goes env P (ap_core st) (put_session r (?s\<lparr>sn_state := COMPENSATION_PENDING\<rparr>) (ap_core st))"
    if "post_payment (sn_state ?s)"
    using known(2,3) that by (intro goes_put [OF assms]) (auto simp: session_defs)
  show "wp (mbind (get_s r) (\<lambda>s.
          if sn_state s \<noteq> FULFILMENT_FAILED \<and> sn_state s \<noteq> COMPENSATION_PENDING
          then finish_fail env opid (failure (sn_state s)
                 (''Compensation requires FULFILMENT_FAILED, current state '' @ order_state_str (sn_state s)))
          else with_envelope env opid i r ''No envelope'' (\<lambda>rec.
            if \<not> truthy (sn_externalPaymentId s)
            then finish_fail env opid (failure (sn_state s) ''No external payment id'')
            else mbind (set_state r COMPENSATION_PENDING) (\<lambda>_.
              if (case sn_verification s of None \<Rightarrow> False | Some v \<Rightarrow> vr_rail v = X402_solana)
              then compensate_mock env i opid r (opt_str (sn_externalPaymentId s))
              else case registry_get Razorpay_checkout (sv_adapters env) of
                     None \<Rightarrow> mthrow ''TypeError''
                   | Some adapter \<Rightarrow>
                       mret (Await (P_compensate i opid r adapter rec (opt_str (sn_externalPaymentId s))))))))
    (answers env P (ap_core st)) (fails env P (ap_core st)) st'"
  proof (cases "sn_state ?s \<in> {FULFILMENT_FAILED, COMPENSATION_PENDING}")
    case True
    then have post: "post_payment (sn_state ?s)" by auto
    from True show ?thesis
      using known pend [OF post] compensate_mock_goes [OF assms known(2,3) _ post]
      by (auto simp: wps Let_def wp_finish goes_refl [OF assms] order_step_into answers_def
            intro!: wp_with_envelope split: option.splits)
  qed (use known in \<open>simp add: wps wp_finish goes_refl [OF assms]\<close>)
qed

text \<open>A new payment object for one session.\<close>

lemma goes_prepare:
  assumes good: "good env P c" and r: "r < co_next c" and ok: "session_ok (co_heap c r) (payment_of (co_heap c r) c)"
    and p: "xp_status p = X_pending"
    and fresh: "\<not> is_verified (payment_of (co_heap c r) c)"
    and c': "co_heap c' = (co_heap c)(r := (co_heap c r)\<lparr>sn_x402OrderPayment := Some (co_pnext c)\<rparr>)" "co_next c' = co_next c"
      "co_payments c' = (co_payments c)(co_pnext c := p)" "co_pnext c' = Suc (co_pnext c)"
      "co_sessions c' = co_sessions c" "co_envelopes c' = co_envelopes c"
  shows "goes env P c c'"
proof -
  have core: "core_ok env c" and pends: "\<forall>p \<in> P. pend_ok env c p" using good by (simp_all add: good_def)
  have old: "sn_x402OrderPayment (co_heap c q) \<noteq> Some (co_pnext c)" if "q < co_next c" for q
    using core that by (auto simp: core_ok_def)
  then have pay: "payment_of (co_heap c q) c' = payment_of (co_heap c q) c" if "q < co_next c" for q
    using that c' by (cases "sn_x402OrderPayment (co_heap c q)") (auto simp: payment_of_def)
  have new: "\<not> is_verified (payment_of (co_heap c' r) c')"
    using c' p by (simp add: payment_of_def is_verified_def)
  have "core_ok env c'"
    unfolding core_ok_def
  proof (intro conjI allI impI)
    fix q assume "q < co_next c'"
    then show "session_ok (co_heap c' q) (payment_of (co_heap c' q) c')"
      using core c' pay ok new by (cases "q = r") (auto simp: core_ok_def session_ok_def)
  next
    fix q j assume "q < co_next c'" "sn_x402OrderPayment (co_heap c' q) = Some j"
    then show "j < co_pnext c'"
      using core c' by (cases "q = r") (auto simp: core_ok_def less_Suc_eq)
  next
    fix q q' j assume "q < co_next c'" "q' < co_next c'" "sn_x402OrderPayment (co_heap c' q) = Some j"
      "sn_x402OrderPayment (co_heap c' q') = Some j"
    then show "q = q'" using core c' old by (auto simp: core_ok_def split: if_splits)
  qed (use core c' in \<open>auto simp: core_ok_def\<close>)
  moreover have "pend_ok env c' q" if "q \<in> P" for q
    using pends that c' pay new by (cases q) (auto split: if_splits)
  ultimately show ?thesis
    using c' r by (auto simp: goes_def session_step_def)
qed

lemma prepare_goes:
  assumes "good env P (ap_core st)"
  shows "wp (prepareX402OrderPayment env i opid) (answers env P (ap_core st)) (fails env P (ap_core st)) st"
  unfolding prepareX402OrderPayment_def
proof (rule wp_on_envelope [OF assms], simp, goal_cases)
  case (1 st' r rec)
  have fresh: "goes env P (ap_core st) c'" if "\<not> is_verified (payment_of (co_heap (ap_core st) r) (ap_core st))"
    "co_heap c' = (co_heap (ap_core st))(r := (co_heap (ap_core st) r)\<lparr>sn_x402OrderPayment := Some (co_pnext (ap_core st))\<rparr>)"
    "co_next c' = co_next (ap_core st)"
    "co_payments c' = (co_payments (ap_core st))(co_pnext (ap_core st) := prepared_payment env i rec)"
    "co_pnext c' = Suc (co_pnext (ap_core st))"
    "co_sessions c' = co_sessions (ap_core st)" "co_envelopes c' = co_envelopes (ap_core st)" for c'
    by (rule goes_prepare [OF assms 1(3,5)]) (use that in \<open>simp_all add: prepared_payment_def Let_def\<close>)
  with 1 show ?case
    by (simp add: wps Let_def payment_policy_def wp_reject goes_refl [OF assms] prepare_allowed_def alloc_payment_def
          wp_finish split: option.splits)
qed

text \<open>
  Confirming an Agent Pay payment writes the payment object and the session together. No other session
  shares the object, and no Razorpay initiation of the same order is under way.
\<close>

definition unlocked :: "pending set \<Rightarrow> string \<Rightarrow> bool" where
  "unlocked P i = (\<forall>opid r ad rec. P_initiate i opid r ad rec \<notin> P)"

lemma goes_confirm:
  assumes good: "good env P c" and r: "r < co_next c" "sn_logicalOrderId (co_heap c r) = i" and free: "unlocked P i"
    and s': "sn_x402OrderPayment (co_heap c r) = Some j" "sn_x402OrderPayment s' = Some j" "xp_status p = X_verified"
      "session_ok s' (Some p)" "session_step env c' (co_heap c r) s'"
    and c': "co_heap c' = (co_heap c)(r := s')" "co_next c' = co_next c" "co_payments c' = (co_payments c)(j := p)"
      "co_pnext c' = co_pnext c" "co_sessions c' = co_sessions c" "co_envelopes c' = co_envelopes c"
  shows "goes env P c c'"
proof -
  have core: "core_ok env c" and pends: "\<forall>p \<in> P. pend_ok env c p" using good by (simp_all add: good_def)
  have only: "sn_x402OrderPayment (co_heap c q) \<noteq> Some j" if "q < co_next c" "q \<noteq> r" for q
    using core that r(1) s'(1) by (auto simp: core_ok_def)
  then have pay: "payment_of (co_heap c q) c' = payment_of (co_heap c q) c" if "q < co_next c" "q \<noteq> r" for q
    using that c' by (cases "sn_x402OrderPayment (co_heap c q)") (auto simp: payment_of_def)
  have own: "payment_of s' c' = Some p" using s' c' by (simp add: payment_of_def)
  have core': "core_ok env c'"
    unfolding core_ok_def
  proof (intro conjI allI impI)
    fix q assume "q < co_next c'"
    then show "session_ok (co_heap c' q) (payment_of (co_heap c' q) c')"
      using core c' pay own s'(4) by (cases "q = r") (auto simp: core_ok_def)
  next
    fix q k assume "q < co_next c'" "sn_x402OrderPayment (co_heap c' q) = Some k"
    then show "k < co_pnext c'"
      using core c' s' r by (cases "q = r") (auto simp: core_ok_def)
  next
    fix q q' k assume "q < co_next c'" "q' < co_next c'" "sn_x402OrderPayment (co_heap c' q) = Some k"
      "sn_x402OrderPayment (co_heap c' q') = Some k"
    then show "q = q'" using core c' s' only by (auto simp: core_ok_def split: if_splits)
  next
    fix k q assume "map_get k (co_sessions c') = Some q"
    then show "q < co_next c'" "sn_logicalOrderId (co_heap c' q) = k"
      using core c' s'(5) by (auto simp: core_ok_def session_step_def)
  qed (use core c' in \<open>auto simp: core_ok_def\<close>)
  have "pend_ok env c' q" if "q \<in> P" for q
    using pends that c' pay free r s'(5) by (cases q) (auto simp: unlocked_def session_step_def)
  with core' show ?thesis using c' r s'(5) by (auto simp: goes_def)
qed

definition x402_settlement :: "string \<Rightarrow> envelope_record \<Rightarrow> verification_result" where
  "x402_settlement pid rec = \<lparr>vr_verified = True, vr_rail = X402_solana, vr_externalOrderId = pid,
     vr_externalPaymentId = pid, vr_amountMinor = env_totalMinor (er_envelope rec),
     vr_currency = currency_str (env_currency (er_envelope rec)), vr_status = ''captured'', vr_reason = None\<rparr>"

lemma confirm_commit_goes:
  assumes good: "good env P (ap_core st)" and free: "unlocked P i" and st': "ap_core st' = ap_core st"
    and r: "r < co_next (ap_core st)" "sn_logicalOrderId (co_heap (ap_core st) r) = i"
      "session_ok (co_heap (ap_core st) r) (payment_of (co_heap (ap_core st) r) (ap_core st))"
    and rec: "map_get i (co_envelopes (ap_core st)) = Some rec"
    and j: "sn_x402OrderPayment (co_heap (ap_core st) r) = Some j"
    and guards: "sn_approvedDigest (co_heap (ap_core st) r) = Some (er_digest rec)"
      "truthy (sn_approvalEventId (co_heap (ap_core st) r))" "\<not> truthy (sn_externalOrderId (co_heap (ap_core st) r))"
  shows "wp (confirm_commit env i pid opid r j rec) (answers env P (ap_core st)) (fails env P (ap_core st)) st'"
proof -
  let ?c = "ap_core st"
  let ?s = "co_heap ?c r"
  let ?w = "?s\<lparr>sn_verification := Some (x402_settlement pid rec), sn_externalPaymentId := Some pid\<rparr>"
  have seal: "sealed env i rec" by (rule known_envelope [OF good rec])
  have none: "sn_externalOrderId ?s = None" using ok_order_id [OF r(3)] guards by simp
  have moves: "goes env P ?c (put_session r s' (?c\<lparr>co_payments := (co_payments ?c)(j := p)\<rparr>))"
    if "xp_status p = X_verified"
      "s' = ?w \<or> \<not> post_payment (sn_state ?s) \<and> (s' = ?w\<lparr>sn_state := PAYMENT_PENDING\<rparr> \<or> s' = ?w\<lparr>sn_state := PAID_VERIFIED\<rparr>)"
      for s' p
  proof (rule goes_confirm [OF good r(1,2) free j, of s' p])
    from that(2) have f: "sn_x402OrderPayment s' = Some j" "sn_verification s' = Some (x402_settlement pid rec)"
      "sn_externalPaymentId s' = Some pid" "sn_externalOrderId s' = None" "sn_approvalEventId s' = sn_approvalEventId ?s"
      "sn_approvedDigest s' = Some (er_digest rec)" "sn_compensation s' = sn_compensation ?s" "sn_dialogue s' = sn_dialogue ?s"
      "sn_logicalOrderId s' = i"
      "sn_state s' = sn_state ?s \<or> \<not> post_payment (sn_state ?s) \<and> sn_state s' \<in> {PAYMENT_PENDING, PAID_VERIFIED}"
      using j none guards r(2) by auto
    show "sn_x402OrderPayment s' = Some j" by (rule f)
    show "session_ok s' (Some p)"
      using r(3) f guards by (auto simp: session_ok_def x402_settlement_def)
    show "session_step env (put_session r s' (?c\<lparr>co_payments := (co_payments ?c)(j := p)\<rparr>)) ?s s'"
      using f guards none rec seal that(1) r(2)
      by (auto simp: session_step_def paid_evidence_def approved_evidence_def is_verified_def payment_of_def x402_settlement_def)
  qed (use that(1) in simp_all)
  show ?thesis
    unfolding confirm_commit_def x402_settlement_def [symmetric]
    by (simp add: wps st' Let_def order_step_into)
       (intro conjI impI wp_finish; simp?; rule moves; force)
qed

lemma confirm_goes:
  assumes "good env P (ap_core st)" "unlocked P i"
  shows "wp (confirmX402OrderPayment env i pid opid) (answers env P (ap_core st)) (fails env P (ap_core st)) st"
  unfolding confirmX402OrderPayment_def
  by (rule wp_on_session [OF assms(1)], simp)
     (simp add: wps wp_reject wp_finish goes_refl [OF assms(1)] split: option.splits,
      intro conjI impI allI confirm_commit_goes [OF assms]; simp)

subsection \<open>After the await\<close>

definition api_ok :: "rzp_api \<Rightarrow> bool" where
  "api_ok api = (\<forall>b order. post_orders api b = Http_ok order \<longrightarrow> ro_id order \<noteq> [])"

lemma initiated_id:
  assumes "adapter_initiate ad api sha rnd now e = Inr a" "api_ok api"
  shows "\<exists>x. pa_externalOrderId a = Some x \<and> x \<noteq> []"
  using assms by (cases ad)
    (auto simp: api_ok_def rzp_initiate_def rzp_request_def mock_initiate_def split: sum.splits http_reply.splits if_splits)

text \<open>An ending whose failure is caught again.\<close>

lemma wp_finish_caught:
  assumes "goes env P c (ap_core st)" "\<And>e st'. ap_core st' = ap_core st \<Longrightarrow> E e st'"
  shows "wp (finish_ok env opid rr r) (answers env P c) E st"
  unfolding finish_ok_def wp_bind wp_ret
  by (rule wp_quiet; simp add: assms)

lemma initiate_failed_goes:
  assumes "good env P c" "r < co_next c" "ap_core st' = put_session r s' c"
    "sn_x402OrderPayment s' = sn_x402OrderPayment (co_heap c r)" "session_ok s' (payment_of (co_heap c r) c)"
    "sn_state s' = sn_state (co_heap c r)" "sn_logicalOrderId s' = sn_logicalOrderId (co_heap c r)"
    "sn_externalOrderId (co_heap c r) \<noteq> None \<Longrightarrow> sn_externalOrderId s' \<noteq> None"
  shows "wp (mbind (set_state r PAYMENT_FAILED) (\<lambda>_.
        mbind (log_event env ev) (\<lambda>_. mbind (get_s r) (\<lambda>s. finish_fail env opid (failure (sn_state s) e)))))
      (answers env P c) (fails env P c) st'"
  using assms(2-)
  by (simp add: wps Let_def)
     (intro conjI impI wp_finish; simp?; rule goes_put [OF assms(1)]; simp add: session_defs)

lemma initiate_resume_goes:
  assumes good: "good env P (ap_core st)" and pend: "pend_ok env (ap_core st) (P_initiate i opid r ad rec)" and api: "api_ok api"
  shows "wp (initiate_resume env api i opid r ad rec) (answers env P (ap_core st)) (fails env P (ap_core st)) st"
proof -
  let ?c = "ap_core st"
  let ?s = "co_heap ?c r"
  have r: "r < co_next ?c" "\<not> is_verified (payment_of ?s ?c)" using pend by simp_all
  have ok: "session_ok ?s (payment_of ?s ?c)" using good r(1) by (auto simp: good_def core_ok_def)
  have ok': "session_ok (?s\<lparr>sn_externalOrderId := Some x\<rparr>) (payment_of ?s ?c)" if "x \<noteq> []" for x
    using ok r(2) that by (simp add: session_ok_def)
  define h where "h e = mbind (set_state r PAYMENT_FAILED) (\<lambda>_.
      mbind (log_event env ((event i ''payment.initiate_failed'' A_payment)\<lparr>ai_decision := Some PReview\<rparr>)) (\<lambda>_.
      mbind (get_s r) (\<lambda>s. finish_fail env opid (failure (sn_state s) e))))" for e
  have failed: "wp (h e) (answers env P ?c) (fails env P ?c) st'"
    if "ap_core st' = ?c \<or> (\<exists>x. x \<noteq> [] \<and> ap_core st' = put_session r (?s\<lparr>sn_externalOrderId := Some x\<rparr>) ?c)" for st' e
    using that
  proof (elim disjE exE conjE)
    assume "ap_core st' = ?c"
    with ok r show ?thesis unfolding h_def by (intro initiate_failed_goes [OF good r(1), of _ ?s]) simp_all
  next
    fix x assume "x \<noteq> []" "ap_core st' = put_session r (?s\<lparr>sn_externalOrderId := Some x\<rparr>) ?c"
    with ok' r show ?thesis unfolding h_def by (intro initiate_failed_goes [OF good r(1), of _ "?s\<lparr>sn_externalOrderId := Some x\<rparr>"]) simp_all
  qed
  have placed: "goes env P ?c (put_session r (?s\<lparr>sn_externalOrderId := Some x\<rparr>) ?c)" if "x \<noteq> []" for x
    using ok' [OF that] r by (intro goes_put [OF good]) (simp_all add: session_step_def)
  have call: "wp (\<lambda>st. (f st, g st)) Q E s = (case f s of Inl e \<Rightarrow> E e (g s) | Inr x \<Rightarrow> Q x (g s))"
    for f g s and Q :: "payment_attempt \<Rightarrow> app \<Rightarrow> bool" and E
    by (simp add: wp_def split: sum.splits)
  show ?thesis
    unfolding initiate_resume_def wp_try h_def [symmetric]
  proof (simp add: wp_bind wp_now_iso call split: sum.split, intro conjI allI impI, goal_cases)
    case (1 e)
    then show ?case by (intro failed) simp
  next
    case (2 a)
    from initiated_id [OF this api] obtain x where "pa_externalOrderId a = Some x" "x \<noteq> []" by blast
    then show ?case
      by (simp add: wp_bind wp_upd_s wp_log wp_get_s) (intro wp_finish_caught failed; auto simp: placed)
  qed
qed

lemma pending_session:
  assumes "good env P c" "r < co_next c"
  shows "session_ok (co_heap c r) (payment_of (co_heap c r) c)"
  using assms by (auto simp: good_def core_ok_def)

lemma no_failures: "binding_failures v s rec = [] \<longleftrightarrow>
    Some (vr_externalOrderId v) = sn_externalOrderId s \<and> vr_amountMinor v = env_totalMinor (er_envelope rec) \<and>
    vr_currency v = currency_str (env_currency (er_envelope rec)) \<and> vr_status v = ''captured''"
  by (auto simp: binding_failures_def when_code_def)

lemma verified_rail: "adapter_verify ad api hmac input = Inr v \<Longrightarrow> vr_rail v = Razorpay_checkout"
  by (cases ad) (auto simp: rzp_verify_def mock_verify_def failed_verification_def Let_def split: option.splits if_splits sum.splits)

lemma verify_resume_goes:
  assumes good: "good env P (ap_core st)" and pend: "pend_ok env (ap_core st) (P_verify i opid r ad rec ext pid sig)"
  shows "wp (verify_resume env api i opid r ad rec ext pid sig) (answers env P (ap_core st)) (fails env P (ap_core st)) st"
proof -
  let ?c = "ap_core st"
  let ?s = "co_heap ?c r"
  have r: "r < co_next ?c" "sn_logicalOrderId ?s = i" "sn_externalOrderId ?s \<noteq> None" "sealed env i rec" using pend by simp_all
  note ok = pending_session [OF good r(1)]
  then have unv: "\<not> is_verified (payment_of ?s ?c)" using r(3) by (auto simp: session_ok_def)
  let ?w = "\<lambda>v. ?s\<lparr>sn_verification := Some v, sn_externalPaymentId := Some pid\<rparr>"
  have stored: "goes env P ?c (put_session r (?w v) ?c)" for v
    using ok r unv by (intro goes_put [OF good]) (auto simp: session_ok_def session_step_def)
  have failed: "goes env P ?c (put_session r (?w v\<lparr>sn_state := PAYMENT_FAILED\<rparr>) ?c)" if "order_step (sn_state ?s) PAYMENT_FAILED" for v
    using ok r unv that by (intro goes_put [OF good]) (auto simp: session_defs)
  have paid: "goes env P ?c c'"
    if "order_step (sn_state ?s) PAID_VERIFIED" "vr_verified v" "binding_failures v (?w v) rec = []" "vr_rail v = Razorpay_checkout"
      "co_heap c' = (co_heap ?c)(r := s')" "co_next c' = co_next ?c" "co_payments c' = co_payments ?c"
      "co_pnext c' = co_pnext ?c" "co_sessions c' = co_sessions ?c" "co_envelopes c' = co_envelopes ?c"
      "s' = ?w v\<lparr>sn_state := PAID_VERIFIED\<rparr> \<or> s' = ?w v\<lparr>sn_state := PAID_VERIFIED, sn_heldWebhook := None\<rparr>" for v s' c'
  proof -
    have f: "sn_verification s' = Some v" "sn_externalPaymentId s' = Some pid" "sn_state s' = PAID_VERIFIED"
      "sn_x402OrderPayment s' = sn_x402OrderPayment ?s" "sn_externalOrderId s' = sn_externalOrderId ?s"
      "sn_approvalEventId s' = sn_approvalEventId ?s" "sn_approvedDigest s' = sn_approvedDigest ?s"
      "sn_dialogue s' = sn_dialogue ?s" "sn_logicalOrderId s' = i"
      using that(11) r(2) by auto
    have "session_ok s' (payment_of ?s ?c)"
      using ok f unv by (simp add: session_ok_def)
    moreover have "session_step env c' ?s s'"
      using that(1-4) r f by (auto simp: session_step_def paid_evidence_def no_failures)
    ultimately show ?thesis
      using that(5-10) f known_envelope [OF good] by (intro goes_session [OF good r(1), of c' s']) simp_all
  qed
  let ?call = "adapter_verify ad api (sv_hmac env)
     \<lparr>vi_logicalOrderId = i, vi_envelopeHash = er_digest rec, vi_rail = Razorpay_checkout, vi_externalOrderId = ext,
      vi_externalPaymentId = pid, vi_expectedAmountMinor = Some (env_totalMinor (er_envelope rec)), vi_signature = Some sig\<rparr>"
  show ?thesis
  proof (cases ?call)
    case (Inl e)
    then show ?thesis by (simp add: verify_resume_def wps goes_refl [OF good])
  next
    case (Inr v)
    note paid_v = paid [OF _ _ _ verified_rail [OF Inr]]
    have "goes env P ?c (put_session r (?w v\<lparr>sn_state := PAID_VERIFIED\<rparr>) ?c)"
      "goes env P ?c (put_session r (?w v\<lparr>sn_state := PAID_VERIFIED, sn_heldWebhook := None\<rparr>) ?c\<lparr>co_webhookDedup := d\<rparr>)"
      if "order_step (sn_state ?s) PAID_VERIFIED" "vr_verified v" "binding_failures v (?w v) rec = []" for d
      using that by (auto intro: paid_v)
    then show ?thesis
      unfolding verify_resume_def servicesReconcileHeld_def mark_webhook_def
      by (simp add: wps Let_def Inr stored wp_finish failed split: option.split)
  qed
qed

lemma compensate_resume_goes:
  assumes good: "good env P (ap_core st)" and pend: "pend_ok env (ap_core st) (P_compensate i opid r ad rec pid)"
  shows "wp (compensate_resume env api i opid r ad rec pid) (answers env P (ap_core st)) (fails env P (ap_core st)) st"
proof -
  let ?c = "ap_core st"
  let ?s = "co_heap ?c r"
  have r: "r < co_next ?c" using pend by simp
  note ok = pending_session [OF good r]
  define h where "h e = mbind (set_state r MANUAL_REVIEW) (\<lambda>_.
      mbind (log_event env ((event i ''compensation.manual_review'' A_merchant)\<lparr>ai_decision := Some PReview\<rparr>)) (\<lambda>_.
      mbind (get_s r) (\<lambda>s. finish_fail env opid (failure (sn_state s) e))))" for e
  have put: "goes env P ?c (put_session r s' ?c)"
    if "s' = ?s\<lparr>sn_compensation := cn, sn_state := t\<rparr> \<or> s' = ?s\<lparr>sn_compensation := cn\<rparr> \<and> t = sn_state ?s \<or>
        s' = ?s\<lparr>sn_state := t\<rparr> \<and> cn = sn_compensation ?s"
      "t = sn_state ?s \<or> post_payment (sn_state ?s) \<and> post_payment t"
      "t = REFUNDED \<Longrightarrow> \<exists>n. cn = Some n \<and> cn_ok n \<and> cn_refundId n \<noteq> None" for s' cn t
  proof (rule goes_put [OF good r])
    from that(1) have f: "sn_state s' = t" "sn_compensation s' = cn" "sn_x402OrderPayment s' = sn_x402OrderPayment ?s"
      "sn_externalOrderId s' = sn_externalOrderId ?s" "sn_verification s' = sn_verification ?s"
      "sn_externalPaymentId s' = sn_externalPaymentId ?s" "sn_approvalEventId s' = sn_approvalEventId ?s"
      "sn_approvedDigest s' = sn_approvedDigest ?s" "sn_dialogue s' = sn_dialogue ?s"
      "sn_logicalOrderId s' = sn_logicalOrderId ?s"
      by auto
    show "sn_x402OrderPayment s' = sn_x402OrderPayment ?s" by (rule f)
    show "session_ok s' (payment_of ?s ?c)" using ok f that(2,3) by (auto simp: session_ok_def)
    show "session_step env (put_session r s' ?c) ?s s'" using f that(2) by (auto simp: session_step_def)
  qed
  have failed: "wp (h e) (answers env P ?c) (fails env P ?c) st'"
    if "goes env P ?c (ap_core st')" "order_step (sn_state (co_heap (ap_core st') r)) MANUAL_REVIEW \<Longrightarrow>
      goes env P ?c (put_session r ((co_heap (ap_core st') r)\<lparr>sn_state := MANUAL_REVIEW\<rparr>) (ap_core st'))" for st' e
    using that unfolding h_def by (simp add: wps Let_def wp_finish)
  show ?thesis
  proof (cases "adapter_compensate ad api
                 \<lparr>ci_logicalOrderId = i, ci_envelopeHash = er_digest rec, ci_rail = Razorpay_checkout,
                  ci_externalPaymentId = pid, ci_amountMinor = env_totalMinor (er_envelope rec),
                  ci_reason = ''Fulfilment failure '' @ [CHR 0xE2, CHR 0x80, CHR 0x94] @ '' full refund''\<rparr>")
    case (Inl e)
    have "wp (h e) (answers env P ?c) (fails env P ?c) st"
      by (rule failed) (auto simp: goes_refl [OF good] order_step_into intro!: put [where cn = "sn_compensation ?s"])
    with Inl show ?thesis
      unfolding compensate_resume_def h_def [symmetric] by (simp add: wps)
  next
    case (Inr v)
    from any_adapter.compensate_refund [OF Inr] have v: "cr_compensated v" "cr_refundId v \<noteq> None" by simp_all
    let ?n = "\<lparr>cn_refundId = cr_refundId v, cn_reason = Some ''full refund'', cn_ok = True\<rparr>"
    let ?w = "?s\<lparr>sn_compensation := Some ?n\<rparr>"
    have noted: "goes env P ?c (put_session r ?w ?c)" by (rule put [where cn = "Some ?n"]) (use v in auto)
    have review: "goes env P ?c (put_session r (?w\<lparr>sn_state := MANUAL_REVIEW\<rparr>) ?c)" if "order_step (sn_state ?s) MANUAL_REVIEW"
      by (rule put [where cn = "Some ?n"]) (use that in \<open>auto simp: order_step_into\<close>)
    have refunded: "goes env P ?c (put_session r (?w\<lparr>sn_state := REFUNDED\<rparr>) ?c)" if "order_step (sn_state ?s) REFUNDED"
      by (rule put [where cn = "Some ?n"]) (use that v in \<open>auto simp: order_step_into\<close>)
    show ?thesis
      unfolding compensate_resume_def h_def [symmetric] wp_try using Inr v
      by (simp add: wp_bind wp_lift wp_upd_s wp_set_state wp_log wp_get_s Let_def)
         (intro conjI impI wp_finish_caught failed; simp add: noted review refunded;
          (rule refunded)?; simp add: order_step_into)
  qed
qed

end
