(* ===== verification/ChatLogic.thy ===== *)
theory ChatLogic
  imports OrderRuns
begin

text \<open>
  What the conversational handlers may do to an order, and that quotes, the tampering demo and intent
  patches stay within it. Handlers are composed with \<open>keeps\<close> rules; every composition keeps the order
  invariant (\<open>chatting_goes\<close>).
\<close>

subsection \<open>Conversation: quotes, tampering and intent changes\<close>

text \<open>
  What the conversational handlers may do to a session: intent, ranking, dialogue and message freely, the
  approval only as a whole, the state only among the states before payment.
\<close>

definition chat_step :: "session \<Rightarrow> session \<Rightarrow> bool" where
  "chat_step s s' =
     (sn_logicalOrderId s' = sn_logicalOrderId s \<and> sn_externalOrderId s' = sn_externalOrderId s \<and>
      sn_externalPaymentId s' = sn_externalPaymentId s \<and> sn_verification s' = sn_verification s \<and>
      sn_compensation s' = sn_compensation s \<and> sn_x402OrderPayment s' = sn_x402OrderPayment s \<and>
      (sn_approvalEventId s' = sn_approvalEventId s \<and> sn_approvedDigest s' = sn_approvedDigest s \<or>
       sn_approvalEventId s' = None \<and> sn_approvedDigest s' = None) \<and>
      (mem_ok (sn_dialogue s) \<longrightarrow> mem_ok (sn_dialogue s')) \<and>
      (sn_state s' = sn_state s \<or> \<not> post_payment (sn_state s) \<and> \<not> post_payment (sn_state s') \<and> sn_state s' \<noteq> PAYMENT_PENDING))"

lemma chat_refl [simp]: "chat_step s s"
  by (simp add: chat_step_def)

lemma chat_trans: "chat_step s s' \<Longrightarrow> chat_step s' s'' \<Longrightarrow> chat_step s s''"
  unfolding chat_step_def by (elim conjE disjE; simp)

definition chatting :: "services_env \<Rightarrow> core \<Rightarrow> nat \<Rightarrow> bool \<Rightarrow> app \<Rightarrow> bool" where
  "chatting env c r pre st =
     (\<exists>s' es. ap_core st = put_session r s' (c\<lparr>co_envelopes := es\<rparr>) \<and> chat_step (co_heap c r) s' \<and>
        (\<forall>i rec. map_get i es = Some rec \<longrightarrow> sealed env i rec) \<and> (pre \<longrightarrow> \<not> post_payment (sn_state s')))"

definition keeps :: "services_env \<Rightarrow> core \<Rightarrow> nat \<Rightarrow> bool \<Rightarrow> 'a act \<Rightarrow> bool" where
  "keeps env c r pre m = (\<forall>st. chatting env c r pre st \<longrightarrow> wp m (\<lambda>_. chatting env c r pre) (\<lambda>_. chatting env c r False) st)"

lemma chatting_weaken: "chatting env c r pre st \<Longrightarrow> chatting env c r False st"
  by (auto simp: chatting_def)

lemma chatting_start: "good env P c \<Longrightarrow> ap_core st = c \<Longrightarrow> chatting env c r False st"
  unfolding chatting_def by (rule exI [of _ "co_heap c r"], rule exI [of _ "co_envelopes c"]) (auto dest: known_envelope)

lemma chatting_goes:
  assumes good: "good env P c" and r: "r < co_next c" and chatting: "chatting env c r pre st"
  shows "goes env P c (ap_core st)"
proof -
  from chatting obtain s' es where c': "ap_core st = put_session r s' (c\<lparr>co_envelopes := es\<rparr>)" and chat_step: "chat_step (co_heap c r) s'"
    and es: "\<And>i rec. map_get i es = Some rec \<Longrightarrow> sealed env i rec"
    by (auto simp: chatting_def)
  note ok = pending_session [OF good r]
  from chat_step ok have "session_ok s' (payment_of (co_heap c r) c)"
    by (auto simp: chat_step_def session_ok_def)
  moreover from chat_step have "session_step env (ap_core st) (co_heap c r) s'"
    by (auto simp: chat_step_def session_step_def)
  ultimately show ?thesis
    using c' chat_step es by (intro goes_session [OF good r, of _ s']) (auto simp: chat_step_def)
qed

lemma keeps_bind [intro]: "keeps env c r pre m \<Longrightarrow> (\<And>x. keeps env c r pre (f x)) \<Longrightarrow> keeps env c r pre (mbind m f)"
  unfolding keeps_def wp_bind by (blast intro: wp_mono)

lemma keeps_quiet [intro]: "quiet m \<Longrightarrow> keeps env c r pre m"
  unfolding keeps_def by (intro allI impI wp_quiet) (auto simp: chatting_def)

lemma keeps_if [intro]: "(b \<Longrightarrow> keeps env c r pre m) \<Longrightarrow> (\<not> b \<Longrightarrow> keeps env c r pre n) \<Longrightarrow> keeps env c r pre (if b then m else n)"
  by simp

lemma keeps_case_option [intro]:
  "(x = None \<Longrightarrow> keeps env c r pre m) \<Longrightarrow> (\<And>y. x = Some y \<Longrightarrow> keeps env c r pre (f y)) \<Longrightarrow>
   keeps env c r pre (case x of None \<Rightarrow> m | Some y \<Rightarrow> f y)"
  by (cases x) auto

lemma chatting_put:
  assumes "chatting env c r pre st" "chat_step (co_heap (ap_core st) r) s'" "ap_core st' = put_session r s' (ap_core st)"
    "pre' \<Longrightarrow> \<not> post_payment (sn_state s')"
  shows "chatting env c r pre' st'"
proof -
  from assms(1) obtain s es where st: "ap_core st = put_session r s (c\<lparr>co_envelopes := es\<rparr>)" "chat_step (co_heap c r) s"
    "\<forall>i rec. map_get i es = Some rec \<longrightarrow> sealed env i rec"
    by (auto simp: chatting_def)
  with assms(2) have "chat_step (co_heap c r) s'" by (auto intro: chat_trans)
  with st assms(3,4) show ?thesis
    unfolding chatting_def by (intro exI [of _ s'] exI [of _ es]) simp
qed

lemma keeps_upd_s [intro]:
  assumes "\<And>s. chat_step s (f s)" "\<And>s. sn_state (f s) = sn_state s"
  shows "keeps env c r pre (upd_s r f)"
  unfolding keeps_def wp_upd_s
proof (intro allI impI)
  fix st assume st: "chatting env c r pre st"
  then have "pre \<Longrightarrow> \<not> post_payment (sn_state (f (co_heap (ap_core st) r)))"
    unfolding assms(2) by (auto simp: chatting_def)
  then show "chatting env c r pre (st\<lparr>ap_core := put_session r (f (co_heap (ap_core st) r)) (ap_core st)\<rparr>)"
    by (intro chatting_put [OF st assms(1)]) simp_all
qed

lemma keeps_upd_dialogue [intro]: "(\<And>d. mem_ok d \<Longrightarrow> mem_ok (f d)) \<Longrightarrow> keeps env c r pre (upd_dialogue r f)"
  unfolding upd_dialogue_def by (rule keeps_upd_s) (simp_all add: chat_step_def)

lemma keeps_set_state:
  assumes "t \<in> {QUOTED, REAPPROVAL_REQUIRED, AWAITING_APPROVAL, CLARIFYING, EXPIRED}"
  shows "keeps env c r pre (set_state r t)"
  unfolding keeps_def wp_set_state Let_def
proof (intro allI impI)
  fix st assume st: "chatting env c r pre st"
  let ?s = "co_heap (ap_core st) r"
  have "chat_step ?s (?s\<lparr>sn_state := t\<rparr>)" if "order_step (sn_state ?s) t"
    using assms that by (cases "sn_state ?s") (auto simp: chat_step_def order_step_iff)
  with st assms show "if order_step (sn_state ?s) t
      then chatting env c r pre (st\<lparr>ap_core := put_session r (?s\<lparr>sn_state := t\<rparr>) (ap_core st)\<rparr>)
      else chatting env c r False st"
    by (auto intro: chatting_put chatting_weaken)
qed

lemma put_session_envelopes: "(put_session r s c)\<lparr>co_envelopes := es\<rparr> = put_session r s (c\<lparr>co_envelopes := es\<rparr>)"
  by (simp add: put_session_def)

lemma keeps_set_envelope [intro]: "sealed env i rec \<Longrightarrow> keeps env c r pre (set_envelope i rec)"
  unfolding keeps_def set_envelope_def wp_upd chatting_def
  by (clarsimp simp: put_session_envelopes) (rule exI, rule exI, rule conjI, rule refl, auto)

lemma keeps_del_envelope [intro]: "keeps env c r pre (del_envelope i)"
  unfolding keeps_def del_envelope_def wp_upd chatting_def
  by (clarsimp simp: put_session_envelopes) (rule exI, rule exI, rule conjI, rule refl, auto split: if_splits)

lemma wp_keeps:
  assumes "keeps env (ap_core st) r False m" "good env P (ap_core st)" "r < co_next (ap_core st)" "ap_core st' = ap_core st"
  shows "wp m (fails env P (ap_core st)) (fails env P (ap_core st)) st'"
proof (rule wp_mono)
  show "wp m (\<lambda>_. chatting env (ap_core st) r False) (\<lambda>_. chatting env (ap_core st) r False) st'"
    using assms(1) chatting_start [OF assms(2,4), of r] by (simp add: keeps_def)
qed (simp_all add: chatting_goes [OF assms(2,3)])

text \<open>The same for a handler that answers without awaiting.\<close>

definition replies :: "services_env \<Rightarrow> core \<Rightarrow> nat \<Rightarrow> outcome act \<Rightarrow> bool" where
  "replies env c r m = (\<forall>st. chatting env c r False st \<longrightarrow>
     wp m (\<lambda>x st. chatting env c r False st \<and> (\<forall>p. x \<noteq> Await p)) (\<lambda>_. chatting env c r False) st)"

lemma replies_bind [intro]: "keeps env c r False m \<Longrightarrow> (\<And>x. replies env c r (f x)) \<Longrightarrow> replies env c r (mbind m f)"
  unfolding replies_def keeps_def wp_bind by (blast intro: wp_mono)

lemma replies_ret [intro]: "replies env c r (mret (Answer p))"
  by (simp add: replies_def wp_ret)

lemma replies_throw [intro]: "replies env c r (mthrow e)"
  by (simp add: replies_def wp_throw)

lemma wp_replies:
  assumes "replies env (ap_core st) r m" "good env P (ap_core st)" "r < co_next (ap_core st)" "ap_core st' = ap_core st"
  shows "wp m (answers env P (ap_core st)) (fails env P (ap_core st)) st'"
proof (rule wp_mono)
  show "wp m (\<lambda>x s. chatting env (ap_core st) r False s \<and> (\<forall>p. x \<noteq> Await p)) (\<lambda>_. chatting env (ap_core st) r False) st'"
    using assms(1) chatting_start [OF assms(2,4), of r] by (simp add: replies_def)
qed (auto simp: answers_def chatting_goes [OF assms(2,3)])

lemma quiet_lift [simp]: "quiet (lift_throws x)" and quiet_now_ms [simp]: "quiet (now_ms env)"
  and quiet_new_id [simp]: "quiet (new_id env p)" and quiet_get_s [simp]: "quiet (get_s r)"
  and quiet_get_ref [simp]: "quiet (get_session_ref i)" and quiet_get_envelope [simp]: "quiet (get_envelope i)"
  by (simp_all add: quiet_def lift_throws_def now_ms_def new_id_def get_s_def get_session_ref_def get_envelope_def read_core_def)

lemma mem_ok_sync [simp]: "mem_ok d \<Longrightarrow> mem_ok (syncMemory i ids ms a e d)"
  by (simp add: mem_ok_def syncMemory_def)

lemma mem_ok_invalidate [simp]: "mem_ok (invalidateQuote d) = mem_ok d" "mem_ok (invalidateRecommendations d) = mem_ok d"
  by (simp_all add: mem_ok_def invalidateQuote_def invalidateRecommendations_def)

lemma mem_ok_upd [simp]:
  "mem_ok (d\<lparr>dm_intentVersion := v\<rparr>) = mem_ok d" "mem_ok (d\<lparr>dm_recommendationVersion := v\<rparr>) = mem_ok d"
  "mem_ok (d\<lparr>dm_recommendationIntentVersion := w\<rparr>) = mem_ok d" "mem_ok (d\<lparr>dm_recommendationActionToken := t\<rparr>) = mem_ok d"
  "mem_ok (d\<lparr>dm_quoteProductId := t\<rparr>) = mem_ok d" "mem_ok (d\<lparr>dm_quoteValid := b\<rparr>) = mem_ok d"
  "mem_ok (d\<lparr>dm_quoteIntentVersion := w\<rparr>) = mem_ok d" "mem_ok (d\<lparr>dm_quoteRecommendationVersion := w\<rparr>) = mem_ok d"
  "mem_ok (d\<lparr>dm_quoteActionToken := t\<rparr>) = mem_ok d"
  by (simp_all add: mem_ok_def)

lemma keeps_record [intro]: "keeps env c r pre (recordRecommendation env r ranking)"
  unfolding recordRecommendation_def by (intro keeps_bind keeps_quiet keeps_upd_s keeps_upd_dialogue) (simp_all add: chat_step_def)

lemma keeps_current [intro]: "keeps env c r pre (currentRecommendation env r)"
  unfolding currentRecommendation_def Let_def
  by (intro keeps_bind keeps_if keeps_case_option keeps_upd_dialogue keeps_record) (auto intro: keeps_quiet)

lemma keeps_validate [intro]: "keeps env c r pre (validateCurrentSelection env r pid b)"
  unfolding validateCurrentSelection_def by (intro keeps_bind keeps_current) (auto intro: keeps_quiet)

lemma sealed_quote: "sealed env i (seal_envelope env (quote_envelope env i s p v m now q h n) t b d)"
  by (simp add: sealed_def seal_envelope_def quote_envelope_def Let_def)

lemma wp_lookup_replies:
  assumes "good env P (ap_core st)" "ap_core st' = ap_core st" "\<And>r. replies env (ap_core st) r (g r)"
  shows "wp (mbind (get_session_ref i) (\<lambda>found. case found of None \<Rightarrow> mthrow e | Some r \<Rightarrow> g r))
    (answers env P (ap_core st)) (fails env P (ap_core st)) st'"
  using wp_replies [OF assms(3,1) _ assms(2)] known_session(1) [OF assms(1)]
  by (simp add: wps assms(2) goes_refl [OF assms(1)] split: option.split)

lemma quote_goes:
  assumes "good env P (ap_core st)"
  shows "wp (buildQuote env i pid b opid) (answers env P (ap_core st)) (fails env P (ap_core st)) st"
  unfolding buildQuote_def
proof (rule wp_opening, simp add: goes_refl assms, simp, rule wp_lookup_replies [OF assms], assumption,
       rule replies_bind, rule keeps_validate, goal_cases)
  case (1 st' r sel)
  show ?case
  proof (cases sel)
    case (Sel_ok p v bd)
    then show ?thesis
      by (simp add: Let_def)
         (intro replies_bind replies_ret keeps_set_state keeps_set_envelope sealed_quote keeps_upd_dialogue;
          (rule keeps_quiet)?; simp)
  qed (simp add: replies_throw)
qed

lemma wp_lookup_keeps:
  assumes "good env P (ap_core st)" "\<And>r. map_get i (co_sessions (ap_core st)) = Some r \<Longrightarrow> keeps env (ap_core st) r False (g r)"
  shows "wp (mbind (get_session_ref i) (\<lambda>found. case found of None \<Rightarrow> mret e | Some r \<Rightarrow> g r))
    (fails env P (ap_core st)) (fails env P (ap_core st)) st"
  using wp_keeps [OF assms(2,1)] known_session(1) [OF assms(1)]
  by (simp add: wps goes_refl [OF assms(1)] split: option.split)

lemma tampered_order: "tampered f n e = Some e' \<Longrightarrow> env_logicalOrderId e' = env_logicalOrderId e"
  by (auto simp: tampered_def Let_def split: list.splits tamper_field.splits)

lemma keeps_get_envelope:
  assumes "\<And>x. (\<And>rec. x = Some rec \<Longrightarrow> sealed env i rec) \<Longrightarrow> keeps env c r pre (f x)"
  shows "keeps env c r pre (mbind (get_envelope i) f)"
  unfolding keeps_def wp_bind wp_get_envelope
proof (intro allI impI)
  fix st assume st: "chatting env c r pre st"
  then have "keeps env c r pre (f (map_get i (co_envelopes (ap_core st))))"
    by (intro assms) (auto simp: chatting_def)
  with st show "wp (f (map_get i (co_envelopes (ap_core st)))) (\<lambda>_. chatting env c r pre) (\<lambda>_. chatting env c r False) st"
    by (simp add: keeps_def)
qed

lemma tamper_goes:
  assumes "good env P (ap_core st)"
  shows "wp (tamper env i f) (fails env P (ap_core st)) (fails env P (ap_core st)) st"
  unfolding tamper_def Let_def
  by (rule wp_lookup_keeps [OF assms])
     (intro keeps_get_envelope keeps_bind keeps_case_option keeps_if keeps_set_envelope keeps_upd_s keeps_set_state;
      (rule keeps_quiet)?; simp add: chat_step_def sealed_def seal_envelope_def tampered_order)

text \<open>A patch that gets past its first state change is on an order before payment.\<close>

lemma rerank_state:
  assumes "chatting env c r False st"
  shows "wp (patch_rerank_state r m) (\<lambda>_. chatting env c r True) (\<lambda>_. chatting env c r False) st"
proof -
  let ?s = "co_heap (ap_core st) r"
  have step: "wp (set_state r t) (\<lambda>_. chatting env c r True) (\<lambda>_. chatting env c r False) st"
    if "t \<in> {QUOTED, REAPPROVAL_REQUIRED}" for t
    using that assms chatting_put [OF assms, of "?s\<lparr>sn_state := t\<rparr>" _ True]
    by (auto simp: wp_set_state Let_def chat_step_def not_yet_paid)
  have stay: "chatting env c r True st" if "\<not> post_payment (sn_state ?s)"
    by (rule chatting_put [OF assms, of ?s]) (use that in simp_all)
  show ?thesis
    unfolding patch_rerank_state_def
    by (cases "sn_state ?s") (simp_all add: wp_bind wp_get_s wp_ret step stay)
qed

lemma keeps_clarifying: "keeps env c r True (upd_s r (\<lambda>s. s\<lparr>sn_state := CLARIFYING\<rparr>))"
  unfolding keeps_def wp_upd_s
  by (intro allI impI, rule chatting_put) (auto simp: chat_step_def chatting_def)

lemma keeps_discard [intro]: "keeps env c r pre (discard_quote env i r old codes)"
  unfolding discard_quote_def
  by (intro keeps_bind keeps_case_option keeps_upd_s keeps_del_envelope; (rule keeps_quiet)?; simp add: chat_step_def)

lemma keeps_rerank:
  assumes "\<And>u. keeps env c r True (f u)"
  shows "keeps env c r False (mbind (patch_rerank_state r m) f)"
  unfolding keeps_def wp_bind
  by (intro allI impI, rule wp_mono [OF rerank_state])
     (auto intro: wp_mono [OF assms [unfolded keeps_def, rule_format]] chatting_weaken)

lemma patch_goes:
  assumes "good env P (ap_core st)"
  shows "wp (intentPatch env i p v) (fails env P (ap_core st)) (fails env P (ap_core st)) st"
  unfolding intentPatch_def Let_def
  by (rule wp_lookup_keeps [OF assms])
     (intro keeps_clarifying keeps_get_envelope keeps_rerank keeps_bind keeps_case_option keeps_if keeps_upd_s keeps_set_state
        keeps_discard keeps_record keeps_upd_dialogue;
      (rule keeps_quiet)?; simp add: chat_step_def split: prod.split)

end
