(* ===== verification/MachineClient.thy ===== *)
theory MachineClient
  imports Machine Orders
begin

text \<open>
  The client of the devnet resource (\<open>apps/web/lib/machine.ts\<close>), the route it posts to
  (\<open>app/api/resources/premium-fit-score/route.ts\<close>) and the fit-score spend of the order services
  (\<open>runFitScoreSpend\<close> in \<open>services.ts\<close>). Quoting and signing belong to the x402 packages: they are the parameter
  \<open>ce_sign\<close>, which gives the signed payment for a request digest and a payment identifier or fails.
\<close>

subsection \<open>Preparing a payment\<close>

record devnet_attempt =
  da_paymentIdentifier :: string
  da_requestDigest :: string
  da_spendingRequest :: tool_spend_request
  da_encodedPayment :: string

record client_env =
  ce_machine :: machine_env
  ce_sign :: "nat \<Rightarrow> string \<Rightarrow> string \<Rightarrow> string throws"

definition ensureInitialized :: "machine_env \<Rightarrow> unit mm" where
  "ensureInitialized env = (if me_initialized env then mret () else mthrow ''x402 resource server initialization failed'')"

definition sign_payment :: "client_env \<Rightarrow> string \<Rightarrow> string \<Rightarrow> string mm" where
  "sign_payment ce digest pid = (\<lambda>st. (ce_sign ce (ms_tick st) digest pid, st\<lparr>ms_tick := ms_tick st + 1\<rparr>))"

definition prepareDevnetMachineSpend ::
  "client_env \<Rightarrow> tool_spend_request \<Rightarrow> string \<Rightarrow> string option \<Rightarrow> devnet_attempt mm" where
  "prepareDevnetMachineSpend ce spendingRequest paymentIdentifier approvalEventId =
     (let env = ce_machine ce; requestDigest = buildRequestDigest env spendingRequest in
      mbind (ensureInitialized env) (\<lambda>_.
      mbind (s_findByPaymentId env paymentIdentifier) (\<lambda>samePid.
        if list_ex (\<lambda>row. sa_requestDigest row \<noteq> requestDigest) samePid
        then mthrow ''Payment identifier is already reserved for a different spending request.''
        else mbind (sign_payment ce requestDigest paymentIdentifier) (\<lambda>encodedPayment.
             mbind (stagePreparedAttempt env spendingRequest paymentIdentifier encodedPayment approvalEventId) (\<lambda>_.
               mret \<lparr>da_paymentIdentifier = paymentIdentifier, da_requestDigest = requestDigest,
                     da_spendingRequest = spendingRequest, da_encodedPayment = encodedPayment\<rparr>)))))"

subsection \<open>Classifying the answer\<close>

text \<open>
  The answer to the POST: no answer at all, a status other than 200 with its JSON body (\<open>None\<close> when the body is
  no JSON), or 200 with the typed body and the decoded \<open>PAYMENT-RESPONSE\<close> header, if there is one.
\<close>

record paid_body =
  pb_evidence :: json
  pb_scores :: "(string \<times> int \<times> string) list option"
  pb_fit :: "string option"
  pb_resourceName :: "string option"
  pb_scoredAt :: "string option"

datatype http_reply = Transport_failed string | Http_status int "json option" | Http_paid paid_body "json option"

record wire_settlement =
  ws_success :: bool
  ws_network :: string
  ws_payer :: string
  ws_amount :: string
  ws_transactionHash :: string
  ws_paymentIdentifier :: string
  ws_memo :: string

record devnet_outcome =
  do_ok :: bool
  do_settlement :: "wire_settlement option"
  do_resource :: "fit_resource option"
  do_error :: "string option"
  do_status :: "int option"
  do_pending :: bool
  do_state :: spend_status
  do_retryable :: "bool option"
  do_paymentIdentifier :: "string option"
  do_requestDigest :: "string option"
  do_evidence :: json

definition failed_outcome ::
  "int \<Rightarrow> bool \<Rightarrow> spend_status \<Rightarrow> bool option \<Rightarrow> string \<Rightarrow> string \<Rightarrow> string \<Rightarrow> devnet_outcome" where
  "failed_outcome status pending' state retryable pid digest err =
     \<lparr>do_ok = False, do_settlement = None, do_resource = None, do_error = Some err, do_status = Some status,
      do_pending = pending', do_state = state, do_retryable = retryable, do_paymentIdentifier = Some pid,
      do_requestDigest = Some digest, do_evidence = JUndefined\<rparr>"

definition settlement_unresolved :: "json \<Rightarrow> bool" where
  "settlement_unresolved body =
     (opt_prop ''error'' body = JStr ''settlement_ambiguous'' \<or> opt_prop ''error'' body = JStr ''settlement_transaction_mismatch'')"

definition supported_reconciliation :: "json \<Rightarrow> bool" where
  "supported_reconciliation body =
     (opt_prop ''retryable'' body \<noteq> JBool False \<and>
      (opt_prop ''reconciliationState'' body = JStr ''pending'' \<or> opt_prop ''retryable'' body = JBool True \<or>
       stringValue (opt_prop ''transactionHash'' body) \<noteq> None))"

definition classify_failure :: "devnet_attempt \<Rightarrow> int \<Rightarrow> json option \<Rightarrow> devnet_outcome" where
  "classify_failure attempt status parsed =
     (let errorBody = (case parsed of None \<Rightarrow> JObj [(''error'', JStr ''unknown'')] | Some v \<Rightarrow> v);
          unresolved = settlement_unresolved errorBody;
          supported = supported_reconciliation errorBody;
          state = (if opt_prop ''reconciliationState'' errorBody = JStr ''manual_reconciliation_required''
                   then Sp_manual_reconciliation_required
                   else if unresolved then (if supported then Sp_pending else Sp_manual_reconciliation_required)
                   else Sp_rejected)
      in failed_outcome status unresolved state (Some (supported \<and> state = Sp_pending))
           (da_paymentIdentifier attempt) (da_requestDigest attempt)
           (case opt_prop ''detail'' errorBody of
              JStr d \<Rightarrow> d
            | _ \<Rightarrow> if \<not> json_falsy (opt_prop ''error'' errorBody) then js_String (opt_prop ''error'' errorBody)
                   else js_String errorBody))"

definition parse_settlement :: "tool_spend_request \<Rightarrow> json \<Rightarrow> wire_settlement option" where
  "parse_settlement req parsed =
     (if parsed = JNull then None
      else Some \<lparr>ws_success = (\<not> json_falsy (opt_prop ''success'' parsed)),
        ws_network = string_or_empty (opt_prop ''network'' parsed), ws_payer = string_or_empty (opt_prop ''payer'' parsed),
        ws_amount = (if opt_prop ''amount'' parsed = JNull \<or> opt_prop ''amount'' parsed = JUndefined
                     then int_str (ts_amountMinor req) else js_String (opt_prop ''amount'' parsed)),
        ws_transactionHash = string_or_empty (opt_prop ''transactionHash'' parsed),
        ws_paymentIdentifier = string_or_empty (opt_prop ''paymentIdentifier'' parsed),
        ws_memo = string_or_empty (opt_prop ''memo'' parsed)\<rparr>)"

definition classify_success :: "tool_spend_request \<Rightarrow> paid_body \<Rightarrow> json option \<Rightarrow> devnet_outcome" where
  "classify_success req body header =
     \<lparr>do_ok = True, do_settlement = (case header of None \<Rightarrow> None | Some parsed \<Rightarrow> parse_settlement req parsed),
      do_resource = (case pb_scores body of None \<Rightarrow> None | Some scores \<Rightarrow> Some
        \<lparr>fr_resourceName = or_else (pb_resourceName body) [], fr_scoredAt = or_else (pb_scoredAt body) [],
         fr_fit = or_else (pb_fit body) ''unknown'', fr_scores = scores\<rparr>),
      do_error = None, do_status = None, do_pending = False, do_state = Sp_settled, do_retryable = Some False,
      do_paymentIdentifier = None, do_requestDigest = None, do_evidence = pb_evidence body\<rparr>"

definition classify_reply :: "devnet_attempt \<Rightarrow> tool_spend_request \<Rightarrow> http_reply \<Rightarrow> devnet_outcome" where
  "classify_reply attempt req reply =
     (case reply of
        Transport_failed msg \<Rightarrow> failed_outcome 202 True Sp_manual_reconciliation_required (Some False)
          (da_paymentIdentifier attempt) (da_requestDigest attempt)
          (''Tool-payment transport failed without a transaction signature; manual reconciliation is required. '' @ msg)
      | Http_status status body \<Rightarrow> classify_failure attempt status body
      | Http_paid body header \<Rightarrow> classify_success req body header)"

text \<open>
  \<open>post\<close> is the HTTP request to the application's own route. The digest of the prepared attempt is checked twice, as
  stored and as recomputed from its request.
\<close>

definition attempt_matches :: "machine_env \<Rightarrow> tool_spend_request \<Rightarrow> string \<Rightarrow> devnet_attempt \<Rightarrow> bool" where
  "attempt_matches env req paymentIdentifier attempt =
     (da_paymentIdentifier attempt = paymentIdentifier \<and> da_requestDigest attempt = buildRequestDigest env req \<and>
      canonicalToolSpendRequestDigest (me_sha256 env) (da_spendingRequest attempt) = buildRequestDigest env req)"

definition runDevnetMachineSpend ::
  "client_env \<Rightarrow> (devnet_attempt \<Rightarrow> string option \<Rightarrow> http_reply mm) \<Rightarrow> tool_spend_request \<Rightarrow> string \<Rightarrow>
   devnet_attempt option \<Rightarrow> string option \<Rightarrow> devnet_outcome mm" where
  "runDevnetMachineSpend ce post spendingRequest paymentIdentifier preparedAttempt approvalEventId =
     (let env = ce_machine ce; requestDigest = buildRequestDigest env spendingRequest;
          submit = (\<lambda>attempt. mbind (post attempt approvalEventId) (\<lambda>reply. mret (classify_reply attempt spendingRequest reply)));
          refuse = (\<lambda>status err. failed_outcome status False Sp_rejected None paymentIdentifier requestDigest err)
      in mbind (ensureInitialized env) (\<lambda>_.
           case preparedAttempt of
             Some attempt \<Rightarrow>
               if \<not> attempt_matches env spendingRequest paymentIdentifier attempt
               then mret (refuse 409 ''Prepared payment attempt does not match the spending request.'')
               else submit attempt
           | None \<Rightarrow>
               mbind (mtry (mbind (prepareDevnetMachineSpend ce spendingRequest paymentIdentifier None) (\<lambda>a. mret (Inr a)))
                           (\<lambda>e. mret (Inl e)))
                 (\<lambda>prepared. case prepared of Inl e \<Rightarrow> mret (refuse 502 e) | Inr attempt \<Rightarrow> submit attempt)))"


subsection \<open>The route\<close>

text \<open>
  The JSON bodies of the resource's answers as far as they are read: \<open>detail\<close> is prose. An answer about an
  attempt names it and says whether it can be retried; the others carry the error code only.
\<close>

definition wire_error :: "dev_error \<Rightarrow> json" where
  "wire_error e = JObj ((''error'', JStr (de_error e)) #
     (case de_paymentIdentifier e of
        None \<Rightarrow> []
      | Some pid \<Rightarrow>
          [(''paymentIdentifier'', JStr pid), (''requestDigest'', JStr (or_else (de_requestDigest e) [])),
           (''reconciliationState'', JStr (if de_manual e then ''manual_reconciliation_required'' else ''pending'')),
           (''retryable'', JBool (de_retryable e))] @
          (case de_transactionHash e of None \<Rightarrow> [] | Some tx \<Rightarrow> [(''transactionHash'', JStr tx)])))"

definition wire_paid :: "fit_resource \<Rightarrow> json \<Rightarrow> paid_body" where
  "wire_paid r evidence = \<lparr>pb_evidence = evidence, pb_scores = Some (fr_scores r), pb_fit = Some (fr_fit r),
     pb_resourceName = Some (fr_resourceName r), pb_scoredAt = Some (fr_scoredAt r)\<rparr>"

definition body_json :: "dev_body \<Rightarrow> json" where
  "body_json b = (case b of Body_error e \<Rightarrow> wire_error e | Body_resource _ evidence _ \<Rightarrow> JObj [(''settlementEvidence'', evidence)])"

definition recordFrom :: "json \<Rightarrow> json" where
  "recordFrom value = (case value of JObj _ \<Rightarrow> value | JArr _ \<Rightarrow> value | _ \<Rightarrow> JObj [])"

definition addReference :: "string \<Rightarrow> json \<Rightarrow> (string \<times> string) list \<Rightarrow> (string \<times> string) list" where
  "addReference key value references =
     (case value of
        JStr s \<Rightarrow> if s \<noteq> [] then map_set key s references else references
      | JNum n \<Rightarrow> map_set key (js_String value) references
      | JNonFinite n \<Rightarrow> map_set key (js_String value) references
      | JBool b \<Rightarrow> map_set key (js_String value) references
      | _ \<Rightarrow> references)"

definition coalesce :: "json \<Rightarrow> json \<Rightarrow> json" where
  "coalesce a b = (if a = JNull \<or> a = JUndefined then b else a)"

definition route_state :: "int \<Rightarrow> json \<Rightarrow> string" where
  "route_state status body =
     (case opt_prop ''reconciliationState'' body of JStr s \<Rightarrow> s | _ \<Rightarrow> if status = 200 then ''settled'' else ''rejected'')"

definition route_type :: "int \<Rightarrow> json \<Rightarrow> string" where
  "route_type status body =
     (if status = 200 then ''machine.paid_resource''
      else if route_state status body = ''pending'' then ''machine.spend_pending''
      else if route_state status body = ''manual_reconciliation_required'' then ''machine.spend_manual_reconciliation''
      else ''machine.spend_failed'')"

definition route_references :: "string \<Rightarrow> int \<Rightarrow> json \<Rightarrow> (string \<times> string) list" where
  "route_references requestDigest status body =
     (let ev = recordFrom (opt_prop ''settlementEvidence'' body) in
      addReference ''retryable'' (opt_prop ''retryable'' body)
     (addReference ''reconciliationState'' (JStr (route_state status body))
     (addReference ''explorerUrl'' (opt_prop ''explorerUrl'' ev)
     (addReference ''feePayer'' (opt_prop ''feePayer'' ev)
     (addReference ''payee'' (opt_prop ''payee'' ev)
     (addReference ''payer'' (opt_prop ''payer'' ev)
     (addReference ''amount'' (opt_prop ''amount'' ev)
     (addReference ''asset'' (opt_prop ''asset'' ev)
     (addReference ''network'' (opt_prop ''network'' ev)
     (addReference ''txHash'' (coalesce (opt_prop ''transactionHash'' body) (opt_prop ''transactionHash'' ev))
     (addReference ''paymentIdentifier'' (coalesce (opt_prop ''paymentIdentifier'' body) (opt_prop ''paymentIdentifier'' ev))
     (addReference ''requestDigest'' (JStr requestDigest)
     (addReference ''responseStatus'' (JNum status)
     (addReference ''resource'' (JStr RESOURCE_URL) []))))))))))))))"

text \<open>An event of the same type, payment and request is on the timeline already.\<close>

definition already_recorded :: "string \<Rightarrow> string \<Rightarrow> string \<Rightarrow> audit_event list \<Rightarrow> bool" where
  "already_recorded typ paymentIdentifier requestDigest existing =
     list_ex (\<lambda>e. ae_type e = typ \<and> map_get ''paymentIdentifier'' (ae_externalReferences e) = Some paymentIdentifier \<and>
       (case map_get ''requestDigest'' (ae_externalReferences e) of Some d \<Rightarrow> Some d | None \<Rightarrow> ae_inputDigest e) = Some requestDigest)
       existing"

text \<open>The event the route appends, if any; a failing ledger is ignored.\<close>

definition auditResourceOutcome ::
  "string \<Rightarrow> string \<Rightarrow> int \<Rightarrow> json \<Rightarrow> bool \<Rightarrow> audit_event list \<Rightarrow> audit_input option" where
  "auditResourceOutcome orderId requestDigest status responseBody paymentPresented existing =
     (if status \<noteq> 200 \<and> \<not> paymentPresented then None
      else
        let body = recordFrom responseBody; typ = route_type status body; references = route_references requestDigest status body
        in if (case map_get ''paymentIdentifier'' references of
                 None \<Rightarrow> False | Some pid \<Rightarrow> pid \<noteq> [] \<and> already_recorded typ pid requestDigest existing)
           then None
           else Some ((event orderId typ A_payment)\<lparr>ai_inputDigest := Some requestDigest, ai_externalReferences := references,
             ai_decision := Some (if typ = ''machine.paid_resource'' then PAllow else PReview),
             ai_reasonCodes :=
               (if typ = ''machine.paid_resource'' then [''x402_devnet_settlement_verified'', ''machine_tool_spend'']
                else if typ = ''machine.spend_pending'' then [''x402_settlement_pending'', ''x402_original_attempt_retained'']
                else if typ = ''machine.spend_manual_reconciliation''
                then [''x402_manual_reconciliation_required'', ''x402_original_attempt_retained'']
                else [''x402_payment_rejected''])\<rparr>))"

text \<open>
  The devnet part of the POST handler. \<open>approvals\<close> is \<open>getSession(orderId)?.approvalEventId\<close>, \<open>header\<close> the settlement
  header that comes with a 200. The answer is paired with what is audited; a thrown error becomes
  500. \<open>None\<close> is a handler that has not answered within its fuel.
\<close>

definition error_reply :: "int \<Rightarrow> string \<Rightarrow> http_reply" where
  "error_reply status code = Http_status status (Some (JObj [(''error'', JStr code)]))"

definition fit_score_POST ::
  "nat \<Rightarrow> machine_env \<Rightarrow> (string \<Rightarrow> string option) \<Rightarrow> (dev_result \<Rightarrow> json option) \<Rightarrow> (string \<Rightarrow> audit_event list) \<Rightarrow>
   string \<Rightarrow> string \<Rightarrow> tool_spend_request \<Rightarrow> string option \<Rightarrow> (http_reply \<times> audit_input option) option mm" where
  "fit_score_POST fuel env approvals header timeline paymentSignature callerDigest callerRequest callerApproval =
     (let req = buildDevnetToolSpendRequest (me_config env) (ts_orderId callerRequest) (ts_intentVersion callerRequest);
          requestDigest = buildRequestDigest env req; current = approvals (ts_orderId callerRequest) in
      if callerDigest = [] then mret (Some (error_reply 400 ''spending_request_required'', None))
      else if truthy callerApproval \<and> truthy current \<and> current \<noteq> callerApproval
      then mret (Some (error_reply 409 ''approval_mismatch'', None))
      else if callerDigest \<noteq> requestDigest then mret (Some (error_reply 400 ''digest_mismatch'', None))
      else if paymentSignature = [] then mret (Some (error_reply 402 ''payment_required'', None))
      else mtry (mbind (accept fuel env paymentSignature requestDigest req callerApproval) (\<lambda>answer.
             case answer of
               None \<Rightarrow> mret None
             | Some res \<Rightarrow>
                 mret (Some ((case dr_body res of
                    Body_resource r evidence _ \<Rightarrow> if dr_status res = 200 then Http_paid (wire_paid r evidence) (header res)
                       else Http_status (dr_status res) (Some (body_json (dr_body res)))
                  | Body_error e \<Rightarrow> Http_status (dr_status res) (Some (wire_error e))),
                   auditResourceOutcome (ts_orderId req) requestDigest (dr_status res) (body_json (dr_body res)) True
                     (timeline (ts_orderId req))))))
           (\<lambda>e. mret (Some (error_reply 500 ''internal_error'', None))))"


subsection \<open>The fit-score spend of the order services\<close>

text \<open>
  \<open>runFitScoreSpend\<close> in the segments between its awaits, as actions on the services' state. A ledger entry is
  written once per type, payment and request; reading the timeline and appending is one step here.
\<close>

definition logMachineSpendAuditOnce :: "services_env \<Rightarrow> audit_input \<Rightarrow> unit act" where
  "logMachineSpendAuditOnce env input =
     (let paymentIdentifier = map_get ''paymentIdentifier'' (ai_externalReferences input);
          requestDigest = (case map_get ''requestDigest'' (ai_externalReferences input) of Some d \<Rightarrow> Some d | None \<Rightarrow> ai_inputDigest input)
      in mbind (\<lambda>st. (Inr (audit_timeline (ai_logicalOrderId input) (ap_audit st)), st)) (\<lambda>existing.
           if truthy paymentIdentifier \<and> truthy requestDigest \<and>
              already_recorded (ai_type input) (opt_str paymentIdentifier) (opt_str requestDigest) existing
           then mret () else log_event env input))"

definition spend_event :: "string \<Rightarrow> string \<Rightarrow> string list \<Rightarrow> machine_spend_attempt option \<Rightarrow> audit_input" where
  "spend_event orderId typ codes attempt = (event orderId typ A_agent)
     \<lparr>ai_decision := Some PReview, ai_reasonCodes := codes,
      ai_externalReferences := (case attempt of None \<Rightarrow> []
        | Some a \<Rightarrow> [(''paymentIdentifier'', msa_paymentIdentifier a), (''requestDigest'', msa_requestDigest a)])\<rparr>"

text \<open>The attempt as read from the store; only a live one is retryable.\<close>

definition stored_status :: "attempt_state \<Rightarrow> spend_status" where
  "stored_status st =
     (if st = AS_settled then Sp_settled
      else if st = AS_manual \<or> st = AS_mismatch then Sp_manual_reconciliation_required
      else if st = AS_rejected \<or> st = AS_released then Sp_rejected else Sp_pending)"

definition existing_attempt :: "tool_spend_request \<Rightarrow> stored_attempt \<Rightarrow> string \<Rightarrow> machine_spend_attempt" where
  "existing_attempt currentRequest row signedAttempt =
     \<lparr>msa_paymentIdentifier = or_else (sa_callerPaymentId row) [], msa_requestDigest = sa_requestDigest row,
      msa_spendingRequest = currentRequest, msa_signedAttempt = signedAttempt, msa_status = stored_status (sa_status row),
      msa_retryable = (sa_status row \<in> {AS_pending, AS_settling, AS_awaiting_evidence}), msa_lastError = None\<rparr>"

text \<open>What the spend awaits next: the preparation of a new signed payment, or the answer to the posted one.\<close>

record spend_ctx =
  cs_paymentIdentifier :: string
  cs_requestDigest :: string
  cs_spendingRequest :: tool_spend_request
  cs_existing :: "machine_spend_attempt option"
  cs_wasPending :: bool

datatype spend_step =
    Spend_done "spend_receipt option"
  | Spend_prepare spend_ctx
  | Spend_run spend_ctx devnet_attempt

definition spend_unavailable :: "services_env \<Rightarrow> string \<Rightarrow> spend_step act" where
  "spend_unavailable env orderId =
     mbind (logMachineSpendAuditOnce env (spend_event orderId ''machine.spend_failed'' [''x402_store_unavailable''] None))
       (\<lambda>_. mret (Spend_done None))"

definition attempt_of :: "machine_spend_attempt \<Rightarrow> devnet_attempt" where
  "attempt_of a = \<lparr>da_paymentIdentifier = msa_paymentIdentifier a, da_requestDigest = msa_requestDigest a,
     da_spendingRequest = msa_spendingRequest a, da_encodedPayment = msa_signedAttempt a\<rparr>"

definition spend_decide ::
  "services_env \<Rightarrow> string \<Rightarrow> nat \<Rightarrow> tool_spend_request \<Rightarrow> machine_spend_attempt option \<Rightarrow> spend_step act" where
  "spend_decide env orderId r currentRequest existing =
     (let currentDigest = canonicalToolSpendRequestDigest (sv_sha256 env) currentRequest;
          go = (\<lambda>pid. let ctx = \<lparr>cs_paymentIdentifier = pid,
                  cs_requestDigest = (case existing of None \<Rightarrow> currentDigest | Some a \<Rightarrow> msa_requestDigest a),
                  cs_spendingRequest = (case existing of None \<Rightarrow> currentRequest | Some a \<Rightarrow> msa_spendingRequest a),
                  cs_existing = existing,
                  cs_wasPending = (case existing of None \<Rightarrow> False | Some a \<Rightarrow> msa_status a = Sp_pending)\<rparr> in
                case existing of
                  None \<Rightarrow> mret (Spend_prepare ctx)
                | Some a \<Rightarrow>
                    if msa_status a = Sp_pending \<and> msa_signedAttempt a \<noteq> []
                    then mbind (upd_s r (\<lambda>s. s\<lparr>sn_machineSpendAttempt := Some a\<rparr>)) (\<lambda>_. mret (Spend_run ctx (attempt_of a)))
                    else mret (Spend_prepare ctx))
      in case existing of
           None \<Rightarrow> mbind (new_id env ''pid'') go
         | Some a \<Rightarrow>
             if msa_status a = Sp_manual_reconciliation_required then mret (Spend_done None)
             else if msa_status a = Sp_pending \<and> \<not> msa_retryable a then mret (Spend_done None)
             else if msa_requestDigest a \<noteq> currentDigest
             then mbind (logMachineSpendAuditOnce env (spend_event orderId ''machine.spend_manual_reconciliation''
                    [''x402_manual_reconciliation_required'', ''x402_material_request_changed''] (Some a)))
                    (\<lambda>_. mret (Spend_done None))
             else if msa_paymentIdentifier a \<noteq> [] then go (msa_paymentIdentifier a)
             else mbind (new_id env ''pid'') go)"

text \<open>
  The attempt in the session is the object the spend keeps changing. Before it is assigned to the session,
  a change to it is not seen by anyone.
\<close>

definition upd_attempt :: "nat \<Rightarrow> (machine_spend_attempt \<Rightarrow> machine_spend_attempt) \<Rightarrow> unit act" where
  "upd_attempt r f = upd_s r (\<lambda>s. s\<lparr>sn_machineSpendAttempt := map_option f (sn_machineSpendAttempt s)\<rparr>)"

definition retained_error :: "string \<Rightarrow> string" where
  "retained_error msg =
     ''Tool-payment processing failed after the signed attempt was retained. Manual reconciliation is required; no replacement payment will be submitted. '' @ msg"

definition spend_threw :: "services_env \<Rightarrow> string \<Rightarrow> machine_spend_attempt option \<Rightarrow> spend_step act" where
  "spend_threw env orderId persisted =
     mbind (logMachineSpendAuditOnce env
       (case persisted of
          Some a \<Rightarrow> spend_event orderId ''machine.spend_manual_reconciliation''
            [''x402_manual_reconciliation_required'', ''x402_devnet_spend_error''] (Some a)
        | None \<Rightarrow> spend_event orderId ''machine.spend_failed'' [''x402_devnet_spend_error''] None))
       (\<lambda>_. mret (Spend_done None))"

definition spend_prepared ::
  "services_env \<Rightarrow> string \<Rightarrow> nat \<Rightarrow> spend_ctx \<Rightarrow> devnet_attempt throws \<Rightarrow> spend_step act" where
  "spend_prepared env orderId r ctx reply =
     (case reply of
        Inl e \<Rightarrow> spend_threw env orderId (cs_existing ctx)
      | Inr prepared \<Rightarrow>
          (let persisted = (case cs_existing ctx of Some a \<Rightarrow> a | None \<Rightarrow>
                 \<lparr>msa_paymentIdentifier = da_paymentIdentifier prepared, msa_requestDigest = da_requestDigest prepared,
                  msa_spendingRequest = da_spendingRequest prepared, msa_signedAttempt = da_encodedPayment prepared,
                  msa_status = Sp_pending, msa_retryable = True, msa_lastError = None\<rparr>)
           in mbind (upd_s r (\<lambda>s. s\<lparr>sn_machineSpendAttempt := Some persisted\<rparr>)) (\<lambda>_.
                mret (Spend_run (ctx\<lparr>cs_existing := Some persisted\<rparr>) prepared))))"

definition ev_str :: "json \<Rightarrow> string \<Rightarrow> string \<Rightarrow> string" where
  "ev_str evidence key dflt = (case opt_prop key evidence of JStr s \<Rightarrow> s | _ \<Rightarrow> dflt)"

definition ev_transfer :: "json \<Rightarrow> transfer_evidence option" where
  "ev_transfer evidence = (let t = opt_prop ''transfer'' evidence in case t of
      JObj _ \<Rightarrow> Some \<lparr>te_mint = ev_str t ''mint'' [], te_amount = ev_str t ''amount'' [],
        te_recipient = ev_str t ''recipient'' [], te_payer = ev_str t ''payer'' []\<rparr>
    | _ \<Rightarrow> None)"

definition fit_scores_of :: "fit_resource \<Rightarrow> fit_score list" where
  "fit_scores_of res = map (\<lambda>(p, n, t). \<lparr>fs_productId = p, fs_fitScore = n, fs_note = t\<rparr>) (fr_scores res)"


text \<open>The answer to the posted payment. The attempt was retained before it was posted.\<close>

definition spend_unresolved :: "devnet_outcome \<Rightarrow> bool" where
  "spend_unresolved outcome =
     (do_pending outcome \<or> do_state outcome = Sp_pending \<or> do_state outcome = Sp_manual_reconciliation_required)"

definition spend_failed :: "services_env \<Rightarrow> string \<Rightarrow> nat \<Rightarrow> machine_spend_attempt \<Rightarrow> devnet_outcome \<Rightarrow> spend_step act" where
  "spend_failed env orderId r persisted outcome =
     (if spend_unresolved outcome
      then let state = (if do_state outcome = Sp_pending \<and> do_retryable outcome \<noteq> Some False
                        then Sp_pending else Sp_manual_reconciliation_required) in
           mbind (upd_attempt r (\<lambda>a. a\<lparr>msa_status := state,
             msa_retryable := (case do_retryable outcome of Some b \<Rightarrow> b | None \<Rightarrow> state = Sp_pending), msa_lastError := do_error outcome\<rparr>)) (\<lambda>_.
           mbind (logMachineSpendAuditOnce env
             (if state = Sp_pending
              then spend_event orderId ''machine.spend_pending'' [''x402_settlement_pending'', ''x402_original_attempt_retained''] (Some persisted)
              else spend_event orderId ''machine.spend_manual_reconciliation''
                [''x402_manual_reconciliation_required'', ''x402_original_attempt_retained''] (Some persisted)))
             (\<lambda>_. mret (Spend_done None)))
      else
        mbind (upd_attempt r (\<lambda>a. a\<lparr>msa_status := Sp_rejected, msa_retryable := False, msa_lastError := do_error outcome\<rparr>)) (\<lambda>_.
        mbind (logMachineSpendAuditOnce env (spend_event orderId ''machine.spend_failed'' [''x402_payment_rejected''] None))
          (\<lambda>_. mret (Spend_done None))))"

definition spend_settled ::
  "services_env \<Rightarrow> devnet_config \<Rightarrow> string \<Rightarrow> nat \<Rightarrow> machine_spend_attempt \<Rightarrow> bool \<Rightarrow> wire_settlement \<Rightarrow> fit_resource \<Rightarrow> json \<Rightarrow>
   spend_step act" where
  "spend_settled env config orderId r persisted wasPending settlement resource evidence =
     (let pid = msa_paymentIdentifier persisted; digest = msa_requestDigest persisted; ev = ev_str evidence;
          transfer = ev_transfer evidence; tr = (\<lambda>f. case transfer of None \<Rightarrow> [] | Some t \<Rightarrow> f t) in
      mbind (upd_attempt r (\<lambda>a. a\<lparr>msa_status := Sp_settled, msa_retryable := False, msa_lastError := None\<rparr>)) (\<lambda>_.
      mbind (upd_s r (\<lambda>s. s\<lparr>sn_machineSpend := Some
        \<lparr>msp_paymentIdentifier = pid, msp_settlementHash = ws_transactionHash settlement, msp_fitScores = fit_scores_of resource,
         msp_requestDigest = digest, msp_network = ws_network settlement, msp_asset = ev ''asset'' (dc_devnetUsdcMint config),
         msp_amount = ws_amount settlement, msp_payer = ev ''payer'' [], msp_payee = ev ''payee'' [], msp_feePayer = ev ''feePayer'' [],
         msp_memoVerification = ev ''memoVerification'' ''unavailable'',
         msp_transferVerification = ev ''transferVerification'' ''unavailable'', msp_transfer = transfer,
         msp_explorerUrl = ev ''explorerUrl'' [], msp_settlementMode = ''devnet''\<rparr>\<rparr>)) (\<lambda>_.
      mbind (logMachineSpendAuditOnce env ((event orderId ''machine.paid_resource'' A_agent)
        \<lparr>ai_externalReferences :=
          [(''network'', ws_network settlement), (''paymentIdentifier'', pid), (''txHash'', ws_transactionHash settlement),
           (''feePayer'', ev ''feePayer'' []), (''payee'', ev ''payee'' []), (''asset'', ev ''asset'' []),
           (''amount'', ws_amount settlement), (''mock'', ''false''), (''purpose'', ''fit_scoring''),
           (''mandateMaximum'', formatX402Amount (Num (dc_amountMinor config) 0) @ '' USDC''),
           (''requestedAmount'', formatX402Amount (js_toNumber (ws_amount settlement)) @ '' USDC''),
           (''settlementMode'', ''devnet''), (''requestDigest'', digest), (''invocationStatus'', ''success''),
           (''replayDedupStatus'', if wasPending then ''reconciled_original_attempt'' else ''first_invocation''),
           (''explorerUrl'', ev ''explorerUrl'' []), (''memoVerification'', ev ''memoVerification'' ''unavailable''),
           (''transferVerification'', ev ''transferVerification'' ''unavailable''), (''transferMint'', tr te_mint),
           (''transferAmount'', tr te_amount), (''transferRecipient'', tr te_recipient), (''transferPayer'', tr te_payer)],
         ai_decision := Some PAllow,
         ai_reasonCodes := [if wasPending then ''x402_devnet_settlement_reconciled'' else ''x402_devnet_settlement_verified'',
           ''machine_tool_spend'']\<rparr>)) (\<lambda>_.
        mret (Spend_done (Some \<lparr>sx_mock = False, sx_paymentIdentifier = pid, sx_txHash = ws_transactionHash settlement,
          sx_network = ws_network settlement, sx_amount = ws_amount settlement\<rparr>))))))"

definition spend_finished ::
  "services_env \<Rightarrow> devnet_config \<Rightarrow> string \<Rightarrow> nat \<Rightarrow> spend_ctx \<Rightarrow> devnet_outcome throws \<Rightarrow> spend_step act" where
  "spend_finished env config orderId r ctx reply =
     (case (reply, cs_existing ctx) of
        (Inl e, persisted) \<Rightarrow>
          mbind (upd_attempt r (\<lambda>a. a\<lparr>msa_status := Sp_manual_reconciliation_required, msa_retryable := False,
            msa_lastError := Some (retained_error e)\<rparr>)) (\<lambda>_. spend_threw env orderId persisted)
      | (Inr outcome, Some persisted) \<Rightarrow>
          (case (do_ok outcome, do_settlement outcome, do_resource outcome) of
             (True, Some settlement, Some resource) \<Rightarrow>
               spend_settled env config orderId r persisted (cs_wasPending ctx) settlement resource (do_evidence outcome)
           | _ \<Rightarrow> spend_failed env orderId r persisted outcome)
      | (Inr outcome, None) \<Rightarrow> mret (Spend_done None))"

text \<open>The mock mode: no await, a fresh payment identifier every time.\<close>

definition mock_spend_request :: "string \<Rightarrow> int \<Rightarrow> tool_spend_request" where
  "mock_spend_request orderId intentVersion =
     \<lparr>ts_orderId = orderId, ts_intentVersion = intentVersion, ts_resource = RESOURCE_URL,
      ts_amountMinor = sc_amountMinor DEFAULT_MACHINE_SPEND, ts_network = sc_network DEFAULT_MACHINE_SPEND,
      ts_asset = ''USDC'', ts_payee = sc_payeeWallet DEFAULT_MACHINE_SPEND, ts_purpose = ''fit_scoring''\<rparr>"

definition run_mock :: "services_env \<Rightarrow> header_codec \<Rightarrow> string \<Rightarrow> string \<Rightarrow> machine_spend_outcome act" where
  "run_mock env c envelopeHash paymentIdentifier =
     mbind (now_ms env) (\<lambda>now. mbind (now_ms env) (\<lambda>now'. (\<lambda>st.
       case runMachineSpend c DEFAULT_MACHINE_SPEND now now' envelopeHash paymentIdentifier (ap_machine st) of
         (res, d) \<Rightarrow> (res, st\<lparr>ap_machine := d\<rparr>))))"

definition spend_mock :: "services_env \<Rightarrow> header_codec \<Rightarrow> string \<Rightarrow> nat \<Rightarrow> spend_receipt option act" where
  "spend_mock env c orderId r =
     mbind (get_s r) (\<lambda>s.
     mbind (new_id env ''pid'') (\<lambda>pid.
     let digest = canonicalToolSpendRequestDigest (sv_sha256 env) (mock_spend_request orderId (dm_intentVersion (sn_dialogue s))) in
     mbind (run_mock env c (intentDigest (sn_intent s)) pid) (\<lambda>outcome.
       case (mo_ok outcome, mo_settlement outcome, mo_resource outcome) of
         (True, Some settlement, Some resource) \<Rightarrow>
           (let str = (\<lambda>k. string_or_empty (opt_prop k settlement)); cfg = DEFAULT_MACHINE_SPEND in
            mbind (upd_s r (\<lambda>s. s\<lparr>sn_machineSpend := Some
              \<lparr>msp_paymentIdentifier = pid, msp_settlementHash = str ''transactionHash'', msp_fitScores = fit_scores_of resource,
               msp_requestDigest = digest, msp_network = str ''network'', msp_asset = sc_usdcMint cfg, msp_amount = str ''amount'',
               msp_payer = str ''payer'', msp_payee = sc_payeeWallet cfg, msp_feePayer = ''unavailable (mock)'',
               msp_memoVerification = ''unavailable'', msp_transferVerification = ''unavailable'', msp_transfer = None,
               msp_explorerUrl = [], msp_settlementMode = ''mock''\<rparr>\<rparr>)) (\<lambda>_.
            mbind (log_event env ((event orderId ''machine.paid_resource'' A_agent)
              \<lparr>ai_externalReferences :=
                [(''network'', str ''network''), (''paymentIdentifier'', pid), (''txHash'', str ''transactionHash''),
                 (''feePayer'', ''unavailable (mock)''), (''payee'', sc_payeeWallet cfg), (''asset'', sc_usdcMint cfg),
                 (''amount'', str ''amount''), (''mock'', ''true''), (''purpose'', ''fit_scoring''),
                 (''mandateMaximum'', formatX402Amount (Num (sc_amountMinor cfg) 0) @ '' USDC''),
                 (''requestedAmount'', formatX402Amount (js_toNumber (str ''amount'')) @ '' USDC''),
                 (''settlementMode'', ''mock''), (''requestDigest'', digest), (''invocationStatus'', ''success''),
                 (''replayDedupStatus'', ''first_invocation'')],
               ai_decision := Some PAllow,
               ai_reasonCodes := [''x402_mock_settlement_verified'', ''machine_tool_spend'', ''demo_preauthorized'']\<rparr>)) (\<lambda>_.
              mret (Some \<lparr>sx_mock = True, sx_paymentIdentifier = pid, sx_txHash = str ''transactionHash'', sx_network = str ''network'',
                sx_amount = str ''amount''\<rparr>))))
       | _ \<Rightarrow> mbind (log_event env (spend_event orderId ''machine.spend_failed'' [''x402_payment_rejected''] None)) (\<lambda>_. mret None))))"

definition machineSpendAttemptSummary :: "session \<Rightarrow> attempt_summary option" where
  "machineSpendAttemptSummary s = (case sn_machineSpendAttempt s of
      None \<Rightarrow> None
    | Some a \<Rightarrow> if msa_status a = Sp_settled then None
        else Some \<lparr>sm_paymentIdentifier = msa_paymentIdentifier a, sm_requestDigest = msa_requestDigest a,
                   sm_status = msa_status a, sm_retryable = msa_retryable a\<rparr>)"


subsection \<open>The devnet spend as a whole\<close>

text \<open>
  The segments above put together on the services' state and the store's: look up the live attempt of
  this order and intent version, decide, sign and stage a new payment when there is none to resume, post,
  and record the outcome. Errors of the lookup and of decryption leave the spend; errors after the
  decision are caught. Other requests between the awaits are in the interleaving of the store steps.
\<close>

definition on_app :: "'a act \<Rightarrow> (app \<times> mstate, 'a) action" where
  "on_app m = (\<lambda>(a, s). case m a of (x, a') \<Rightarrow> (x, (a', s)))"

definition on_store :: "'a mm \<Rightarrow> (app \<times> mstate, 'a) action" where
  "on_store m = (\<lambda>(a, s). case m s of (x, s') \<Rightarrow> (x, (a, s')))"

definition caught :: "('s, 'a) action \<Rightarrow> ('s, 'a throws) action" where
  "caught m = mtry (mbind m (\<lambda>x. mret (Inr x))) (\<lambda>e. mret (Inl e))"

definition s_findActive :: "machine_env \<Rightarrow> string \<Rightarrow> int \<Rightarrow> stored_attempt option mm" where
  "s_findActive env orderId v = store_call env (\<lambda>now db. Inr (findActiveAttempt orderId v db, db))"

definition decryptStoredPayload :: "machine_env \<Rightarrow> string \<Rightarrow> string mm" where
  "decryptStoredPayload env ciphertext =
     (case decryptPayload (me_gcm env) (me_encKey env) ciphertext of None \<Rightarrow> mthrow ''decryption failed'' | Some p \<Rightarrow> mret p)"

definition find_existing :: "machine_env \<Rightarrow> tool_spend_request \<Rightarrow> machine_spend_attempt option mm" where
  "find_existing env currentRequest =
     mbind (s_findActive env (ts_orderId currentRequest) (ts_intentVersion currentRequest)) (\<lambda>found.
       case found of
         None \<Rightarrow> mret None
       | Some row \<Rightarrow>
           mbind (if truthy (sa_signedPayloadEnc row) then decryptStoredPayload env (opt_str (sa_signedPayloadEnc row)) else mret [])
             (\<lambda>plain. mret (Some (existing_attempt currentRequest row plain))))"

type_synonym poster = "devnet_attempt \<Rightarrow> string option \<Rightarrow> http_reply mm"

definition spend_submit ::
  "client_env \<Rightarrow> poster \<Rightarrow> services_env \<Rightarrow> string \<Rightarrow> nat \<Rightarrow> spend_ctx \<Rightarrow> devnet_attempt \<Rightarrow> (app \<times> mstate, spend_receipt option) action" where
  "spend_submit ce post env orderId r ctx prepared =
     mbind (on_app (get_s r)) (\<lambda>s.
     mbind (on_store (caught (runDevnetMachineSpend ce post (cs_spendingRequest ctx) (cs_paymentIdentifier ctx) (Some prepared)
              (sn_approvalEventId s)))) (\<lambda>reply.
     mbind (on_app (spend_finished env (me_config (ce_machine ce)) orderId r ctx reply)) (\<lambda>step.
       mret (case step of Spend_done receipt \<Rightarrow> receipt | _ \<Rightarrow> None))))"

definition spend_continue ::
  "client_env \<Rightarrow> poster \<Rightarrow> services_env \<Rightarrow> string \<Rightarrow> nat \<Rightarrow> spend_step \<Rightarrow> (app \<times> mstate, spend_receipt option) action" where
  "spend_continue ce post env orderId r step =
     (case step of
        Spend_done receipt \<Rightarrow> mret receipt
      | Spend_run ctx prepared \<Rightarrow> spend_submit ce post env orderId r ctx prepared
      | Spend_prepare ctx \<Rightarrow>
          mbind (on_app (get_s r)) (\<lambda>s.
          mbind (on_store (caught (prepareDevnetMachineSpend ce (cs_spendingRequest ctx) (cs_paymentIdentifier ctx)
                   (sn_approvalEventId s)))) (\<lambda>reply.
          mbind (on_app (spend_prepared env orderId r ctx reply)) (\<lambda>step'.
            case step' of
              Spend_run ctx' prepared \<Rightarrow> spend_submit ce post env orderId r ctx' prepared
            | Spend_done receipt \<Rightarrow> mret receipt
            | Spend_prepare _ \<Rightarrow> mret None))))"

definition devnet_spend ::
  "client_env \<Rightarrow> poster \<Rightarrow> services_env \<Rightarrow> string \<Rightarrow> nat \<Rightarrow> (app \<times> mstate, spend_receipt option) action" where
  "devnet_spend ce post env orderId r =
     mbind (on_app (get_s r)) (\<lambda>s.
     let req = buildDevnetToolSpendRequest (me_config (ce_machine ce)) orderId (dm_intentVersion (sn_dialogue s)) in
     mbind (on_store (find_existing (ce_machine ce) req)) (\<lambda>existing.
     mbind (on_app (spend_decide env orderId r req existing)) (spend_continue ce post env orderId r)))"

text \<open>The configured mode; the devnet resource may be unavailable, with the error of its construction.\<close>

datatype spend_mode = Mock_mode | Devnet_mode client_env | Devnet_unavailable string

definition runFitScoreSpend ::
  "spend_mode \<Rightarrow> poster \<Rightarrow> header_codec \<Rightarrow> services_env \<Rightarrow> string \<Rightarrow> nat \<Rightarrow> (app \<times> mstate, spend_receipt option) action" where
  "runFitScoreSpend mode post c env orderId r =
     (case mode of
        Devnet_mode ce \<Rightarrow> devnet_spend ce post env orderId r
      | Devnet_unavailable e \<Rightarrow> mbind (on_app (spend_unavailable env orderId)) (\<lambda>_. mret None)
      | Mock_mode \<Rightarrow> on_app (spend_mock env c orderId r))"


subsection \<open>Building the devnet store and resource\<close>

text \<open>
  The factory of the durable store: the connection string and key it is built with, or the boot error. \<open>getenv\<close> is
  \<open>process.env\<close>; the pool behind the connection string is not modelled.
\<close>

definition is_devnet :: "x402_config \<Rightarrow> bool" where
  "is_devnet config = (case config of X402_devnet _ \<Rightarrow> True | X402_mock _ \<Rightarrow> False)"

definition createDevnetSettlementStore :: "key_lib \<Rightarrow> (string \<Rightarrow> string option) \<Rightarrow> (string \<times> string) throws" where
  "createDevnetSettlementStore keys getenv =
     (if getenv ''X402_SETTLEMENT_ENABLED'' = Some ''false''
      then Inl ''x402 settlement is disabled by operator kill-switch.''
      else
        let appUrl = getenv ''X402_APP_DATABASE_URL'';
            appDatabaseUrl = (if truthy appUrl then appUrl else getenv ''DATABASE_URL'') in
        case loadX402Config keys getenv of
          Inl e \<Rightarrow> Inl e
        | Inr config \<Rightarrow>
            if (is_devnet config \<or> getenv ''NODE_ENV'' = Some ''production'') \<and> \<not> truthy appUrl
            then Inl ''X402_APP_DATABASE_URL (x402_app credential) is required; refusing the privileged DATABASE_URL.''
            else (case assertSettlementStoreAllowed
                    \<lparr>sc_databaseUrl = appDatabaseUrl, sc_encKeyHex = getenv ''X402_STORE_ENC_KEY'', sc_devnet = is_devnet config,
                     sc_nodeEnv = getenv ''NODE_ENV'', sc_settlementEnabled = Some True\<rparr> of
                    Inl e \<Rightarrow> Inl e
                  | Inr backend \<Rightarrow>
                      if backend \<noteq> Backing_postgres
                      then Inl ''PostgreSQL settlement store is required for x402 devnet operation.''
                      else (case parseEncryptionKey (getenv ''X402_STORE_ENC_KEY'') of
                              Inl e \<Rightarrow> Inl e
                            | Inr key \<Rightarrow> Inr (opt_str appDatabaseUrl, key))))"

text \<open>The singleton of the module: a test double wins, a resource built once is kept.\<close>

definition getDevnetMachineResource ::
  "'r option \<Rightarrow> (devnet_config \<Rightarrow> string \<times> string \<Rightarrow> 'r) \<Rightarrow> key_lib \<Rightarrow> (string \<Rightarrow> string option) \<Rightarrow> 'r option \<Rightarrow>
   'r throws \<times> 'r option" where
  "getDevnetMachineResource override build keys getenv cached =
     (case override of
        Some t \<Rightarrow> (Inr t, cached)
      | None \<Rightarrow>
          (case cached of
             Some res \<Rightarrow> (Inr res, cached)
           | None \<Rightarrow>
               (case loadX402Config keys getenv of
                  Inl e \<Rightarrow> (Inl e, None)
                | Inr (X402_mock _) \<Rightarrow> (Inl ''getDevnetMachineResource called but X402_MODE is not devnet'', None)
                | Inr (X402_devnet config) \<Rightarrow>
                    (case createDevnetSettlementStore keys getenv of
                       Inl e \<Rightarrow> (Inl e, None)
                     | Inr store \<Rightarrow> (Inr (build config store), Some (build config store))))))"

end
