(* ===== verification/Regex.thy ===== *)
theory Regex
  imports Prelude
begin

text \<open>
  JavaScript regular expressions as the message parsers use them: literals, classes, word boundaries,
  greedy bounded repetition, ordered alternatives and capture groups. A match is a position in the text,
  \<open>rmatch\<close> lists the positions reachable from a given one in the order backtracking tries them, and the
  search takes the first one from the leftmost start. Patterns are matched on bytes; \<open>\s\<close>, \<open>\w\<close> and case
  folding are those of ASCII, which is what \<open>\w\<close>, \<open>\b\<close> and the \<open>i\<close> flag are; of the white space beyond
  ASCII that \<open>\s\<close> also covers, none is modelled.
\<close>

subsection \<open>Patterns and positions\<close>

datatype regex =
    Lit string
  | Class "char list"
  | Digit | Space | Word | Any
  | Boundary | Start | End
  | Seq regex regex
  | Alt regex regex
  | Repeat nat "nat option" regex
  | Group nat regex

text \<open>The text before the position, reversed; the text after it; the groups captured so far.\<close>

record pos =
  before :: string
  after :: string
  groups :: "(nat \<times> string) list"

definition is_word :: "char \<Rightarrow> bool" where
  "is_word c = (let n = of_char c :: nat in 48 \<le> n \<and> n \<le> 57 \<or> 65 \<le> n \<and> n \<le> 90 \<or> n = 95 \<or> 97 \<le> n \<and> n \<le> 122)"

definition head_is :: "(char \<Rightarrow> bool) \<Rightarrow> string \<Rightarrow> bool" where
  "head_is P s = (case s of [] \<Rightarrow> False | c # _ \<Rightarrow> P c)"

definition one_char :: "(char \<Rightarrow> bool) \<Rightarrow> pos \<Rightarrow> pos list" where
  "one_char P p = (case after p of
     [] \<Rightarrow> [] | c # cs \<Rightarrow> if P c then [p\<lparr>before := c # before p, after := cs\<rparr>] else [])"

definition literal :: "string \<Rightarrow> pos \<Rightarrow> pos list" where
  "literal s p = (if take (length s) (after p) = s
     then [p\<lparr>before := rev s @ before p, after := drop (length s) (after p)\<rparr>] else [])"

definition newline :: "char \<Rightarrow> bool" where
  "newline c = ((of_char c :: nat) \<in> {10, 13})"

text \<open>
  Greedy repetition: one more round first, then stopping. A round that consumes nothing ends the loop;
  the fuel is the number of rounds left, and the text that is left bounds it.
\<close>

fun rounds :: "(pos \<Rightarrow> pos list) \<Rightarrow> nat \<Rightarrow> nat \<Rightarrow> nat option \<Rightarrow> pos \<Rightarrow> pos list" where
  "rounds step 0 lo hi p = (if lo = 0 then [p] else [])"
| "rounds step (Suc fuel) lo hi p =
     (if hi = Some 0 then []
      else concat (map (rounds step fuel (lo - 1) (map_option (\<lambda>n. n - 1) hi))
             (filter (\<lambda>q. length (after q) < length (after p)) (step p)))) @
     (if lo = 0 then [p] else [])"

primrec rmatch :: "regex \<Rightarrow> pos \<Rightarrow> pos list" where
  "rmatch (Lit s) p = literal s p"
| "rmatch (Class cs) p = one_char (\<lambda>c. c \<in> set cs) p"
| "rmatch Digit p = one_char is_digit p"
| "rmatch Space p = one_char is_space p"
| "rmatch Word p = one_char is_word p"
| "rmatch Any p = one_char (\<lambda>c. \<not> newline c) p"
| "rmatch Boundary p = (if head_is is_word (before p) \<noteq> head_is is_word (after p) then [p] else [])"
| "rmatch Start p = (if before p = [] then [p] else [])"
| "rmatch End p = (if after p = [] then [p] else [])"
| "rmatch (Seq r s) p = concat (map (rmatch s) (rmatch r p))"
| "rmatch (Alt r s) p = rmatch r p @ rmatch s p"
| "rmatch (Repeat lo hi r) p = rounds (rmatch r) (Suc (length (after p))) lo hi p"
| "rmatch (Group n r) p =
     map (\<lambda>q. q\<lparr>groups := map_set n (rev (take (length (before q) - length (before p)) (before q))) (groups q)\<rparr>) (rmatch r p)"

subsection \<open>Searching\<close>

fun search :: "regex \<Rightarrow> string \<Rightarrow> string \<Rightarrow> (pos \<times> string) option" where
  "search r pre [] = (case rmatch r \<lparr>before = pre, after = [], groups = []\<rparr> of [] \<Rightarrow> None | q # _ \<Rightarrow> Some (q, pre))"
| "search r pre (c # cs) =
     (case rmatch r \<lparr>before = pre, after = c # cs, groups = []\<rparr> of
        q # _ \<Rightarrow> Some (q, pre) | [] \<Rightarrow> search r (c # pre) cs)"

definition re_test :: "regex \<Rightarrow> string \<Rightarrow> bool" where
  "re_test r s = (search r [] s \<noteq> None)"

text \<open>\<open>s.match(r)\<close>: the captured groups.\<close>

definition re_match :: "regex \<Rightarrow> string \<Rightarrow> (nat \<times> string) list option" where
  "re_match r s = map_option (\<lambda>(q, _). groups q) (search r [] s)"

text \<open>
  \<open>s.matchAll(r)\<close> and \<open>s.replace(r, t)\<close> with the global flag: after a match the search goes on behind it, one
  character further when it was empty.
\<close>

function search_all :: "regex \<Rightarrow> string \<Rightarrow> string \<Rightarrow> (pos \<times> string) list" where
  "search_all r pre s =
     (case search r pre s of
        None \<Rightarrow> []
      | Some (q, at) \<Rightarrow>
          (q, at) #
          (if length (after q) < length s then search_all r (before q) (after q)
           else case s of [] \<Rightarrow> [] | c # cs \<Rightarrow> search_all r (c # pre) cs))"
  by pat_completeness auto
termination
  by (relation "measure (\<lambda>(r, pre, s). length s)") auto

definition re_matchAll :: "regex \<Rightarrow> string \<Rightarrow> (nat \<times> string) list list" where
  "re_matchAll r s = map (\<lambda>(q, _). groups q) (search_all r [] s)"

fun splice :: "string \<Rightarrow> string \<Rightarrow> nat \<Rightarrow> (pos \<times> string) list \<Rightarrow> string" where
  "splice s t i [] = drop i s"
| "splice s t i ((q, at) # ms) =
     take (length at - i) (drop i s) @ t @ splice s t (length (before q)) ms"

definition re_replaceAll :: "regex \<Rightarrow> string \<Rightarrow> string \<Rightarrow> string" where
  "re_replaceAll r t s = splice s t 0 (search_all r [] s)"

abbreviation star :: "regex \<Rightarrow> regex" where "star r \<equiv> Repeat 0 None r"
abbreviation plus1 :: "regex \<Rightarrow> regex" where "plus1 r \<equiv> Repeat 1 None r"
abbreviation opt :: "regex \<Rightarrow> regex" where "opt r \<equiv> Repeat 0 (Some 1) r"

fun seqs :: "regex list \<Rightarrow> regex" where
  "seqs [] = Lit []"
| "seqs [r] = r"
| "seqs (r # rs) = Seq r (seqs rs)"

fun alts :: "regex list \<Rightarrow> regex" where
  "alts [] = Class []"
| "alts [r] = r"
| "alts (r # rs) = Alt r (alts rs)"

declare search_all.simps [simp del]

subsection \<open>What a match is\<close>

text \<open>Matching moves forward in one and the same text.\<close>

definition forward :: "pos \<Rightarrow> pos \<Rightarrow> bool" where
  "forward p q = (\<exists>w. before q = rev w @ before p \<and> after p = w @ after q)"

lemma forward_refl [simp]: "forward p p"
  by (simp add: forward_def)

lemma forward_trans: "forward p q \<Longrightarrow> forward q r \<Longrightarrow> forward p r"
  by (auto simp: forward_def)

lemma forward_groups [simp]: "forward p (q\<lparr>groups := g\<rparr>) = forward p q"
  by (simp add: forward_def)

lemma rounds_forward:
  assumes step: "\<And>p q. q \<in> set (step p) \<Longrightarrow> forward p q"
  shows "q \<in> set (rounds step fuel lo hi p) \<Longrightarrow> forward p q"
proof (induction fuel arbitrary: lo hi p)
  case (Suc fuel)
  then consider "q = p" | q' where "q' \<in> set (step p)" "q \<in> set (rounds step fuel (lo - 1) (map_option (\<lambda>n. n - 1) hi) q')"
    by (auto split: if_splits)
  then show ?case
  proof cases
    case 2
    then show ?thesis using Suc.IH step forward_trans by blast
  qed simp
qed (simp split: if_splits)

lemma rmatch_forward: "q \<in> set (rmatch r p) \<Longrightarrow> forward p q"
proof (induction r arbitrary: p q)
  case (Lit s)
  then show ?case
    by (auto simp: literal_def forward_def split: if_splits intro!: exI [of _ s]) (metis append_take_drop_id)
next
  case (Seq r s)
  then obtain x where "x \<in> set (rmatch r p)" "q \<in> set (rmatch s x)" by auto
  with Seq.IH show ?case using forward_trans by blast
next
  case (Repeat lo hi r)
  show ?case using Repeat.prems unfolding rmatch.simps by (rule rounds_forward [rotated]) (rule Repeat.IH)
qed (auto simp: one_char_def forward_def split: list.splits if_splits)

text \<open>The fuel of a repetition is enough: rounds consume, so more fuel changes nothing.\<close>

lemma rounds_fuel: "length (after p) < fuel \<Longrightarrow> rounds step fuel lo hi p = rounds step (Suc (length (after p))) lo hi p"
proof (induction "length (after p)" arbitrary: p fuel lo hi rule: less_induct)
  case less
  then obtain m where fuel: "fuel = Suc m" by (cases fuel) auto
  have "rounds step m lo' hi' q = rounds step (length (after p)) lo' hi' q"
    if "length (after q) < length (after p)" for q lo' hi'
  proof -
    have "rounds step m lo' hi' q = rounds step (Suc (length (after q))) lo' hi' q"
      "rounds step (length (after p)) lo' hi' q = rounds step (Suc (length (after q))) lo' hi' q"
      using less that fuel by auto
    then show ?thesis by simp
  qed
  then have eq: "map (rounds step m lo' hi') (filter (\<lambda>q. length (after q) < length (after p)) (step p)) =
      map (rounds step (length (after p)) lo' hi') (filter (\<lambda>q. length (after q) < length (after p)) (step p))" for lo' hi'
    by auto
  show ?case by (simp only: fuel rounds.simps eq)
qed

lemma search_Some:
  assumes "search r pre s = Some (q, at)"
  shows "\<exists>w. at = rev w @ pre \<and> forward \<lparr>before = at, after = drop (length w) s, groups = []\<rparr> q \<and> w = take (length w) s"
  using assms
proof (induction r pre s rule: search.induct)
  case (1 r pre)
  then show ?case using rmatch_forward [of q r "\<lparr>before = pre, after = [], groups = []\<rparr>"]
    by (auto split: list.splits intro!: exI [of _ "[]"])
next
  case (2 r pre c cs)
  show ?case
  proof (cases "rmatch r \<lparr>before = pre, after = c # cs, groups = []\<rparr>")
    case Nil
    with 2 obtain w where "at = rev w @ c # pre" "forward \<lparr>before = at, after = drop (length w) cs, groups = []\<rparr> q" "w = take (length w) cs"
      by auto
    then show ?thesis by (intro exI [of _ "c # w"]) auto
  next
    case (Cons a as)
    with 2 have "q = a" "at = pre" by auto
    with Cons rmatch_forward [of a r "\<lparr>before = pre, after = c # cs, groups = []\<rparr>"] show ?thesis
      by (intro exI [of _ "[]"]) auto
  qed
qed

end
