(* ===== verification/Intent.thy ===== *)
theory Intent
  imports Regex Dialogue
begin

text \<open>
  Reading a customer's message without a language model: \<open>parseIntentMessage\<close> and \<open>isNegated\<close> of
  \<open>apps/web/lib/intent.ts\<close>, the schema of \<open>interpreter/schema.ts\<close>, and all of
  \<open>interpreter/deterministic.ts\<close>. The clock and the server's offset from UTC are parameters; numbers are
  exact, where the code's doubles are exact below \<open>2 ^ 53\<close>.
\<close>

subsection \<open>Reading a message (intent.ts)\<close>

definition USE_CASES :: "string list" where
  "USE_CASES = [''road'', ''trail'', ''gym'', ''casual'']"

definition COLOURS :: "string list" where
  "COLOURS = [''black'', ''white'', ''grey'', ''navy'', ''blue'', ''red'']"

definition DAYS :: "string list" where
  "DAYS = [''sunday'', ''monday'', ''tuesday'', ''wednesday'', ''thursday'', ''friday'', ''saturday'']"

definition rupee :: string where
  "rupee = [CHR 0xE2, CHR 0x82, CHR 0xB9]"

definition negation :: "string \<Rightarrow> regex" where
  "negation token =
     (let wish = seqs [plus1 Space, alts [Lit ''want'', Lit ''like'', Lit ''need'']] in
      seqs [Boundary,
        alts [Lit ''not'', Lit ''no'', Lit ''never'', seqs [Lit ''don'', opt (Lit [CHR 0x27]), Lit ''t'', wish],
              seqs [Lit ''do'', plus1 Space, Lit ''not'', wish]],
        plus1 Space, opt (alts [Lit ''a'', Lit ''the'', Lit ''any'']), star Space, Lit token, Boundary])"

definition isNegated :: "string \<Rightarrow> string \<Rightarrow> bool" where
  "isNegated text token = re_test (negation (toLowerCase token)) (toLowerCase text)"

definition distance_re :: regex where
  "distance_re = seqs [Group 1 (Repeat 1 (Some 3) Digit), star Space, Lit ''k'', star Space, opt (Lit ''m''), Boundary]"

definition digit_space_comma :: regex where
  "digit_space_comma = alts [Digit, Space, Lit '','']"

definition currency_prefix :: regex where
  "currency_prefix = alts [Lit rupee, seqs [Lit ''rs'', opt (Lit ''.'')]]"

definition amount_re :: regex where
  "amount_re = alts
     [seqs [currency_prefix, star Space, Group 1 (seqs [Digit, plus1 digit_space_comma])],
      Group 2 (seqs [Repeat 1 (Some 3) Digit, plus1 (seqs [alts [Space, Lit '',''], Repeat 3 (Some 3) Digit])]),
      Group 3 (Repeat 4 None Digit)]"

definition correction_re :: regex where
  "correction_re = alts [seqs [Boundary, Lit ''to'', Boundary], Lit [CHR 0xE2, CHR 0x86, CHR 0x92], Lit ''->'', Lit ''=>'']"

definition limit_re :: regex where
  "limit_re = seqs
     [alts [Lit ''under'', Lit ''below'', Lit ''less than'', Lit ''max'', Lit ''at most'', Lit ''upto'', Lit ''up to'', Lit ''for''],
      star Space,
      opt (alts [Lit rupee, seqs [Lit ''rs'', opt (Lit ''.'')], Lit ''inr'', seqs [Lit ''rupee'', opt (Lit ''s'')]]),
      star Space, Group 1 (seqs [Digit, star digit_space_comma])]"

definition group :: "nat \<Rightarrow> (nat \<times> string) list \<Rightarrow> string" where
  "group n gs = (case map_get n gs of None \<Rightarrow> [] | Some s \<Rightarrow> s)"

definition parseIndianAmount :: "string \<Rightarrow> int" where
  "parseIndianAmount raw = int (str_nat (filter is_digit raw)) * 100"

definition amounts_of :: "string \<Rightarrow> int list" where
  "amounts_of text =
     concat (map (\<lambda>m.
       let raw = (if group 1 m \<noteq> [] then group 1 m else if group 2 m \<noteq> [] then group 2 m else group 3 m);
           digits = filter is_digit raw
       in if digits \<noteq> [] then [int (str_nat digits) * 100] else []) (re_matchAll amount_re text))"

definition parse_amount :: "string \<Rightarrow> int option" where
  "parse_amount text =
     (let allAmounts = amounts_of text; hasCorrectionKeyword = re_test correction_re text in
      if hasCorrectionKeyword \<and> length allAmounts \<ge> 2 then Some (last allAmounts)
      else if length allAmounts = 1 \<and> hasCorrectionKeyword then js_head allAmounts
      else map_option (\<lambda>m. parseIndianAmount (group 1 m)) (re_match limit_re text))"

definition size_re :: "string \<Rightarrow> regex" where
  "size_re sz = seqs [Boundary, Lit ''uk'', star Space, Lit (drop 3 (toLowerCase sz)), Boundary]"

definition parse_size :: "string \<Rightarrow> string option" where
  "parse_size text =
     (case js_find (\<lambda>sz. str_includes text (toLowerCase sz) \<or> re_test (size_re sz) text) SIZES of
        Some sz \<Rightarrow> Some sz
      | None \<Rightarrow>
          (case re_match (seqs [Boundary, Lit ''size'', star Space, Group 1 (Repeat 1 (Some 2) Digit), Boundary]) text of
             None \<Rightarrow> None
           | Some m \<Rightarrow> let num = str_nat (group 1 m) in if 6 \<le> num \<and> num \<le> 11 then Some (''UK '' @ nat_str num) else None))"

definition parse_useCase :: "string \<Rightarrow> string option" where
  "parse_useCase text = js_find (\<lambda>use.
     \<not> isNegated text use \<and> \<not> (use = ''road'' \<and> isNegated text ''running'') \<and>
     (str_includes text use \<or> use = ''road'' \<and> str_includes text ''running'')) USE_CASES"

definition parse_colour :: "string \<Rightarrow> string option" where
  "parse_colour text = js_find (\<lambda>colour. \<not> isNegated text colour \<and> re_test (seqs [Boundary, Lit colour, Boundary]) text) COLOURS"

definition weekday :: "int \<Rightarrow> int" where
  "weekday local = (local div 86400000 + 4) mod 7"

definition nextWeekday :: "int \<Rightarrow> int \<Rightarrow> int \<Rightarrow> int \<Rightarrow> string" where
  "nextWeekday now tz targetDay hour =
     (let local = now + tz; today = weekday local; d = (targetDay - today + 7) mod 7; delta = (if d = 0 then 7 else d)
      in toISOString ((local div 86400000 + delta) * 86400000 + hour * 3600000 + 3599999 - tz))"

definition parse_deliverBy :: "int \<Rightarrow> int \<Rightarrow> string \<Rightarrow> string option" where
  "parse_deliverBy now tz text =
     (case js_find (\<lambda>(index, day). str_includes text day) (enumerate 0 DAYS) of
        Some (index, day) \<Rightarrow> Some (nextWeekday now tz (int index) 1)
      | None \<Rightarrow> if re_test (seqs [Boundary, Lit ''tomorrow'', Boundary]) text
                then Some (nextWeekday now tz (weekday (now + tz)) 1) else None)"

definition no_punctuation :: "string \<Rightarrow> string" where
  "no_punctuation s = map (\<lambda>c. if c = CHR '','' \<or> c = CHR ''.'' then CHR '' '' else c) s"

definition parseIntentMessage :: "int \<Rightarrow> int \<Rightarrow> string \<Rightarrow> parsed_intent" where
  "parseIntentMessage now tz message =
     (let text = no_punctuation (toLowerCase message);
          textWithoutDistance = re_replaceAll distance_re '' DIST '' text
      in \<lparr>in_size = parse_size text, in_colour = parse_colour text, in_useCase = parse_useCase text,
          in_maxAmountMinor = parse_amount textWithoutDistance,
          in_mustBeReturnable = (if re_test (seqs [Boundary, Lit ''return'', star Word, Boundary]) text then Some True else None),
          in_deliverBy = parse_deliverBy now tz text,
          in_distanceKm = map_option (\<lambda>m. int (str_nat (group 1 m))) (re_match distance_re text),
          in_fit = (if str_includes text ''wide'' then Some ''wide'' else if str_includes text ''narrow'' then Some ''narrow''
                    else if str_includes text ''standard'' then Some ''standard'' else None),
          in_cushioning = (if str_includes text ''max cushioning'' \<or> str_includes text ''cushioning preferred'' then Some ''max''
                    else if str_includes text ''minimal'' \<or> str_includes text ''light cushioning'' then Some ''minimal''
                    else if str_includes text ''balanced'' then Some ''balanced'' else None)\<rparr>)"


subsection \<open>Interpretations (schema.ts)\<close>

datatype interpretation_action = Act_search | Act_refine | Act_compare | Act_explain | Act_select | Act_restart

definition INTERPRETER_SCHEMA_VERSION :: string where
  "INTERPRETER_SCHEMA_VERSION = ''ai1.v1''"

definition HARD_CONSTRAINT_NAMES :: "string list" where
  "HARD_CONSTRAINT_NAMES = [''size'', ''useCase'', ''colour'', ''maxAmountMinor'', ''mustBeReturnable'', ''deliverBy'']"

definition SOFT_PREFERENCE_NAMES :: "string list" where
  "SOFT_PREFERENCE_NAMES = [''fit'', ''cushioning'', ''distanceKm'']"

definition SUPPORTED_FITS :: "string list" where "SUPPORTED_FITS = [''wide'', ''narrow'', ''standard'']"

definition SUPPORTED_CUSHIONING :: "string list" where "SUPPORTED_CUSHIONING = [''max'', ''balanced'', ''minimal'']"

definition MIN_AMOUNT_MINOR :: int where "MIN_AMOUNT_MINOR = 10000"

definition MAX_AMOUNT_MINOR :: int where "MAX_AMOUNT_MINOR = 1000000"

datatype field_value = VStr string | VNum int | VBool bool

record proposal =
  pp_name :: string
  pp_value :: field_value
  pp_evidence :: string

text \<open>A JSON number as its shortest decimal: \<open>Dec m n\<close> is \<open>m / 10 ^ n\<close>.\<close>

datatype decimal = Dec int nat

record structured_interpretation =
  si_schemaVersion :: string
  si_action :: interpretation_action
  si_hard :: "proposal list"
  si_soft :: "proposal list"
  si_corrections :: "string list"
  si_removals :: "string list"
  si_ambiguities :: "string list"
  si_confidence :: decimal
  si_requestedProductIds :: "string list"

subsection \<open>The deterministic interpreter (deterministic.ts)\<close>

definition PRODUCT_NAME_ALIASES :: "(string \<times> string list) list" where
  "PRODUCT_NAME_ALIASES =
     [(''p_streak_4'', [''streak 4'', ''streak4'', ''streak'']), (''p_vista_max'', [''max cushion'', ''vista max'', ''maxcushion'']),
      (''p_stride_lite'', [''stride lite'', ''stride'']), (''p_trail_rock'', [''trail rock'']), (''p_gym_pace'', [''gym pace'']),
      (''p_casual_day'', [''everyday'', ''casual day''])]"

definition findProductIds :: "string \<Rightarrow> string list" where
  "findProductIds message =
     (let lower = toLowerCase message in
      take 5 (map cp_productId (filter (\<lambda>product.
        \<exists>alias \<in> set (case map_get (cp_productId product) PRODUCT_NAME_ALIASES of
                        Some aliases \<Rightarrow> aliases | None \<Rightarrow> [toLowerCase (cp_name product)]).
          str_includes lower alias) (cat_products SHOE_CATALOG))))"

text \<open>\<open>\b a \s+ b \b\<close> and \<open>\b a \b .* \b b \b\<close>, the shapes most patterns have.\<close>

definition two_words :: "string \<Rightarrow> string \<Rightarrow> regex" where
  "two_words a b = seqs [Boundary, Lit a, plus1 Space, Lit b, Boundary]"

definition word :: "string \<Rightarrow> regex" where
  "word a = seqs [Boundary, Lit a, Boundary]"

definition word_then :: "regex \<Rightarrow> regex \<Rightarrow> regex" where
  "word_then a b = seqs [Boundary, a, Boundary, star Any, Boundary, b, Boundary]"

definition detectRemovals :: "string \<Rightarrow> string list" where
  "detectRemovals message =
     (let lower = toLowerCase message in
      js_set (
        (if re_test (alts [two_words ''not'' ''black'', two_words ''no'' ''black'',
              seqs [Boundary, Lit ''don'', opt (Lit [CHR 0x27]), Lit ''t'', plus1 Space, alts [Lit ''want'', Lit ''like''],
                    plus1 Space, Lit ''black'', Boundary]]) lower then [''colour''] else []) @
        (if isNegated message ''road'' \<or> isNegated message ''running'' then [''useCase''] else []) @
        (if isNegated message ''trail'' then [''useCase''] else []) @
        (if isNegated message ''gym'' then [''useCase''] else []) @
        (if isNegated message ''casual'' then [''useCase''] else []) @
        concat (map (\<lambda>colour. if isNegated message colour then [''colour''] else [])
          [''white'', ''grey'', ''navy'', ''blue'', ''red'']) @
        (if re_test (alts [word_then (Lit ''remove'') (Lit ''cushioning''), two_words ''no'' ''cushioning'']) lower
         then [''cushioning''] else []) @
        (if re_test (alts [word_then (Lit ''remove'') (Lit ''fit''), two_words ''no'' ''wide'', two_words ''not'' ''wide'']) lower
         then [''fit''] else []) @
        (if re_test (alts [word_then (Lit ''remove'') (alts [Lit ''return'', Lit ''returnable'']), two_words ''not'' ''returnable'']) lower
         then [''mustBeReturnable''] else [])))"

definition detectCorrections :: "string \<Rightarrow> string list" where
  "detectCorrections message =
     (let lower = toLowerCase message;
          verbs = [Lit ''actually'', seqs [Lit ''make'', plus1 Space, Lit ''it''], Lit ''instead'', Lit ''change'', Lit ''switch'']
      in (if re_test (word_then (alts (verbs @ [Lit ''correction''])) (Lit ''size'')) lower then [''size''] else []) @
         (if re_test (alts [word_then (alts verbs) (Lit ''budget''),
                seqs [Boundary, alts [Lit ''under'', Lit ''below'', Lit ''max''], plus1 Space, Lit rupee]]) lower
          then [''maxAmountMinor''] else []))"

definition indexOf :: "string \<Rightarrow> string \<Rightarrow> nat option" where
  "indexOf hay needle = js_find (\<lambda>i. starts_with needle (drop i hay)) [0..<Suc (length hay)]"

definition evidenceFor :: "string \<Rightarrow> string \<Rightarrow> string" where
  "evidenceFor message token =
     (case indexOf (toLowerCase message) (toLowerCase token) of
        Some idx \<Rightarrow> take (length token) (drop idx message) | None \<Rightarrow> token)"

definition cheaper_re :: regex where
  "cheaper_re = alts [word ''cheaper'', word ''cheapest'', two_words ''lower'' ''price'', two_words ''less'' ''expensive'']"

definition reduced_budget :: "int option \<Rightarrow> int" where
  "reduced_budget budget = max 10000 (round_div ((case budget of None \<Rightarrow> 500000 | Some b \<Rightarrow> b) * 4) 5)"

definition str_proposal :: "string \<Rightarrow> string \<Rightarrow> string option \<Rightarrow> proposal list" where
  "str_proposal message name v =
     (if truthy v then [\<lparr>pp_name = name, pp_value = VStr (opt_str v), pp_evidence = evidenceFor message (opt_str v)\<rparr>] else [])"

definition parsed_hard :: "string \<Rightarrow> parsed_intent \<Rightarrow> proposal list" where
  "parsed_hard message parsed =
     str_proposal message ''size'' (in_size parsed) @ str_proposal message ''colour'' (in_colour parsed) @
     str_proposal message ''useCase'' (in_useCase parsed) @
     (case in_maxAmountMinor parsed of
        None \<Rightarrow> []
      | Some v \<Rightarrow> [\<lparr>pp_name = ''maxAmountMinor'', pp_value = VNum v, pp_evidence = evidenceFor message (int_str (v div 100))\<rparr>]) @
     (if in_mustBeReturnable parsed = Some True
      then [\<lparr>pp_name = ''mustBeReturnable'', pp_value = VBool True, pp_evidence = evidenceFor message ''return''\<rparr>] else [])"

definition parsed_soft :: "string \<Rightarrow> parsed_intent \<Rightarrow> proposal list" where
  "parsed_soft message parsed =
     str_proposal message ''fit'' (in_fit parsed) @ str_proposal message ''cushioning'' (in_cushioning parsed) @
     (case in_distanceKm parsed of
        None \<Rightarrow> []
      | Some v \<Rightarrow> [\<lparr>pp_name = ''distanceKm'', pp_value = VNum v, pp_evidence = evidenceFor message (int_str v @ ''K'')\<rparr>])"

definition explain_re :: regex where
  "explain_re = alts
     [seqs [Boundary, Lit ''why'', plus1 Space, alts [Lit ''not'', Lit ''this'', Lit ''that'', Lit ''the''], Boundary],
      seqs [Boundary, Lit ''why'', plus1 Space, plus1 Word, Boundary], word ''explain'',
      seqs [Boundary, Lit ''what'', plus1 Space, Lit ''am'', plus1 Space, Lit ''i'', plus1 Space, Lit ''compromising'', Boundary]]"

definition detect_action :: "string \<Rightarrow> string list \<Rightarrow> string list \<Rightarrow> string list \<Rightarrow> interpretation_action" where
  "detect_action lower productIds removals corrections =
     (if re_test (alts [word ''restart'', two_words ''start'' ''over'', two_words ''new'' ''conversation'']) lower then Act_restart
      else if re_test (alts [word ''compare'', word ''versus'', word ''vs'']) lower \<and> length productIds \<ge> 1 then Act_compare
      else if re_test explain_re lower then Act_explain
      else if re_test (seqs [Boundary, alts [Lit ''select'', Lit ''pick'', Lit ''choose''], Boundary]) lower \<and> length productIds \<ge> 1
      then Act_select
      else if length removals > 0 \<or> length corrections > 0 \<or> re_test (word ''cheaper'') lower then Act_refine
      else Act_search)"

definition deterministicInterpretation :: "int \<Rightarrow> int \<Rightarrow> string \<Rightarrow> parsed_intent \<Rightarrow> structured_interpretation" where
  "deterministicInterpretation now tz message currentIntent =
     (let lower = no_punctuation (toLowerCase message);
          parsed = parseIntentMessage now tz message;
          productIds = findProductIds message;
          removals = detectRemovals message;
          corrections = detectCorrections message;
          reduces = (re_test cheaper_re lower \<and> ''maxAmountMinor'' \<notin> set corrections);
          proposedHard = parsed_hard message parsed @
            (if reduces then [\<lparr>pp_name = ''maxAmountMinor'', pp_value = VNum (reduced_budget (in_maxAmountMinor currentIntent)),
                               pp_evidence = evidenceFor message ''cheaper''\<rparr>] else []);
          corrections = corrections @ (if reduces then [''maxAmountMinor''] else []);
          action = detect_action lower productIds removals corrections
      in \<lparr>si_schemaVersion = INTERPRETER_SCHEMA_VERSION, si_action = action, si_hard = proposedHard,
          si_soft = parsed_soft message parsed, si_corrections = corrections, si_removals = removals,
          si_ambiguities =
            (if action = Act_compare \<and> length productIds < 2 then [''Which two products should I compare?''] else []) @
            (if action = Act_explain then [''Which recommendation would you like explained?''] else []),
          si_confidence = Dec 1 0,
          si_requestedProductIds = (if action = Act_compare \<or> action = Act_select then productIds else [])\<rparr>)"


subsection \<open>Delivery dates\<close>

text \<open>\<open>tomorrow\<close> is read as the current weekday's next occurrence, which is a week away.\<close>

lemma tomorrow_is_next_week:
  assumes "js_find (\<lambda>(index, day). str_includes text day) (enumerate 0 DAYS) = None"
    and "re_test (seqs [Boundary, Lit ''tomorrow'', Boundary]) text"
  shows "parse_deliverBy now tz text =
    Some (toISOString (((now + tz) div 86400000 + 7) * 86400000 + 7199999 - tz))"
  using assms(2) unfolding parse_deliverBy_def assms(1) nextWeekday_def by (simp add: Let_def)

text \<open>The delivery date that was read is not among the interpreter's proposals.\<close>

lemma delivery_date_not_proposed:
  "\<forall>p \<in> set (si_hard (deterministicInterpretation now tz message intent)). pp_name p \<noteq> ''deliverBy''"
  by (auto simp: deterministicInterpretation_def Let_def parsed_hard_def str_proposal_def split: option.splits if_splits)

end
