(* ===== verification/Interpreter.thy ===== *)
theory Interpreter
  imports Intent
begin

text \<open>
  What a language model may contribute to an order: the validation of its proposals
  (\<open>apps/web/lib/interpreter/validate.ts\<close>), the fall-back policy (\<open>provider.ts\<close>) and, from \<open>services.ts\<close>, the
  precedence between deterministic parsing and accepted proposals. The model's answer is untrusted JSON;
  \<open>Date.parse\<close> is a parameter. An outcome's \<open>validation\<close> field is read by nobody and is not carried.
\<close>

subsection \<open>Untrusted values\<close>

datatype raw =
    RNull | RBool bool | RNum decimal | RInfinite | RStr string | RArr "raw list" | RObj "(string \<times> raw) list"

definition raw_get :: "string \<Rightarrow> raw \<Rightarrow> raw option" where
  "raw_get k v = (case v of RObj kvs \<Rightarrow> map_get k kvs | _ \<Rightarrow> None)"

text \<open>\<open>Object.keys\<close>, which throws on \<open>null\<close>; a string or an array has its indices as keys.\<close>

definition obj_keys :: "raw \<Rightarrow> string list throws" where
  "obj_keys v = (case v of
     RNull \<Rightarrow> Inl ''TypeError'' | RObj kvs \<Rightarrow> Inr (map fst kvs) | RStr s \<Rightarrow> Inr (map nat_str [0..<length s])
   | RArr xs \<Rightarrow> Inr (map nat_str [0..<length xs]) | _ \<Rightarrow> Inr [])"

fun dec_le :: "int \<Rightarrow> decimal \<Rightarrow> bool" where
  "dec_le k (Dec m n) = (k * 10 ^ n \<le> m)"

fun dec_ge :: "int \<Rightarrow> decimal \<Rightarrow> bool" where
  "dec_ge k (Dec m n) = (m \<le> k * 10 ^ n)"

fun dec_round :: "decimal \<Rightarrow> int" where
  "dec_round (Dec m n) = round_div m (10 ^ n)"

text \<open>A positive number without exponent, as \<open>String\<close> prints it.\<close>

fun dec_str :: "decimal \<Rightarrow> string" where
  "dec_str (Dec m n) = (if n = 0 then int_str m
     else int_str (m div 10 ^ n) @ ''.'' @ pad n (int_str (m mod 10 ^ n)))"

subsection \<open>Validation (validate.ts)\<close>

type_synonym issue = "string \<times> string"

record validation_result =
  vl_valid :: bool
  vl_interpretation :: "structured_interpretation option"
  vl_issues :: "issue list"

definition MAX_STRING_LENGTH :: nat where "MAX_STRING_LENGTH = 80"

definition MAX_EVIDENCE_LENGTH :: nat where "MAX_EVIDENCE_LENGTH = 120"

definition ALLOWED_TOP_LEVEL_KEYS :: "string list" where
  "ALLOWED_TOP_LEVEL_KEYS = [''schemaVersion'', ''action'', ''proposedHardConstraints'', ''proposedSoftPreferences'', ''corrections'',
     ''removals'', ''ambiguities'', ''confidence'', ''requestedProductIds'']"

definition ALLOWED_PROPOSAL_KEYS :: "string list" where
  "ALLOWED_PROPOSAL_KEYS = [''name'', ''value'', ''evidence'']"

definition action_of :: "raw option \<Rightarrow> interpretation_action option" where
  "action_of v = (case v of Some (RStr a) \<Rightarrow>
     map_of [(''search'', Act_search), (''refine'', Act_refine), (''compare'', Act_compare), (''explain'', Act_explain),
             (''select'', Act_select), (''restart'', Act_restart)] a | _ \<Rightarrow> None)"

definition validateArray :: "raw option \<Rightarrow> nat \<Rightarrow> string \<Rightarrow> raw list \<times> issue list" where
  "validateArray v limit field = (case v of
     None \<Rightarrow> ([], [])
   | Some (RArr xs) \<Rightarrow> (take limit xs, if length xs > limit then [(field, ''array_too_large_'' @ nat_str limit)] else [])
   | Some _ \<Rightarrow> ([], [(field, ''not_an_array'')]))"

fun string_items :: "string \<Rightarrow> raw list \<Rightarrow> string list \<times> issue list" where
  "string_items field [] = ([], [])"
| "string_items field (item # items) =
     (let (out, issues) = string_items field items in
      case item of
        RStr s \<Rightarrow>
          if s = [] then (out, (field, ''non_string_element'') # issues)
          else if length s > MAX_STRING_LENGTH then (out, (field @ ''.'' @ take 16 s, ''string_too_long'') # issues)
          else (s # out, issues)
      | _ \<Rightarrow> (out, (field, ''non_string_element'') # issues))"

definition validateStringArray :: "raw option \<Rightarrow> nat \<Rightarrow> string \<Rightarrow> string list \<times> issue list" where
  "validateStringArray v limit field =
     (case validateArray v limit field of (items, issues) \<Rightarrow>
        case string_items field items of (out, issues') \<Rightarrow> (out, issues @ issues'))"

definition digits_only :: "string \<Rightarrow> bool" where
  "digits_only s = (s \<noteq> [] \<and> list_all is_digit s)"

definition one_of :: "string list \<Rightarrow> raw \<Rightarrow> field_value option" where
  "one_of allowed v = (case v of RStr s \<Rightarrow> if s \<in> set allowed then Some (VStr s) else None | _ \<Rightarrow> None)"

definition normalizeHardValue :: "(string \<Rightarrow> int option) \<Rightarrow> string \<Rightarrow> raw \<Rightarrow> field_value option" where
  "normalizeHardValue parseDate name v =
     (if name = ''size''
      then (case v of
              RStr s \<Rightarrow>
                if s \<in> set SIZES then Some (VStr s)
                else let num = str_nat (filter is_digit s) in
                     if 6 \<le> num \<and> num \<le> 11 then Some (VStr (''UK '' @ nat_str num)) else None
            | RNum d \<Rightarrow> if dec_le 6 d \<and> dec_ge 11 d then Some (VStr (''UK '' @ dec_str d)) else None
            | _ \<Rightarrow> None)
      else if name = ''useCase'' then one_of USE_CASES v
      else if name = ''colour'' then one_of COLOURS v
      else if name = ''maxAmountMinor''
      then (case v of
              RNum d \<Rightarrow> if \<not> dec_le MIN_AMOUNT_MINOR d \<or> \<not> dec_ge MAX_AMOUNT_MINOR d then None else Some (VNum (dec_round d))
            | RStr s \<Rightarrow>
                if digits_only s
                then let n = int (str_nat s) in if n < MIN_AMOUNT_MINOR \<or> n > MAX_AMOUNT_MINOR then None else Some (VNum n)
                else None
            | _ \<Rightarrow> None)
      else if name = ''mustBeReturnable'' then (case v of RBool b \<Rightarrow> Some (VBool b) | _ \<Rightarrow> None)
      else if name = ''deliverBy''
      then (case v of RStr s \<Rightarrow> map_option (\<lambda>t. VStr (toISOString t)) (parseDate s) | _ \<Rightarrow> None)
      else None)"

definition normalizeSoftValue :: "string \<Rightarrow> raw \<Rightarrow> field_value option" where
  "normalizeSoftValue name v =
     (if name = ''fit'' then one_of SUPPORTED_FITS v
      else if name = ''cushioning'' then one_of SUPPORTED_CUSHIONING v
      else if name = ''distanceKm''
      then (case v of
              RNum d \<Rightarrow> Some (VNum (min 50 (max 1 (dec_round d))))
            | RStr s \<Rightarrow> if digits_only s then Some (VNum (min 50 (max 1 (int (str_nat s))))) else None
            | _ \<Rightarrow> None)
      else None)"

text \<open>
  The loop that hard constraints and soft preferences share: a proposal with an unknown key ends it, any
  other fault skips the proposal.
\<close>

fun validate_proposals ::
  "string \<Rightarrow> string \<Rightarrow> string list \<Rightarrow> (string \<Rightarrow> raw \<Rightarrow> field_value option) \<Rightarrow> string \<Rightarrow> raw list \<Rightarrow> (proposal list \<times> issue list) throws" where
  "validate_proposals field nameReason names normal message [] = Inr ([], [])"
| "validate_proposals field nameReason names normal message (item # items) =
     (case obj_keys item of
        Inl e \<Rightarrow> Inl e
      | Inr keys \<Rightarrow>
          case js_find (\<lambda>k. k \<notin> set ALLOWED_PROPOSAL_KEYS) keys of
            Some key \<Rightarrow> Inr ([], [(field @ ''.'' @ key, ''unknown_field'')])
          | None \<Rightarrow>
              case validate_proposals field nameReason names normal message items of
                Inl e \<Rightarrow> Inl e
              | Inr (out, issues) \<Rightarrow>
                  case raw_get ''name'' item of
                    Some (RStr name) \<Rightarrow>
                      if name \<notin> set names then Inr (out, (field @ ''.name'', nameReason) # issues)
                      else (case (case raw_get ''value'' item of None \<Rightarrow> None | Some v \<Rightarrow> normal name v) of
                              None \<Rightarrow> Inr (out, (field @ ''.'' @ name, ''invalid_value_for_'' @ name) # issues)
                            | Some val \<Rightarrow>
                                case raw_get ''evidence'' item of
                                  Some (RStr evidence) \<Rightarrow>
                                    if evidence = [] then Inr (out, (field @ ''.'' @ name @ ''.evidence'', ''missing_evidence'') # issues)
                                    else if length evidence > MAX_EVIDENCE_LENGTH
                                    then Inr (out, (field @ ''.'' @ name @ ''.evidence'', ''evidence_too_long'') # issues)
                                    else if \<not> str_includes message evidence
                                    then Inr (out, (field @ ''.'' @ name @ ''.evidence'', ''evidence_not_in_message'') # issues)
                                    else Inr (\<lparr>pp_name = name, pp_value = val, pp_evidence = evidence\<rparr> # out, issues)
                                | _ \<Rightarrow> Inr (out, (field @ ''.'' @ name @ ''.evidence'', ''missing_evidence'') # issues))
                  | _ \<Rightarrow> Inr (out, (field @ ''.name'', nameReason) # issues))"

definition validateHardConstraints :: "(string \<Rightarrow> int option) \<Rightarrow> string \<Rightarrow> raw list \<Rightarrow> (proposal list \<times> issue list) throws" where
  "validateHardConstraints parseDate message proposed =
     validate_proposals ''proposedHardConstraints'' ''invalid_constraint_name'' HARD_CONSTRAINT_NAMES
       (normalizeHardValue parseDate) message proposed"

definition validateSoftPreferences :: "string \<Rightarrow> raw list \<Rightarrow> (proposal list \<times> issue list) throws" where
  "validateSoftPreferences message proposed =
     validate_proposals ''proposedSoftPreferences'' ''invalid_preference_name'' SOFT_PREFERENCE_NAMES normalizeSoftValue message proposed"

definition invalid :: "issue list \<Rightarrow> validation_result" where
  "invalid issues = \<lparr>vl_valid = False, vl_interpretation = None, vl_issues = issues\<rparr>"

definition confidence_of :: "raw option \<Rightarrow> decimal option" where
  "confidence_of v = (case v of Some (RNum d) \<Rightarrow> if dec_le 0 d \<and> dec_ge 1 d then Some d else None | _ \<Rightarrow> None)"

definition validateInterpretation ::
  "(string \<Rightarrow> int option) \<Rightarrow> raw \<Rightarrow> string \<Rightarrow> string list \<Rightarrow> validation_result throws" where
  "validateInterpretation parseDate raw message productIds =
     (case raw of
        RObj kvs \<Rightarrow>
          (case js_find (\<lambda>k. k \<notin> set ALLOWED_TOP_LEVEL_KEYS) (map fst kvs) of
             Some key \<Rightarrow> Inr (invalid [(key, ''unknown_field'')])
           | None \<Rightarrow>
               let get = (\<lambda>k. map_get k kvs);
                   action = action_of (get ''action''); confidence = confidence_of (get ''confidence'');
                   (hardItems, i1) = validateArray (get ''proposedHardConstraints'') 6 ''proposedHardConstraints'';
                   (softItems, i2) = validateArray (get ''proposedSoftPreferences'') 3 ''proposedSoftPreferences'';
                   (corrections, i3) = validateStringArray (get ''corrections'') 6 ''corrections'';
                   (removals, i4) = validateStringArray (get ''removals'') 6 ''removals'';
                   (ambiguities, i5) = validateStringArray (get ''ambiguities'') 5 ''ambiguities'';
                   (requested, i6) = validateStringArray (get ''requestedProductIds'') 5 ''requestedProductIds'';
                   issues =
                     (if get ''schemaVersion'' \<noteq> Some (RStr INTERPRETER_SCHEMA_VERSION)
                      then [(''schemaVersion'', ''unsupported_schema_version'')] else []) @
                     (if action = None then [(''action'', ''invalid_action_enum'')] else []) @
                     (if confidence = None then [(''confidence'', ''confidence_out_of_bounds'')] else []) @
                     i1 @ i2 @ i3 @ i4 @ i5 @ i6
               in if length issues > 0 then Inr (invalid issues)
                  else case validateHardConstraints parseDate message hardItems of
                    Inl e \<Rightarrow> Inl e
                  | Inr (hard, j1) \<Rightarrow>
                      case validateSoftPreferences message softItems of
                        Inl e \<Rightarrow> Inl e
                      | Inr (soft, j2) \<Rightarrow>
                          let issues = j1 @ j2 @ map (\<lambda>x. (''requestedProductIds.'' @ x, ''unknown_product_id''))
                                (filter (\<lambda>x. x \<notin> set productIds) requested)
                          in if length issues > 0 then Inr (invalid issues)
                             else case (action, confidence) of
                               (Some a, Some c) \<Rightarrow> Inr \<lparr>vl_valid = True, vl_interpretation = Some
                                 \<lparr>si_schemaVersion = INTERPRETER_SCHEMA_VERSION, si_action = a, si_hard = hard, si_soft = soft,
                                  si_corrections = corrections, si_removals = removals, si_ambiguities = ambiguities,
                                  si_confidence = c, si_requestedProductIds = requested\<rparr>, vl_issues = []\<rparr>
                             | _ \<Rightarrow> Inr (invalid issues))
      | _ \<Rightarrow> Inr (invalid [(''root'', ''not_an_object'')]))"

subsection \<open>Fall-back (provider.ts)\<close>

datatype interpretation_source = From_llm | From_deterministic

record interpretation_outcome =
  io_source :: interpretation_source
  io_interpretation :: structured_interpretation
  io_fallbackReason :: "string option"
  io_rejectedReasons :: "string list"

text \<open>What the provider's \<open>interpret\<close> comes back with: a value, a reason, or an exception by name.\<close>

datatype interpret_call = Call_ok raw | Call_failed string | Call_threw string

definition CATALOG_PRODUCT_IDS :: "string list" where
  "CATALOG_PRODUCT_IDS = map cp_productId (cat_products SHOE_CATALOG)"

record interpreter_env =
  ie_now :: int
  ie_tz :: int
  ie_parseDate :: "string \<Rightarrow> int option"

definition deterministicOutcome :: "interpreter_env \<Rightarrow> string \<Rightarrow> parsed_intent \<Rightarrow> string \<Rightarrow> interpretation_outcome" where
  "deterministicOutcome ie message currentIntent reason =
     \<lparr>io_source = From_deterministic, io_interpretation = deterministicInterpretation (ie_now ie) (ie_tz ie) message currentIntent,
      io_fallbackReason = Some reason, io_rejectedReasons = []\<rparr>"

text \<open>\<open>None\<close> is a provider that is disabled or cannot interpret.\<close>

definition interpretUserMessage ::
  "interpreter_env \<Rightarrow> string \<Rightarrow> parsed_intent \<Rightarrow> interpret_call option \<Rightarrow> interpretation_outcome throws" where
  "interpretUserMessage ie message currentIntent call =
     (case call of
        None \<Rightarrow> Inr (deterministicOutcome ie message currentIntent ''disabled'')
      | Some (Call_threw name) \<Rightarrow> Inr (deterministicOutcome ie message currentIntent
          (if name = ''TimeoutError'' \<or> name = ''AbortError'' then ''timeout'' else ''http''))
      | Some (Call_failed reason) \<Rightarrow> Inr (deterministicOutcome ie message currentIntent
          (if reason \<in> {''timeout'', ''http'', ''malformed'', ''empty'', ''budget_exhausted''} then reason else ''http''))
      | Some (Call_ok v) \<Rightarrow>
          (case validateInterpretation (ie_parseDate ie) v message CATALOG_PRODUCT_IDS of
             Inl e \<Rightarrow> Inl e
           | Inr validation \<Rightarrow>
               (case (vl_valid validation, vl_interpretation validation) of
                  (True, Some i) \<Rightarrow> Inr \<lparr>io_source = From_llm, io_interpretation = i, io_fallbackReason = None, io_rejectedReasons = []\<rparr>
                | _ \<Rightarrow> Inr \<lparr>io_source = From_deterministic,
                    io_interpretation = deterministicInterpretation (ie_now ie) (ie_tz ie) message currentIntent,
                    io_fallbackReason = Some ''invalid_schema'',
                    io_rejectedReasons = map (\<lambda>(f, r). f @ '':'' @ r) (vl_issues validation)\<rparr>)))"

subsection \<open>Precedence (services.ts)\<close>

definition by_field :: "proposal list \<Rightarrow> proposal list \<Rightarrow> (string, proposal) jsmap" where
  "by_field first second =
     fold (\<lambda>p m. if map_has (pp_name p) m then m else map_set (pp_name p) p m) second
       (fold (\<lambda>p m. map_set (pp_name p) p m) first [])"

definition mergeInterpretation :: "structured_interpretation \<Rightarrow> interpretation_outcome \<Rightarrow> structured_interpretation" where
  "mergeInterpretation deterministic outcome =
     (let llm = io_interpretation outcome in
      \<lparr>si_schemaVersion = si_schemaVersion llm,
       si_action = (if si_action deterministic \<noteq> Act_search then si_action deterministic else si_action llm),
       si_hard = map snd (by_field (si_hard deterministic) (si_hard llm)),
       si_soft = map snd (by_field (si_soft deterministic) (si_soft llm)),
       si_corrections = js_set (si_corrections deterministic @ si_corrections llm),
       si_removals = js_set (si_removals deterministic @ si_removals llm),
       si_ambiguities = (if length (si_ambiguities llm) > 0 then si_ambiguities llm else si_ambiguities deterministic),
       si_confidence = si_confidence llm,
       si_requestedProductIds =
         (if length (si_requestedProductIds llm) > 0 then si_requestedProductIds llm else si_requestedProductIds deterministic)\<rparr>)"

text \<open>Assigning a property of the intent; the proposals carry values of the property's type.\<close>

definition set_field :: "proposal \<Rightarrow> parsed_intent \<Rightarrow> parsed_intent" where
  "set_field p i =
     (case pp_value p of
        VStr s \<Rightarrow>
          if pp_name p = ''size'' then i\<lparr>in_size := Some s\<rparr> else if pp_name p = ''colour'' then i\<lparr>in_colour := Some s\<rparr>
          else if pp_name p = ''useCase'' then i\<lparr>in_useCase := Some s\<rparr> else if pp_name p = ''deliverBy'' then i\<lparr>in_deliverBy := Some s\<rparr>
          else if pp_name p = ''fit'' then i\<lparr>in_fit := Some s\<rparr> else if pp_name p = ''cushioning'' then i\<lparr>in_cushioning := Some s\<rparr> else i
      | VNum n \<Rightarrow>
          if pp_name p = ''maxAmountMinor'' then i\<lparr>in_maxAmountMinor := Some n\<rparr>
          else if pp_name p = ''distanceKm'' then i\<lparr>in_distanceKm := Some n\<rparr> else i
      | VBool b \<Rightarrow> if pp_name p = ''mustBeReturnable'' then i\<lparr>in_mustBeReturnable := Some b\<rparr> else i)"

definition remove_field :: "string \<Rightarrow> parsed_intent \<Rightarrow> parsed_intent" where
  "remove_field name i =
     (if name = ''size'' then i\<lparr>in_size := None\<rparr> else if name = ''colour'' then i\<lparr>in_colour := None\<rparr>
      else if name = ''useCase'' then i\<lparr>in_useCase := None\<rparr> else if name = ''maxAmountMinor'' then i\<lparr>in_maxAmountMinor := None\<rparr>
      else if name = ''mustBeReturnable'' then i\<lparr>in_mustBeReturnable := None\<rparr> else if name = ''deliverBy'' then i\<lparr>in_deliverBy := None\<rparr>
      else if name = ''distanceKm'' then i\<lparr>in_distanceKm := None\<rparr> else if name = ''fit'' then i\<lparr>in_fit := None\<rparr>
      else if name = ''cushioning'' then i\<lparr>in_cushioning := None\<rparr> else i)"

definition applyInterpretation :: "structured_interpretation \<Rightarrow> parsed_intent \<Rightarrow> parsed_intent" where
  "applyInterpretation merged intent =
     fold remove_field (si_removals merged) (fold set_field (si_soft merged) (fold set_field (si_hard merged) intent))"

definition countApplied :: "structured_interpretation \<Rightarrow> nat" where
  "countApplied merged = length (si_hard merged) + length (si_soft merged) + length (si_removals merged)"


subsection \<open>Validated proposals\<close>

definition grounded :: "string \<Rightarrow> proposal \<Rightarrow> bool" where
  "grounded message p = (pp_evidence p \<noteq> [] \<and> length (pp_evidence p) \<le> MAX_EVIDENCE_LENGTH \<and> str_includes message (pp_evidence p))"

text \<open>What the validator lets through for a field; a size given as a number need not be a whole one.\<close>

definition hard_value_ok :: "(string \<Rightarrow> int option) \<Rightarrow> string \<Rightarrow> field_value \<Rightarrow> bool" where
  "hard_value_ok parseDate name v =
     (if name = ''size'' then (\<exists>s. v = VStr s \<and> (s \<in> set SIZES \<or> (\<exists>d. dec_le 6 d \<and> dec_ge 11 d \<and> s = ''UK '' @ dec_str d)))
      else if name = ''useCase'' then (\<exists>s \<in> set USE_CASES. v = VStr s)
      else if name = ''colour'' then (\<exists>s \<in> set COLOURS. v = VStr s)
      else if name = ''maxAmountMinor'' then (\<exists>n. v = VNum n \<and> MIN_AMOUNT_MINOR \<le> n \<and> n \<le> MAX_AMOUNT_MINOR)
      else if name = ''mustBeReturnable'' then (\<exists>b. v = VBool b)
      else name = ''deliverBy'' \<and> (\<exists>s t. parseDate s = Some t \<and> v = VStr (toISOString t)))"

definition soft_value_ok :: "string \<Rightarrow> field_value \<Rightarrow> bool" where
  "soft_value_ok name v =
     (if name = ''fit'' then (\<exists>s \<in> set SUPPORTED_FITS. v = VStr s)
      else if name = ''cushioning'' then (\<exists>s \<in> set SUPPORTED_CUSHIONING. v = VStr s)
      else name = ''distanceKm'' \<and> (\<exists>n. v = VNum n \<and> 1 \<le> n \<and> n \<le> 50))"

lemma round_div_bounds:
  assumes "0 < b" "lo * b \<le> a" "a \<le> hi * b"
  shows "lo \<le> round_div a b \<and> round_div a b \<le> hi"
proof -
  have "lo * (2 * b) div (2 * b) \<le> (2 * a + b) div (2 * b)"
    using assms by (intro zdiv_mono1) auto
  moreover have "(2 * a + b) div (2 * b) \<le> (2 * b - 1 + hi * (2 * b)) div (2 * b)"
    using assms by (intro zdiv_mono1) auto
  moreover have "(2 * b - 1 + hi * (2 * b)) div (2 * b) = hi"
    using assms(1) by (subst div_mult_self1) auto
  ultimately show ?thesis using assms(1) by (simp add: round_div_def)
qed

lemma uk_sizes: "6 \<le> n \<Longrightarrow> n \<le> 11 \<Longrightarrow> ''UK '' @ nat_str n \<in> set SIZES"
proof -
  assume "6 \<le> n" "n \<le> 11"
  then have "n \<in> {6, 7, 8, 9, 10, 11}" by auto
  moreover have "\<forall>n \<in> {6, 7, 8, 9, 10, 11}. ''UK '' @ nat_str n \<in> set SIZES" by code_simp
  ultimately show ?thesis by blast
qed

lemma dec_round_bounds: "dec_le lo d \<Longrightarrow> dec_ge hi d \<Longrightarrow> lo \<le> dec_round d \<and> dec_round d \<le> hi"
  by (cases d) (simp add: round_div_bounds)

lemma normal_hard_ok: "normalizeHardValue parseDate name v = Some x \<Longrightarrow> hard_value_ok parseDate name x"
  using dec_round_bounds [of MIN_AMOUNT_MINOR _ MAX_AMOUNT_MINOR]
  by (auto simp: normalizeHardValue_def hard_value_ok_def one_of_def Let_def uk_sizes [simplified] split: raw.splits if_splits)

lemma normal_soft_ok: "normalizeSoftValue name v = Some x \<Longrightarrow> soft_value_ok name x"
  by (auto simp: normalizeSoftValue_def soft_value_ok_def one_of_def split: raw.splits if_splits)

lemma validate_proposals_ok:
  assumes "validate_proposals field reason names normal message items = Inr (out, issues)"
  shows "length out \<le> length items \<and>
    (\<forall>p \<in> set out. pp_name p \<in> set names \<and> grounded message p \<and> (\<exists>v. normal (pp_name p) v = Some (pp_value p)))"
  using assms
proof (induction field reason names normal message items arbitrary: out issues rule: validate_proposals.induct)
  case (2 field reason names normal message item items)
  show ?case
  proof (cases "obj_keys item")
    case (Inr keys)
    note keys = this
    show ?thesis
    proof (cases "js_find (\<lambda>k. k \<notin> set ALLOWED_PROPOSAL_KEYS) keys")
      case None
      obtain out' issues' where rest: "validate_proposals field reason names normal message items = Inr (out', issues')"
        using "2.prems" keys None by (cases "validate_proposals field reason names normal message items") auto
      have "out = out' \<or> (\<exists>p v. out = p # out' \<and> pp_name p \<in> set names \<and> grounded message p \<and> normal (pp_name p) v = Some (pp_value p))"
        using "2.prems" keys None rest by (auto simp: grounded_def split: option.splits raw.splits if_splits)
      with "2.IH" [OF keys None rest] show ?thesis by auto
    qed (use "2.prems" keys in auto)
  qed (use "2.prems" in simp)
qed simp

lemma validate_array_le:
  "length (fst (validateArray v n field)) \<le> n" "length (fst (validateStringArray v n field)) \<le> n"
proof -
  show *: "length (fst (validateArray v n field)) \<le> n"
    by (auto simp: validateArray_def split: option.split raw.split)
  have "length (fst (string_items field items)) \<le> length items" for items
    by (induction items) (auto simp: Let_def split: raw.split prod.split)
  then show "length (fst (validateStringArray v n field)) \<le> n"
    using * by (auto simp: validateStringArray_def split: prod.split) (metis fst_conv le_trans)
qed

lemma accepted_spec:
  assumes "validateInterpretation parseDate raw message productIds = Inr v" "vl_interpretation v = Some i"
  shows "length (si_hard i) \<le> 6 \<and> length (si_soft i) \<le> 3 \<and>
    (\<forall>p \<in> set (si_hard i). pp_name p \<in> set HARD_CONSTRAINT_NAMES \<and> hard_value_ok parseDate (pp_name p) (pp_value p) \<and> grounded message p) \<and>
    (\<forall>p \<in> set (si_soft i). pp_name p \<in> set SOFT_PREFERENCE_NAMES \<and> soft_value_ok (pp_name p) (pp_value p) \<and> grounded message p) \<and>
    set (si_requestedProductIds i) \<subseteq> set productIds \<and> length (si_requestedProductIds i) \<le> 5 \<and>
    length (si_corrections i) \<le> 6 \<and> length (si_removals i) \<le> 6 \<and> length (si_ambiguities i) \<le> 5 \<and>
    dec_le 0 (si_confidence i) \<and> dec_ge 1 (si_confidence i)"
proof -
  obtain kvs where raw: "raw = RObj kvs"
    using assms by (auto simp: validateInterpretation_def invalid_def split: raw.splits)
  define get where "get k = map_get k kvs" for k
  obtain hard soft j1 j2 where i:
    "validateHardConstraints parseDate message (fst (validateArray (get ''proposedHardConstraints'') 6 ''proposedHardConstraints'')) = Inr (hard, j1)"
    "validateSoftPreferences message (fst (validateArray (get ''proposedSoftPreferences'') 3 ''proposedSoftPreferences'')) = Inr (soft, j2)"
    "confidence_of (get ''confidence'') = Some (si_confidence i)" "si_hard i = hard" "si_soft i = soft"
    "si_corrections i = fst (validateStringArray (get ''corrections'') 6 ''corrections'')"
    "si_removals i = fst (validateStringArray (get ''removals'') 6 ''removals'')"
    "si_ambiguities i = fst (validateStringArray (get ''ambiguities'') 5 ''ambiguities'')"
    "si_requestedProductIds i = fst (validateStringArray (get ''requestedProductIds'') 5 ''requestedProductIds'')"
    "filter (\<lambda>x. x \<notin> set productIds) (si_requestedProductIds i) = []"
    using assms unfolding raw
    by (auto simp: validateInterpretation_def invalid_def Let_def get_def split: option.splits prod.splits sum.splits if_splits)
  note hard = validate_proposals_ok [OF i(1) [unfolded validateHardConstraints_def]]
  note soft = validate_proposals_ok [OF i(2) [unfolded validateSoftPreferences_def]]
  have "dec_le 0 (si_confidence i) \<and> dec_ge 1 (si_confidence i)"
    using i(3) by (auto simp: confidence_of_def split: option.splits raw.splits if_splits)
  with hard soft show ?thesis
    using validate_array_le [of "get ''proposedHardConstraints''" 6 "''proposedHardConstraints''"]
      validate_array_le [of "get ''proposedSoftPreferences''" 3 "''proposedSoftPreferences''"]
      validate_array_le(2) i(4-10)
    by (auto simp: filter_empty_conv dest: normal_hard_ok normal_soft_ok)
qed


definition demo_proposal :: raw where
  "demo_proposal = RObj [(''schemaVersion'', RStr ''ai1.v1''), (''action'', RStr ''search''), (''confidence'', RNum (Dec 9 1)),
     (''proposedHardConstraints'', RArr [RObj [(''name'', RStr ''colour''), (''value'', RStr ''red''), (''evidence'', RStr ''red'')]])]"

lemma demo_accepted:
  "validateInterpretation (\<lambda>_. None) demo_proposal ''a red one'' [] = Inr \<lparr>vl_valid = True, vl_interpretation = Some
     \<lparr>si_schemaVersion = ''ai1.v1'', si_action = Act_search,
      si_hard = [\<lparr>pp_name = ''colour'', pp_value = VStr ''red'', pp_evidence = ''red''\<rparr>], si_soft = [],
      si_corrections = [], si_removals = [], si_ambiguities = [], si_confidence = Dec 9 1, si_requestedProductIds = []\<rparr>, vl_issues = []\<rparr>"
  by code_simp


subsection \<open>Who decides a field\<close>

definition get_field :: "string \<Rightarrow> parsed_intent \<Rightarrow> field_value option" where
  "get_field name i =
     (if name = ''size'' then map_option VStr (in_size i) else if name = ''colour'' then map_option VStr (in_colour i)
      else if name = ''useCase'' then map_option VStr (in_useCase i) else if name = ''maxAmountMinor'' then map_option VNum (in_maxAmountMinor i)
      else if name = ''mustBeReturnable'' then map_option VBool (in_mustBeReturnable i)
      else if name = ''deliverBy'' then map_option VStr (in_deliverBy i)
      else if name = ''distanceKm'' then map_option VNum (in_distanceKm i) else if name = ''fit'' then map_option VStr (in_fit i)
      else if name = ''cushioning'' then map_option VStr (in_cushioning i) else None)"

definition typed :: "proposal \<Rightarrow> bool" where
  "typed p =
     (case pp_value p of
        VStr _ \<Rightarrow> pp_name p \<in> {''size'', ''colour'', ''useCase'', ''deliverBy'', ''fit'', ''cushioning''}
      | VNum _ \<Rightarrow> pp_name p \<in> {''maxAmountMinor'', ''distanceKm''}
      | VBool _ \<Rightarrow> pp_name p = ''mustBeReturnable'')"

lemma get_set_field: "typed p \<Longrightarrow> get_field f (set_field p i) = (if f = pp_name p then Some (pp_value p) else get_field f i)"
  by (cases p; cases "pp_value p") (auto simp: typed_def set_field_def get_field_def)

lemma get_remove_field: "get_field f (remove_field g i) = (if f = g then None else get_field f i)"
  by (auto simp: remove_field_def get_field_def)

lemma get_fold_remove: "get_field f (fold remove_field gs i) = (if f \<in> set gs then None else get_field f i)"
  by (induction gs arbitrary: i) (auto simp: get_remove_field)

definition for_field :: "string \<Rightarrow> proposal list \<Rightarrow> proposal list" where
  "for_field f ps = filter (\<lambda>p. pp_name p = f) ps"

lemma for_field_simps [simp]:
  "for_field f [] = []" "for_field f (ps @ qs) = for_field f ps @ for_field f qs"
  "for_field f (p # ps) = (if pp_name p = f then p # for_field f ps else for_field f ps)"
  by (simp_all add: for_field_def)

lemma get_fold_set:
  "\<forall>p \<in> set ps. typed p \<Longrightarrow>
   get_field f (fold set_field ps i) = (if for_field f ps = [] then get_field f i else Some (pp_value (last (for_field f ps))))"
  by (induction ps rule: rev_induct) (auto simp: get_set_field)

text \<open>The map of proposals by field: the last of the first list, else the first of the second.\<close>

definition keyed :: "(string, proposal) jsmap \<Rightarrow> bool" where
  "keyed m = (distinct (map fst m) \<and> (\<forall>(k, p) \<in> set m. k = pp_name p))"

lemma keyed_set: "keyed m \<Longrightarrow> keyed (map_set (pp_name p) p m)"
proof -
  assume m: "keyed m"
  have "set (AList.update k v m) \<subseteq> insert (k, v) (set m)" for k and v :: proposal
    by (induction m) auto
  with m show ?thesis unfolding keyed_def map_set_def by (fastforce simp: distinct_update)
qed

lemma keyed_for_field: "keyed m \<Longrightarrow> for_field f (map snd m) = (case map_get f m of None \<Rightarrow> [] | Some p \<Rightarrow> [p])"
proof (induction m)
  case (Cons e m)
  obtain k p where e: "e = (k, p)" by fastforce
  have rest: "for_field f (map snd m) = (case map_get f m of None \<Rightarrow> [] | Some p \<Rightarrow> [p])"
    using Cons by (auto simp: keyed_def)
  have "map_get k m = None" using Cons.prems by (auto simp: e keyed_def map_get_def map_of_eq_None_iff)
  with rest Cons.prems show ?case by (auto simp: e keyed_def map_get_def)
qed simp

lemma by_field_spec:
  "keyed (by_field a b) \<and>
   map_get f (by_field a b) = (if for_field f a \<noteq> [] then Some (last (for_field f a)) else js_head (for_field f b))"
proof -
  have first: "keyed (fold (\<lambda>p m. map_set (pp_name p) p m) a []) \<and>
      map_get f (fold (\<lambda>p m. map_set (pp_name p) p m) a []) = (if for_field f a \<noteq> [] then Some (last (for_field f a)) else None)"
    by (induction a rule: rev_induct) (auto simp: keyed_set, simp add: keyed_def)
  have "keyed m \<Longrightarrow> keyed (fold (\<lambda>p m. if map_has (pp_name p) m then m else map_set (pp_name p) p m) b m) \<and>
      map_get f (fold (\<lambda>p m. if map_has (pp_name p) m then m else map_set (pp_name p) p m) b m) =
        (case map_get f m of Some p \<Rightarrow> Some p | None \<Rightarrow> js_head (for_field f b))" for m
  proof (induction b arbitrary: m)
    case (Cons p b)
    show ?case
    proof (cases "map_has (pp_name p) m")
      case True
      with Cons show ?thesis by (auto simp: map_has_get split: option.split)
    next
      case False
      with Cons.IH [OF keyed_set [OF Cons.prems]] show ?thesis by (auto simp: map_has_get split: option.split)
    qed
  qed (auto split: option.split)
  from this [OF conjunct1 [OF first]] first show ?thesis unfolding by_field_def by auto
qed

lemma for_by_field:
  "for_field f (map snd (by_field a b)) = (if for_field f a \<noteq> [] then [last (for_field f a)] else take 1 (for_field f b))"
  using by_field_spec [of a b f] by (cases "for_field f b") (auto simp: keyed_for_field split: if_splits)

lemma merged_field:
  assumes "\<forall>p \<in> set (si_hard det @ si_soft det @ si_hard llm @ si_soft llm). typed p"
    and "io_interpretation out = llm"
    and names: "pp_name ` set (si_hard det @ si_hard llm) \<subseteq> set HARD_CONSTRAINT_NAMES"
      "pp_name ` set (si_soft det @ si_soft llm) \<subseteq> set SOFT_PREFERENCE_NAMES"
  shows "get_field f (applyInterpretation (mergeInterpretation det out) intent) =
    (let a = for_field f (si_hard det @ si_soft det); b = for_field f (si_hard llm @ si_soft llm) in
     if f \<in> set (si_removals det) \<union> set (si_removals llm) then None
     else if a \<noteq> [] then Some (pp_value (last a))
     else if b \<noteq> [] then Some (pp_value (hd b))
     else get_field f intent)"
proof -
  have sub: "set (map snd (by_field a b)) \<subseteq> set a \<union> set b" for a b :: "proposal list"
  proof
    fix p assume "p \<in> set (map snd (by_field a b))"
    then have "p \<in> set (for_field (pp_name p) (map snd (by_field a b)))" by (simp add: for_field_def)
    then have "map_get (pp_name p) (by_field a b) = Some p"
      using by_field_spec [of a b "pp_name p"] by (simp add: keyed_for_field split: option.splits)
    then have "p \<in> set (for_field (pp_name p) a) \<or> p \<in> set (for_field (pp_name p) b)"
      using by_field_spec [of a b "pp_name p"] by (auto split: if_splits dest: js_head_in) (metis last_in_set)
    then show "p \<in> set a \<union> set b" by (auto simp: for_field_def)
  qed
  have typed: "\<forall>p \<in> set (map snd (by_field (si_hard det) (si_hard llm))). typed p"
      "\<forall>p \<in> set (map snd (by_field (si_soft det) (si_soft llm))). typed p"
    using sub assms(1) by fastforce+
  have disj: "for_field f ps = []" if "f \<notin> set names" "pp_name ` set ps \<subseteq> set names" for ps names
    using that by (auto simp: for_field_def filter_empty_conv)
  have apart: "set HARD_CONSTRAINT_NAMES \<inter> set SOFT_PREFERENCE_NAMES = {}"
    by (simp add: HARD_CONSTRAINT_NAMES_def SOFT_PREFERENCE_NAMES_def)
  show ?thesis
  proof (cases "f \<in> set HARD_CONSTRAINT_NAMES")
    case True
    then have "for_field f (si_soft det) = []" "for_field f (si_soft llm) = []"
      using apart names(2) by (auto intro!: disj [of SOFT_PREFERENCE_NAMES])
    then show ?thesis
      unfolding applyInterpretation_def mergeInterpretation_def Let_def assms(2)
      by (cases "for_field f (si_hard llm)"; cases "for_field f (si_soft llm)")
         (simp_all add: get_fold_remove get_fold_set [OF typed(1)] get_fold_set [OF typed(2)] for_by_field)
  next
    case False
    then have "for_field f (si_hard det) = []" "for_field f (si_hard llm) = []"
      using names(1) by (auto intro!: disj [of HARD_CONSTRAINT_NAMES])
    then show ?thesis
      unfolding applyInterpretation_def mergeInterpretation_def Let_def assms(2)
      by (cases "for_field f (si_hard llm)"; cases "for_field f (si_soft llm)")
         (simp_all add: get_fold_remove get_fold_set [OF typed(1)] get_fold_set [OF typed(2)] for_by_field)
  qed
qed

lemma str_proposal_ok:
  "p \<in> set (str_proposal message name v) \<Longrightarrow> pp_name p = name \<and> (\<exists>s. pp_value p = VStr s)"
  by (auto simp: str_proposal_def split: if_splits)

lemma deterministic_typed:
  "(\<forall>p \<in> set (si_hard (deterministicInterpretation now tz m i)). typed p \<and> pp_name p \<in> set HARD_CONSTRAINT_NAMES) \<and>
   (\<forall>p \<in> set (si_soft (deterministicInterpretation now tz m i)). typed p \<and> pp_name p \<in> set SOFT_PREFERENCE_NAMES)"
  by (auto simp: deterministicInterpretation_def Let_def parsed_hard_def parsed_soft_def typed_def HARD_CONSTRAINT_NAMES_def
        SOFT_PREFERENCE_NAMES_def dest!: str_proposal_ok split: option.splits if_splits)

lemma accepted_typed:
  assumes "validateInterpretation parseDate raw message productIds = Inr v" "vl_interpretation v = Some i"
  shows "(\<forall>p \<in> set (si_hard i). typed p \<and> pp_name p \<in> set HARD_CONSTRAINT_NAMES) \<and>
    (\<forall>p \<in> set (si_soft i). typed p \<and> pp_name p \<in> set SOFT_PREFERENCE_NAMES)"
proof -
  have "typed p" if "hard_value_ok parseDate (pp_name p) (pp_value p)" for p
    using that by (auto simp: hard_value_ok_def typed_def split: if_splits)
  moreover have "typed p" if "soft_value_ok (pp_name p) (pp_value p)" for p
    using that by (auto simp: soft_value_ok_def typed_def split: if_splits)
  ultimately show ?thesis using accepted_spec [OF assms] by blast
qed

lemma outcome_typed:
  assumes "interpretUserMessage ie message intent call = Inr out"
  shows "(\<forall>p \<in> set (si_hard (io_interpretation out)). typed p \<and> pp_name p \<in> set HARD_CONSTRAINT_NAMES) \<and>
    (\<forall>p \<in> set (si_soft (io_interpretation out)). typed p \<and> pp_name p \<in> set SOFT_PREFERENCE_NAMES)"
  using assms deterministic_typed accepted_typed
  by (auto simp: interpretUserMessage_def deterministicOutcome_def split: option.splits interpret_call.splits sum.splits bool.splits)

text \<open>C35: Who decides a field of the intent. After a message has been interpreted, deterministically and by the
  language model, and applied, each field is gone if either interpretation removes it; else it has the
  last value the deterministic parser proposes for it; else the first the model proposes; else what it
  was. So the model fills gaps and can clear a field, but never replaces a parsed value.\<close>

theorem interpretation_precedence:
  assumes "interpretUserMessage ie message intent call = Inr out"
  shows "let det = deterministicInterpretation (ie_now ie) (ie_tz ie) message intent; llm = io_interpretation out;
           a = for_field f (si_hard det @ si_soft det); b = for_field f (si_hard llm @ si_soft llm) in
    get_field f (applyInterpretation (mergeInterpretation det out) intent) =
      (if f \<in> set (si_removals det) \<union> set (si_removals llm) then None
       else if a \<noteq> [] then Some (pp_value (last a))
       else if b \<noteq> [] then Some (pp_value (hd b))
       else get_field f intent)"
  unfolding Let_def
  by (rule merged_field [unfolded Let_def])
     (use deterministic_typed [of "ie_now ie" "ie_tz ie" message intent] outcome_typed [OF assms] in auto)

definition demo_interpreter :: interpreter_env where
  "demo_interpreter = \<lparr>ie_now = 0, ie_tz = 0, ie_parseDate = (\<lambda>_. None)\<rparr>"

theorem interpretation_precedence_witness:
  "let det = deterministicInterpretation 0 0 ''red'' empty_intent; a = for_field ''colour'' (si_hard det @ si_soft det) in
    get_field ''colour'' (applyInterpretation (mergeInterpretation det (deterministicOutcome demo_interpreter ''red'' empty_intent ''disabled''))
      empty_intent) = (if ''colour'' \<in> set (si_removals det) then None else if a \<noteq> [] then Some (pp_value (last a)) else None)"
  using interpretation_precedence [of demo_interpreter "''red''" empty_intent None
      "deterministicOutcome demo_interpreter ''red'' empty_intent ''disabled''" "''colour''"]
  by (simp add: interpretUserMessage_def deterministicOutcome_def demo_interpreter_def Let_def empty_intent_def get_field_def)

lemma cheaper_hard:
  assumes "re_test cheaper_re (no_punctuation (toLowerCase message))" "''maxAmountMinor'' \<notin> set (detectCorrections message)"
  shows "\<exists>ps. si_hard (deterministicInterpretation now tz message intent) = ps @
    [\<lparr>pp_name = ''maxAmountMinor'', pp_value = VNum (reduced_budget (in_maxAmountMinor intent)), pp_evidence = evidenceFor message ''cheaper''\<rparr>]"
  using assms by (simp add: deterministicInterpretation_def Let_def)

lemma soft_no_amount: "for_field ''maxAmountMinor'' (si_soft (deterministicInterpretation now tz message intent)) = []"
proof -
  have "pp_name p \<noteq> ''maxAmountMinor''" if "p \<in> set (si_soft (deterministicInterpretation now tz message intent))" for p
    using deterministic_typed [of now tz message intent] that by (auto simp: SOFT_PREFERENCE_NAMES_def)
  then show ?thesis by (auto simp: for_field_def filter_empty_conv)
qed

text \<open>A message that asks for something cheaper and also states a limit loses the limit. With a phrase such as
  \<open>cheaper\<close> and no correction phrase, the deterministic interpreter appends its own reduction of the
  previous budget after the parsed one, and the last proposal counts: the budget becomes four fifths of
  the old one (of 5,000 rupees when there was none), whatever amount the customer wrote.\<close>

theorem cheaper_drops_stated_limit:
  assumes "interpretUserMessage ie message intent call = Inr out"
    and "re_test cheaper_re (no_punctuation (toLowerCase message))" "''maxAmountMinor'' \<notin> set (detectCorrections message)"
    and "''maxAmountMinor'' \<notin> set (detectRemovals message) \<union> set (si_removals (io_interpretation out))"
  shows "in_maxAmountMinor (applyInterpretation (mergeInterpretation
      (deterministicInterpretation (ie_now ie) (ie_tz ie) message intent) out) intent) = Some (reduced_budget (in_maxAmountMinor intent))"
proof -
  let ?det = "deterministicInterpretation (ie_now ie) (ie_tz ie) message intent"
  obtain ps where hard: "si_hard ?det = ps @ [\<lparr>pp_name = ''maxAmountMinor'',
      pp_value = VNum (reduced_budget (in_maxAmountMinor intent)), pp_evidence = evidenceFor message ''cheaper''\<rparr>]"
    using cheaper_hard [OF assms(2,3)] by blast
  have rem: "si_removals ?det = detectRemovals message" by (simp add: deterministicInterpretation_def Let_def)
  have "get_field ''maxAmountMinor'' (applyInterpretation (mergeInterpretation ?det out) intent) =
      Some (VNum (reduced_budget (in_maxAmountMinor intent)))"
    by (subst merged_field [OF _ refl])
       (use deterministic_typed [of "ie_now ie" "ie_tz ie" message intent] outcome_typed [OF assms(1)] assms(4)
        in \<open>auto simp: Let_def rem hard soft_no_amount\<close>)
  then show ?thesis by (simp add: get_field_def)
qed

theorem cheaper_drops_stated_limit_witness:
  "parse_amount ''cheaper under 3000'' = Some 300000 \<and>
   in_maxAmountMinor (applyInterpretation (mergeInterpretation (deterministicInterpretation 0 0 ''cheaper under 3000'' empty_intent)
     (deterministicOutcome demo_interpreter ''cheaper under 3000'' empty_intent ''disabled'')) empty_intent) = Some 400000"
proof
  show "parse_amount ''cheaper under 3000'' = Some 300000" by code_simp
  have hyps: "re_test cheaper_re (no_punctuation (toLowerCase ''cheaper under 3000''))"
    "''maxAmountMinor'' \<notin> set (detectCorrections ''cheaper under 3000'')"
    by code_simp+
  have removals: "''maxAmountMinor'' \<notin> set (detectRemovals m)" for m
    by (simp add: detectRemovals_def Let_def)
  have "reduced_budget None = 400000" by code_simp
  then show "in_maxAmountMinor (applyInterpretation (mergeInterpretation (deterministicInterpretation 0 0 ''cheaper under 3000'' empty_intent)
     (deterministicOutcome demo_interpreter ''cheaper under 3000'' empty_intent ''disabled'')) empty_intent) = Some 400000"
    using cheaper_drops_stated_limit [of demo_interpreter "''cheaper under 3000''" empty_intent None
      "deterministicOutcome demo_interpreter ''cheaper under 3000'' empty_intent ''disabled''"] hyps removals [of "''cheaper under 3000''"]
    by (simp add: interpretUserMessage_def demo_interpreter_def empty_intent_def deterministicOutcome_def deterministicInterpretation_def Let_def)
qed

end
