(* ===== verification/Llm.thy ===== *)
theory Llm
  imports Interpreter
begin

text \<open>
  The language-model provider, \<open>apps/web/lib/llm.ts\<close> (what a reply of the chat endpoint becomes, usage
  counters, sanitising), and the spending budget around it, \<open>llm-budget.ts\<close>. The endpoint and
  \<open>JSON.parse\<close> are parameters. Prompts are constants the model does not carry; lengths count characters.
\<close>

subsection \<open>Replies and usage (llm.ts)\<close>

record llm_usage =
  lu_calls :: int
  lu_promptTokens :: int
  lu_completionTokens :: int

fun dec_floor :: "decimal \<Rightarrow> int" where
  "dec_floor (Dec m n) = m div 10 ^ n"

definition recordUsage :: "decimal \<Rightarrow> decimal \<Rightarrow> llm_usage \<Rightarrow> llm_usage" where
  "recordUsage promptTokens completionTokens store =
     store\<lparr>lu_calls := lu_calls store + 1,
       lu_promptTokens := lu_promptTokens store + max 0 (dec_floor promptTokens),
       lu_completionTokens := lu_completionTokens store + max 0 (dec_floor completionTokens)\<rparr>"

definition resetLlmUsageSnapshot :: "llm_usage \<Rightarrow> llm_usage" where
  "resetLlmUsageSnapshot store = store\<lparr>lu_calls := 0, lu_promptTokens := 0, lu_completionTokens := 0\<rparr>"

text \<open>What \<open>fetch\<close> and \<open>response.json\<close> come back with: an exception by name, a status that is not ok, or JSON.\<close>

datatype chat_reply = Fetch_threw string | Http_error | Http_json raw

datatype chat_result = Chat_ok string | Chat_failed string

definition raw_path :: "string list \<Rightarrow> raw option \<Rightarrow> raw option" where
  "raw_path ks v = fold (\<lambda>k v. case v of None \<Rightarrow> None | Some x \<Rightarrow> raw_get k x) ks v"

definition first_of :: "raw option \<Rightarrow> raw option" where
  "first_of v = (case v of Some (RArr (x # _)) \<Rightarrow> Some x | _ \<Rightarrow> None)"

definition token_count :: "raw option \<Rightarrow> decimal" where
  "token_count v = (case v of Some (RNum d) \<Rightarrow> d | _ \<Rightarrow> Dec 0 0)"

text \<open>\<open>null\<close> where a property is read through \<open>?.\<close> ends the chain; a \<open>null\<close> body throws and counts as \<open>http\<close>.\<close>

definition chat :: "chat_reply \<Rightarrow> llm_usage \<Rightarrow> chat_result \<times> llm_usage" where
  "chat reply usage =
     (case reply of
        Fetch_threw name \<Rightarrow> (Chat_failed (if name = ''TimeoutError'' \<or> name = ''AbortError'' then ''timeout'' else ''http''), usage)
      | Http_error \<Rightarrow> (Chat_failed ''http'', usage)
      | Http_json RNull \<Rightarrow> (Chat_failed ''http'', usage)
      | Http_json payload \<Rightarrow>
          (case raw_path [''message'', ''content''] (first_of (raw_get ''choices'' payload)) of
             Some (RStr content) \<Rightarrow>
               if content = [] then (Chat_failed ''empty'', usage)
               else (Chat_ok content,
                     recordUsage (token_count (raw_path [''usage'', ''prompt_tokens''] (Some payload)))
                       (token_count (raw_path [''usage'', ''completion_tokens''] (Some payload))) usage)
           | _ \<Rightarrow> (Chat_failed ''empty'', usage)))"

record soft_preferences =
  sf_fit :: "string option"
  sf_cushioning :: "string option"
  sf_distanceKm :: "int option"

definition enum_of :: "string list \<Rightarrow> raw option \<Rightarrow> string option" where
  "enum_of allowed v = (case v of Some (RStr s) \<Rightarrow> if s \<in> set allowed then Some s else None | _ \<Rightarrow> None)"

definition sanitizeSoftPreferences :: "raw \<Rightarrow> soft_preferences option" where
  "sanitizeSoftPreferences v =
     (case v of
        RObj kvs \<Rightarrow> Some
          \<lparr>sf_fit = enum_of SUPPORTED_FITS (map_get ''fit'' kvs), sf_cushioning = enum_of SUPPORTED_CUSHIONING (map_get ''cushioning'' kvs),
           sf_distanceKm = (case map_get ''distanceKm'' kvs of Some (RNum d) \<Rightarrow> Some (min 50 (max 1 (dec_round d))) | _ \<Rightarrow> None)\<rparr>
      | _ \<Rightarrow> None)"

definition control_char :: "char \<Rightarrow> bool" where
  "control_char c = (let n = of_char c :: nat in n \<le> 8 \<or> n = 11 \<or> n = 12 \<or> 14 \<le> n \<and> n \<le> 31)"

definition sanitizeProse :: "string \<Rightarrow> string" where
  "sanitizeProse raw = take 600 (trim (filter (\<lambda>c. \<not> control_char c) raw))"

definition extractSoftPreferences :: "(string \<Rightarrow> raw option) \<Rightarrow> chat_result \<Rightarrow> soft_preferences option" where
  "extractSoftPreferences parse r =
     (case r of Chat_failed _ \<Rightarrow> None
      | Chat_ok content \<Rightarrow> (case parse content of None \<Rightarrow> None | Some v \<Rightarrow> sanitizeSoftPreferences v))"

definition explainRecommendation :: "chat_result \<Rightarrow> string option" where
  "explainRecommendation r = (case r of Chat_failed _ \<Rightarrow> None | Chat_ok content \<Rightarrow> Some (sanitizeProse content))"

definition llm_interpret :: "(string \<Rightarrow> raw option) \<Rightarrow> chat_result \<Rightarrow> interpret_call" where
  "llm_interpret parse r =
     (case r of Chat_failed reason \<Rightarrow> Call_failed reason
      | Chat_ok content \<Rightarrow> (case parse content of None \<Rightarrow> Call_failed ''malformed'' | Some v \<Rightarrow> Call_ok v))"

subsection \<open>The budget (llm-budget.ts)\<close>

definition DEFAULT_MAX_MESSAGES :: nat where "DEFAULT_MAX_MESSAGES = 15"

definition DEFAULT_MAX_ATTEMPTS :: nat where "DEFAULT_MAX_ATTEMPTS = 45"

record bounded_llm =
  bl_enabled :: bool
  bl_maxAttempts :: nat
  bl_used :: nat

definition createBoundedLlmProvider :: "bool \<Rightarrow> nat \<Rightarrow> bounded_llm" where
  "createBoundedLlmProvider enabled maxAttempts = \<lparr>bl_enabled = enabled, bl_maxAttempts = maxAttempts, bl_used = 0\<rparr>"

definition consume :: "bounded_llm \<Rightarrow> bool \<times> bounded_llm" where
  "consume b =
     (if \<not> bl_enabled b then (True, b)
      else if bl_used b \<ge> bl_maxAttempts b then (False, b)
      else (True, b\<lparr>bl_used := bl_used b + 1\<rparr>))"

definition attemptsRemaining :: "bounded_llm \<Rightarrow> nat" where
  "attemptsRemaining b = bl_maxAttempts b - bl_used b"

text \<open>
  One logical call: the fall-back, or what the inner provider answers. The third component says whether
  the inner provider was asked.
\<close>

definition bounded_call :: "'a \<Rightarrow> 'a \<Rightarrow> bounded_llm \<Rightarrow> 'a \<times> bounded_llm \<times> bool" where
  "bounded_call fallback answer b = (case consume b of (True, b') \<Rightarrow> (answer, b', True) | (False, b') \<Rightarrow> (fallback, b', False))"

definition bounded_interpret :: "interpret_call \<Rightarrow> bounded_llm \<Rightarrow> interpret_call \<times> bounded_llm \<times> bool" where
  "bounded_interpret answer b = bounded_call (Call_failed ''budget_exhausted'') answer b"

definition bounded_extract :: "soft_preferences option \<Rightarrow> bounded_llm \<Rightarrow> soft_preferences option \<times> bounded_llm \<times> bool" where
  "bounded_extract answer b = bounded_call None answer b"

definition bounded_explain :: "string option \<Rightarrow> bounded_llm \<Rightarrow> string option \<times> bounded_llm \<times> bool" where
  "bounded_explain answer b = bounded_call None answer b"

record verification_runner =
  vn_provider :: bounded_llm
  vn_maxMessages :: nat
  vn_messages :: nat

definition createVerificationRunner :: "bool \<Rightarrow> nat option \<Rightarrow> nat option \<Rightarrow> verification_runner" where
  "createVerificationRunner enabled maxMessages maxAttempts =
     \<lparr>vn_provider = createBoundedLlmProvider enabled (case maxAttempts of None \<Rightarrow> DEFAULT_MAX_ATTEMPTS | Some n \<Rightarrow> n),
      vn_maxMessages = (case maxMessages of None \<Rightarrow> DEFAULT_MAX_MESSAGES | Some n \<Rightarrow> n), vn_messages = 0\<rparr>"

definition beginMessage :: "verification_runner \<Rightarrow> bool \<times> verification_runner" where
  "beginMessage v = (if vn_messages v \<ge> vn_maxMessages v then (False, v) else (True, v\<lparr>vn_messages := vn_messages v + 1\<rparr>))"

text \<open>A session: messages are begun and the provider is asked, in any order, with whatever answers.\<close>

datatype llm_event = Ev_message | Ev_interpret interpret_call | Ev_extract "soft_preferences option" | Ev_explain "string option"

fun runner_step :: "llm_event \<Rightarrow> verification_runner \<Rightarrow> verification_runner \<times> nat" where
  "runner_step Ev_message v = (snd (beginMessage v), 0)"
| "runner_step (Ev_interpret a) v = (case bounded_interpret a (vn_provider v) of (_, b, asked) \<Rightarrow> (v\<lparr>vn_provider := b\<rparr>, of_bool asked))"
| "runner_step (Ev_extract a) v = (case bounded_extract a (vn_provider v) of (_, b, asked) \<Rightarrow> (v\<lparr>vn_provider := b\<rparr>, of_bool asked))"
| "runner_step (Ev_explain a) v = (case bounded_explain a (vn_provider v) of (_, b, asked) \<Rightarrow> (v\<lparr>vn_provider := b\<rparr>, of_bool asked))"

fun run_session :: "llm_event list \<Rightarrow> verification_runner \<Rightarrow> verification_runner \<times> nat" where
  "run_session [] v = (v, 0)"
| "run_session (e # es) v = (case runner_step e v of (v', n) \<Rightarrow> case run_session es v' of (v'', m) \<Rightarrow> (v'', n + m))"

subsection \<open>The budget holds\<close>

definition within :: "verification_runner \<Rightarrow> bool" where
  "within v = (bl_used (vn_provider v) \<le> bl_maxAttempts (vn_provider v) \<and> vn_messages v \<le> vn_maxMessages v)"

definition is_ask :: "llm_event \<Rightarrow> bool" where
  "is_ask e = (e \<noteq> Ev_message)"

lemma step_spec:
  assumes "runner_step e v = (v', n)" "bl_enabled (vn_provider v)" "within v"
  shows "within v' \<and> bl_enabled (vn_provider v') \<and> bl_maxAttempts (vn_provider v') = bl_maxAttempts (vn_provider v) \<and>
    vn_maxMessages v' = vn_maxMessages v \<and> bl_used (vn_provider v') = bl_used (vn_provider v) + n \<and>
    n = (if is_ask e \<and> bl_used (vn_provider v) < bl_maxAttempts (vn_provider v) then 1 else 0)"
  using assms
  by (cases e) (auto simp: beginMessage_def bounded_interpret_def bounded_extract_def bounded_explain_def bounded_call_def consume_def
      within_def is_ask_def split: if_splits)

lemma session_spec:
  "run_session es v = (v', n) \<Longrightarrow> bl_enabled (vn_provider v) \<Longrightarrow> within v \<Longrightarrow>
   within v' \<and> bl_maxAttempts (vn_provider v') = bl_maxAttempts (vn_provider v) \<and> vn_maxMessages v' = vn_maxMessages v \<and>
   bl_used (vn_provider v') = bl_used (vn_provider v) + n \<and>
   n = min (length (filter is_ask es)) (bl_maxAttempts (vn_provider v) - bl_used (vn_provider v))"
proof (induction es arbitrary: v v' n)
  case (Cons e es)
  obtain v1 k where step: "runner_step e v = (v1, k)" by fastforce
  obtain m where rest: "run_session es v1 = (v', m)" "n = k + m" using Cons.prems(1) step by (auto split: prod.splits)
  note spec = step_spec [OF step Cons.prems(2,3)]
  with Cons.IH [OF rest(1)] rest(2) show ?case by (auto simp: within_def min_def split: if_splits)
qed (simp add: within_def)

text \<open>C36: The spending budget is exact. In a verification session over an enabled provider, however messages and calls
  follow each other and whatever they answer, the provider is asked as often as there are calls but never
  more than \<open>maxAttempts\<close> times, every attempt is counted, and no more than \<open>maxMessages\<close> messages are begun.\<close>

theorem budget_exact:
  assumes "run_session es (createVerificationRunner True maxMessages maxAttempts) = (v, asked)"
  shows "asked = min (length (filter is_ask es)) (case maxAttempts of None \<Rightarrow> 45 | Some n \<Rightarrow> n) \<and>
    bl_used (vn_provider v) = asked \<and> vn_messages v \<le> (case maxMessages of None \<Rightarrow> 15 | Some n \<Rightarrow> n)"
proof -
  let ?v = "createVerificationRunner True maxMessages maxAttempts"
  have start: "bl_enabled (vn_provider ?v)" "within ?v" "bl_used (vn_provider ?v) = 0"
    "bl_maxAttempts (vn_provider ?v) = (case maxAttempts of None \<Rightarrow> 45 | Some n \<Rightarrow> n)"
    "vn_maxMessages ?v = (case maxMessages of None \<Rightarrow> 15 | Some n \<Rightarrow> n)"
    by (simp_all add: createVerificationRunner_def createBoundedLlmProvider_def within_def DEFAULT_MAX_ATTEMPTS_def DEFAULT_MAX_MESSAGES_def
        split: option.split)
  show ?thesis using session_spec [OF assms start(1,2)] start by (auto simp: within_def)
qed

theorem budget_exact_witness:
  "snd (run_session [Ev_message, Ev_explain None, Ev_extract None] (createVerificationRunner True None (Some 1))) = 1"
  using budget_exact [OF prod.collapse [symmetric], of "[Ev_message, Ev_explain None, Ev_extract None]" None "Some 1"]
  by (simp add: is_ask_def)

text \<open>What a disabled or failing provider leads to: the deterministic reading alone.\<close>

lemma exhausted_is_deterministic:
  assumes "bl_enabled b" "bl_used b \<ge> bl_maxAttempts b"
  shows "interpretUserMessage ie message intent (Some (fst (bounded_interpret answer b))) =
    Inr (deterministicOutcome ie message intent ''budget_exhausted'')"
  using assms by (simp add: bounded_interpret_def bounded_call_def consume_def interpretUserMessage_def)

end
