(* ===== verification/Explain.thy ===== *)
theory Explain
  imports Catalog
begin

text \<open>
  The deterministic explanations of \<open>apps/web/lib/explain.ts\<close>. Prices are printed by \<open>fmtPrice\<close>, which the file
  shares with the ranking; non-ASCII punctuation is written as its UTF-8 bytes.
\<close>

definition dash :: string where "dash = [CHR 0xE2, CHR 0x80, CHR 0x94]"

definition days :: "int \<Rightarrow> string" where
  "days n = int_str n @ '' day'' @ (if n = 1 then [] else ''s'')"

definition renderWhyThisOne :: "product_match \<Rightarrow> int option \<Rightarrow> string" where
  "renderWhyThisOne m budgetMinor =
     (let product = pm_product m; el = pm_eligibility m;
          eligParts =
            (if el_withinBudget el then [''within your budget''] else []) @ (if el_inStock el then [''in stock in your size''] else []) @
            (if el_returnable el then [''returnable''] else []) @
            (if el_deliveryMet el then [''ships in '' @ days (cp_deliveryLeadDays product)] else []);
          price = fmtPrice (cp_priceMinor product)
      in join '' '' (
        (if length eligParts > 0 then [cp_name product @ '' is eligible '' @ dash @ '' '' @ join '', '' eligParts @ ''.''] else []) @
        (case pm_role m of
           BestOverall \<Rightarrow> [''It is the best overall match with a score of '' @ int_str (pm_scoreNormalized m) @ ''/100.'']
         | CheaperAlternative \<Rightarrow> [''It is a cheaper alternative '' @ dash @ '' '' @ pm_roleJustification m @ ''.'']
         | TradeoffChoice \<Rightarrow> [''It is a trade-off choice '' @ dash @ '' '' @ pm_roleJustification m @ ''.'']
         | NoRole \<Rightarrow> []) @
        (if length (pm_matchedPreferences m) > 0 then [''Key strengths: '' @ join ''; '' (pm_matchedPreferences m) @ ''.''] else []) @
        (if length (pm_matchedRequirements m) > 0 then [''Meets requirements: '' @ join ''; '' (pm_matchedRequirements m) @ ''.''] else []) @
        (case pm_compromises m of [] \<Rightarrow> [] | c # _ \<Rightarrow> [''Main trade-off: '' @ c @ ''.'']) @
        (case budgetMinor of
           Some b \<Rightarrow> if b > 0 then [''Priced at '' @ price @ '' ('' @ int_str (round_div (cp_priceMinor product * 100) b) @ ''% of your budget).'']
                     else [''Priced at '' @ price @ ''.'']
         | None \<Rightarrow> [''Priced at '' @ price @ ''.''])))"

record comparison =
  cf_strengths :: "string list"
  cf_differences :: "string list"
  cf_compromises :: "string list"

definition stock_text :: "product_match \<Rightarrow> string" where
  "stock_text m = (if el_inStock (pm_eligibility m) then ''in stock'' else ''out of stock'')"

definition versus :: "string \<Rightarrow> catalog_product \<Rightarrow> string \<Rightarrow> catalog_product \<Rightarrow> string \<Rightarrow> string" where
  "versus label a x b y = label @ '': '' @ cp_name a @ '' '' @ x @ ''; '' @ cp_name b @ '' '' @ y"

text \<open>Both matches are present: the guard on missing products never fires for ranked ones.\<close>

definition renderComparison :: "product_match \<Rightarrow> product_match \<Rightarrow> comparison" where
  "renderComparison ma mb =
     (let a = pm_product ma; b = pm_product mb;
          cheaperProduct = (if cp_priceMinor a < cp_priceMinor b then a else b);
          dearerProduct = (if cp_priceMinor a > cp_priceMinor b then a else b)
      in \<lparr>cf_strengths =
            (if cp_priceMinor a = cp_priceMinor b then [''Same price point''] else []) @
            (if cp_fit a = cp_fit b then [''Same '' @ cp_fit a @ '' fit''] else []) @
            (if cp_cushioning a = cp_cushioning b then [''Same '' @ cp_cushioning a @ '' cushioning''] else []),
          cf_differences =
            (if cp_priceMinor a \<noteq> cp_priceMinor b
             then [cp_name cheaperProduct @ '' is '' @ fmtPrice \<bar>cp_priceMinor a - cp_priceMinor b\<bar> @ '' cheaper than '' @ cp_name dearerProduct @
                   '' ('' @ fmtPrice (cp_priceMinor cheaperProduct) @ '' vs '' @ fmtPrice (cp_priceMinor dearerProduct) @ '')''] else []) @
            (if cp_fit a \<noteq> cp_fit b then [versus ''Fit'' a (''is '' @ cp_fit a) b (''is '' @ cp_fit b)] else []) @
            (if cp_cushioning a \<noteq> cp_cushioning b then [versus ''Cushioning'' a (''is '' @ cp_cushioning a) b (''is '' @ cp_cushioning b)] else []) @
            (if cp_typicalDistanceKm a \<noteq> cp_typicalDistanceKm b
             then [versus ''Distance'' a (''up to '' @ int_str (cp_typicalDistanceKm a) @ ''K'') b (''up to '' @ int_str (cp_typicalDistanceKm b) @ ''K'')] else []) @
            (if cp_useCase a \<noteq> cp_useCase b then [versus ''Use case'' a (''is '' @ cp_useCase a) b (''is '' @ cp_useCase b)] else []) @
            (if stock_text ma \<noteq> stock_text mb then [versus ''Stock'' a (''is '' @ stock_text ma) b (''is '' @ stock_text mb)] else []) @
            [versus ''Delivery'' a (''in '' @ days (cp_deliveryLeadDays a)) b (''in '' @ days (cp_deliveryLeadDays b)),
             versus ''Score'' a (int_str (pm_scoreNormalized ma) @ ''/100'') b (int_str (pm_scoreNormalized mb) @ ''/100'')],
          cf_compromises = concat (map (\<lambda>m. if length (pm_compromises m) > 0
              then [cp_name (pm_product m) @ '': '' @ join ''; '' (pm_compromises m)] else []) [ma, mb])\<rparr>)"

definition renderCompromises :: "product_match \<Rightarrow> string" where
  "renderCompromises m =
     (if length (pm_compromises m) = 0
      then cp_name (pm_product m) @ '' satisfies all your stated preferences with no compromises.''
      else ''With '' @ cp_name (pm_product m) @ '', you are compromising on: '' @ join ''; '' (pm_compromises m) @ ''.'')"

definition renderCheaper :: "product_match \<Rightarrow> product_match option \<Rightarrow> string" where
  "renderCheaper currentBest cheaperOption =
     (case cheaperOption of
        None \<Rightarrow> ''There is no eligible product cheaper than '' @ cp_name (pm_product currentBest) @ '' ('' @
          fmtPrice (cp_priceMinor (pm_product currentBest)) @ '') that meets all your requirements.''
      | Some m \<Rightarrow> join '' '' (
          [cp_name (pm_product m) @ '' is '' @ fmtPrice (cp_priceMinor (pm_product currentBest) - cp_priceMinor (pm_product m)) @
             '' cheaper at '' @ fmtPrice (cp_priceMinor (pm_product m)) @ ''.''] @
          (if length (pm_compromises m) > 0 then [''Trade-offs: '' @ join ''; '' (pm_compromises m) @ ''.''] else []) @
          [''Score: '' @ int_str (pm_scoreNormalized m) @ ''/100.'']))"

definition renderCompareFull :: "product_match \<Rightarrow> product_match \<Rightarrow> string" where
  "renderCompareFull a b =
     (let c = renderComparison a b in
      join '' '' ([cp_name (pm_product a) @ '' vs '' @ cp_name (pm_product b) @ '':''] @
        (if length (cf_differences c) > 0 then [join ''. '' (cf_differences c) @ ''.''] else []) @
        (if length (cf_compromises c) > 0 then [''Compromises: '' @ join ''. '' (cf_compromises c) @ ''.''] else [])))"

text \<open>The comparison is symmetric in what the products share, and always states delivery and score.\<close>

lemma comparison_swap:
  "cf_strengths (renderComparison b a) = cf_strengths (renderComparison a b)"
  "length (cf_differences (renderComparison b a)) = length (cf_differences (renderComparison a b))"
  "2 \<le> length (cf_differences (renderComparison a b))"
  by (auto simp: renderComparison_def Let_def)

end
