(* ===== verification/Respond.thy ===== *)
theory Respond
  imports MachineClient Llm Explain
begin

text \<open>
  A turn of the conversation: \<open>respond\<close> in \<open>apps/web/lib/services.ts\<close> with its compare, explain, select and
  cheaper handlers. The handler is cut at its awaits (the interpreter, the soft preferences, the store
  lookup, the signing and the posting of a fit-score payment, the explanation); between two of them it
  runs without interruption. The mock spend and the audit calls inside the spend run in one go.
\<close>

subsection \<open>The compare, explain, select and cheaper handlers\<close>

definition find_match :: "string \<Rightarrow> ranking_result \<Rightarrow> product_match option" where
  "find_match pid ranking = js_find (\<lambda>m. cp_productId (pm_product m) = pid) (rr_matches ranking)"

definition compare_ids :: "string \<Rightarrow> string list \<Rightarrow> ranking_result \<Rightarrow> string list" where
  "compare_ids message requestedIds ranking =
     (if length requestedIds \<ge> 2 then take 2 requestedIds
      else case requestedIds of
        [pid] \<Rightarrow> if \<not> str_includes (toLowerCase message) '' and ''
                 then map (\<lambda>m. cp_productId (pm_product m)) (take 1 (rr_matches ranking)) @ [pid] else [pid]
      | _ \<Rightarrow> [])"

definition advisory_event :: "string \<Rightarrow> string \<Rightarrow> session \<Rightarrow> audit_input" where
  "advisory_event orderId typ s = (event orderId typ A_agent)
     \<lparr>ai_inputDigest := Some (intentDigest (sn_intent s)), ai_decision := Some PAllow, ai_reasonCodes := [''grounded_catalog_facts'']\<rparr>"

definition handleCompare :: "services_env \<Rightarrow> string \<Rightarrow> nat \<Rightarrow> string list \<Rightarrow> respond_result act" where
  "handleCompare env orderId r requestedIds =
     mbind (get_s r) (\<lambda>s. let refuse = (\<lambda>msg. mret (R_error msg (sn_state s) None)) in
       case sn_lastRanking s of
         None \<Rightarrow> refuse ''No shortlist available to compare. Let me refine your search first.''
       | Some ranking \<Rightarrow>
           if length (rr_matches ranking) = 0 then refuse ''No shortlist available to compare. Let me refine your search first.''
           else case compare_ids (sn_message s) requestedIds ranking of
             idA # idB # _ \<Rightarrow>
               (case (find_match idA ranking, find_match idB ranking) of
                  (Some matchA, Some matchB) \<Rightarrow>
                    (let facts = renderComparison matchA matchB in
                     mbind (log_event env (advisory_event orderId ''action.compare'' s)) (\<lambda>_.
                       mret (R_compare matchA matchB (cf_strengths facts) (cf_differences facts) (cf_compromises facts) (sn_state s))))
                | _ \<Rightarrow> refuse ''One or both of those products are not in your current shortlist.'')
           | _ \<Rightarrow> refuse ''I need at least one product name to compare. Please specify which shoe.'')"

text \<open>\<open>extractProductIdsFromMessage\<close> repeats \<open>findProductIds\<close> of the interpreter, with the same table of aliases.\<close>

definition extractProductIdsFromMessage :: "string \<Rightarrow> string list" where
  "extractProductIdsFromMessage message =
     (let lower = toLowerCase message in
      take 5 (map cp_productId (filter (\<lambda>product.
        list_ex (str_includes lower) (case map_get (cp_productId product) PRODUCT_NAME_ALIASES of
          Some aliases \<Rightarrow> aliases | None \<Rightarrow> [toLowerCase (cp_name product)])) (cat_products SHOE_CATALOG))))"

definition explain_target :: "string \<Rightarrow> string list \<Rightarrow> ranking_result \<Rightarrow> product_match option" where
  "explain_target message requestedIds ranking =
     (case requestedIds of
        pid # _ \<Rightarrow> find_match pid ranking
      | [] \<Rightarrow>
          (case (case extractProductIdsFromMessage message of pid # _ \<Rightarrow> find_match pid ranking | [] \<Rightarrow> None) of
             Some target \<Rightarrow> Some target | None \<Rightarrow> js_head (rr_matches ranking)))"

definition handleExplain :: "services_env \<Rightarrow> string \<Rightarrow> nat \<Rightarrow> string list \<Rightarrow> respond_result act" where
  "handleExplain env orderId r requestedIds =
     mbind (get_s r) (\<lambda>s. let refuse = (\<lambda>msg. mret (R_error msg (sn_state s) None)) in
       case sn_lastRanking s of
         None \<Rightarrow> refuse ''No shortlist available to explain. Let me refine your search first.''
       | Some ranking \<Rightarrow>
           if length (rr_matches ranking) = 0 then refuse ''No shortlist available to explain. Let me refine your search first.''
           else case explain_target (sn_message s) requestedIds ranking of
             None \<Rightarrow> refuse ''That product is not in your current shortlist.''
           | Some target \<Rightarrow>
               mbind (log_event env (advisory_event orderId ''action.explain'' s)) (\<lambda>_.
                 mret (R_explain target (renderWhyThisOne target (in_maxAmountMinor (sn_intent s))) (sn_state s))))"

definition handleSelect ::
  "services_env \<Rightarrow> string \<Rightarrow> nat \<Rightarrow> string list \<Rightarrow> recommendation_binding option \<Rightarrow> respond_result act" where
  "handleSelect env orderId r requestedIds selectionBinding =
     mbind (get_s r) (\<lambda>s.
       if requestedIds = [] \<or> hd requestedIds = []
       then mret (R_error (''I couldn'' @ [CHR 0x27] @ ''t identify which shoe you'' @ [CHR 0x27] @ ''d like to select.'') (sn_state s) None)
       else let productId = hd requestedIds in
         mbind (validateCurrentSelection env r productId selectionBinding) (\<lambda>selection.
         mbind (get_s r) (\<lambda>s.
           case selection of
             Sel_rejected message ranking binding codes \<Rightarrow>
               mbind (log_event env ((event orderId ''action.select_rejected'' A_policy)
                 \<lparr>ai_inputDigest := Some (intentDigest (sn_intent s)), ai_decision := Some PBlock, ai_reasonCodes := codes\<rparr>)) (\<lambda>_.
               mret (R_error message (sn_state s) (Some \<lparr>sj_matches = rr_matches ranking, sj_binding = binding,
                 sj_rejectedProductId = productId, sj_parsedIntent = sn_intent s\<rparr>)))
           | Sel_ok product v binding \<Rightarrow>
               mbind (upd_dialogue r (\<lambda>d. d\<lparr>dm_selectedProductId := Some productId\<rparr>)) (\<lambda>_.
               mbind (log_event env ((advisory_event orderId ''action.select'' s)\<lparr>ai_reasonCodes := [''eligible_in_stock'']\<rparr>)) (\<lambda>_.
               mret (R_select productId (''Selected '' @ cp_name product @ '' '' @ cv_size v @ ''.'') (sn_state s) binding))))))"

text \<open>The placeholder when nothing is eligible: the first product of the catalogue, without score.\<close>

definition no_match :: "catalog_product \<Rightarrow> product_match" where
  "no_match product =
     \<lparr>pm_product = product, pm_score = 0, pm_scoreNormalized = 0, pm_role = NoRole, pm_roleJustification = [],
      pm_matchedRequirements = [], pm_matchedPreferences = [], pm_compromises = [],
      pm_eligibility = \<lparr>el_withinBudget = False, el_sizeAvailable = False, el_inStock = False, el_returnable = False,
        el_deliveryMet = False, el_rejectionReasons = []\<rparr>, pm_colourMatched = False\<rparr>"

definition cheaper_intent :: "session \<Rightarrow> purchase_intent" where
  "cheaper_intent s = (let i = buildPurchaseIntent s in
     i\<lparr>pi_hardConstraints := (pi_hardConstraints i)\<lparr>hc_maxAmountMinor := reduced_budget (in_maxAmountMinor (sn_intent s))\<rparr>\<rparr>)"

definition cheaper_ranking :: "services_env \<Rightarrow> nat \<Rightarrow> ranking_result act" where
  "cheaper_ranking env r =
     mbind (get_s r) (\<lambda>s.
       case (sn_lastRanking s, isCurrentRecommendation s) of
         (Some ranking, True) \<Rightarrow> mret ranking
       | _ \<Rightarrow>
           mbind (now_ms env) (\<lambda>now. let fresh = rankProducts (buildPurchaseIntent s) SHOE_CATALOG now in
             mbind (recordRecommendation env r fresh) (\<lambda>_.
             mbind (upd_dialogue r (syncMemory (sn_intent s) (match_ids fresh) (map mi_name (rr_missing fresh)) ''refine'' (sn_message s)))
               (\<lambda>_. mret fresh))))"

definition handleCheaper :: "services_env \<Rightarrow> string \<Rightarrow> nat \<Rightarrow> respond_result act" where
  "handleCheaper env orderId r =
     mbind (cheaper_ranking env r) (\<lambda>ranking.
     mbind (get_s r) (\<lambda>s.
       case rr_matches ranking of
         [] \<Rightarrow> mret (R_cheaper (no_match (hd (cat_products SHOE_CATALOG))) None ''No products available to compare against.'' (sn_state s))
       | currentBest # _ \<Rightarrow>
           mbind (now_ms env) (\<lambda>now.
             let cheaperOption = js_find (\<lambda>m. cp_productId (pm_product m) \<noteq> cp_productId (pm_product currentBest))
                   (rr_matches (rankProducts (cheaper_intent s) SHOE_CATALOG now)) in
             mbind (log_event env (advisory_event orderId ''action.cheaper'' s)) (\<lambda>_.
               mret (R_cheaper currentBest cheaperOption (renderCheaper currentBest cheaperOption) (sn_state s))))))"

subsection \<open>Messages\<close>

definition composeClarification :: "session \<Rightarrow> string list \<Rightarrow> string" where
  "composeClarification s missingNames =
     (let i = sn_intent s;
          partial = (if truthy (in_colour i) then [''colour '' @ opt_str (in_colour i)] else []) @
            (case in_maxAmountMinor i of None \<Rightarrow> [] | Some v \<Rightarrow> if v = 0 then [] else [''budget '' @ formatMinor v ''INR'']);
          preamble = (if length partial > 0 then ''Got it '' @ dash @ '' '' @ join '', '' partial @ ''. '' else [])
      in case missingNames of
           [name] \<Rightarrow> preamble @ ''One more detail before I shortlist: '' @ name @ ''.''
         | _ \<Rightarrow> preamble @ ''Before I shortlist, I need '' @ nat_str (length missingNames) @ '' details: '' @ join '', '' missingNames @ ''.'')"

definition spend_note :: "spend_receipt option \<Rightarrow> attempt_summary option \<Rightarrow> string" where
  "spend_note machineSpend attempt =
     (case machineSpend of
        Some receipt \<Rightarrow>
          if sx_mock receipt
          then '' Fit-scoring invoked under a pre-authorized '' @ sx_amount receipt @ '' USDC x402 mandate '' @ dash @
               '' MOCK settlement; no real funds moved.''
          else '' Fit-scoring invoked under x402 SOLANA DEVNET settlement '' @ dash @ '' test tokens, no real money.''
      | None \<Rightarrow>
          (case attempt of
             None \<Rightarrow> []
           | Some a \<Rightarrow>
               if sm_status a = Sp_pending
               then '' Fit-scoring settlement is pending. The original signed payment attempt is retained and will be reconciled without submitting a replacement.''
               else if sm_status a = Sp_manual_reconciliation_required
               then '' Fit-scoring settlement is unresolved and requires manual reconciliation. No replacement payment will be submitted.''
               else []))"

record explain_match =
  xm_name :: string
  xm_brand :: string
  xm_priceText :: string
  xm_score :: int
  xm_fit :: string
  xm_cushioning :: string
  xm_useCase :: string
  xm_typicalDistanceKm :: int
  xm_inStock :: bool
  xm_reasons :: "string list"
  xm_compromises :: "string list"

definition productMatchToExplainInput :: "product_match \<Rightarrow> explain_match" where
  "productMatchToExplainInput m =
     (let p = pm_product m in
      \<lparr>xm_name = cp_name p, xm_brand = cp_brand p, xm_priceText = formatMinor (cp_priceMinor p) ''INR'', xm_score = pm_scoreNormalized m,
       xm_fit = cp_fit p, xm_cushioning = cp_cushioning p, xm_useCase = cp_useCase p, xm_typicalDistanceKm = cp_typicalDistanceKm p,
       xm_inStock = el_inStock (pm_eligibility m), xm_reasons = pm_matchedRequirements m @ pm_matchedPreferences m,
       xm_compromises = pm_compromises m\<rparr>)"

text \<open>
  \<open>composeShortlistMessage\<close>: a message at once, or the question to the language model with the text that
  is appended to its answer and the text used without an answer.
\<close>

datatype compose_step =
    Composed string
  | Ask_explanation string "explain_match list" string string

definition composeShortlistMessage ::
  "bool \<Rightarrow> session \<Rightarrow> ranking_result \<Rightarrow> spend_receipt option \<Rightarrow> attempt_summary option \<Rightarrow> compose_step" where
  "composeShortlistMessage llmEnabled s ranking machineSpend attempt =
     (case rr_matches ranking of
        [] \<Rightarrow> Composed
          (case in_maxAmountMinor (sn_intent s) of
             Some budget \<Rightarrow>
               if budget \<noteq> 0 then ''No products satisfy your '' @ fmtPrice budget @ '' budget and current constraints.''
               else ''No products satisfy your constraints with current stock.''
           | None \<Rightarrow> ''No products satisfy your constraints with current stock.'')
      | best # _ \<Rightarrow>
          (let note = spend_note machineSpend attempt;
               plain = ''Here are your top '' @ nat_str (length (rr_matches ranking)) @ '' matches. Best under the stated evidence: '' @
                 cp_name (pm_product best) @ '' ('' @ formatMinor (cp_priceMinor (pm_product best)) ''INR'' @ '', score '' @
                 int_str (pm_score best) @ '').'' @ note
           in if llmEnabled then Ask_explanation (sn_message s) (map productMatchToExplainInput (rr_matches ranking)) note plain
              else Composed plain))"

definition explained :: "string option \<Rightarrow> string \<Rightarrow> string \<Rightarrow> string" where
  "explained explanation note plain = (if truthy explanation then opt_str explanation @ note else plain)"

subsection \<open>The turn and its awaits\<close>

record turn =
  tn_orderId :: string
  tn_message :: string
  tn_binding :: "recommendation_binding option"
  tn_operationId :: "string option"
  tn_session :: nat

text \<open>What the interpreter made of the message, with the intent and the envelope before it.\<close>

record reading =
  rd_merged :: structured_interpretation
  rd_outcome :: interpretation_outcome
  rd_previousIntent :: parsed_intent
  rd_previousEnvelope :: "envelope_record option"

text \<open>A ranking on its way to the customer; \<open>of_repeat\<close> is the branch that repeats the ranking on record.\<close>

record offer =
  of_ranking :: ranking_result
  of_action :: interpretation_action
  of_acknowledgement :: "string option"
  of_repeat :: bool

datatype chat_point =
    C_interpret turn structured_interpretation
  | C_soft turn reading
  | C_lookup turn offer tool_spend_request
  | C_prepare turn offer spend_ctx
  | C_submit turn offer spend_ctx devnet_attempt
  | C_explain turn offer "spend_receipt option" "string \<times> explain_match list" string string

datatype chat_outcome = Said payload | Waits chat_point

text \<open>What the awaited calls may answer with.\<close>

record chat_replies =
  cr_interpret :: interpret_call
  cr_soft :: "soft_preferences option throws"
  cr_lookup :: "machine_spend_attempt option throws"
  cr_prepared :: "devnet_attempt throws"
  cr_submitted :: "devnet_outcome throws"
  cr_explanation :: "string option throws"

record chat_env =
  ch_services :: services_env
  ch_llmEnabled :: bool
  ch_interprets :: bool
  ch_tz :: int
  ch_parseDate :: "string \<Rightarrow> int option"
  ch_mode :: spend_mode
  ch_codec :: header_codec

definition action_str :: "interpretation_action \<Rightarrow> string" where
  "action_str a = (case a of Act_search \<Rightarrow> ''search'' | Act_refine \<Rightarrow> ''refine'' | Act_compare \<Rightarrow> ''compare''
     | Act_explain \<Rightarrow> ''explain'' | Act_select \<Rightarrow> ''select'' | Act_restart \<Rightarrow> ''restart'')"

definition respond_prologue :: "string option \<Rightarrow> payload idempotency_result option \<Rightarrow> payload option" where
  "respond_prologue operationId idem =
     (case idem of
        None \<Rightarrow> None
      | Some (Idem_new _) \<Rightarrow> None
      | Some (Idem_conflict _ _) \<Rightarrow> Some (PL_respond (R_error (conflict_text operationId) DRAFT None))
      | Some (Idem_replay rec) \<Rightarrow>
          if or_phase rec = Op_completed \<and> or_resultPayload rec \<noteq> None then or_resultPayload rec
          else if or_phase rec \<in> {Op_failed, Op_rejected}
          then Some (or_else (or_resultPayload rec)
                 (PL_respond (R_error (or_else (or_errorRef rec) (''Operation '' @ phase_str (or_phase rec))) DRAFT None)))
          else Some (PL_respond (R_error ''Operation in progress'' DRAFT None)))"

definition finish_turn ::
  "services_env \<Rightarrow> string option \<Rightarrow> operation_outcome \<Rightarrow> string option \<Rightarrow> string option \<Rightarrow> respond_result \<Rightarrow> chat_outcome act" where
  "finish_turn env operationId out resultRef errorRef res =
     mbind (complete_op env operationId out resultRef errorRef (PL_respond res)) (\<lambda>_. mret (Said (PL_respond res)))"


text \<open>From the composed or explained message to the answer, for a fresh and for a repeated shortlist.\<close>

definition offer_done :: "chat_env \<Rightarrow> turn \<Rightarrow> offer \<Rightarrow> spend_receipt option \<Rightarrow> string \<Rightarrow> chat_outcome act" where
  "offer_done ce t off receipt replyMessage =
     (let env = ch_services ce; r = tn_session t in
     mbind (get_s r) (\<lambda>s.
     mbind (if of_repeat off then mret ()
            else log_event env ((event (tn_orderId t) ''intent.shortlist_ranked'' A_agent)
              \<lparr>ai_inputDigest := Some (intentDigest (sn_intent s))\<rparr>)) (\<lambda>_.
     mbind (upd_dialogue r (syncMemory (sn_intent s) (match_ids (of_ranking off)) [] (action_str (of_action off)) (tn_message t))) (\<lambda>_.
     mbind (get_s r) (\<lambda>s.
     mbind (lift_throws (recommendationBinding s)) (\<lambda>binding.
       finish_turn env (tn_operationId t) Out_success (Some (order_state_str (sn_state s))) None (R_shortlist
         \<lparr>sl_message = (if truthy (of_acknowledgement off) then opt_str (of_acknowledgement off) @ '' '' else []) @ replyMessage,
          sl_matches = rr_matches (of_ranking off), sl_fitScores = map_option msp_fitScores (sn_machineSpend s),
          sl_machineSpend = receipt, sl_machineSpendAttempt = machineSpendAttemptSummary s, sl_state = sn_state s,
          sl_parsedIntent = sn_intent s, sl_binding = binding\<rparr>)))))))"

definition offer_reply :: "chat_env \<Rightarrow> turn \<Rightarrow> offer \<Rightarrow> spend_receipt option \<Rightarrow> chat_outcome act" where
  "offer_reply ce t off receipt =
     mbind (get_s (tn_session t)) (\<lambda>s.
       case composeShortlistMessage (ch_llmEnabled ce) s (of_ranking off) receipt (machineSpendAttemptSummary s) of
         Composed msg \<Rightarrow> offer_done ce t off receipt msg
       | Ask_explanation q matches note plain \<Rightarrow> mret (Waits (C_explain t off receipt (q, matches) note plain)))"

text \<open>The fit-score spend of the turn.\<close>

definition should_spend :: "session \<Rightarrow> ranking_result \<Rightarrow> demo_resource \<Rightarrow> bool" where
  "should_spend s ranking d =
     (truthy (in_fit (sn_intent s)) \<and> sn_machineSpend s = None \<and>
      (case sn_machineSpendAttempt s of
         Some a \<Rightarrow> msa_status a = Sp_pending \<or>
           msa_status a = Sp_rejected \<and> length (rr_matches ranking) \<ge> 2 \<and> \<not> demo_hasProcessed (intentDigest (sn_intent s)) d
       | None \<Rightarrow> length (rr_matches ranking) \<ge> 2 \<and> \<not> demo_hasProcessed (intentDigest (sn_intent s)) d))"

definition spend_next :: "chat_env \<Rightarrow> turn \<Rightarrow> offer \<Rightarrow> spend_step \<Rightarrow> chat_outcome act" where
  "spend_next ce t off step =
     (case step of
        Spend_done receipt \<Rightarrow> offer_reply ce t off receipt
      | Spend_prepare ctx \<Rightarrow> mret (Waits (C_prepare t off ctx))
      | Spend_run ctx prepared \<Rightarrow> mret (Waits (C_submit t off ctx prepared)))"

definition offer_spend :: "chat_env \<Rightarrow> turn \<Rightarrow> offer \<Rightarrow> chat_outcome act" where
  "offer_spend ce t off =
     mbind (get_s (tn_session t)) (\<lambda>s.
     mbind (\<lambda>st. (Inr (should_spend s (of_ranking off) (ap_machine st)), st)) (\<lambda>spend.
       if \<not> spend then offer_reply ce t off None
       else case ch_mode ce of
         Mock_mode \<Rightarrow> mbind (spend_mock (ch_services ce) (ch_codec ce) (tn_orderId t) (tn_session t)) (offer_reply ce t off)
       | Devnet_unavailable e \<Rightarrow> mbind (spend_unavailable (ch_services ce) (tn_orderId t)) (spend_next ce t off)
       | Devnet_mode client \<Rightarrow> mret (Waits (C_lookup t off
           (buildDevnetToolSpendRequest (me_config (ce_machine client)) (tn_orderId t) (dm_intentVersion (sn_dialogue s)))))))"

text \<open>Ranking or asking back.\<close>

definition can_rank :: "order_state \<Rightarrow> bool \<Rightarrow> bool" where
  "can_rank state materialChange =
     (state \<in> {DRAFT, CLARIFYING, REAPPROVAL_REQUIRED, QUOTED} \<or> state = AWAITING_APPROVAL \<and> materialChange)"

definition clarify :: "chat_env \<Rightarrow> turn \<Rightarrow> ranking_result \<Rightarrow> chat_outcome act" where
  "clarify ce t ranking =
     (let env = ch_services ce; r = tn_session t; names = map mi_name (rr_missing ranking) in
     mbind (set_state r CLARIFYING) (\<lambda>_.
     mbind (get_s r) (\<lambda>s. let replyMessage = composeClarification s names in
     mbind (log_event env ((event (tn_orderId t) ''intent.clarification_requested'' A_agent)
              \<lparr>ai_inputDigest := Some (intentDigest (sn_intent s))\<rparr>)) (\<lambda>_.
     mbind (upd_dialogue r (syncMemory (sn_intent s) [] names ''clarify'' (tn_message t))) (\<lambda>_.
       finish_turn env (tn_operationId t) Out_success (Some (order_state_str (sn_state s))) None
         (R_clarify replyMessage (filter (\<lambda>q. q \<noteq> []) [opt_str (nextClarification (sn_intent s) names)])
            (concat (map (\<lambda>m. or_else (mi_options m) []) (rr_missing ranking))) (sn_state s) (sn_intent s)))))))"

definition requote :: "nat \<Rightarrow> bool \<Rightarrow> unit act" where
  "requote r quoteInvalidated =
     mbind (get_s r) (\<lambda>s.
       if sn_state s = AWAITING_APPROVAL \<and> quoteInvalidated then set_state r QUOTED
       else if sn_state s \<noteq> AWAITING_APPROVAL \<and> sn_state s \<noteq> REAPPROVAL_REQUIRED then set_state r QUOTED
       else mret ())"

definition respond_rank :: "chat_env \<Rightarrow> turn \<Rightarrow> reading \<Rightarrow> bool \<Rightarrow> string option \<Rightarrow> chat_outcome act" where
  "respond_rank ce t rd quoteInvalidated acknowledgement =
     (let env = ch_services ce; r = tn_session t in
     mbind (get_s r) (\<lambda>s.
     mbind (now_ms env) (\<lambda>now.
     let ranking = rankProducts (buildPurchaseIntent s) SHOE_CATALOG now in
     mbind (recordRecommendation env r ranking) (\<lambda>_.
       if \<not> rr_ranked ranking then clarify ce t ranking
       else mbind (requote r quoteInvalidated) (\<lambda>_.
              offer_spend ce t \<lparr>of_ranking = ranking, of_action = si_action (rd_merged rd),
                of_acknowledgement = acknowledgement, of_repeat = False\<rparr>)))))"

text \<open>A search or a refinement.\<close>

definition pending_spend :: "session \<Rightarrow> bool" where
  "pending_spend s = (case sn_machineSpendAttempt s of None \<Rightarrow> False | Some a \<Rightarrow> msa_status a = Sp_pending \<and> msa_retryable a)"

definition repeatable :: "session \<Rightarrow> ranking_result option" where
  "repeatable s = (case sn_lastRanking s of
     Some ranking \<Rightarrow> if isCurrentRecommendation s \<and> rr_ranked ranking \<and> \<not> pending_spend s then Some ranking else None
   | None \<Rightarrow> None)"

definition state_refusal :: "order_state \<Rightarrow> string" where
  "state_refusal state = ''Current state '' @ order_state_str state @ '' does not accept new product messages.''"

definition says :: "respond_result act \<Rightarrow> chat_outcome act" where
  "says m = mbind m (\<lambda>res. mret (Said (PL_respond res)))"

definition respond_search :: "chat_env \<Rightarrow> turn \<Rightarrow> reading \<Rightarrow> bool \<Rightarrow> bool \<Rightarrow> string option \<Rightarrow> chat_outcome act" where
  "respond_search ce t rd materialChange quoteInvalidated acknowledgement =
     (let env = ch_services ce; r = tn_session t in
     mbind (get_s r) (\<lambda>s.
       if re_test cheaper_re (toLowerCase (tn_message t))
       then mbind (if quoteInvalidated \<and> sn_state s = AWAITING_APPROVAL then set_state r QUOTED else mret ()) (\<lambda>_.
              says (handleCheaper env (tn_orderId t) r))
       else if \<not> materialChange \<and> repeatable s \<noteq> None
       then offer_reply ce t \<lparr>of_ranking = the (repeatable s), of_action = si_action (rd_merged rd),
              of_acknowledgement = None, of_repeat = True\<rparr> None
       else if \<not> can_rank (sn_state s) materialChange
       then finish_turn env (tn_operationId t) Out_failure None (Some (state_refusal (sn_state s)))
              (R_error (state_refusal (sn_state s)) (sn_state s) None)
       else respond_rank ce t rd quoteInvalidated acknowledgement))"

text \<open>Routing, after the intent has been updated.\<close>

definition material_change :: "services_env \<Rightarrow> turn \<Rightarrow> reading \<Rightarrow> (bool \<times> bool) act" where
  "material_change env t rd =
     mbind (get_s (tn_session t)) (\<lambda>s.
       if hasIntentChanged (rd_previousIntent rd) (sn_intent s)
       then mbind (discard_quote env (tn_orderId t) (tn_session t) (rd_previousEnvelope rd)
                [''material_change_refinement'', ''recommendation_result_invalidated''])
              (\<lambda>_. mret (True, rd_previousEnvelope rd \<noteq> None))
       else mret (False, False))"

definition restart_session :: "string \<Rightarrow> nat \<Rightarrow> respond_result act" where
  "restart_session orderId r =
     mbind (del_envelope orderId) (\<lambda>_.
     mbind (upd_s r (\<lambda>s. s\<lparr>sn_dialogue := createDialogueMemory, sn_intent := empty_intent, sn_lastRanking := None,
              sn_approvalEventId := None, sn_approvedDigest := None\<rparr>)) (\<lambda>_.
     mbind (get_s r) (\<lambda>s. mret (R_restart (sn_state s)))))"

definition respond_route :: "chat_env \<Rightarrow> turn \<Rightarrow> reading \<Rightarrow> chat_outcome act" where
  "respond_route ce t rd =
     (let env = ch_services ce; r = tn_session t; orderId = tn_orderId t; merged = rd_merged rd;
          rejected = io_rejectedReasons (rd_outcome rd); ids = si_requestedProductIds merged in
     mbind (get_s r) (\<lambda>s.
     mbind (log_event env ((event orderId ''interpreter.interpreted'' A_agent)
              \<lparr>ai_inputDigest := Some (intentDigest (sn_intent s)), ai_decision := Some PAllow,
               ai_reasonCodes := (if length rejected > 0 then take 5 rejected else [''schema_validated''])\<rparr>)) (\<lambda>_.
     mbind (material_change env t rd) (\<lambda>(materialChange, quoteInvalidated).
     mbind (get_s r) (\<lambda>s.
     let acknowledgement = (if materialChange then acknowledgeChange (si_corrections merged) (si_removals merged) (sn_intent s) else None) in
       case si_action merged of
         Act_restart \<Rightarrow> says (restart_session orderId r)
       | Act_compare \<Rightarrow> says (handleCompare env orderId r ids)
       | Act_explain \<Rightarrow> says (handleExplain env orderId r ids)
       | Act_select \<Rightarrow> says (handleSelect env orderId r ids (tn_binding t))
       | _ \<Rightarrow> respond_search ce t rd materialChange quoteInvalidated acknowledgement)))))"

text \<open>The soft preferences of the model fill the fields that are still open.\<close>

definition soft_fields :: "parsed_intent \<Rightarrow> soft_preferences \<Rightarrow> bool \<times> bool \<times> bool" where
  "soft_fields i soft = (truthy (sf_fit soft) \<and> \<not> truthy (in_fit i), truthy (sf_cushioning soft) \<and> \<not> truthy (in_cushioning i),
     sf_distanceKm soft \<noteq> None \<and> \<not> num_truthy (in_distanceKm i))"

definition enrich :: "soft_preferences \<Rightarrow> parsed_intent \<Rightarrow> parsed_intent" where
  "enrich soft i = (case soft_fields i soft of (fit, cushioning, distance) \<Rightarrow>
     i\<lparr>in_fit := (if fit then sf_fit soft else in_fit i), in_cushioning := (if cushioning then sf_cushioning soft else in_cushioning i),
       in_distanceKm := (if distance then sf_distanceKm soft else in_distanceKm i)\<rparr>)"

definition apply_soft :: "services_env \<Rightarrow> string \<Rightarrow> nat \<Rightarrow> soft_preferences option \<Rightarrow> unit act" where
  "apply_soft env orderId r found =
     (case found of
        None \<Rightarrow> mret ()
      | Some soft \<Rightarrow>
          mbind (get_s r) (\<lambda>s.
          mbind (upd_s r (\<lambda>s. s\<lparr>sn_intent := enrich soft (sn_intent s)\<rparr>)) (\<lambda>_.
            if soft_fields (sn_intent s) soft = (False, False, False) then mret ()
            else mbind (get_s r) (\<lambda>s. log_event env ((event orderId ''llm.soft_preferences_extracted'' A_agent)
              \<lparr>ai_inputDigest := Some (intentDigest (sn_intent s)), ai_decision := Some PAllow,
               ai_reasonCodes := [''llm_advisory_only'']\<rparr>)))))"

definition respond_interpreted :: "chat_env \<Rightarrow> turn \<Rightarrow> structured_interpretation \<Rightarrow> interpret_call \<Rightarrow> chat_outcome act" where
  "respond_interpreted ce t deterministic call =
     (let env = ch_services ce; r = tn_session t in
     mbind (get_s r) (\<lambda>s.
     mbind (now_ms env) (\<lambda>now.
     mbind (lift_throws (interpretUserMessage \<lparr>ie_now = now, ie_tz = ch_tz ce, ie_parseDate = ch_parseDate ce\<rparr>
              (tn_message t) (sn_intent s) (if ch_llmEnabled ce \<and> ch_interprets ce then Some call else None))) (\<lambda>outcome.
     let merged = mergeInterpretation deterministic outcome in
     mbind (get_envelope (tn_orderId t)) (\<lambda>previousEnvelope.
     mbind (upd_s r (\<lambda>s. s\<lparr>sn_intent := applyInterpretation merged (sn_intent s)\<rparr>)) (\<lambda>_.
     let rd = \<lparr>rd_merged = merged, rd_outcome = outcome, rd_previousIntent = sn_intent s, rd_previousEnvelope = previousEnvelope\<rparr> in
       if ch_llmEnabled ce \<and> io_source outcome \<noteq> From_llm then mret (Waits (C_soft t rd))
       else respond_route ce t rd))))))"

definition respond ::
  "chat_env \<Rightarrow> string \<Rightarrow> string \<Rightarrow> recommendation_binding option \<Rightarrow> string option \<Rightarrow> chat_outcome act" where
  "respond ce orderId message selectionBinding operationId =
     (let env = ch_services ce;
          binding = or_else selectionBinding \<lparr>rb_intentVersion = 0, rb_recommendationVersion = 0, rb_recommendationActionToken = []\<rparr> in
     mbind (begin_op env operationId Conversation_respond (ConversationRespondRequest orderId message (rb_intentVersion binding)
              (rb_recommendationVersion binding) (rb_recommendationActionToken binding)) orderId) (\<lambda>idem.
     case respond_prologue operationId idem of
       Some early \<Rightarrow> mret (Said early)
     | None \<Rightarrow>
     mbind (get_session_ref orderId) (\<lambda>found.
     case found of
       None \<Rightarrow> finish_turn env operationId Out_failure None (Some ''Unknown session'')
                 (R_error ''Unknown session. Start a new conversation.'' DRAFT None)
     | Some r \<Rightarrow>
     mbind (upd_s r (\<lambda>s. s\<lparr>sn_message := message\<rparr>)) (\<lambda>_.
     mbind (get_s r) (\<lambda>s.
     mbind (now_ms env) (\<lambda>now.
       mret (Waits (C_interpret \<lparr>tn_orderId = orderId, tn_message = message, tn_binding = selectionBinding,
           tn_operationId = operationId, tn_session = r\<rparr>
         (deterministicInterpretation now (ch_tz ce) message (sn_intent s)))))))))) "

text \<open>What happens when an awaited call answers.\<close>

fun chat_resume :: "chat_env \<Rightarrow> chat_replies \<Rightarrow> chat_point \<Rightarrow> chat_outcome act" where
  "chat_resume ce a (C_interpret t deterministic) = respond_interpreted ce t deterministic (cr_interpret a)"
| "chat_resume ce a (C_soft t rd) =
     mbind (lift_throws (cr_soft a)) (\<lambda>soft.
     mbind (apply_soft (ch_services ce) (tn_orderId t) (tn_session t) soft) (\<lambda>_. respond_route ce t rd))"
| "chat_resume ce a (C_lookup t off req) =
     mbind (lift_throws (cr_lookup a)) (\<lambda>existing.
     mbind (spend_decide (ch_services ce) (tn_orderId t) (tn_session t) req existing) (spend_next ce t off))"
| "chat_resume ce a (C_prepare t off ctx) =
     mbind (spend_prepared (ch_services ce) (tn_orderId t) (tn_session t) ctx (cr_prepared a)) (spend_next ce t off)"
| "chat_resume ce a (C_submit t off ctx prepared) =
     (case ch_mode ce of
        Devnet_mode client \<Rightarrow>
          mbind (spend_finished (ch_services ce) (me_config (ce_machine client)) (tn_orderId t) (tn_session t) ctx (cr_submitted a))
            (spend_next ce t off)
      | _ \<Rightarrow> offer_reply ce t off None)"
| "chat_resume ce a (C_explain t off receipt question note plain) =
     mbind (lift_throws (cr_explanation a)) (\<lambda>explanation. offer_done ce t off receipt (explained explanation note plain))"

text \<open>A whole turn, each await answered in turn; the fuel bounds the number of awaits.\<close>

fun run_turn :: "nat \<Rightarrow> chat_env \<Rightarrow> (chat_point \<Rightarrow> chat_replies) \<Rightarrow> chat_outcome \<Rightarrow> chat_outcome act" where
  "run_turn n ce answer (Said p) = mret (Said p)"
| "run_turn 0 ce answer (Waits p) = mret (Waits p)"
| "run_turn (Suc n) ce answer (Waits p) = mbind (chat_resume ce (answer p) p) (run_turn n ce answer)"

end
