(* ===== verification/RespondLogic.thy ===== *)
theory RespondLogic
  imports ChatLogic Respond
begin

text \<open>
  A conversation turn keeps the order invariant, whatever the language model, the settlement store and the
  gateway answer (\<open>resume_keeps\<close>), and it moves from await to await in one direction (\<open>resume_gives\<close>).
\<close>

subsection \<open>Every segment keeps the invariant\<close>

lemma keeps_log [intro]: "keeps env c r pre (log_event env' e)"
  by (rule keeps_quiet) (simp add: quiet_def log_event_def)

lemma keeps_get_s [intro]: "keeps env c r pre (get_s r')"
  by (rule keeps_quiet) simp

lemma keeps_now [intro]: "keeps env c r pre (now_ms env')"
  by (rule keeps_quiet) simp

lemma keeps_new_id [intro]: "keeps env c r pre (new_id env' p)"
  by (rule keeps_quiet) simp

lemma keeps_ret [intro]: "keeps env c r pre (mret x)"
  by (rule keeps_quiet) (simp add: quiet_def mret_def)

lemma keeps_lift [intro]: "keeps env c r pre (lift_throws x)"
  by (rule keeps_quiet) simp

lemma keeps_read [intro]: "keeps env c r pre (\<lambda>st. (Inr (f st), st))"
  by (rule keeps_quiet) (simp add: quiet_def)

lemma keeps_complete [intro]: "keeps env c r pre (complete_op env' i out ref err p)"
  by (rule keeps_quiet) simp

lemmas keeps_basic = keeps_log keeps_get_s keeps_now keeps_new_id keeps_ret keeps_lift keeps_read keeps_complete

lemma keeps_session:
  assumes "\<And>s. chat_step s (f s) \<and> sn_state (f s) = sn_state s"
  shows "keeps env c r pre (upd_s r f)"
  using assms by (intro keeps_upd_s) auto

text \<open>The fields a turn changes beside the dialogue.\<close>

lemma chat_step_fields [simp]:
  "chat_step s (s\<lparr>sn_intent := i\<rparr>)" "chat_step s (s\<lparr>sn_message := m\<rparr>)" "chat_step s (s\<lparr>sn_machineSpendAttempt := a\<rparr>)"
  "chat_step s (s\<lparr>sn_machineSpend := sp\<rparr>)"
  by (simp_all add: chat_step_def)

lemma keeps_finish [intro]: "keeps env c r pre (finish_turn env' i out ref err res)"
  unfolding finish_turn_def by (intro keeps_bind keeps_basic)

lemma keeps_says [intro]: "keeps env c r pre m \<Longrightarrow> keeps env c r pre (says m)"
  unfolding says_def by (intro keeps_bind keeps_basic)

lemma keeps_sync [intro]: "keeps env c r pre (upd_dialogue r (syncMemory i ids ms a e))"
  by (rule keeps_upd_dialogue) simp

lemma keeps_compare [intro]: "keeps env c r pre (handleCompare env' i r ids)"
  unfolding handleCompare_def Let_def
  by (intro keeps_bind keeps_basic) (auto intro!: keeps_bind keeps_basic split: option.split list.split)

lemma keeps_explain [intro]: "keeps env c r pre (handleExplain env' i r ids)"
  unfolding handleExplain_def Let_def
  by (intro keeps_bind keeps_basic) (auto intro!: keeps_bind keeps_basic split: option.split)

lemma mem_ok_selected [simp]: "mem_ok (d\<lparr>dm_selectedProductId := p\<rparr>) = mem_ok d"
  by (simp add: mem_ok_def)

lemma keeps_select [intro]: "keeps env c r pre (handleSelect env i r ids b)"
  unfolding handleSelect_def Let_def
  by (intro keeps_bind keeps_basic keeps_if keeps_validate)
     (auto intro!: keeps_bind keeps_basic keeps_upd_dialogue split: selection.split)

lemma keeps_cheaper [intro]: "keeps env c r pre (handleCheaper env i r)"
proof -
  have "keeps env c r pre (cheaper_ranking env r)"
    unfolding cheaper_ranking_def Let_def
    by (intro keeps_bind keeps_basic) (auto intro!: keeps_bind keeps_basic keeps_record keeps_sync split: option.split bool.split)
  then show ?thesis
    unfolding handleCheaper_def Let_def
    by (intro keeps_bind keeps_basic) (auto intro!: keeps_bind keeps_basic split: list.split)
qed

lemma keeps_restart [intro]: "keeps env c r pre (restart_session i r)"
  unfolding restart_session_def
  by (intro keeps_bind keeps_basic keeps_del_envelope keeps_session)
     (simp add: chat_step_def mem_ok_def createDialogueMemory_def)

text \<open>The fit-score spend.\<close>

lemma keeps_audit_once [intro]: "keeps env c r pre (logMachineSpendAuditOnce env' e)"
  unfolding logMachineSpendAuditOnce_def Let_def by (intro keeps_bind keeps_if keeps_basic)

lemma keeps_attempt [intro]: "keeps env c r pre (upd_attempt r f)"
  unfolding upd_attempt_def by (rule keeps_session) simp

lemma keeps_unavailable [intro]: "keeps env c r pre (spend_unavailable env' i)"
  unfolding spend_unavailable_def by (intro keeps_bind keeps_basic keeps_audit_once)

lemma keeps_threw [intro]: "keeps env c r pre (spend_threw env' i a)"
  unfolding spend_threw_def by (intro keeps_bind keeps_basic keeps_audit_once)

lemma keeps_decide [intro]: "keeps env c r pre (spend_decide env' i r req a)"
  unfolding spend_decide_def Let_def
  by (auto intro!: keeps_bind keeps_if keeps_basic keeps_session keeps_audit_once split: option.split)

lemma keeps_prepared [intro]: "keeps env c r pre (spend_prepared env' i r ctx a)"
  unfolding spend_prepared_def Let_def
  by (auto intro!: keeps_bind keeps_basic keeps_session keeps_threw split: sum.split)

lemma keeps_settled [intro]: "keeps env c r pre (spend_settled env' cfg i r a w s res ev)"
  unfolding spend_settled_def Let_def
  by (intro keeps_bind keeps_basic keeps_session keeps_attempt keeps_audit_once) simp

lemma keeps_failed [intro]: "keeps env c r pre (spend_failed env' i r a out)"
  unfolding spend_failed_def Let_def by (intro keeps_bind keeps_if keeps_basic keeps_attempt keeps_audit_once)

lemma keeps_finished [intro]: "keeps env c r pre (spend_finished env' cfg i r ctx a)"
  unfolding spend_finished_def
  by (auto intro!: keeps_bind keeps_basic keeps_attempt keeps_threw keeps_settled keeps_failed
      split: sum.split option.split bool.split)

lemma keeps_run_mock [intro]: "keeps env c r pre (run_mock env' cd h pid)"
  unfolding run_mock_def by (intro keeps_bind keeps_basic keeps_quiet) (simp add: quiet_def split: prod.split)

lemma keeps_mock [intro]: "keeps env c r pre (spend_mock env' cd i r)"
  unfolding spend_mock_def Let_def
  by (intro keeps_bind keeps_basic keeps_run_mock)
     (auto intro!: keeps_bind keeps_basic keeps_session split: option.split bool.split)


subsection \<open>Whole turns\<close>

lemma keeps_offer_done [intro]: "keeps env c (tn_session t) pre (offer_done ce t off receipt msg)"
  unfolding offer_done_def Let_def by (intro keeps_bind keeps_if keeps_basic keeps_sync keeps_finish)

lemma keeps_offer_reply [intro]: "keeps env c (tn_session t) pre (offer_reply ce t off receipt)"
  unfolding offer_reply_def
  by (intro keeps_bind keeps_basic) (auto intro!: keeps_basic keeps_offer_done split: compose_step.split)

lemma keeps_spend_next [intro]: "keeps env c (tn_session t) pre (spend_next ce t off x)"
  unfolding spend_next_def by (auto intro!: keeps_basic keeps_offer_reply split: spend_step.split)

lemma keeps_offer_spend [intro]: "keeps env c (tn_session t) pre (offer_spend ce t off)"
  unfolding offer_spend_def
  by (intro keeps_bind keeps_if keeps_basic keeps_offer_reply)
     (auto intro!: keeps_bind keeps_basic keeps_mock keeps_unavailable keeps_offer_reply keeps_spend_next split: spend_mode.split)

lemma keeps_clarify [intro]: "keeps env c (tn_session t) pre (clarify ce t ranking)"
  unfolding clarify_def Let_def by (intro keeps_bind keeps_basic keeps_set_state keeps_sync keeps_finish) simp

lemma keeps_requote [intro]: "keeps env c r pre (requote r q)"
  unfolding requote_def by (intro keeps_bind keeps_if keeps_basic keeps_set_state) simp_all

lemma keeps_rank [intro]: "keeps (ch_services ce) c (tn_session t) pre (respond_rank ce t rd q a)"
  unfolding respond_rank_def Let_def
  by (intro keeps_bind keeps_if keeps_basic keeps_record keeps_clarify keeps_requote keeps_offer_spend)

lemma keeps_search [intro]: "keeps (ch_services ce) c (tn_session t) pre (respond_search ce t rd m q a)"
  unfolding respond_search_def Let_def
  by (intro keeps_bind keeps_if keeps_basic keeps_says keeps_cheaper keeps_set_state keeps_offer_reply keeps_finish keeps_rank) simp

lemma keeps_change [intro]: "keeps env c (tn_session t) pre (material_change env t rd)"
  unfolding material_change_def by (intro keeps_bind keeps_if keeps_basic keeps_discard)

lemma keeps_route [intro]: "keeps (ch_services ce) c (tn_session t) pre (respond_route ce t rd)"
  unfolding respond_route_def Let_def case_prod_beta
  by (intro keeps_bind keeps_basic keeps_change)
     (auto intro!: keeps_says keeps_restart keeps_compare keeps_explain keeps_select keeps_search split: interpretation_action.split)

lemma keeps_soft [intro]: "keeps env c r pre (apply_soft env' i r x)"
  unfolding apply_soft_def
  by (intro keeps_case_option keeps_bind keeps_if keeps_basic keeps_session) simp

lemma keeps_interpreted [intro]: "keeps (ch_services ce) c (tn_session t) pre (respond_interpreted ce t d a)"
  unfolding respond_interpreted_def Let_def
  by (intro keeps_bind keeps_if keeps_basic keeps_session keeps_route) (auto intro: keeps_quiet)

fun chat_turn :: "chat_point \<Rightarrow> turn" where
  "chat_turn (C_interpret t _) = t"
| "chat_turn (C_soft t _) = t"
| "chat_turn (C_lookup t _ _) = t"
| "chat_turn (C_prepare t _ _) = t"
| "chat_turn (C_submit t _ _ _) = t"
| "chat_turn (C_explain t _ _ _ _ _) = t"

lemma resume_keeps: "keeps (ch_services ce) c (tn_session (chat_turn p)) pre (chat_resume ce a p)"
  by (cases p)
     (auto intro!: keeps_bind keeps_basic keeps_interpreted keeps_soft keeps_route keeps_decide keeps_prepared keeps_finished
        keeps_spend_next keeps_offer_reply keeps_offer_done split: spend_mode.split)

subsection \<open>A turn moves forward\<close>

text \<open>What an action returns when it returns.\<close>

definition gives :: "('s, 'a) action \<Rightarrow> ('a \<Rightarrow> bool) \<Rightarrow> bool" where
  "gives m P = (\<forall>st x st'. m st = (Inr x, st') \<longrightarrow> P x)"

lemma gives_ret [intro]: "P x \<Longrightarrow> gives (mret x) P"
  by (simp add: gives_def mret_def)

lemma gives_True [intro]: "gives m (\<lambda>_. True)"
  by (simp add: gives_def)

lemma gives_bind: "gives m P \<Longrightarrow> (\<And>x. P x \<Longrightarrow> gives (f x) Q) \<Longrightarrow> gives (mbind m f) Q"
  unfolding gives_def mbind_def by (fastforce split: sum.splits prod.splits)

lemma gives_then [intro]: "(\<And>x. gives (f x) Q) \<Longrightarrow> gives (mbind m f) Q"
  by (rule gives_bind [OF gives_True])

lemma gives_if [intro]: "(b \<Longrightarrow> gives m P) \<Longrightarrow> (\<not> b \<Longrightarrow> gives n P) \<Longrightarrow> gives (if b then m else n) P"
  by simp

lemma givesD: "gives m P \<Longrightarrow> m st = (Inr x, st') \<Longrightarrow> P x"
  unfolding gives_def by blast

fun chat_rank :: "chat_point \<Rightarrow> nat" where
  "chat_rank (C_interpret _ _) = 5"
| "chat_rank (C_soft _ _) = 4"
| "chat_rank (C_lookup _ _ _) = 3"
| "chat_rank (C_prepare _ _ _) = 2"
| "chat_rank (C_submit _ _ _ _) = 1"
| "chat_rank (C_explain _ _ _ _ _ _) = 0"

text \<open>An answer, or an await of the same turn that comes later.\<close>

definition forward :: "turn \<Rightarrow> nat \<Rightarrow> chat_outcome \<Rightarrow> bool" where
  "forward t n out = (case out of Said _ \<Rightarrow> True | Waits p \<Rightarrow> chat_turn p = t \<and> chat_rank p < n)"

lemma forward_simps [simp]: "forward t n (Said x)" "forward t n (Waits p) \<longleftrightarrow> chat_turn p = t \<and> chat_rank p < n"
  by (simp_all add: forward_def)

lemma gives_finish [intro]: "gives (finish_turn env i out ref err res) (forward t n)"
  unfolding finish_turn_def by (intro gives_then gives_ret) simp

lemma gives_says [intro]: "gives (says m) (forward t n)"
  unfolding says_def by (intro gives_then gives_ret) simp

lemma gives_offer_done [intro]: "gives (offer_done ce t off receipt msg) (forward t n)"
  unfolding offer_done_def Let_def by (intro gives_then gives_finish)

lemma gives_offer_reply [intro]: "0 < n \<Longrightarrow> gives (offer_reply ce t off receipt) (forward t n)"
  unfolding offer_reply_def by (intro gives_then) (auto split: compose_step.split)

definition later_step :: "nat \<Rightarrow> spend_step \<Rightarrow> bool" where
  "later_step n x = (case x of Spend_done _ \<Rightarrow> True | Spend_prepare _ \<Rightarrow> 2 < n | Spend_run _ _ \<Rightarrow> 1 < n)"

lemma gives_spend_next: "0 < n \<Longrightarrow> later_step n x \<Longrightarrow> gives (spend_next ce t off x) (forward t n)"
  unfolding spend_next_def by (auto simp: later_step_def split: spend_step.splits)

lemma gives_threw: "gives (spend_threw env i a) (later_step n)"
  unfolding spend_threw_def by (intro gives_then gives_ret) (simp add: later_step_def)

lemma gives_prepared: "gives (spend_prepared env i r ctx a) (later_step 2)"
  unfolding spend_prepared_def Let_def
  by (auto intro!: gives_then gives_ret gives_threw simp: later_step_def split: sum.split)

lemma gives_settled: "gives (spend_settled env cfg i r a w s res ev) (later_step n)"
  unfolding spend_settled_def Let_def by (intro gives_then gives_ret) (simp add: later_step_def)

lemma gives_failed: "gives (spend_failed env i r a out) (later_step n)"
  unfolding spend_failed_def Let_def by (intro gives_if gives_then gives_ret) (simp_all add: later_step_def)

lemma gives_finished: "gives (spend_finished env cfg i r ctx a) (later_step n)"
  unfolding spend_finished_def
  by (auto intro!: gives_then gives_ret gives_threw gives_settled gives_failed split: sum.split option.split bool.split)
     (simp add: later_step_def)

lemma gives_offer_spend: "3 < n \<Longrightarrow> gives (offer_spend ce t off) (forward t n)"
  unfolding offer_spend_def
  by (intro gives_then gives_if gives_offer_reply)
     (auto intro!: gives_then gives_spend_next simp: later_step_def split: spend_mode.split spend_step.split)

lemma gives_rank: "3 < n \<Longrightarrow> gives (respond_rank ce t rd q a) (forward t n)"
  unfolding respond_rank_def Let_def clarify_def by (intro gives_then gives_if gives_offer_spend gives_finish)

lemma gives_search: "3 < n \<Longrightarrow> gives (respond_search ce t rd m q a) (forward t n)"
  unfolding respond_search_def Let_def
  by (intro gives_then gives_if gives_says gives_offer_reply gives_finish gives_rank) simp_all

lemma gives_route: "3 < n \<Longrightarrow> gives (respond_route ce t rd) (forward t n)"
  unfolding respond_route_def Let_def case_prod_beta
  by (intro gives_then) (auto intro: gives_search split: interpretation_action.split)

lemma resume_gives: "gives (chat_resume ce a p) (forward (chat_turn p) (chat_rank p))"
proof (cases p)
  case (C_interpret t d)
  then show ?thesis by (auto simp: respond_interpreted_def Let_def intro!: gives_then gives_if gives_route)
next
  case (C_prepare t off ctx)
  then show ?thesis by (simp add: gives_bind [OF gives_prepared] gives_spend_next)
next
  case (C_submit t off ctx prepared)
  then show ?thesis
    by (auto intro!: gives_bind [OF gives_finished [where n = 1]] gives_spend_next split: spend_mode.split)
qed (auto intro!: gives_then gives_route gives_spend_next simp: later_step_def split: spend_step.split)

end
