(* ===== verification/OrderWorld.thy ===== *)
theory OrderWorld
  imports RespondLogic
begin

text \<open>
  The remaining handlers (sessions, webhooks, snapshots) and the service as
  a step relation: requests, webhook deliveries and replies to suspended handlers in any order, under
  the locks the code takes. Every reachable state satisfies the invariant.
\<close>

subsection \<open>New sessions\<close>

lemma prune_spec:
  assumes "prune_from ss es = (ss', es')"
  shows "length ss' \<le> MAX_CACHED_SESSIONS" "\<exists>k. ss' = drop k ss" "\<And>i rec. map_get i es' = Some rec \<Longrightarrow> map_get i es = Some rec"
proof -
  have "length ss' \<le> MAX_CACHED_SESSIONS \<and> (\<exists>k. ss' = drop k ss) \<and> (\<forall>i rec. map_get i es' = Some rec \<longrightarrow> map_get i es = Some rec)"
    using assms
  proof (induction ss es rule: prune_from.induct)
    case (2 old r rest envs)
    show ?case
    proof (cases "length ((old, r) # rest) > MAX_CACHED_SESSIONS")
      case True
      with 2 obtain k where k: "length ss' \<le> MAX_CACHED_SESSIONS" "ss' = drop k rest"
        "\<forall>i rec. map_get i es' = Some rec \<longrightarrow> map_get i (map_del old envs) = Some rec"
        by auto
      then have "\<exists>j. ss' = drop j ((old, r) # rest)" by (intro exI [of _ "Suc k"]) simp
      moreover have "map_get i envs = Some rec" if "map_get i es' = Some rec" for i rec
        using k(3) [rule_format, OF that] by (simp split: if_splits)
      ultimately show ?thesis using k(1) by blast
    next
      case False
      with 2(2) show ?thesis by (auto intro: exI [of _ 0])
    qed
  qed auto
  then show "length ss' \<le> MAX_CACHED_SESSIONS" "\<exists>k. ss' = drop k ss" "\<And>i rec. map_get i es' = Some rec \<Longrightarrow> map_get i es = Some rec"
    by blast+
qed

lemma map_get_drop:
  assumes "distinct (map fst ss)" "map_get i (drop k ss) = Some r"
  shows "map_get i ss = Some r"
proof -
  have "(i, r) \<in> set ss" using map_get_in_set [OF assms(2)] by (rule in_set_dropD)
  with assms(1) show ?thesis by (simp add: map_get_def)
qed

lemma goes_alloc:
  assumes good: "good env P c"
    and c': "co_heap c' = (co_heap c)(co_next c := s')" "co_next c' = Suc (co_next c)"
    and pay: "sn_x402OrderPayment s' = None \<and> co_payments c' = co_payments c \<and> co_pnext c' = co_pnext c \<or>
      sn_x402OrderPayment s' = Some (co_pnext c) \<and> co_payments c' = (co_payments c)(co_pnext c := p) \<and> co_pnext c' = Suc (co_pnext c)"
    and ok: "session_ok s' (payment_of s' c')"
    and ss: "distinct (map fst (co_sessions c'))" "length (co_sessions c') \<le> MAX_CACHED_SESSIONS"
      "\<And>i r. map_get i (co_sessions c') = Some r \<Longrightarrow> r = co_next c \<and> sn_logicalOrderId s' = i \<or> map_get i (co_sessions c) = Some r"
    and es: "\<And>i rec. map_get i (co_envelopes c') = Some rec \<Longrightarrow> sealed env i rec"
  shows "goes env P c c'"
proof -
  have core: "core_ok env c" and pends: "\<forall>p \<in> P. pend_ok env c p" using good by (simp_all add: good_def)
  have old: "sn_x402OrderPayment (co_heap c q) \<noteq> Some (co_pnext c)" if "q < co_next c" for q
    using core that by (auto simp: core_ok_def)
  have same: "payment_of (co_heap c q) c' = payment_of (co_heap c q) c" if "q < co_next c" for q
    using old [OF that] pay by (cases "sn_x402OrderPayment (co_heap c q)") (auto simp: payment_of_def)
  have "core_ok env c'"
    unfolding core_ok_def
  proof (intro conjI allI impI)
    fix i r assume "map_get i (co_sessions c') = Some r"
    then have "r = co_next c \<and> sn_logicalOrderId s' = i \<or> map_get i (co_sessions c) = Some r" by (rule ss(3))
    then show "r < co_next c'" "sn_logicalOrderId (co_heap c' r) = i"
      using core c' by (auto simp: core_ok_def less_SucI)
  next
    fix q assume "q < co_next c'"
    then show "session_ok (co_heap c' q) (payment_of (co_heap c' q) c')"
      using core c' ok same by (cases "q = co_next c") (auto simp: core_ok_def less_Suc_eq)
  next
    fix q j assume "q < co_next c'" "sn_x402OrderPayment (co_heap c' q) = Some j"
    then show "j < co_pnext c'"
      using core c' pay by (cases "q = co_next c") (auto simp: core_ok_def less_Suc_eq)
  next
    fix q q' j assume q: "q < co_next c'" "q' < co_next c'" "sn_x402OrderPayment (co_heap c' q) = Some j"
      "sn_x402OrderPayment (co_heap c' q') = Some j"
    have "\<not> (\<exists>a < co_next c. sn_x402OrderPayment (co_heap c a) = sn_x402OrderPayment s' \<and> sn_x402OrderPayment s' = Some j)"
      using old pay by auto
    then show "q = q'"
      using core q c' by (cases "q = co_next c"; cases "q' = co_next c") (auto simp: core_ok_def less_Suc_eq)
  qed (use ss es in auto)
  moreover have "pend_ok env c' q" if "q \<in> P" for q
    using pends that c' same by (cases q) auto
  ultimately show ?thesis
    using c' by (auto simp: goes_def)
qed

text \<open>A session object placed in the map under its own identifier, the cache pruned after.\<close>

lemma goes_open:
  assumes good: "good env P c"
    and c': "co_heap c' = (co_heap c)(co_next c := s')" "co_next c' = Suc (co_next c)"
    and pay: "sn_x402OrderPayment s' = None \<and> co_payments c' = co_payments c \<and> co_pnext c' = co_pnext c \<or>
      sn_x402OrderPayment s' = Some (co_pnext c) \<and> co_payments c' = (co_payments c)(co_pnext c := p) \<and> co_pnext c' = Suc (co_pnext c)"
    and ok: "session_ok s' (payment_of s' c')"
    and es: "\<And>i rec. map_get i es = Some rec \<Longrightarrow> sealed env i rec"
    and pruned: "prune_from (map_set (sn_logicalOrderId s') (co_next c) (co_sessions c)) es = (co_sessions c', co_envelopes c')"
  shows "goes env P c c'"
proof (rule goes_alloc [OF good c' pay ok])
  note spec = prune_spec [OF pruned]
  have d: "distinct (map fst (map_set (sn_logicalOrderId s') (co_next c) (co_sessions c)))"
    using good by (simp add: good_def core_ok_def distinct_map_set)
  from spec(2) obtain k where k: "co_sessions c' = drop k (map_set (sn_logicalOrderId s') (co_next c) (co_sessions c))" by blast
  show "distinct (map fst (co_sessions c'))" using distinct_drop [OF d, of k] by (simp add: k drop_map)
  show "length (co_sessions c') \<le> MAX_CACHED_SESSIONS" by (rule spec(1))
  show "r = co_next c \<and> sn_logicalOrderId s' = j \<or> map_get j (co_sessions c) = Some r"
    if "map_get j (co_sessions c') = Some r" for j r
    using map_get_drop [OF d that [unfolded k]] by (auto split: if_splits)
  show "sealed env j rec" if "map_get j (co_envelopes c') = Some rec" for j rec
    by (rule es) (rule spec(3) [OF that])
qed

lemma create_goes:
  assumes good: "good env P (ap_core st)"
  shows "wp (createSession env opid) (answers env P (ap_core st)) (fails env P (ap_core st)) st"
proof -
  let ?c = "ap_core st"
  have *: "goes env P ?c c'"
    if "co_heap c' = (co_heap ?c)(co_next ?c := new_session i u t)" "co_next c' = Suc (co_next ?c)"
      "co_payments c' = co_payments ?c" "co_pnext c' = co_pnext ?c"
      "prune_from (map_set i (co_next ?c) (co_sessions ?c)) (co_envelopes ?c) = (co_sessions c', co_envelopes c')" for c' i u t
    by (rule goes_open [OF good that(1,2)])
       (use that(3-5) known_envelope [OF good] in \<open>auto simp: new_session_def session_ok_def payment_of_def is_verified_def
          mem_ok_def createDialogueMemory_def\<close>)
  show ?thesis
    unfolding createSession_def wp_bind [of "new_id env ''ord''"] wp_new_id
    by (rule wp_opening, simp add: goes_refl good, simp)
       (simp add: wps buildMandate_def alloc_session_def pruneSessionCache_def split: prod.split,
        intro allI impI, rule wp_quiet; simp add: wp_ret; rule *; simp)
qed

subsection \<open>Webhooks and reset\<close>

lemma no_claim_failures: "claim_failures s rec ext claims = [] \<Longrightarrow> sn_externalOrderId s = Some ext"
  by (auto simp: claim_failures_def when_code_def split: if_splits)

lemma goes_marks:
  assumes "good env P c" "co_heap c' = co_heap c" "co_next c' = co_next c" "co_payments c' = co_payments c"
    "co_pnext c' = co_pnext c" "co_sessions c' = co_sessions c" "co_envelopes c' = co_envelopes c"
  shows "goes env P c c'"
proof -
  have pay: "payment_of s c' = payment_of s c" for s using assms by (simp add: payment_of_def)
  have "core_ok env c'" using assms pay by (simp add: core_ok_def good_def)
  moreover have "pend_ok env c' p" if "p \<in> P" for p
    using assms pay that unfolding good_def by (cases p) auto
  ultimately show ?thesis using assms by (simp add: goes_def)
qed

lemma mark_verified_goes:
  assumes good: "good env P c" and st: "ap_core st = c \<or> (\<exists>d. ap_core st = c\<lparr>co_webhookDedup := d\<rparr>)"
  shows "wp (markVerifiedFromWebhook env i pid ext claims) (fails env P c) (fails env P c) st"
proof -
  have f: "co_heap (ap_core st) = co_heap c" "co_next (ap_core st) = co_next c" "co_payments (ap_core st) = co_payments c"
    "co_pnext (ap_core st) = co_pnext c" "co_sessions (ap_core st) = co_sessions c" "co_envelopes (ap_core st) = co_envelopes c"
    using st by auto
  have paid: "goes env P c c'"
    if r: "map_get i (co_sessions c) = Some r" and rec: "map_get i (co_envelopes c) = Some rec"
      and ext: "sn_externalOrderId (co_heap c r) = Some ext"
      and w: "w = (co_heap c r)\<lparr>sn_externalPaymentId := Some pid, sn_verification := Some
          \<lparr>vr_verified = True, vr_rail = Razorpay_checkout, vr_externalOrderId = ext, vr_externalPaymentId = pid,
           vr_amountMinor = env_totalMinor (er_envelope rec), vr_currency = currency_str (env_currency (er_envelope rec)),
           vr_status = ''captured'', vr_reason = None\<rparr>\<rparr>"
      and s': "s' = w \<or> order_step (sn_state (co_heap c r)) PAID_VERIFIED \<and> s' = w\<lparr>sn_state := PAID_VERIFIED\<rparr>"
      and c': "co_heap c' = (co_heap c)(r := s')" "co_next c' = co_next c" "co_payments c' = co_payments c"
        "co_pnext c' = co_pnext c" "co_sessions c' = co_sessions c" "co_envelopes c' = co_envelopes c"
    for r rec w s' c'
  proof -
    let ?s = "co_heap c r"
    note known = known_session [OF good r]
    have seal: "sealed env i rec" by (rule known_envelope [OF good rec])
    have unv: "\<not> is_verified (payment_of ?s c)" using known(3) ext by (auto simp: session_ok_def)
    have "session_ok s' (payment_of ?s c)"
      using known(3) unv ext s' w by (auto simp: session_ok_def)
    moreover have "session_step env c' ?s s'"
      using s' w known(2) seal ext by (auto simp: session_step_def paid_evidence_def intro!: exI [of _ rec])
    ultimately show ?thesis
      using c' s' w known_envelope [OF good] by (intro goes_session [OF good known(1), of c' s']) auto
  qed
  have quiet: "goes env P c (ap_core st)" "goes env P c (ap_core st\<lparr>co_webhookDedup := d\<rparr>)" for d
    by (rule goes_marks [OF good]; simp add: f)+
  show ?thesis
    unfolding markVerifiedFromWebhook_def isWebhookProcessed_def mark_webhook_def
    by (simp add: wps Let_def quiet f split: option.split)
       (intro conjI impI allI; (rule paid)?; (assumption | erule no_claim_failures | rule refl | rule disjI2, rule refl | simp add: f)+)
qed

text \<open>The session a webhook is bound to is the one its order's identifier leads to.\<close>

lemma found_session:
  assumes "good env P c" "js_find Q (map snd (co_sessions c)) = Some r"
  shows "map_get (sn_logicalOrderId (co_heap c r)) (co_sessions c) = Some r"
proof -
  from js_find_SomeD [OF assms(2)] obtain i where i: "(i, r) \<in> set (co_sessions c)" by auto
  with assms(1) have "map_get i (co_sessions c) = Some r" by (auto simp: good_def core_ok_def map_get_def)
  with known_session(2) [OF assms(1) this] show ?thesis by simp
qed

lemma goes_hold:
  assumes "good env P c" "map_get i (co_sessions c) = Some r"
  shows "goes env P c (put_session r ((co_heap c r)\<lparr>sn_heldWebhook := h\<rparr>) c)"
  using known_session [OF assms] by (intro goes_put [OF assms(1)]) (simp_all add: session_ok_def session_step_def)

lemma webhook_goes:
  assumes good: "good env P (ap_core st)"
  shows "wp (processRazorpayWebhookRaw env parse body sig hdr secret) (fails env P (ap_core st)) (fails env P (ap_core st)) st"
proof -
  let ?c = "ap_core st"
  note same = goes_refl [OF good]
  have mark: "goes env P ?c (?c\<lparr>co_webhookDedup := d\<rparr>)" for d by (rule goes_marks [OF good]) simp_all
  have apply_wh: "wp (apply_webhook env r ev) (fails env P ?c) (fails env P ?c) st'"
    if "ap_core st' = ?c" "map_get (sn_logicalOrderId (co_heap ?c r)) (co_sessions ?c) = Some r" for st' r ev
  proof -
    have "wp (markVerifiedFromWebhook env i pid ext cl) (\<lambda>x. wp (mret (f x)) (fails env P ?c) (fails env P ?c)) (fails env P ?c) s"
      if "ap_core s = ?c\<lparr>co_webhookDedup := d\<rparr>" for i pid ext cl d s and f :: "bool \<times> string list \<Rightarrow> webhook_outcome"
      by (rule wp_mono [OF mark_verified_goes [OF good]]) (use that in \<open>auto simp: wp_ret\<close>)
    then show ?thesis
      unfolding apply_webhook_def markWebhookProcessed_def mark_webhook_def holdWebhook_def
      using that goes_hold [OF good that(2)] by (simp add: wps same mark)
  qed
  have bound: "wp (bound_webhook env r ev) (fails env P ?c) (fails env P ?c) st'"
    if "ap_core st' = ?c" "map_get (sn_logicalOrderId (co_heap ?c r)) (co_sessions ?c) = Some r" for st' r ev
    unfolding bound_webhook_def using that apply_wh by (simp add: wps Let_def same)
  have found: "wp (bound_webhook env r ev) (fails env P ?c) (fails env P ?c) st'"
    if "ap_core st' = ?c" "js_find Q (map snd (co_sessions ?c)) = Some r" for st' r ev Q
    using bound [OF that(1) found_session [OF good that(2)]] .
  show ?thesis
    unfolding processRazorpayWebhookRaw_def isWebhookProcessed_def findSessionByExternalOrderId_def
    using found by (simp add: wps Let_def same split: option.split sum.split)
qed

lemma reset_goes:
  assumes good: "good env P (ap_core st)"
  shows "wp (reset env) (fails env P (ap_core st)) (fails env P (ap_core st)) st"
proof -
  let ?c = "ap_core st\<lparr>co_sessions := [], co_envelopes := [], co_mandates := [], co_webhookDedup := []\<rparr>"
  have pay: "payment_of s ?c = payment_of s (ap_core st)" for s by (simp add: payment_of_def)
  have "core_ok env ?c" using good pay by (simp add: core_ok_def good_def)
  moreover have "pend_ok env ?c p" if "p \<in> P" for p
    using good pay that unfolding good_def by (cases p) auto
  ultimately have "goes env P (ap_core st) ?c" by (simp add: goes_def)
  moreover have "wp (\<lambda>st. (Inr (), st\<lparr>ap_ops := mem_clear (ap_ops st), ap_machine := demo_reset (ap_machine st)\<rparr>)) Q E s =
      Q () (s\<lparr>ap_ops := mem_clear (ap_ops s), ap_machine := demo_reset (ap_machine s)\<rparr>)"
    for Q E and s :: app by (simp add: wp_def)
  ultimately show ?thesis unfolding reset_def by (simp add: wps)
qed

subsection \<open>Snapshots\<close>

definition snapshot_ok :: "services_env \<Rightarrow> session_snapshot \<Rightarrow> bool" where
  "snapshot_ok env snap =
     (session_ok (ss_session snap) (ss_payment snap) \<and>
      (\<forall>rec. ss_envelope snap = Some rec \<longrightarrow> sealed env (sn_logicalOrderId (ss_session snap)) rec))"

lemma taken_snapshot_ok:
  assumes "good env P (ap_core st)" "map_get i (co_sessions (ap_core st)) = Some r"
  shows "snapshot_ok env (take_snapshot env now i r st)"
  using known_session [OF assms] known_envelope [OF assms(1)]
  by (auto simp: snapshot_ok_def take_snapshot_def Let_def)

lemma merge_core:
  "\<exists>d. ap_core (fold (merge_event i) evs st) = (ap_core st)\<lparr>co_webhookDedup := d\<rparr>"
proof (induction evs arbitrary: st)
  case Nil
  show ?case by (rule exI [of _ "co_webhookDedup (ap_core st)"]) simp
next
  case (Cons ev evs)
  have "\<exists>d. ap_core (merge_event i ev st) = (ap_core st)\<lparr>co_webhookDedup := d\<rparr>"
  proof -
    have same: "\<exists>d. ap_core st = (ap_core st)\<lparr>co_webhookDedup := d\<rparr>"
      by (rule exI [of _ "co_webhookDedup (ap_core st)"]) simp
    then show ?thesis by (auto simp: merge_event_def Let_def split: option.split)
  qed
  then obtain d where "ap_core (merge_event i ev st) = (ap_core st)\<lparr>co_webhookDedup := d\<rparr>" by blast
  with Cons.IH [of "merge_event i ev st"] show ?case by auto
qed

lemma session_ok_ref [simp]: "session_ok (s\<lparr>sn_x402OrderPayment := j\<rparr>) pay = session_ok s pay"
  by (simp add: session_ok_def)

lemma import_goes:
  assumes good: "good env P (ap_core st)"
    and genuine: "\<And>now snap. openSnapshot decode (sv_hmac env) token (sv_signingSecret env) now = Some snap \<Longrightarrow> snapshot_ok env snap"
  shows "wp (importSession env decode token expected) (fails env P (ap_core st)) (fails env P (ap_core st)) st"
proof -
  let ?c = "ap_core st"
  have opened: "goes env P ?c c'"
    if snap: "snapshot_ok env snap"
      and c': "co_heap c' = (co_heap ?c)(co_next ?c := (ss_session snap)
          \<lparr>sn_x402OrderPayment := map_option (\<lambda>_. co_pnext ?c) (ss_payment snap)\<rparr>)" "co_next c' = Suc (co_next ?c)"
      and pay: "case ss_payment snap of None \<Rightarrow> co_payments c' = co_payments ?c \<and> co_pnext c' = co_pnext ?c
        | Some p \<Rightarrow> co_payments c' = (co_payments ?c)(co_pnext ?c := p) \<and> co_pnext c' = Suc (co_pnext ?c)"
      and pruned: "prune_from (map_set (sn_logicalOrderId (ss_session snap)) (co_next ?c) (co_sessions ?c))
        (case ss_envelope snap of None \<Rightarrow> co_envelopes ?c
         | Some rec \<Rightarrow> map_set (sn_logicalOrderId (ss_session snap)) rec (co_envelopes ?c)) = (co_sessions c', co_envelopes c')"
      for snap c'
  proof (rule goes_open [OF good c', where p = "the (ss_payment snap)"])
    show "session_ok ((ss_session snap)\<lparr>sn_x402OrderPayment := map_option (\<lambda>_. co_pnext ?c) (ss_payment snap)\<rparr>)
        (payment_of ((ss_session snap)\<lparr>sn_x402OrderPayment := map_option (\<lambda>_. co_pnext ?c) (ss_payment snap)\<rparr>) c')"
      using snap pay by (cases "ss_payment snap") (auto simp: snapshot_ok_def payment_of_def)
    show "sealed env i rec" if "map_get i (case ss_envelope snap of None \<Rightarrow> co_envelopes ?c
         | Some rec \<Rightarrow> map_set (sn_logicalOrderId (ss_session snap)) rec (co_envelopes ?c)) = Some rec" for i rec
      using that snap known_envelope [OF good] by (auto simp: snapshot_ok_def split: if_splits option.splits)
  qed (use pay pruned in \<open>auto split: option.splits\<close>)
  have raw: "wp (\<lambda>st. (Inr (), f st)) Q E s = Q () (f s)" for f :: "app \<Rightarrow> app" and Q E s by (simp add: wp_def)
  show ?thesis
  proof (cases "openSnapshot decode (sv_hmac env) token (sv_signingSecret env) (toISOString (sv_now env (ap_tick st)))")
    case None
    then show ?thesis by (simp add: importSession_def wps goes_refl [OF good])
  next
    case (Some snap)
    note snap = genuine [OF Some]
    have pruned: "wp pruneSessionCache (\<lambda>x. wp (mret (g x)) (fails env P ?c) (fails env P ?c)) (fails env P ?c)
        (fold (merge_event i) evs s)"
      if "\<And>ss es d. prune_from (co_sessions (ap_core s)) (co_envelopes (ap_core s)) = (ss, es) \<Longrightarrow>
        goes env P ?c ((ap_core s)\<lparr>co_webhookDedup := d, co_sessions := ss, co_envelopes := es\<rparr>)"
      for i evs s and g :: "unit \<Rightarrow> import_result"
    proof -
      obtain d where d: "ap_core (fold (merge_event i) evs s) = (ap_core s)\<lparr>co_webhookDedup := d\<rparr>" using merge_core by blast
      show ?thesis by (simp add: pruneSessionCache_def wps d that split: prod.split)
    qed
    show ?thesis
      unfolding importSession_def load_session_def alloc_session_def alloc_payment_def set_envelope_def
      by (cases "ss_payment snap"; cases "ss_envelope snap"; cases "ss_mandate snap";
          simp add: wps Some Let_def goes_refl [OF good] raw;
          intro conjI impI pruned; rule opened [OF snap]; simp)
  qed
qed

subsection \<open>Interleaved requests\<close>

text \<open>
  The running service: its state, the handlers suspended at an await, and the snapshots it has issued. A
  request runs to its answer or its await without interruption; suspended handlers resume in any order,
  with any reply of the gateway; so do conversation turns, with any reply of the language model, the settlement
  store and the paid resource. \<open>withSessionLock\<close> keeps a locked request on an order from starting while
  another locked handler of that order is suspended. A token that opens is one the service has issued:
  its keyed hash cannot be forged.
\<close>

datatype request =
    Q_create "string option"
  | Q_quote string string "recommendation_binding option" "string option"
  | Q_approve string string "string option"
  | Q_initiate string payment_rail "string option"
  | Q_verify string string string string "string option"
  | Q_prepare string "string option"
  | Q_confirm string string "string option"
  | Q_fulfil string bool "string option"
  | Q_compensate string "string option"
  | Q_tamper string tamper_field
  | Q_patch string patch int
  | Q_webhook string "string option" "string option"
  | Q_reset
  | Q_import string "string option"

record world_env =
  we_chat :: chat_env
  we_parse :: "string \<Rightarrow> json option"
  we_decode :: "string \<Rightarrow> session_snapshot option"
  we_webhookSecret :: string

abbreviation we_services :: "world_env \<Rightarrow> services_env" where
  "we_services w \<equiv> ch_services (we_chat w)"

record world =
  wd_app :: app
  wd_pending :: "pending list"
  wd_chats :: "chat_point list"
  wd_issued :: "session_snapshot set"

definition no_await :: "'a act \<Rightarrow> outcome option act" where
  "no_await m = mbind m (\<lambda>_. mret None)"

fun run_request :: "world_env \<Rightarrow> request \<Rightarrow> outcome option act" where
  "run_request w (Q_create opid) = mbind (createSession (we_services w) opid) (\<lambda>x. mret (Some x))"
| "run_request w (Q_quote i p b opid) = mbind (buildQuote (we_services w) i p b opid) (\<lambda>x. mret (Some x))"
| "run_request w (Q_approve i d opid) = mbind (approve (we_services w) i d opid) (\<lambda>x. mret (Some x))"
| "run_request w (Q_initiate i rail opid) = mbind (initiatePayment (we_services w) i rail opid) (\<lambda>x. mret (Some x))"
| "run_request w (Q_verify i ext pid sig opid) = mbind (verifyPayment (we_services w) i ext pid sig opid) (\<lambda>x. mret (Some x))"
| "run_request w (Q_prepare i opid) = mbind (prepareX402OrderPayment (we_services w) i opid) (\<lambda>x. mret (Some x))"
| "run_request w (Q_confirm i pid opid) = mbind (confirmX402OrderPayment (we_services w) i pid opid) (\<lambda>x. mret (Some x))"
| "run_request w (Q_fulfil i b opid) = mbind (fulfil (we_services w) i b opid) (\<lambda>x. mret (Some x))"
| "run_request w (Q_compensate i opid) = mbind (compensate (we_services w) i opid) (\<lambda>x. mret (Some x))"
| "run_request w (Q_tamper i f) = no_await (tamper (we_services w) i f)"
| "run_request w (Q_patch i p v) = no_await (intentPatch (we_services w) i p v)"
| "run_request w (Q_webhook body sig hdr) =
     no_await (processRazorpayWebhookRaw (we_services w) (we_parse w) body sig hdr (we_webhookSecret w))"
| "run_request w Q_reset = no_await (reset (we_services w))"
| "run_request w (Q_import token expected) = no_await (importSession (we_services w) (we_decode w) token expected)"

fun lock_of :: "request \<Rightarrow> string option" where
  "lock_of (Q_quote i _ _ _) = Some i"
| "lock_of (Q_approve i _ _) = Some i"
| "lock_of (Q_initiate i _ _) = Some i"
| "lock_of (Q_prepare i _) = Some i"
| "lock_of (Q_confirm i _ _) = Some i"
| "lock_of (Q_patch i _ _) = Some i"
| "lock_of _ = None"

text \<open>No locked handler of the order is suspended: neither a payment at the gateway nor a conversation turn.\<close>

definition session_free :: "string \<Rightarrow> world \<Rightarrow> bool" where
  "session_free i w = (unlocked (set (wd_pending w)) i \<and> (\<forall>p \<in> set (wd_chats w). tn_orderId (chat_turn p) \<noteq> i))"

definition withSessionLock :: "request \<Rightarrow> world \<Rightarrow> bool" where
  "withSessionLock req w = (case lock_of req of None \<Rightarrow> True | Some i \<Rightarrow> session_free i w)"

fun genuine :: "world_env \<Rightarrow> session_snapshot set \<Rightarrow> request \<Rightarrow> bool" where
  "genuine w issued (Q_import token expected) =
     (\<forall>now snap. openSnapshot (we_decode w) (sv_hmac (we_services w)) token (sv_signingSecret (we_services w)) now = Some snap \<longrightarrow>
        snap \<in> issued)"
| "genuine w issued _ = True"

fun resume :: "services_env \<Rightarrow> rzp_api \<Rightarrow> pending \<Rightarrow> outcome act" where
  "resume env api (P_initiate i opid r ad rec) = initiate_resume env api i opid r ad rec"
| "resume env api (P_verify i opid r ad rec ext pid sig) = verify_resume env api i opid r ad rec ext pid sig"
| "resume env api (P_compensate i opid r ad rec pid) = compensate_resume env api i opid r ad rec pid"

definition suspended :: "outcome option throws \<Rightarrow> pending list" where
  "suspended res = (case res of Inr (Some (Await p)) \<Rightarrow> [p] | _ \<Rightarrow> [])"

definition waiting :: "chat_outcome throws \<Rightarrow> chat_point list" where
  "waiting res = (case res of Inr (Waits p) \<Rightarrow> [p] | _ \<Rightarrow> [])"

inductive wstep :: "world_env \<Rightarrow> world \<Rightarrow> world \<Rightarrow> bool" for we :: world_env where
  W_request: "withSessionLock req w \<Longrightarrow> genuine we (wd_issued w) req \<Longrightarrow>
     run_request we req (wd_app w) = (res, st') \<Longrightarrow>
     wstep we w (w\<lparr>wd_app := st', wd_pending := wd_pending w @ suspended res\<rparr>)"
| W_resume: "wd_pending w = ps @ p # qs \<Longrightarrow> api_ok api \<Longrightarrow> resume (we_services we) api p (wd_app w) = (res, st') \<Longrightarrow>
     wstep we w (w\<lparr>wd_app := st', wd_pending := ps @ qs\<rparr>)"
| W_chat: "session_free i w \<Longrightarrow> respond (we_chat we) i message binding opid (wd_app w) = (said, st') \<Longrightarrow>
     wstep we w (w\<lparr>wd_app := st', wd_chats := wd_chats w @ waiting said\<rparr>)"
| W_chat_resume: "wd_chats w = cs @ p # ds \<Longrightarrow> chat_resume (we_chat we) reply p (wd_app w) = (said, st') \<Longrightarrow>
     wstep we w (w\<lparr>wd_app := st', wd_chats := cs @ waiting said @ ds\<rparr>)"
| W_export: "map_get i (co_sessions (ap_core (wd_app w))) = Some r \<Longrightarrow>
     wstep we w (w\<lparr>wd_issued := insert (take_snapshot (we_services we) now i r (wd_app w)) (wd_issued w)\<rparr>)"

inductive_cases wstepE: "wstep we w w'"

definition fresh_app :: "app \<Rightarrow> bool" where
  "fresh_app st = (let c = ap_core st in co_next c = 0 \<and> co_sessions c = [] \<and> co_envelopes c = [] \<and> ap_ops st = [])"

inductive reachable :: "world_env \<Rightarrow> world \<Rightarrow> bool" for we :: world_env where
  start: "fresh_app st \<Longrightarrow> reachable we \<lparr>wd_app = st, wd_pending = [], wd_chats = [], wd_issued = {}\<rparr>"
| step: "reachable we w \<Longrightarrow> wstep we w w' \<Longrightarrow> reachable we w'"

definition world_ok :: "world_env \<Rightarrow> world \<Rightarrow> bool" where
  "world_ok we w =
     (good (we_services we) (set (wd_pending w)) (ap_core (wd_app w)) \<and> (\<forall>snap \<in> wd_issued w. snapshot_ok (we_services we) snap) \<and>
      (\<forall>p \<in> set (wd_chats w). tn_session (chat_turn p) < co_next (ap_core (wd_app w))))"

lemma request_goes:
  assumes "good (we_services we) (set ps) (ap_core st)" "\<And>i. lock_of req = Some i \<Longrightarrow> unlocked (set ps) i" "genuine we issued req"
    "\<forall>snap \<in> issued. snapshot_ok (we_services we) snap"
  shows "wp (run_request we req) (\<lambda>x st'. goes (we_services we) (set ps) (ap_core st) (ap_core st') \<and>
      (\<forall>p. x = Some (Await p) \<longrightarrow> pend_ok (we_services we) (ap_core st') p))
    (fails (we_services we) (set ps) (ap_core st)) st"
proof -
  have awaits: "wp (mbind m (\<lambda>x. mret (Some x))) (\<lambda>x st'. goes (we_services we) (set ps) (ap_core st) (ap_core st') \<and>
      (\<forall>p. x = Some (Await p) \<longrightarrow> pend_ok (we_services we) (ap_core st') p)) (fails (we_services we) (set ps) (ap_core st)) st"
    if "wp m (answers (we_services we) (set ps) (ap_core st)) (fails (we_services we) (set ps) (ap_core st)) st" for m
    using that unfolding wp_bind wp_ret by (rule wp_mono) (auto simp: answers_def)
  have plain: "wp (no_await m) (\<lambda>x st'. goes (we_services we) (set ps) (ap_core st) (ap_core st') \<and>
      (\<forall>p. x = Some (Await p) \<longrightarrow> pend_ok (we_services we) (ap_core st') p)) (fails (we_services we) (set ps) (ap_core st)) st"
    if "wp m (fails (we_services we) (set ps) (ap_core st)) (fails (we_services we) (set ps) (ap_core st)) st" for m :: "'x act"
    using that unfolding no_await_def wp_bind wp_ret by (rule wp_mono) auto
  show ?thesis
    using assms(2-)
    by (cases req)
       (auto intro!: awaits plain create_goes quote_goes approve_goes initiate_goes verify_goes
          prepare_goes confirm_goes fulfil_goes compensate_goes tamper_goes patch_goes webhook_goes reset_goes import_goes assms(1))
qed

lemma resume_goes:
  assumes "good env (insert p P) (ap_core st)" "api_ok api"
  shows "wp (resume env api p) (answers env P (ap_core st)) (fails env P (ap_core st)) st"
proof -
  have good: "good env P (ap_core st)" and "pend_ok env (ap_core st) p" using assms(1) by (auto simp: good_def)
  then show ?thesis
    using assms(2) by (cases p) (auto intro: initiate_resume_goes verify_resume_goes compensate_resume_goes)
qed

lemma respond_goes:
  assumes good: "good (ch_services ce) P (ap_core st)"
  shows "wp (respond ce i message binding opid) (\<lambda>out st'. goes (ch_services ce) P (ap_core st) (ap_core st') \<and>
      (\<forall>p. out = Waits p \<longrightarrow> tn_session (chat_turn p) < co_next (ap_core st'))) (fails (ch_services ce) P (ap_core st)) st"
proof -
  let ?Q = "\<lambda>out st'. goes (ch_services ce) P (ap_core st) (ap_core st') \<and>
      (\<forall>p. out = Waits p \<longrightarrow> tn_session (chat_turn p) < co_next (ap_core st'))"
  let ?E = "fails (ch_services ce) P (ap_core st)"
  have unknown: "wp (finish_turn (ch_services ce) opid Out_failure None err res) ?Q ?E st'"
    if "ap_core st' = ap_core st" for st' err res
    unfolding finish_turn_def wp_bind
    by (rule wp_quiet [OF quiet_complete]) (simp_all add: wp_ret goes_refl good that)
  have known: "r < co_next (ap_core st) \<and>
      goes (ch_services ce) P (ap_core st) (put_session r ((co_heap (ap_core st) r)\<lparr>sn_message := message\<rparr>) (ap_core st))"
    if "map_get i (co_sessions (ap_core st)) = Some r" for r
  proof -
    have r: "r < co_next (ap_core st)" using known_session(1) [OF good that] .
    have "keeps (ch_services ce) (ap_core st) r False (upd_s r (\<lambda>s. s\<lparr>sn_message := message\<rparr>))"
      by (rule keeps_session) simp
    from wp_keeps [OF this good r refl] r show ?thesis by (simp add: wp_upd_s)
  qed
  show ?thesis
    unfolding respond_def Let_def wp_bind [of "begin_op _ _ _ _ _"]
    by (rule wp_quiet [OF quiet_begin])
       (auto simp: wp_ret goes_refl good wps known split: option.split intro!: unknown)
qed

lemma chat_resume_goes:
  assumes good: "good (ch_services ce) P (ap_core st)" and r: "tn_session (chat_turn p) < co_next (ap_core st)"
  shows "wp (chat_resume ce a p) (\<lambda>out st'. goes (ch_services ce) P (ap_core st) (ap_core st')) (fails (ch_services ce) P (ap_core st)) st"
  using wp_keeps [OF resume_keeps good r refl] by (rule wp_mono) simp_all

lemma wp_outcome: "wp m Q E st \<Longrightarrow> m st = (res, st') \<Longrightarrow> (case res of Inl e \<Rightarrow> E e st' | Inr x \<Rightarrow> Q x st')"
  by (simp add: wp_def split: sum.splits)

lemma wstep_goes:
  assumes ok: "world_ok we w" and step: "wstep we w w'"
  shows "world_ok we w' \<and> goes (we_services we) (set (wd_pending w) \<inter> set (wd_pending w')) (ap_core (wd_app w)) (ap_core (wd_app w'))"
  using step ok
proof (induction rule: wstep.induct)
  case (W_request req w res st')
  note run = wp_outcome [OF request_goes W_request(3)]
  have "goes (we_services we) (set (wd_pending w)) (ap_core (wd_app w)) (ap_core st')"
    "\<forall>p \<in> set (suspended res). pend_ok (we_services we) (ap_core st') p"
    using run [of "wd_pending w" "wd_issued w"] W_request(1,2,4)
    by (auto simp: world_ok_def withSessionLock_def session_free_def suspended_def split: sum.splits option.splits outcome.splits)
  with W_request(4) show ?case by (auto simp: world_ok_def goes_def good_def)
next
  case (W_resume w ps p qs api res st')
  have "good (we_services we) (insert p (set (ps @ qs))) (ap_core (wd_app w))"
    using W_resume(1,4) by (auto simp: world_ok_def good_def)
  from wp_outcome [OF resume_goes [OF this W_resume(2)] W_resume(3)]
  have "goes (we_services we) (set (ps @ qs)) (ap_core (wd_app w)) (ap_core st')"
    by (auto simp: answers_def split: sum.splits)
  with W_resume(1,4) show ?case by (auto simp: world_ok_def goes_def good_def)
next
  case (W_chat i w message binding opid said st')
  have good: "good (we_services we) (set (wd_pending w)) (ap_core (wd_app w))" using W_chat(3) by (simp add: world_ok_def)
  from wp_outcome [OF respond_goes [OF good] W_chat(2)]
  have "goes (we_services we) (set (wd_pending w)) (ap_core (wd_app w)) (ap_core st')"
    "\<forall>p \<in> set (waiting said). tn_session (chat_turn p) < co_next (ap_core st')"
    by (auto simp: waiting_def split: sum.splits chat_outcome.splits)
  with W_chat(3) show ?case by (auto simp: world_ok_def goes_def good_def)
next
  case (W_chat_resume w cs p ds reply said st')
  have good: "good (we_services we) (set (wd_pending w)) (ap_core (wd_app w))" and r: "tn_session (chat_turn p) < co_next (ap_core (wd_app w))"
    using W_chat_resume(1,3) by (simp_all add: world_ok_def)
  from wp_outcome [OF chat_resume_goes [OF good r] W_chat_resume(2)]
  have goes: "goes (we_services we) (set (wd_pending w)) (ap_core (wd_app w)) (ap_core st')" by (auto split: sum.splits)
  moreover have "chat_turn q = chat_turn p" if "q \<in> set (waiting said)" for q
    using that givesD [OF resume_gives, of "we_chat we" reply p "wd_app w" "Waits q" st'] W_chat_resume(2)
    by (auto simp: waiting_def split: sum.splits chat_outcome.splits)
  ultimately show ?case using W_chat_resume(1,3) r by (auto simp: world_ok_def goes_def good_def intro: less_le_trans)
next
  case (W_export i w r now)
  have "snapshot_ok (we_services we) (take_snapshot (we_services we) now i r (wd_app w))"
    using W_export by (intro taken_snapshot_ok) (auto simp: world_ok_def)
  with W_export(2) show ?case by (auto simp: world_ok_def intro: goes_refl)
qed

lemma reachable_ok: "reachable we w \<Longrightarrow> world_ok we w"
proof (induction rule: reachable.induct)
  case (start st)
  then show ?case by (simp add: world_ok_def good_def core_ok_def fresh_app_def Let_def)
next
  case (step w w')
  then show ?case using wstep_goes by blast
qed

end
