(* ===== verification/OrderProps.thy ===== *)
theory OrderProps
  imports OrderWorld
begin

text \<open>
  What the order service guarantees, and where it does not: properties of every run, of single handlers,
  of snapshots and of webhooks.
\<close>

subsection \<open>A concrete run\<close>

definition demo_services :: services_env where
  "demo_services = \<lparr>sv_sha256 = (\<lambda>s. s), sv_hmac = (\<lambda>k m. k @ m), sv_signingSecret = ''k'', sv_razorpayKeySecret = ''s'',
     sv_adapters = [demo_mock], sv_now = (\<lambda>n. 0), sv_rnd = (\<lambda>n. ''x'')\<rparr>"

definition demo_chat :: chat_env where
  "demo_chat = \<lparr>ch_services = demo_services, ch_llmEnabled = False, ch_interprets = False, ch_tz = 0, ch_parseDate = (\<lambda>_. None),
     ch_mode = Mock_mode, ch_codec = \<lparr>hx_encode = (\<lambda>_. ''h''), hx_decode = (\<lambda>_. None)\<rparr>\<rparr>"

definition demo_env :: world_env where
  "demo_env = \<lparr>we_chat = demo_chat, we_parse = (\<lambda>s. None), we_decode = (\<lambda>s. None), we_webhookSecret = ''w''\<rparr>"

definition empty_core :: core where
  "empty_core = \<lparr>co_heap = (\<lambda>_. new_session [] [] []), co_next = 0, co_payments = (\<lambda>_. prepared_payment demo_services []
       \<lparr>er_envelope = demo_envelope, er_digest = [], er_signature = [], er_issuedAt = [],
        er_recommendation = \<lparr>rb_intentVersion = 0, rb_recommendationVersion = 0, rb_recommendationActionToken = []\<rparr>, er_intentDigest = []\<rparr>),
     co_pnext = 0, co_sessions = [], co_envelopes = [], co_mandates = [], co_webhookDedup = []\<rparr>"

definition empty_app :: app where
  "empty_app = \<lparr>ap_core = empty_core, ap_ops = [], ap_audit = [], ap_tick = 0, ap_machine = new_resource\<rparr>"

definition demo_world :: world where
  "demo_world = \<lparr>wd_app = snd (run_request demo_env (Q_create None) empty_app), wd_pending = [], wd_chats = [], wd_issued = {}\<rparr>"

lemma demo_created:
  "run_request demo_env (Q_create None) empty_app = (Inr (Some (Answer (PL_session 0))), wd_app demo_world)"
  "map_get ''ord_x'' (co_sessions (ap_core (wd_app demo_world))) = Some 0" "co_next (ap_core (wd_app demo_world)) = 1"
  "co_heap (ap_core (wd_app demo_world)) 0 = new_session ''ord_x'' DEMO_CUSTOMER (toISOString 0)"
  by (simp_all add: demo_world_def demo_env_def demo_chat_def demo_services_def createSession_def empty_app_def empty_core_def mbind_def mret_def
        new_id_def newId_def begin_op_def unless_done_def throwing_prologue_def buildMandate_def now_ms_def now_iso_def upd_core_def
        alloc_session_def read_core_def pruneSessionCache_def log_event_def complete_op_def map_set_def map_get_def MAX_CACHED_SESSIONS_def)

lemma demo_reachable: "reachable demo_env demo_world"
proof -
  have "reachable demo_env \<lparr>wd_app = empty_app, wd_pending = [], wd_chats = [], wd_issued = {}\<rparr>"
    by (rule reachable.start) (simp add: fresh_app_def empty_app_def empty_core_def)
  then show ?thesis
    by (rule reachable.step)
       (use W_request [of "Q_create None" "\<lparr>wd_app = empty_app, wd_pending = [], wd_chats = [], wd_issued = {}\<rparr>" demo_env
            "Inr (Some (Answer (PL_session 0)))" "wd_app demo_world"] demo_created(1)
        in \<open>simp add: withSessionLock_def suspended_def demo_world_def\<close>)
qed

lemma demo_step: "wstep demo_env demo_world (demo_world\<lparr>wd_app := snd (run_request demo_env (Q_tamper ''ord_x'' Field_price) (wd_app demo_world))\<rparr>)"
  using W_request [of "Q_tamper ''ord_x'' Field_price" demo_world demo_env "fst (run_request demo_env (Q_tamper ''ord_x'' Field_price) (wd_app demo_world))"
     "snd (run_request demo_env (Q_tamper ''ord_x'' Field_price) (wd_app demo_world))"]
  by (simp add: withSessionLock_def suspended_def no_await_def mbind_def mret_def demo_world_def split: sum.splits prod.splits)

subsection \<open>Properties of every run\<close>







subsection \<open>Single handlers\<close>

lemma wp_finish_answers:
  "(\<And>p st'. Q (Answer p) st') \<Longrightarrow> (\<And>e st'. E e st') \<Longrightarrow> wp (finish_fail env opid r) Q E st"
  "(\<And>p st'. Q (Answer p) st') \<Longrightarrow> (\<And>e st'. E e st') \<Longrightarrow> wp (finish_ok env opid rr r) Q E st"
  by (auto simp: wp_def finish_fail_def finish_ok_def mbind_def mret_def split: sum.splits prod.splits)

lemma policy_covers:
  assumes "pv_allow (checkEnvelopeForPayment sha input)"
  shows "envelopeDigest sha (cei_envelope input) = cei_expectedDigest input \<and>
    (\<exists>m. cei_mandate input = Some m \<and> mandate_covers input m)"
  using assms by (auto simp: checkEnvelopeForPayment_def Let_def policy_codes_Nil split: if_splits option.splits)

text \<open>What has to hold when the gateway is asked to open an order.\<close>

definition authorised_charge ::
  "services_env \<Rightarrow> string \<Rightarrow> payment_rail \<Rightarrow> core \<Rightarrow> nat \<Rightarrow> envelope_record \<Rightarrow> purchase_mandate \<Rightarrow> string \<Rightarrow> bool" where
  "authorised_charge env i rail c r rec m now =
     (let s = co_heap c r in
      map_get i (co_sessions c) = Some r \<and> map_get i (co_envelopes c) = Some rec \<and>
      map_get (sn_customerId s) (co_mandates c) = Some m \<and>
      quote_active s rec \<and> sn_approvedDigest s = Some (er_digest rec) \<and>
      envelopeDigest (sv_sha256 env) (er_envelope rec) = er_digest rec \<and>
      mandate_covers (policy_input s rec (er_envelope rec) (Some m) rail now) m \<and>
      env_totalMinor (er_envelope rec) \<ge> 100 \<and> \<not> truthy (sn_externalOrderId s) \<and>
      \<not> is_verified (payment_of s c) \<and> \<not> paid_state (sn_state s))"

definition asks :: "services_env \<Rightarrow> string \<Rightarrow> payment_rail \<Rightarrow> string option \<Rightarrow> core \<Rightarrow> outcome \<Rightarrow> app \<Rightarrow> bool" where
  "asks env i rail opid c x st' = (\<forall>p. x = Await p \<longrightarrow> (\<exists>r rec m now ad.
     authorised_charge env i rail c r rec m now \<and> registry_get rail (sv_adapters env) = Some ad \<and>
     p = P_initiate i opid r ad rec \<and> sn_state (co_heap (ap_core st') r) = PAYMENT_PENDING))"

lemma asks_Answer [simp]: "asks env i rail opid c (Answer x) st'"
  by (simp add: asks_def)

lemma asks_finish [simp]:
  "wp (finish_fail env opid r) (asks env i rail opid c) (\<lambda>_ _. True) s"
  "wp (finish_ok env opid rr r) (asks env i rail opid c) (\<lambda>_ _. True) s"
  by (rule wp_finish_answers; simp)+

lemma initiate_allowed_asks:
  assumes st: "ap_core s = c" "map_get i (co_sessions c) = Some r" "map_get i (co_envelopes c) = Some rec"
    and guards: "quote_active (co_heap c r) rec" "\<not> is_verified (payment_of (co_heap c r) c)" "\<not> paid_state (sn_state (co_heap c r))"
    and policy: "pv_allow (checkEnvelopeForPayment (sv_sha256 env) (policy_input (co_heap c r) rec (er_envelope rec)
         (map_get (sn_customerId (co_heap c r)) (co_mandates c)) rail now))"
  shows "wp (initiate_allowed env i rail opid r rec) (asks env i rail opid c) (\<lambda>_ _. True) s"
proof -
  from policy_covers [OF policy] obtain m where m: "map_get (sn_customerId (co_heap c r)) (co_mandates c) = Some m"
    "mandate_covers (policy_input (co_heap c r) rec (er_envelope rec) (Some m) rail now) m"
    "envelopeDigest (sv_sha256 env) (er_envelope rec) = er_digest rec"
    by (auto simp: policy_input_def)
  have "authorised_charge env i rail c r rec m now"
    if "\<not> truthy (sn_externalOrderId (co_heap c r))" "\<not> env_totalMinor (er_envelope rec) < 100"
    using that st guards m policy_approved [OF policy] by (simp add: authorised_charge_def)
  then have "asks env i rail opid c (Await (P_initiate i opid r ad rec)) st'"
    if "\<not> truthy (sn_externalOrderId (co_heap c r))" "\<not> env_totalMinor (er_envelope rec) < 100"
      "registry_get rail (sv_adapters env) = Some ad" "sn_state (co_heap (ap_core st') r) = PAYMENT_PENDING" for ad st'
    using that by (auto simp: asks_def)
  with st show ?thesis
    unfolding initiate_allowed_def by (simp add: wps Let_def split: option.splits)
qed

lemma wp_quiet_true:
  assumes "quiet m" "\<And>x st'. ap_core st' = ap_core st \<Longrightarrow> Q x st'"
  shows "wp m Q (\<lambda>_ _. True) st"
  using assms by (rule wp_quiet) simp_all

lemma initiate_asks: "wp (initiatePayment env i rail opid) (asks env i rail opid (ap_core st)) (\<lambda>_ _. True) st"
  unfolding initiatePayment_def unless_done_def wp_bind
proof (rule wp_quiet_true, simp, rule wp_quiet_true, simp, goal_cases)
  case (1 idem st1 early st2)
  then have c: "ap_core st2 = ap_core st" by simp
  show ?case
  proof (cases early)
    case None
    have "wp (initiate_allowed env i rail opid r rec) (asks env i rail opid (ap_core st)) (\<lambda>_ _. True) s"
      if "ap_core s = ap_core st" "map_get i (co_sessions (ap_core st)) = Some r" "map_get i (co_envelopes (ap_core st)) = Some rec"
        "quote_active (co_heap (ap_core st) r) rec" "\<not> is_verified (payment_of (co_heap (ap_core st) r) (ap_core st))"
        "\<not> paid_state (sn_state (co_heap (ap_core st) r))"
        "pv_allow (checkEnvelopeForPayment (sv_sha256 env) (policy_input (co_heap (ap_core st) r) rec (er_envelope rec)
           (map_get (sn_customerId (co_heap (ap_core st) r)) (co_mandates (ap_core st))) rail
           (toISOString (sv_now env (ap_tick st2)))))" for s r rec
      using that by (rule initiate_allowed_asks)
    with None c show ?thesis
      by (simp add: with_session_def with_envelope_def payment_policy_def wps Let_def split: option.splits)
  qed (simp add: wp_ret)
qed


subsection \<open>Snapshots\<close>

lemma split_last_dot_None: "CHR ''.'' \<notin> set s \<Longrightarrow> split_last_dot s = None"
  by (induction s) auto

lemma split_last_dot_sealed: "CHR ''.'' \<notin> set sig \<Longrightarrow> split_last_dot (payload @ CHR ''.'' # sig) = Some (payload, sig)"
  by (induction payload) (simp_all add: split_last_dot_None)

lemma split_last_dot_Some: "split_last_dot s = Some (a, b) \<Longrightarrow> s = a @ CHR ''.'' # b"
  by (induction s arbitrary: a) (auto split: option.splits prod.splits if_splits)

lemma open_seal:
  assumes "CHR ''.'' \<notin> set (hmac secret (encode snap))" "encode snap \<noteq> []" "decode (encode snap) = Some snap"
  shows "openSnapshot decode hmac (sealSnapshot encode hmac snap secret) secret now =
    (if ss_version snap \<noteq> SESSION_SNAPSHOT_VERSION \<or> ss_expiresAt snap < now then None else Some snap)"
  using assms by (simp add: openSnapshot_def sealSnapshot_def Let_def split_last_dot_sealed)

lemma prune_le: "length ss \<le> MAX_CACHED_SESSIONS \<Longrightarrow> prune_from ss es = (ss, es)"
  by (cases ss) auto

lemma prune_new:
  assumes "length ss \<le> MAX_CACHED_SESSIONS" "prune_from (map_set i r ss) es = (ss', es')"
  shows "map_get i ss' = Some r \<and> map_get i es' = map_get i es"
proof (cases "length (map_set i r ss) \<le> MAX_CACHED_SESSIONS")
  case True
  with assms(2) have "ss' = map_set i r ss" "es' = es" by (simp_all add: prune_le)
  then show ?thesis by simp
next
  case False
  with assms(1) have absent: "\<not> map_has i ss" by (auto simp: length_map_set_present)
  then have new: "map_set i r ss = ss @ [(i, r)]"
    unfolding map_set_def map_has_def by (induction ss) (auto split: if_splits)
  from False assms(1) have len: "length ss = MAX_CACHED_SESSIONS" by (simp add: new)
  then obtain old q rest where ss: "ss = (old, q) # rest"
    by (cases ss) (auto simp: MAX_CACHED_SESSIONS_def)
  have old: "old \<noteq> i" and rest: "map_get i rest = None"
    using absent by (auto simp: ss map_has_get map_get_def split: if_splits)
  have "prune_from (map_set i r ss) es = (rest @ [(i, r)], map_del old es)"
    unfolding new using len by (simp add: ss prune_le)
  with assms(2) have new': "ss' = rest @ [(i, r)]" "es' = map_del old es" by simp_all
  have "map_get i ss' = Some r" using rest by (simp add: new' map_get_def map_add_def)
  with old show ?thesis by (simp add: new'(2))
qed

text \<open>Loading a sealed snapshot of order \<open>i\<close> into a service: what is there afterwards.\<close>

definition restored :: "string \<Rightarrow> session_snapshot \<Rightarrow> core \<Rightarrow> bool" where
  "restored i snap c =
     (\<exists>r. map_get i (co_sessions c) = Some r \<and>
       co_heap c r = (ss_session snap)\<lparr>sn_x402OrderPayment := sn_x402OrderPayment (co_heap c r)\<rparr> \<and>
       payment_of (co_heap c r) c = ss_payment snap \<and>
       (\<forall>rec. ss_envelope snap = Some rec \<longrightarrow> map_get i (co_envelopes c) = Some rec) \<and>
       (\<forall>m. ss_mandate snap = Some m \<longrightarrow> map_get (sn_customerId (ss_session snap)) (co_mandates c) = Some m))"

lemma import_restores:
  assumes opened: "openSnapshot decode (sv_hmac env) token (sv_signingSecret env) (toISOString (sv_now env (ap_tick st))) = Some snap"
    and i: "sn_logicalOrderId (ss_session snap) = i" "truthy expected \<longrightarrow> expected = Some i"
    and env_ok: "\<And>rec. ss_envelope snap = Some rec \<Longrightarrow> envelopeDigest (sv_sha256 env) (er_envelope rec) = er_digest rec"
    and len: "length (co_sessions (ap_core st)) \<le> MAX_CACHED_SESSIONS"
  shows "wp (importSession env decode token expected)
    (\<lambda>res st'. res = Import_ok i (sn_state (ss_session snap)) \<and> restored i snap (ap_core st')) (\<lambda>_ _. False) st"
proof -
  let ?R = "\<lambda>res st'. res = Import_ok i (sn_state (ss_session snap)) \<and> restored i snap (ap_core st')"
  let ?r = "co_next (ap_core st)"
  have raw: "wp (\<lambda>st. (Inr (), f st)) Q E s = Q () (f s)" for f :: "app \<Rightarrow> app" and Q E s by (simp add: wp_def)
  have pruned: "wp pruneSessionCache (\<lambda>x. wp (mret (Import_ok i (sn_state (ss_session snap)))) ?R (\<lambda>_ _. False)) (\<lambda>_ _. False)
      (fold (merge_event i) evs s)"
    if "co_sessions (ap_core s) = map_set i ?r (co_sessions (ap_core st))"
      "co_heap (ap_core s) ?r = (ss_session snap)\<lparr>sn_x402OrderPayment := sn_x402OrderPayment (co_heap (ap_core s) ?r)\<rparr>"
      "payment_of (co_heap (ap_core s) ?r) (ap_core s) = ss_payment snap"
      "\<forall>rec. ss_envelope snap = Some rec \<longrightarrow> map_get i (co_envelopes (ap_core s)) = Some rec"
      "\<forall>m. ss_mandate snap = Some m \<longrightarrow> map_get (sn_customerId (ss_session snap)) (co_mandates (ap_core s)) = Some m"
    for evs s
  proof -
    obtain d where d: "ap_core (fold (merge_event i) evs s) = (ap_core s)\<lparr>co_webhookDedup := d\<rparr>" using merge_core by blast
    obtain ss es where p: "prune_from (co_sessions (ap_core s)) (co_envelopes (ap_core s)) = (ss, es)" by fastforce
    have "map_get i ss = Some ?r \<and> map_get i es = map_get i (co_envelopes (ap_core s))"
      using len p unfolding that(1) by (rule prune_new)
    then have "restored i snap ((ap_core s)\<lparr>co_webhookDedup := d, co_sessions := ss, co_envelopes := es\<rparr>)"
      using that(2-) by (auto simp: restored_def payment_of_def)
    then show ?thesis by (simp add: pruneSessionCache_def wps d p)
  qed
  show ?thesis
    unfolding importSession_def load_session_def alloc_session_def alloc_payment_def set_envelope_def
    by (cases "ss_payment snap"; cases "ss_envelope snap"; cases "ss_mandate snap";
        simp add: wps opened i env_ok Let_def raw; intro conjI impI pruned; simp add: payment_of_def)
qed

lemma take_snapshot_tick [simp]: "take_snapshot env now i r (st\<lparr>ap_tick := t\<rparr>) = take_snapshot env now i r st"
  by (simp add: take_snapshot_def)

lemma export_token:
  assumes "exportSession env encode i st = (Inr (Some token), st')" "map_get i (co_sessions (ap_core st)) = Some r"
  shows "token = sealSnapshot encode (sv_hmac env) (take_snapshot env (sv_now env (ap_tick st)) i r st) (sv_signingSecret env)"
  using assms by (simp add: exportSession_def get_session_ref_def read_core_def now_ms_def mbind_def)


definition demo_snapshot :: session_snapshot where
  "demo_snapshot = take_snapshot demo_services 0 ''ord_x'' 0 (wd_app demo_world)"

lemma demo_not_expired: "\<not> toISOString SESSION_SNAPSHOT_TTL_MS < toISOString 0"
  by code_simp



subsection \<open>Webhooks\<close>

text \<open>What a delivery must show before it may touch the stored orders.\<close>

definition webhook_authorised ::
  "services_env \<Rightarrow> (string \<Rightarrow> json option) \<Rightarrow> string \<Rightarrow> string option \<Rightarrow> string \<Rightarrow> core \<Rightarrow> bool" where
  "webhook_authorised env parse body sig secret c =
     (sig = Some (razorpaySignature (sv_hmac env) secret body) \<and> parse body \<noteq> None \<and>
      (\<exists>(ev :: webhook_event) r rec. opt_str (we_event ev) \<in> set SUPPORTED_EVENTS \<and> \<not> map_has (we_eventId ev) (co_webhookDedup c) \<and>
         sn_externalOrderId (co_heap c r) = Some (we_orderId ev) \<and>
         map_get (sn_logicalOrderId (co_heap c r)) (co_envelopes c) = Some rec \<and> we_status ev = Some ''captured'' \<and>
         (\<forall>a. we_amount ev = Some a \<longrightarrow> a = env_totalMinor (er_envelope rec)) \<and>
         (\<forall>x. we_currency ev = Some x \<longrightarrow> x = currency_str (env_currency (er_envelope rec)))))"

definition only_if :: "bool \<Rightarrow> core \<Rightarrow> 'a \<Rightarrow> app \<Rightarrow> bool" where
  "only_if b c x st = (b \<or> ap_core st = c)"

lemma only_if_simps [simp]: "ap_core st = c \<Longrightarrow> only_if b c x st" "only_if True c x st"
  by (simp_all add: only_if_def)

lemma wp_True: "wp m (only_if True c) (only_if True c) st"
  by (simp add: wp_def split: prod.split sum.split)

lemma no_webhook_failures:
  assumes "webhook_failures found ev = []"
  shows "\<exists>rec. found = Some rec \<and> we_status ev = Some ''captured'' \<and>
    (\<forall>a. we_amount ev = Some a \<longrightarrow> a = env_totalMinor (er_envelope rec)) \<and>
    (\<forall>x. we_currency ev = Some x \<longrightarrow> x = currency_str (env_currency (er_envelope rec)))"
  using assms by (cases found) (auto simp: webhook_failures_def when_code_def split: option.splits if_splits)

lemma bound_webhook_only_if:
  assumes st: "ap_core s = c" and ext: "sn_externalOrderId (co_heap c r) = Some (we_orderId ev)"
    and sig: "sig = Some (razorpaySignature (sv_hmac env) secret body)" "parse body \<noteq> None"
    and ev: "opt_str (we_event ev) \<in> set SUPPORTED_EVENTS" "\<not> map_has (we_eventId ev) (co_webhookDedup c)"
  shows "wp (bound_webhook env r ev) (only_if (webhook_authorised env parse body sig secret c) c)
    (only_if (webhook_authorised env parse body sig secret c) c) s"
proof (cases "webhook_failures (map_get (sn_logicalOrderId (co_heap c r)) (co_envelopes c)) ev = []")
  case True
  from no_webhook_failures [OF True] have "webhook_authorised env parse body sig secret c"
    using assms unfolding webhook_authorised_def by blast
  then show ?thesis by (simp add: wp_True)
next
  case False
  with st show ?thesis unfolding bound_webhook_def by (simp add: wps Let_def)
qed

lemma webhook_only_if:
  "wp (processRazorpayWebhookRaw env parse body sig hdr secret)
     (only_if (webhook_authorised env parse body sig secret (ap_core st)) (ap_core st))
     (only_if (webhook_authorised env parse body sig secret (ap_core st)) (ap_core st)) st"
proof -
  let ?Q = "\<lambda>x :: webhook_outcome. only_if (webhook_authorised env parse body sig secret (ap_core st)) (ap_core st) x"
  let ?E = "\<lambda>x :: string. only_if (webhook_authorised env parse body sig secret (ap_core st)) (ap_core st) x"
  have "wp (bound_webhook env r ev) ?Q ?E s"
    if "ap_core s = ap_core st" "truthy sig" "verifyRazorpayWebhookSignature (sv_hmac env) secret body (opt_str sig)"
      "parse body \<noteq> None" "js_find (\<lambda>r. sn_externalOrderId (co_heap (ap_core st) r) = Some (we_orderId ev)) (map snd (co_sessions (ap_core st))) = Some r"
      "opt_str (we_event ev) \<in> set SUPPORTED_EVENTS" "\<not> map_has (we_eventId ev) (co_webhookDedup (ap_core st))" for s r ev
  proof (rule bound_webhook_only_if)
    show "sn_externalOrderId (co_heap (ap_core st) r) = Some (we_orderId ev)" using js_find_SomeD [OF that(5)] by simp
    show "sig = Some (razorpaySignature (sv_hmac env) secret body)"
      using that(2,3) by (cases sig) (auto simp: verifyRazorpayWebhookSignature_def Let_def opt_str_def)
  qed (use that in simp_all)
  then show ?thesis
    unfolding processRazorpayWebhookRaw_def isWebhookProcessed_def findSessionByExternalOrderId_def
    by (simp add: wps Let_def split: option.split sum.split)
qed


subsection \<open>An order at a chosen point\<close>

text \<open>An order quoted for the demo envelope, in a given state, with given gateway identifiers.\<close>

definition demo_record :: envelope_record where
  "demo_record = \<lparr>er_envelope = demo_envelope, er_digest = envelopeDigest (\<lambda>s. s) demo_envelope, er_signature = ''s'', er_issuedAt = ''t'',
     er_recommendation = \<lparr>rb_intentVersion = 0, rb_recommendationVersion = 1, rb_recommendationActionToken = ''a''\<rparr>,
     er_intentDigest = intentDigest empty_intent\<rparr>"

definition demo_order :: "order_state \<Rightarrow> string option \<Rightarrow> session" where
  "demo_order state ext = (new_session ''ord_1'' ''c1'' ''t'')\<lparr>sn_state := state, sn_externalOrderId := ext, sn_externalPaymentId := ext,
     sn_lastRanking := Some \<lparr>rr_matches = [], rr_missing = [], rr_ranked = True\<rparr>,
     sn_approvalEventId := Some ''e'', sn_approvedDigest := Some (er_digest demo_record),
     sn_dialogue := createDialogueMemory\<lparr>dm_recommendationVersion := 1, dm_recommendationIntentVersion := Some 0,
       dm_recommendationActionToken := Some ''a'', dm_quoteValid := True\<rparr>\<rparr>"

definition demo_app :: "order_state \<Rightarrow> string option \<Rightarrow> app" where
  "demo_app state ext = empty_app\<lparr>ap_core := empty_core\<lparr>co_heap := (\<lambda>_. demo_order state ext), co_next := 1,
     co_sessions := [(''ord_1'', 0)], co_envelopes := [(''ord_1'', demo_record)], co_mandates := [(''c1'', demo_mandate)]\<rparr>\<rparr>"

lemmas demo_app_defs = demo_app_def demo_order_def demo_record_def empty_app_def empty_core_def demo_services_def new_session_def
  createDialogueMemory_def

definition demo_delivery :: json where
  "demo_delivery = JObj [(''event'', JStr ''payment.captured''), (''payload'', JObj [(''payment'', JObj [(''entity'',
     JObj [(''id'', JStr ''p''), (''order_id'', JStr ''o''), (''status'', JStr ''captured'')])])])]"

lemma demo_webhook:
  "map_has ''payment.captured_p'' (co_webhookDedup (ap_core (snd (processRazorpayWebhookRaw demo_services (\<lambda>_. Some demo_delivery)
     ''b'' (Some ''wb'') None ''w'' (demo_app PAID_VERIFIED (Some ''o''))))))"
  by (simp add: processRazorpayWebhookRaw_def demo_app_defs demo_delivery_def mbind_def mret_def verifyRazorpayWebhookSignature_def
     razorpaySignature_def lift_throws_def js_prop_def js_optional_def map_get_def isWebhookProcessed_def map_has_def read_core_def
     as_str_def as_num_def Let_def findSessionByExternalOrderId_def js_find_def SUPPORTED_EVENTS_def bound_webhook_def get_s_def log_event_def
     get_envelope_def webhook_failures_def when_code_def apply_webhook_def paid_state_def markWebhookProcessed_def mark_webhook_def
     opt_str_def or_else_def upd_core_def now_iso_def now_ms_def map_set_def)

lemma demo_epoch: "toISOString 0 = ''1970-01-01T00:00:00.000Z''"
  by code_simp

lemma demo_covered: "mandate_covers (policy_input (demo_order APPROVED None) demo_record demo_envelope (Some demo_mandate) Razorpay_checkout
    (toISOString 0)) demo_mandate"
  by (simp add: mandate_covers_def policy_input_def demo_order_def demo_record_def demo_envelope_def demo_mandate_def demo_epoch)

lemma demo_app_simps [simp]:
  "map_get ''ord_1'' (co_sessions (ap_core (demo_app state ext))) = Some 0"
  "map_get ''ord_1'' (co_envelopes (ap_core (demo_app state ext))) = Some demo_record"
  "map_get ''c1'' (co_mandates (ap_core (demo_app state ext))) = Some demo_mandate"
  "co_heap (ap_core (demo_app state ext)) r = demo_order state ext"
  "sn_state (demo_order state ext) = state" "sn_externalOrderId (demo_order state ext) = ext"
  "sn_externalPaymentId (demo_order state ext) = ext" "sn_customerId (demo_order state ext) = ''c1''"
  "sn_verification (demo_order state ext) = None" "sn_dialogue (demo_order state ext) = sn_dialogue (demo_order DRAFT None)"
  "sn_intent (demo_order state ext) = empty_intent" "payment_of (demo_order state ext) c = None"
  "er_envelope demo_record = demo_envelope" "quote_active (demo_order state ext) demo_record"
  by (simp_all add: demo_app_defs map_get_def payment_of_def quote_active_def isCurrentRecommendation_def recommendationBinding_def
       sameRecommendationBinding_def opt_str_def)

lemma demo_registry [simp]: "registry_get Razorpay_checkout (sv_adapters demo_services) = Some demo_mock"
  by (simp add: demo_services_def demo_mock_def registry_get_def js_find_def)

lemma demo_initiates:
  "\<exists>st'. initiatePayment demo_services ''ord_1'' Razorpay_checkout None (demo_app APPROVED None) =
     (Inr (Await (P_initiate ''ord_1'' None 0 demo_mock demo_record)), st')"
proof -
  have "pv_allow (checkEnvelopeForPayment (\<lambda>s. s) (policy_input (demo_order APPROVED None) demo_record demo_envelope (Some demo_mandate)
      Razorpay_checkout (toISOString 0)))"
    using demo_covered unfolding policy_codes_Nil [symmetric]
    by (simp add: checkEnvelopeForPayment_def policy_input_def demo_record_def)
  then have "wp (initiatePayment demo_services ''ord_1'' Razorpay_checkout None)
      (\<lambda>x _. x = Await (P_initiate ''ord_1'' None 0 demo_mock demo_record)) (\<lambda>_ _. False) (demo_app APPROVED None)"
    unfolding initiatePayment_def begin_op_def unless_done_def answering_prologue_def with_session_def with_envelope_def payment_policy_def
      initiate_allowed_def
    by (simp add: wps is_verified_def paid_state_def)
       (simp add: demo_services_def demo_envelope_def wps order_step_iff)
  then show ?thesis by (auto simp: wp_def split: prod.splits sum.splits)
qed


subsection \<open>Where the service falls short\<close>

text \<open>C21: Two overlapping refund requests without operation ids both reach the gateway. \<open>compensate\<close> takes no
  session lock and accepts \<open>COMPENSATION_PENDING\<close>, the state its own first call sets before it awaits; so
  for an order whose fulfilment failed after a Razorpay payment, a second request that arrives before the
  gateway has answered the first asks for the same refund of the same payment again.\<close>

theorem overlapping_refunds:
  assumes "map_get i (co_sessions (ap_core st)) = Some r" "map_get i (co_envelopes (ap_core st)) = Some rec"
    and "sn_state (co_heap (ap_core st) r) = FULFILMENT_FAILED" "sn_externalPaymentId (co_heap (ap_core st) r) = Some pid" "pid \<noteq> []"
    and "\<forall>v. sn_verification (co_heap (ap_core st) r) = Some v \<longrightarrow> vr_rail v \<noteq> X402_solana"
    and "registry_get Razorpay_checkout (sv_adapters env) = Some ad"
  shows "\<exists>st1 st2. compensate env i None st = (Inr (Await (P_compensate i None r ad rec pid)), st1) \<and>
    compensate env i None st1 = (Inr (Await (P_compensate i None r ad rec pid)), st2)"
proof -
  have "\<exists>st'. compensate env i None s = (Inr (Await (P_compensate i None r ad rec pid)), st') \<and>
      ap_core st' = put_session r ((co_heap (ap_core s) r)\<lparr>sn_state := COMPENSATION_PENDING\<rparr>) (ap_core s)"
    if "map_get i (co_sessions (ap_core s)) = Some r" "map_get i (co_envelopes (ap_core s)) = Some rec"
      "sn_state (co_heap (ap_core s) r) \<in> {FULFILMENT_FAILED, COMPENSATION_PENDING}"
      "sn_externalPaymentId (co_heap (ap_core s) r) = Some pid"
      "\<forall>v. sn_verification (co_heap (ap_core s) r) = Some v \<longrightarrow> vr_rail v \<noteq> X402_solana" for s
  proof -
    have "wp (compensate env i None) (\<lambda>x st'. x = Await (P_compensate i None r ad rec pid) \<and>
        ap_core st' = put_session r ((co_heap (ap_core s) r)\<lparr>sn_state := COMPENSATION_PENDING\<rparr>) (ap_core s)) (\<lambda>_ _. False) s"
      unfolding compensate_def begin_op_def unless_done_def fulfil_prologue_def with_session_def with_envelope_def
      using that assms(5,7) by (auto simp: wps order_step_iff opt_str_def Let_def split: option.splits)
    then show ?thesis by (auto simp: wp_def split: prod.splits sum.splits)
  qed
  note once = this
  from once [of st] assms obtain st1 where st1: "compensate env i None st = (Inr (Await (P_compensate i None r ad rec pid)), st1)"
    "ap_core st1 = put_session r ((co_heap (ap_core st) r)\<lparr>sn_state := COMPENSATION_PENDING\<rparr>) (ap_core st)" by auto
  from once [of st1] assms st1(2) obtain st2 where "compensate env i None st1 = (Inr (Await (P_compensate i None r ad rec pid)), st2)"
    by auto
  with st1(1) show ?thesis by blast
qed

theorem overlapping_refunds_witness:
  "\<exists>st1 st2. compensate demo_services ''ord_1'' None (demo_app FULFILMENT_FAILED (Some ''p'')) =
      (Inr (Await (P_compensate ''ord_1'' None 0 demo_mock demo_record ''p'')), st1) \<and>
    compensate demo_services ''ord_1'' None st1 = (Inr (Await (P_compensate ''ord_1'' None 0 demo_mock demo_record ''p'')), st2)"
  by (rule overlapping_refunds) simp_all

text \<open>A patch of the intent can cut a paid order off from its refund. \<open>intentPatch\<close> has no guard on the order's
  state: a patch that changes the intent of an order whose fulfilment failed drops approval and envelope,
  then throws at the illegal transition to \<open>QUOTED\<close> with both gone; \<open>compensate\<close> then answers
  \<open>No envelope\<close>, so the refund cannot be made.\<close>

theorem patch_blocks_refund:
  assumes "map_get i (co_sessions (ap_core st)) = Some r" "map_get i (co_envelopes (ap_core st)) = Some rec"
    and "sn_state (co_heap (ap_core st) r) = FULFILMENT_FAILED" "dm_intentVersion (sn_dialogue (co_heap (ap_core st) r)) = v"
    and "patch_error p = None"
    and "hasIntentChanged (sn_intent (co_heap (ap_core st) r)) (apply_patch p (sn_intent (co_heap (ap_core st) r)))"
  shows "\<exists>e st'. intentPatch env i p v st = (Inl e, st') \<and> map_get i (co_envelopes (ap_core st')) = None \<and>
    sn_state (co_heap (ap_core st') r) = FULFILMENT_FAILED \<and>
    compensate env i None st' = (Inr (Answer (PL_order (failure FULFILMENT_FAILED ''No envelope''))), st')"
proof -
  have "wp (intentPatch env i p v) (\<lambda>_ _. False) (\<lambda>e st'. map_get i (co_sessions (ap_core st')) = Some r \<and>
      map_get i (co_envelopes (ap_core st')) = None \<and> sn_state (co_heap (ap_core st') r) = FULFILMENT_FAILED) st"
    unfolding intentPatch_def discard_quote_def patch_rerank_state_def del_envelope_def
    using assms by (simp add: wps Let_def order_step_iff)
  then obtain e st' where st': "intentPatch env i p v st = (Inl e, st')" "map_get i (co_sessions (ap_core st')) = Some r"
    "map_get i (co_envelopes (ap_core st')) = None" "sn_state (co_heap (ap_core st') r) = FULFILMENT_FAILED"
    by (auto simp: wp_def split: prod.splits sum.splits)
  then have "compensate env i None st' = (Inr (Answer (PL_order (failure FULFILMENT_FAILED ''No envelope''))), st')"
    by (simp add: compensate_def begin_op_def unless_done_def fulfil_prologue_def with_session_def with_envelope_def mbind_def mret_def
        get_session_ref_def get_envelope_def read_core_def get_s_def finish_fail_def complete_op_def)
  with st' show ?thesis by blast
qed

theorem patch_blocks_refund_witness:
  "\<exists>e st'. intentPatch demo_services ''ord_1'' [(''colour'', JStr ''black'')] 0 (demo_app FULFILMENT_FAILED (Some ''p'')) = (Inl e, st') \<and>
    map_get ''ord_1'' (co_envelopes (ap_core st')) = None \<and> sn_state (co_heap (ap_core st') 0) = FULFILMENT_FAILED \<and>
    compensate demo_services ''ord_1'' None st' = (Inr (Answer (PL_order (failure FULFILMENT_FAILED ''No envelope''))), st')"
proof (rule patch_blocks_refund)
  show "patch_error [(''colour'', JStr ''black'')] = None" by code_simp
  show "hasIntentChanged (sn_intent (co_heap (ap_core (demo_app FULFILMENT_FAILED (Some ''p''))) 0))
      (apply_patch [(''colour'', JStr ''black'')] (sn_intent (co_heap (ap_core (demo_app FULFILMENT_FAILED (Some ''p''))) 0)))"
    by (simp, code_simp)
qed (simp_all add: demo_order_def createDialogueMemory_def)

end
