(* ===== verification/RespondProps.thy ===== *)
theory RespondProps
  imports OrderProps
begin

text \<open>
  Properties of conversation turns: that they end, that they cannot pay, that a shortlist is the ranking of
  the intent it is shown with, and which turns leave their operation open.
\<close>

subsection \<open>Turns end\<close>

definition settled_turn :: "chat_outcome \<Rightarrow> bool" where
  "settled_turn out = (case out of Said _ \<Rightarrow> True | Waits _ \<Rightarrow> False)"

lemma run_turn_settles: "forward t n out \<Longrightarrow> gives (run_turn n ce answer out) settled_turn"
proof (induction n arbitrary: out)
  case 0
  then show ?case by (cases out) (auto simp: settled_turn_def)
next
  case (Suc n)
  show ?case
  proof (cases out)
    case (Waits p)
    have "gives (chat_resume ce (answer p) p) (forward t n)"
    proof -
      have "forward t n x" if "forward (chat_turn p) (chat_rank p) x" for x
        using that Suc.prems Waits by (cases x) auto
      with resume_gives [of ce "answer p" p] show ?thesis by (auto simp: gives_def)
    qed
    with Waits Suc.IH show ?thesis by (auto intro: gives_bind)
  qed (auto simp: settled_turn_def)
qed

lemma respond_starts: "gives (respond ce i message binding opid) (\<lambda>out. \<exists>t. forward t 6 out)"
  unfolding respond_def Let_def finish_turn_def
  by (intro gives_then) (auto intro!: gives_then gives_ret split: option.split)



subsection \<open>Turns do not pay\<close>

lemma keeps_result:
  assumes "keeps env (ap_core st) r False m" "good env P (ap_core st)" "m st = (res, st')"
  shows "chatting env (ap_core st) r False st'"
proof -
  have "wp m (\<lambda>_. chatting env (ap_core st) r False) (\<lambda>_. chatting env (ap_core st) r False) st"
    using assms(1) chatting_start [OF assms(2) refl, of r] by (simp add: keeps_def)
  from wp_outcome [OF this assms(3)] show ?thesis by (simp split: sum.splits)
qed

definition payment_view :: "session \<Rightarrow> string option \<times> string option \<times> verification_result option \<times> compensation_note option \<times> nat option" where
  "payment_view s = (sn_externalOrderId s, sn_externalPaymentId s, sn_verification s, sn_compensation s, sn_x402OrderPayment s)"

text \<open>C4: A conversation cannot pay. Whenever a suspended turn goes on, in any reachable state and with any answer of the language
  model, the settlement store and the paid resource: no order's gateway identifiers, verification, refund or
  Agent Pay payment changes, an approval may be withdrawn but is never given, no order enters
  PAYMENT_PENDING and none enters or leaves the paid states, mandates and the map of
  sessions stay as they are, and every stored envelope still carries the service's digest and signature.\<close>

theorem conversation_cannot_pay:
  assumes "reachable we w" "wd_chats w = cs @ p # ds"
    and "chat_resume (we_chat we) reply p (wd_app w) = (said, st')"
  shows "let c = ap_core (wd_app w); c' = ap_core st' in
    co_payments c' = co_payments c \<and> co_mandates c' = co_mandates c \<and> co_sessions c' = co_sessions c \<and>
    (\<forall>i rec. map_get i (co_envelopes c') = Some rec \<longrightarrow> sealed (we_services we) i rec) \<and>
    (\<forall>r. payment_view (co_heap c' r) = payment_view (co_heap c r) \<and>
      (sn_approvedDigest (co_heap c' r) = sn_approvedDigest (co_heap c r) \<or> sn_approvedDigest (co_heap c' r) = None) \<and>
      (sn_state (co_heap c' r) = sn_state (co_heap c r) \<or>
       \<not> post_payment (sn_state (co_heap c r)) \<and> \<not> post_payment (sn_state (co_heap c' r)) \<and>
       sn_state (co_heap c' r) \<noteq> PAYMENT_PENDING))"
proof -
  let ?c = "ap_core (wd_app w)" and ?r = "tn_session (chat_turn p)"
  have good: "good (we_services we) (set (wd_pending w)) ?c"
    using reachable_ok [OF assms(1)] by (simp add: world_ok_def)
  from keeps_result [OF resume_keeps good assms(3)]
  obtain s' es where c': "ap_core st' = put_session ?r s' (?c\<lparr>co_envelopes := es\<rparr>)" and step: "chat_step (co_heap ?c ?r) s'"
    and es: "\<forall>i rec. map_get i es = Some rec \<longrightarrow> sealed (we_services we) i rec"
    by (auto simp: chatting_def)
  show ?thesis
    unfolding Let_def c' using es step by (auto simp: put_session_def chat_step_def payment_view_def)
qed


lemma demo_turn:
  "\<exists>d st'. respond demo_chat ''ord_x'' ''hi'' None None (wd_app demo_world) =
     (Inr (Waits (C_interpret \<lparr>tn_orderId = ''ord_x'', tn_message = ''hi'', tn_binding = None, tn_operationId = None, tn_session = 0\<rparr> d)), st')"
  by (simp add: respond_def Let_def begin_op_def respond_prologue_def get_session_ref_def get_s_def read_core_def upd_s_def upd_core_def
      now_ms_def mbind_def mret_def demo_created(2))

lemma demo_chatting: "\<exists>w p. reachable demo_env w \<and> wd_chats w = [] @ p # []"
proof -
  obtain p st' where "respond demo_chat ''ord_x'' ''hi'' None None (wd_app demo_world) = (Inr (Waits p), st')"
    using demo_turn by blast
  from W_chat [of "''ord_x''" demo_world demo_env, simplified demo_env_def, simplified, OF _ this] demo_reachable
  have "reachable demo_env (demo_world\<lparr>wd_app := st', wd_chats := wd_chats demo_world @ waiting (Inr (Waits p))\<rparr>)"
    by (auto simp: demo_env_def session_free_def unlocked_def demo_world_def intro: reachable.step)
  then show ?thesis by (intro exI conjI) (auto simp: demo_world_def waiting_def)
qed

theorem conversation_cannot_pay_witness:
  "\<exists>w p. reachable demo_env w \<and> wd_chats w = [p] \<and>
     (\<forall>reply r. payment_view (co_heap (ap_core (snd (chat_resume demo_chat reply p (wd_app w)))) r) =
        payment_view (co_heap (ap_core (wd_app w)) r))"
proof -
  obtain w p where w: "reachable demo_env w" "wd_chats w = [] @ p # []" using demo_chatting by blast
  have "payment_view (co_heap (ap_core (snd (chat_resume demo_chat reply p (wd_app w)))) r) =
        payment_view (co_heap (ap_core (wd_app w)) r)" for reply r
    using conversation_cannot_pay [OF w, of reply "fst (chat_resume demo_chat reply p (wd_app w))"
        "snd (chat_resume demo_chat reply p (wd_app w))"]
    by (simp add: demo_env_def Let_def)
  with w show ?thesis by auto
qed


subsection \<open>Turns that leave their operation open\<close>

text \<open>An action that leaves a part of the state as it was.\<close>

definition same :: "('s \<Rightarrow> 'x) \<Rightarrow> ('s, 'a) action \<Rightarrow> bool" where
  "same v m = (\<forall>st. v (snd (m st)) = v st)"

lemma same_bind [intro]: "same v m \<Longrightarrow> (\<And>x. same v (f x)) \<Longrightarrow> same v (mbind m f)"
  unfolding same_def mbind_def
proof (intro allI)
  fix st assume *: "\<forall>st. v (snd (m st)) = v st" "\<And>x. \<forall>st. v (snd (f x st)) = v st"
  obtain x st' where "m st = (x, st')" by fastforce
  moreover from this have "v st' = v st" using *(1) [rule_format, of st] by simp
  ultimately show "v (snd (case m st of (Inl e, st') \<Rightarrow> (Inl e, st') | (Inr x, st') \<Rightarrow> f x st')) = v st"
    using *(2) by (auto split: sum.split)
qed

lemma same_if [intro]: "(b \<Longrightarrow> same v m) \<Longrightarrow> (\<not> b \<Longrightarrow> same v n) \<Longrightarrow> same v (if b then m else n)"
  by simp

lemma same_basic [intro]:
  "same v (mret x)" "same v (lift_throws y)" "same v (get_s r)" "same v (\<lambda>st. (Inr (g st), st))" "same v (mthrow e)"
  by (simp_all add: same_def mret_def lift_throws_def get_s_def read_core_def mthrow_def)

lemma same_step:
  assumes "same v m" "m st = (res, st')"
  shows "v st' = v st"
  using assms by (auto simp: same_def dest: spec [of _ st])

lemma ops_basic [intro]:
  "same ap_ops (log_event env e)" "same ap_ops (now_ms env)" "same ap_ops (new_id env p)" "same ap_ops (upd_s r f)"
  "same ap_ops (upd_dialogue r g)" "same ap_ops (del_envelope i)"
  by (simp_all add: same_def log_event_def now_ms_def new_id_def upd_s_def upd_dialogue_def del_envelope_def upd_core_def)

lemma ops_record [intro]: "same ap_ops (recordRecommendation env r ranking)"
  unfolding recordRecommendation_def by (intro same_bind ops_basic)

lemma ops_validate [intro]: "same ap_ops (validateCurrentSelection env r p b)"
  unfolding validateCurrentSelection_def currentRecommendation_def Let_def
  by (auto intro!: same_bind same_basic ops_basic ops_record split: option.split)

lemma ops_actions:
  "same ap_ops (handleCompare env i r ids)" "same ap_ops (handleExplain env i r ids)"
  "same ap_ops (handleSelect env i r ids b)" "same ap_ops (restart_session i r)"
  unfolding handleCompare_def handleExplain_def handleSelect_def restart_session_def Let_def
  by (auto intro!: same_bind same_basic ops_basic ops_validate split: option.split list.split selection.split)

lemma ops_change: "same ap_ops (material_change env t rd)"
  unfolding material_change_def discard_quote_def
  by (auto intro!: same_bind same_if same_basic ops_basic split: option.split)

lemma route_leaves_operation:
  assumes "si_action (rd_merged rd) \<in> {Act_restart, Act_compare, Act_explain, Act_select}"
  shows "same ap_ops (respond_route ce t rd)"
  unfolding respond_route_def Let_def case_prod_beta says_def
  by (intro same_bind same_basic ops_basic ops_change)
     (use assms in \<open>auto intro!: same_bind same_basic ops_actions\<close>)

definition turn_request :: "string \<Rightarrow> string \<Rightarrow> recommendation_binding option \<Rightarrow> operation_request" where
  "turn_request orderId message binding =
     (let b = or_else binding \<lparr>rb_intentVersion = 0, rb_recommendationVersion = 0, rb_recommendationActionToken = []\<rparr> in
      ConversationRespondRequest orderId message (rb_intentVersion b) (rb_recommendationVersion b) (rb_recommendationActionToken b))"

lemma open_operation_answers:
  assumes "truthy opid" "mem_get (opt_str opid) (ap_ops st) = Some rec" "or_phase rec \<in> {Op_pending, Op_in_progress}"
    and "or_requestHash rec = canonicalRequestHash (sv_sha256 (ch_services ce)) Conversation_respond (turn_request orderId message binding)"
  shows "fst (respond ce orderId message binding opid st) = Inr (Said (PL_respond (R_error ''Operation in progress'' DRAFT None)))"
  using assms
  by (auto simp: respond_def begin_op_def now_iso_def now_ms_def mbind_def mret_def coord_begin_def turn_request_def Let_def
      respond_prologue_def split: prod.splits)

text \<open>C40: A turn that restarts, compares, explains or selects never completes its operation. When the message is routed to one
  of these actions, the operation record stays as it was when the turn began, so a retry with the same
  operation identifier and request, after the turn has been answered, is told that the operation is in
  progress instead of being given the answer.\<close>

theorem unfinished_turn_blocks_retry:
  assumes "si_action (rd_merged rd) \<in> {Act_restart, Act_compare, Act_explain, Act_select}"
    and "truthy opid" "mem_get (opt_str opid) (ap_ops st) = Some rec" "or_phase rec \<in> {Op_pending, Op_in_progress}"
    and "or_requestHash rec = canonicalRequestHash (sv_sha256 (ch_services ce)) Conversation_respond (turn_request orderId message binding)"
    and "respond_route ce t rd st = (said, st')"
  shows "mem_get (opt_str opid) (ap_ops st') = Some rec \<and>
    fst (respond ce orderId message binding opid st') = Inr (Said (PL_respond (R_error ''Operation in progress'' DRAFT None)))"
proof -
  have "ap_ops st' = ap_ops st" using same_step [OF route_leaves_operation [OF assms(1)] assms(6)] .
  with assms open_operation_answers show ?thesis by simp
qed


definition demo_reading :: reading where
  "demo_reading = (let i = \<lparr>si_schemaVersion = INTERPRETER_SCHEMA_VERSION, si_action = Act_restart, si_hard = [], si_soft = [],
       si_corrections = [], si_removals = [], si_ambiguities = [], si_confidence = Dec 1 0, si_requestedProductIds = []\<rparr> in
     \<lparr>rd_merged = i, rd_outcome = \<lparr>io_source = From_deterministic, io_interpretation = i, io_fallbackReason = None, io_rejectedReasons = []\<rparr>,
      rd_previousIntent = empty_intent, rd_previousEnvelope = None\<rparr>)"

definition demo_open :: app where
  "demo_open = (wd_app demo_world)\<lparr>ap_ops := [(''op'',
     \<lparr>or_operationId = ''op'', or_aggregateIdentity = ''ord_x'', or_operationType = Conversation_respond,
      or_requestHash = canonicalRequestHash (sv_sha256 demo_services) Conversation_respond (turn_request ''ord_x'' ''restart'' None),
      or_phase = Op_pending, or_outcome = None, or_resultRef = None, or_errorRef = None, or_resultPayload = None,
      or_createdAt = [], or_updatedAt = []\<rparr>)]\<rparr>"

definition demo_turn_ctx :: turn where
  "demo_turn_ctx = \<lparr>tn_orderId = ''ord_x'', tn_message = ''restart'', tn_binding = None, tn_operationId = Some ''op'', tn_session = 0\<rparr>"

theorem unfinished_turn_blocks_retry_witness:
  "fst (respond demo_chat ''ord_x'' ''restart'' None (Some ''op'') (snd (respond_route demo_chat demo_turn_ctx demo_reading demo_open))) =
     Inr (Said (PL_respond (R_error ''Operation in progress'' DRAFT None)))"
  using unfinished_turn_blocks_retry [of demo_reading "Some ''op''" demo_open "snd (hd (ap_ops demo_open))" demo_chat "''ord_x''" "''restart''" None
      demo_turn_ctx "fst (respond_route demo_chat demo_turn_ctx demo_reading demo_open)"
      "snd (respond_route demo_chat demo_turn_ctx demo_reading demo_open)"]
  by (simp add: demo_reading_def Let_def demo_open_def mem_get_def map_get_def demo_chat_def opt_str_def)


subsection \<open>A shortlist is the ranking of the intent it is shown with\<close>

text \<open>What a recommendation on record depends on.\<close>

definition ranking_view ::
  "session \<Rightarrow> parsed_intent \<times> ranking_result option \<times> int \<times> int \<times> int option \<times> string option" where
  "ranking_view s = (sn_intent s, sn_lastRanking s, dm_intentVersion (sn_dialogue s), dm_recommendationVersion (sn_dialogue s),
     dm_recommendationIntentVersion (sn_dialogue s), dm_recommendationActionToken (sn_dialogue s))"

definition fresh_ranking :: "session \<Rightarrow> bool" where
  "fresh_ranking s = (isCurrentRecommendation s \<longrightarrow>
     (\<exists>now. sn_lastRanking s = Some (rankProducts (buildPurchaseIntent s) SHOE_CATALOG now)))"

lemma view_intent:
  assumes "ranking_view s = ranking_view s'"
  shows "sn_intent s = sn_intent s'" "buildPurchaseIntent s = buildPurchaseIntent s'" "fresh_ranking s = fresh_ranking s'"
proof -
  show i: "sn_intent s = sn_intent s'" and b: "buildPurchaseIntent s = buildPurchaseIntent s'"
    using assms by (simp_all add: ranking_view_def buildPurchaseIntent_def)
  have "isCurrentRecommendation s = isCurrentRecommendation s'" "sn_lastRanking s = sn_lastRanking s'"
    using assms by (simp_all add: ranking_view_def isCurrentRecommendation_def)
  with b show "fresh_ranking s = fresh_ranking s'" by (simp add: fresh_ranking_def)
qed

lemma view_other [simp]:
  "ranking_view (s\<lparr>sn_state := q\<rparr>) = ranking_view s" "ranking_view (s\<lparr>sn_machineSpendAttempt := a\<rparr>) = ranking_view s"
  "ranking_view (s\<lparr>sn_machineSpend := b\<rparr>) = ranking_view s"
  "ranking_view (s\<lparr>sn_dialogue := syncMemory i ids ms act ev (sn_dialogue s)\<rparr>) = ranking_view s"
  "ranking_view (s\<lparr>sn_dialogue := (sn_dialogue s)\<lparr>dm_selectedProductId := p\<rparr>\<rparr>) = ranking_view s"
  by (simp_all add: ranking_view_def)

abbreviation view_at :: "nat \<Rightarrow> app \<Rightarrow> parsed_intent \<times> ranking_result option \<times> int \<times> int \<times> int option \<times> string option" where
  "view_at r st \<equiv> ranking_view (co_heap (ap_core st) r)"

lemma view_quiet: "quiet m \<Longrightarrow> same (view_at r) m"
  by (simp add: same_def quiet_def)

lemma view_upd: "(\<And>s. ranking_view (f s) = ranking_view s) \<Longrightarrow> same (view_at r) (upd_s r f)"
  by (simp add: same_def upd_s_def upd_core_def)

lemma view_basic [intro]:
  "same (view_at r) (log_event env e)" "same (view_at r) (now_ms env)" "same (view_at r) (new_id env p)"
  "same (view_at r) (complete_op env i out ref err x)" "same (view_at r) (upd_attempt r f)"
  "same (view_at r) (upd_dialogue r (syncMemory intent ids ms act ev))"
  by (simp_all add: view_quiet view_upd upd_attempt_def upd_dialogue_def)

lemma view_set_state [intro]: "same (view_at r) (set_state r s)"
  unfolding set_state_def
  by (auto intro!: same_bind same_if same_basic view_upd split: state_transition_result.split)

lemma view_audit_once [intro]: "same (view_at r) (logMachineSpendAuditOnce env e)"
  unfolding logMachineSpendAuditOnce_def Let_def by (intro same_bind same_if same_basic view_basic)

lemma view_upd_spend [intro]:
  "same (view_at r) (upd_s r (\<lambda>s. s\<lparr>sn_machineSpendAttempt := a\<rparr>))" "same (view_at r) (upd_s r (\<lambda>s. s\<lparr>sn_machineSpend := b\<rparr>))"
  by (simp_all add: view_upd)

lemma view_threw [intro]: "same (view_at r) (spend_threw env i a)"
  unfolding spend_threw_def by (intro same_bind same_basic view_audit_once)

lemma view_spend [intro]:
  "same (view_at r) (spend_unavailable env i)" "same (view_at r) (spend_decide env i r req a)"
  "same (view_at r) (spend_prepared env i r ctx p)" "same (view_at r) (spend_failed env i r pa out)"
  "same (view_at r) (spend_settled env cfg i r pa w se res ev)"
  unfolding spend_unavailable_def spend_decide_def spend_prepared_def spend_failed_def spend_settled_def Let_def
  by (auto intro!: same_bind same_if same_basic view_basic view_audit_once view_upd_spend view_threw split: option.split sum.split)

lemma view_finished [intro]: "same (view_at r) (spend_finished env cfg i r ctx x)"
  unfolding spend_finished_def
  by (auto intro!: same_bind same_basic view_basic view_threw view_spend split: sum.split option.split bool.split)

lemma view_run_mock [intro]: "same (view_at r) (run_mock env cd h pid)"
  unfolding run_mock_def by (intro same_bind view_basic view_quiet) (simp add: quiet_def split: prod.split)

lemma view_mock [intro]: "same (view_at r) (spend_mock env cd i r)"
  unfolding spend_mock_def Let_def
  by (intro same_bind same_basic view_basic view_run_mock)
     (auto intro!: same_bind same_basic view_basic view_upd_spend split: option.split bool.split)

lemma view_requote [intro]: "same (view_at r) (requote r q)"
  unfolding requote_def by (intro same_bind same_if same_basic view_set_state)

lemma view_advice [intro]: "same (view_at r) (handleCompare env i r ids)" "same (view_at r) (handleExplain env i r ids)"
  unfolding handleCompare_def handleExplain_def Let_def
  by (auto intro!: same_bind same_basic view_basic split: option.split list.split)


text \<open>
  What holds at each await and at the answer of a turn that is not interrupted. Between the update of the intent and
  the check for a material change the recommendation still belongs to the previous intent.
\<close>

definition offer_for :: "session \<Rightarrow> offer \<Rightarrow> bool" where
  "offer_for s off = (fresh_ranking s \<and> (\<exists>now. of_ranking off = rankProducts (buildPurchaseIntent s) SHOE_CATALOG now))"

fun point_ok :: "session \<Rightarrow> chat_point \<Rightarrow> bool" where
  "point_ok s (C_interpret t d) = fresh_ranking s"
| "point_ok s (C_soft t rd) = fresh_ranking (s\<lparr>sn_intent := rd_previousIntent rd\<rparr>)"
| "point_ok s (C_lookup t off req) = offer_for s off"
| "point_ok s (C_prepare t off ctx) = offer_for s off"
| "point_ok s (C_submit t off ctx prepared) = offer_for s off"
| "point_ok s (C_explain t off receipt q note plain) = offer_for s off"

definition outcome_ok :: "nat \<Rightarrow> chat_outcome \<Rightarrow> app \<Rightarrow> bool" where
  "outcome_ok r out st =
     (let s = co_heap (ap_core st) r in
      case out of
        Waits p \<Rightarrow> point_ok s p
      | Said res \<Rightarrow> fresh_ranking s \<and>
          (\<forall>sl. res = PL_respond (R_shortlist sl) \<longrightarrow> sl_parsedIntent sl = sn_intent s \<and>
             (\<exists>now. sl_matches sl = rr_matches (rankProducts (buildPurchaseIntent s) SHOE_CATALOG now))))"

abbreviation turns_out :: "nat \<Rightarrow> chat_outcome act \<Rightarrow> app \<Rightarrow> bool" where
  "turns_out r m st \<equiv> wp m (outcome_ok r) (\<lambda>_ _. True) st"

lemma offer_view: "ranking_view s = ranking_view s' \<Longrightarrow> offer_for s off = offer_for s' off"
  by (simp add: offer_for_def view_intent [of s s'])

lemma wp_skip:
  assumes "same (view_at r) m" "\<And>x st'. view_at r st' = view_at r st \<Longrightarrow> wp (f x) Q (\<lambda>_ _. True) st'"
  shows "wp (mbind m f) Q (\<lambda>_ _. True) st"
proof -
  obtain x st' where m: "m st = (x, st')" by fastforce
  have "view_at r st' = view_at r st" by (rule same_step [OF assms(1) m])
  with assms(2) m show ?thesis by (cases x) (simp_all add: wp_def mbind_def)
qed

lemma point_view:
  assumes "ranking_view s = ranking_view s'"
  shows "point_ok s p = point_ok s' p"
proof -
  have "ranking_view (s\<lparr>sn_intent := i\<rparr>) = ranking_view (s'\<lparr>sn_intent := i\<rparr>)" for i
    using assms by (simp add: ranking_view_def)
  from view_intent(3) [OF this] show ?thesis
    by (cases p) (simp_all add: view_intent(3) [OF assms] offer_view [OF assms])
qed

lemma wp_look: "wp (\<lambda>st. (Inr (f st), st)) Q E st = Q (f st) st"
  by (simp add: wp_def)

lemma outcome_view:
  assumes "view_at r st = view_at r st'"
  shows "outcome_ok r out st = outcome_ok r out st'"
  unfolding outcome_ok_def Let_def
  by (cases out) (simp_all add: point_view [OF assms] view_intent [OF assms])

lemma turns_finish:
  assumes "outcome_ok r (Said (PL_respond res)) st"
  shows "turns_out r (finish_turn env i out ref err res) st"
  unfolding finish_turn_def
proof (rule wp_skip [OF view_basic(4)])
  fix x st' assume "view_at r st' = view_at r st"
  from outcome_view [OF this] assms show "turns_out r (mret (Said (PL_respond res))) st'" by (simp add: wp_ret)
qed

lemma turns_says:
  assumes "same (view_at r) m" "fresh_ranking (co_heap (ap_core st) r)" "gives m (\<lambda>res. \<forall>sl. res \<noteq> R_shortlist sl)"
  shows "turns_out r (says m) st"
proof -
  obtain x st' where m: "m st = (x, st')" by fastforce
  have "fresh_ranking (co_heap (ap_core st') r)"
    using same_step [OF assms(1) m] assms(2) view_intent(3) by metis
  moreover have "x = Inr res \<Longrightarrow> res \<noteq> R_shortlist sl" for res sl using givesD [OF assms(3), of st res] m by blast
  ultimately show ?thesis using m by (cases x) (auto simp: says_def wp_def mbind_def mret_def outcome_ok_def)
qed

lemma turns_offer_done:
  assumes "offer_for (co_heap (ap_core st) (tn_session t)) off"
  shows "turns_out (tn_session t) (offer_done ce t off receipt msg) st"
proof -
  let ?r = "tn_session t"
  have last: "turns_out ?r (mbind (get_s ?r) (\<lambda>s. mbind (lift_throws (recommendationBinding s)) (\<lambda>binding.
      finish_turn env op out (ref s) err (R_shortlist (\<lparr>sl_message = m, sl_matches = rr_matches (of_ranking off), sl_fitScores = fs s,
        sl_machineSpend = receipt, sl_machineSpendAttempt = att s, sl_state = sn_state s, sl_parsedIntent = sn_intent s, sl_binding = binding\<rparr>))))) st'"
    if v: "view_at ?r st' = view_at ?r st" for st' env op out ref err m fs att
  proof -
    have "offer_for (co_heap (ap_core st') ?r) off" using offer_view [OF v] assms by simp
    then have "outcome_ok ?r (Said (PL_respond (R_shortlist sl))) st'"
      if "sl_parsedIntent sl = sn_intent (co_heap (ap_core st') ?r)" "sl_matches sl = rr_matches (of_ranking off)" for sl
      using that by (auto simp: outcome_ok_def offer_for_def)
    then show ?thesis
      by (auto simp: wp_bind wp_get_s wp_lift split: sum.split intro!: turns_finish)
  qed
  show ?thesis
    unfolding offer_done_def Let_def
    by (rule wp_skip [OF same_basic(3), where r = ?r], rule wp_skip [where r = ?r], (intro same_if same_basic view_basic), rule wp_skip [OF view_basic(6)], rule last) simp
qed

lemma turns_offer_reply:
  assumes "offer_for (co_heap (ap_core st) (tn_session t)) off"
  shows "turns_out (tn_session t) (offer_reply ce t off receipt) st"
  unfolding offer_reply_def wp_bind wp_get_s
  using assms by (auto simp: wp_ret outcome_ok_def split: compose_step.split intro: turns_offer_done)

lemma turns_spend_next:
  assumes "offer_for (co_heap (ap_core st) (tn_session t)) off"
  shows "turns_out (tn_session t) (spend_next ce t off x) st"
  unfolding spend_next_def
  using assms by (auto simp: wp_ret outcome_ok_def split: spend_step.split intro: turns_offer_reply)

lemma turns_after:
  assumes "same (view_at r) m" "offer_for (co_heap (ap_core st) r) off"
    and "\<And>x st'. offer_for (co_heap (ap_core st') r) off \<Longrightarrow> turns_out r (f x) st'"
  shows "turns_out r (mbind m f) st"
  using assms(2,3) offer_view by (intro wp_skip [OF assms(1)]) metis

lemma turns_offer_spend:
  assumes "offer_for (co_heap (ap_core st) (tn_session t)) off"
  shows "turns_out (tn_session t) (offer_spend ce t off) st"
proof -
  let ?r = "tn_session t"
  have "turns_out ?r (case ch_mode ce of
         Mock_mode \<Rightarrow> mbind (spend_mock (ch_services ce) (ch_codec ce) (tn_orderId t) ?r) (offer_reply ce t off)
       | Devnet_unavailable e \<Rightarrow> mbind (spend_unavailable (ch_services ce) (tn_orderId t)) (spend_next ce t off)
       | Devnet_mode client \<Rightarrow> mret (Waits (C_lookup t off (req client)))) st" for req
    using assms
    by (auto simp: wp_ret outcome_ok_def split: spend_mode.split
        intro!: turns_after [OF view_mock] turns_after [OF view_spend(1)] turns_offer_reply turns_spend_next)
  then show ?thesis
    unfolding offer_spend_def wp_bind wp_get_s
    by (simp add: wp_look turns_offer_reply [OF assms])
qed

lemma intent_of_other [simp]:
  "buildPurchaseIntent (s\<lparr>sn_lastRanking := rk\<rparr>) = buildPurchaseIntent s" "buildPurchaseIntent (s\<lparr>sn_dialogue := d\<rparr>) = buildPurchaseIntent s"
  by (simp_all add: buildPurchaseIntent_def)

lemma wp_record:
  assumes "s = co_heap (ap_core st) r"
    and "\<And>st'. fresh_ranking (co_heap (ap_core st') r) \<Longrightarrow> buildPurchaseIntent (co_heap (ap_core st') r) = buildPurchaseIntent s \<Longrightarrow> Q () st'"
  shows "wp (recordRecommendation env r (rankProducts (buildPurchaseIntent s) SHOE_CATALOG now)) Q E st"
  unfolding recordRecommendation_def by (simp add: wps, rule assms(2)) (auto simp: fresh_ranking_def assms(1))

lemma fresh_other [simp]:
  "fresh_ranking (s\<lparr>sn_dialogue := syncMemory i ids ms act ev (sn_dialogue s)\<rparr>) = fresh_ranking s"
  "fresh_ranking (s\<lparr>sn_dialogue := (sn_dialogue s)\<lparr>dm_selectedProductId := p\<rparr>\<rparr>) = fresh_ranking s"
  "fresh_ranking (s\<lparr>sn_state := q\<rparr>) = fresh_ranking s"
  by (rule view_intent(3), simp)+

lemma turns_rank:
  "turns_out (tn_session t) (respond_rank ce t rd q a) st"
proof -
  let ?r = "tn_session t"
  have clarify: "turns_out ?r (clarify ce t ranking) st'" if "fresh_ranking (co_heap (ap_core st') ?r)" for st' ranking
    unfolding clarify_def Let_def
  proof (rule wp_skip [OF view_set_state], rule wp_skip [OF same_basic(3), where r = ?r], rule wp_skip [OF view_basic(1), where r = ?r],
      rule wp_skip [OF view_basic(6)], rule turns_finish, goal_cases)
    case (1 x st1 s st2 y st3 z st4)
    then have "view_at ?r st4 = view_at ?r st'" by simp
    from view_intent(3) [OF this] that show ?case by (simp add: outcome_ok_def)
  qed
  have offer: "turns_out ?r (mbind (requote ?r q) (\<lambda>_. offer_spend ce t off)) st'"
    if "offer_for (co_heap (ap_core st') ?r) off" for st' off
    using that by (intro turns_after [OF view_requote] turns_offer_spend)
  show ?thesis
    unfolding respond_rank_def Let_def wp_bind wp_get_s wp_now_ms
  proof (rule wp_record, simp, goal_cases)
    case (1 st')
    then have "turns_out ?r (mbind (requote ?r q) (\<lambda>_. offer_spend ce t \<lparr>of_ranking = rankProducts
        (buildPurchaseIntent (co_heap (ap_core st) ?r)) SHOE_CATALOG now, of_action = si_action (rd_merged rd),
        of_acknowledgement = a, of_repeat = False\<rparr>)) st'" for now
      by (intro offer) (auto simp: offer_for_def)
    with clarify [OF 1(1)] show ?case by (simp add: wp_bind)
  qed
qed

lemma turns_said:
  assumes "wp m (\<lambda>res st. fresh_ranking (co_heap (ap_core st) r) \<and> (\<forall>sl. res \<noteq> R_shortlist sl)) (\<lambda>_ _. True) st"
  shows "turns_out r (says m) st"
  unfolding says_def wp_bind by (rule wp_mono [OF assms]) (auto simp: wp_ret outcome_ok_def)

lemma turns_cheaper:
  assumes "fresh_ranking (co_heap (ap_core st) r)"
  shows "turns_out r (says (handleCheaper env i r)) st"
proof (rule turns_said)
  let ?Q = "\<lambda>res st. fresh_ranking (co_heap (ap_core st) r) \<and> (\<forall>sl. res \<noteq> R_shortlist sl)"
  have rest: "wp (mbind (get_s r) (\<lambda>s. case rr_matches ranking of
         [] \<Rightarrow> mret (R_cheaper x None y (sn_state s))
       | currentBest # _ \<Rightarrow> mbind (now_ms env) (\<lambda>now. mbind (log_event env (e s)) (\<lambda>_.
            mret (R_cheaper currentBest (g currentBest s now) (h currentBest s now) (sn_state s)))))) ?Q (\<lambda>_ _. True) st'"
    if "fresh_ranking (co_heap (ap_core st') r)" for st' ranking x y e g h
    using that by (auto simp: wps split: list.split)
  have again: "wp (cheaper_ranking env r) (\<lambda>_ st. fresh_ranking (co_heap (ap_core st) r)) (\<lambda>_ _. True) st"
    using assms unfolding cheaper_ranking_def Let_def wp_bind wp_get_s
    by (auto simp: wps wp_record split: option.split bool.split intro!: wp_record)
  show "wp (handleCheaper env i r) ?Q (\<lambda>_ _. True) st"
    unfolding handleCheaper_def Let_def wp_bind [of "cheaper_ranking env r"]
    by (rule wp_mono [OF again]) (rule rest, assumption, simp)
qed

lemma fresh_none [simp]: "sn_lastRanking s = None \<Longrightarrow> fresh_ranking s"
  by (simp add: fresh_ranking_def isCurrentRecommendation_def)

lemma turns_select:
  assumes "fresh_ranking (co_heap (ap_core st) r)"
  shows "turns_out r (says (handleSelect env i r ids b)) st"
proof (rule turns_said)
  let ?Q = "\<lambda>res st. fresh_ranking (co_heap (ap_core st) r) \<and> (\<forall>sl. res \<noteq> R_shortlist sl)"
  have valid: "wp (validateCurrentSelection env r p b) (\<lambda>_ st. fresh_ranking (co_heap (ap_core st) r)) (\<lambda>_ _. True) st" for p
    unfolding validateCurrentSelection_def currentRecommendation_def Let_def
    using assms by (auto simp: wps wp_lift split: option.split sum.split intro!: wp_record)
  show "wp (handleSelect env i r ids b) ?Q (\<lambda>_ _. True) st"
    unfolding handleSelect_def Let_def wp_bind [of "get_s r"] wp_get_s
  proof (cases "ids = [] \<or> hd ids = []", simp add: wp_ret assms, simp, goal_cases)
    case 1
    show ?case
      unfolding wp_bind [of "validateCurrentSelection _ _ _ _"] by (rule wp_mono [OF valid]) (auto simp: wps split: selection.split)
  qed
qed

lemma turns_if: "(b \<Longrightarrow> turns_out r m st) \<Longrightarrow> (\<not> b \<Longrightarrow> turns_out r n st) \<Longrightarrow> turns_out r (if b then m else n) st"
  by simp

lemma turns_search:
  assumes "fresh_ranking (co_heap (ap_core st) (tn_session t))"
  shows "turns_out (tn_session t) (respond_search ce t rd m q a) st"
proof -
  let ?r = "tn_session t" let ?s = "co_heap (ap_core st) ?r"
  have cheaper: "turns_out ?r (mbind (if c then set_state ?r QUOTED else mret ()) (\<lambda>_. says (handleCheaper env i ?r))) st" for c env i
    by (rule wp_skip [where r = ?r], (intro same_if same_basic view_set_state), rule turns_cheaper)
       (use assms in \<open>blast dest: view_intent(3)\<close>)
  have repeat: "offer_for ?s \<lparr>of_ranking = the (repeatable ?s), of_action = x, of_acknowledgement = None, of_repeat = True\<rparr>"
    if "repeatable ?s \<noteq> None" for x
    using that assms by (auto simp: offer_for_def fresh_ranking_def repeatable_def split: option.splits if_splits)
  have refuse: "outcome_ok ?r (Said (PL_respond (R_error msg state None))) st" for msg state
    using assms by (simp add: outcome_ok_def)
  show ?thesis
    unfolding respond_search_def Let_def wp_bind [of "get_s _"] wp_get_s
    by (intro turns_if cheaper turns_offer_reply repeat turns_finish refuse turns_rank) simp
qed

lemma turns_route:
  assumes "fresh_ranking ((co_heap (ap_core st) (tn_session t))\<lparr>sn_intent := rd_previousIntent rd\<rparr>)"
  shows "turns_out (tn_session t) (respond_route ce t rd) st"
proof -
  let ?r = "tn_session t"
  have change: "wp (material_change env t rd) (\<lambda>_ st. fresh_ranking (co_heap (ap_core st) ?r)) (\<lambda>_ _. True) st'"
    if "view_at ?r st' = view_at ?r st" for env st'
  proof (cases "hasIntentChanged (rd_previousIntent rd) (sn_intent (co_heap (ap_core st') ?r))")
    case True
    then show ?thesis
      by (simp add: material_change_def discard_quote_def del_envelope_def wps split: option.split)
  next
    case False
    then have "sn_intent (co_heap (ap_core st') ?r) = rd_previousIntent rd" by (simp add: hasIntentChanged_def)
    then have "ranking_view (co_heap (ap_core st') ?r) = ranking_view ((co_heap (ap_core st) ?r)\<lparr>sn_intent := rd_previousIntent rd\<rparr>)"
      using that by (simp add: ranking_view_def)
    from view_intent(3) [OF this] assms False show ?thesis by (simp add: material_change_def wps)
  qed
  have acts: "turns_out ?r (mbind (get_s ?r) (\<lambda>s. case si_action (rd_merged rd) of
         Act_restart \<Rightarrow> says (restart_session i ?r)
       | Act_compare \<Rightarrow> says (handleCompare env i ?r ids)
       | Act_explain \<Rightarrow> says (handleExplain env i ?r ids)
       | Act_select \<Rightarrow> says (handleSelect env i ?r ids b)
       | _ \<Rightarrow> respond_search ce t rd m q (a s))) st'"
    if f: "fresh_ranking (co_heap (ap_core st') ?r)" for st' env i ids b m q a
  proof -
    have "turns_out ?r (says (restart_session i ?r)) st'"
      by (rule turns_said) (simp add: restart_session_def del_envelope_def wps)
    moreover have "gives (handleCompare env i ?r ids) (\<lambda>res. \<forall>sl. res \<noteq> R_shortlist sl)"
      "gives (handleExplain env i ?r ids) (\<lambda>res. \<forall>sl. res \<noteq> R_shortlist sl)"
      unfolding handleCompare_def handleExplain_def Let_def
      by (auto intro!: gives_then gives_ret split: option.split list.split)
    ultimately show ?thesis
      using turns_says [OF view_advice(1) f] turns_says [OF view_advice(2) f] turns_select [OF f] turns_search [OF f]
      by (auto simp: wp_bind wp_get_s split: interpretation_action.split)
  qed
  show ?thesis
    unfolding respond_route_def Let_def case_prod_beta
  proof (rule wp_skip [OF same_basic(3), where r = ?r], rule wp_skip [OF view_basic(1), where r = ?r], goal_cases)
    case (1 s st1 x st2)
    then have v: "view_at ?r st2 = view_at ?r st" by simp
    show ?case unfolding wp_bind [of "material_change _ _ _"] by (rule wp_mono [OF change [OF v]]) (rule acts, assumption, simp)
  qed
qed

lemma turns_interpreted:
  assumes "fresh_ranking (co_heap (ap_core st) (tn_session t))"
  shows "turns_out (tn_session t) (respond_interpreted ce t d call) st"
proof -
  let ?r = "tn_session t" let ?s = "co_heap (ap_core st) ?r"
  have again: "fresh_ranking ((?s\<lparr>sn_intent := i\<rparr>)\<lparr>sn_intent := sn_intent ?s\<rparr>)" for i
    using assms by (subst view_intent(3) [where s' = ?s]) (simp_all add: ranking_view_def)
  show ?thesis
    unfolding respond_interpreted_def Let_def
    by (auto simp: wps wp_lift outcome_ok_def again [simplified] split: sum.split intro!: turns_route)
qed

lemma turns_resume:
  assumes "point_ok (co_heap (ap_core st) (tn_session (chat_turn p))) p"
  shows "turns_out (tn_session (chat_turn p)) (chat_resume ce a p) st"
proof (cases p)
  case (C_soft t rd)
  let ?r = "tn_session t"
  have keep: "wp (apply_soft env i ?r soft) (\<lambda>_ st. fresh_ranking ((co_heap (ap_core st) ?r)\<lparr>sn_intent := rd_previousIntent rd\<rparr>)) (\<lambda>_ _. True) st"
    for env i soft
    using assms C_soft by (auto simp: apply_soft_def wps split: option.split)
  have "turns_out ?r (mbind (apply_soft env i ?r soft) (\<lambda>_. respond_route ce t rd)) st" for env i soft
    unfolding wp_bind by (rule wp_mono [OF keep]) (auto intro: turns_route)
  then show ?thesis using C_soft by (auto simp: wp_bind [of "lift_throws _"] wp_lift split: sum.split)
next
  case (C_submit t off ctx prepared)
  with assms show ?thesis
    by (auto split: spend_mode.split intro!: turns_after [OF view_finished] turns_spend_next turns_offer_reply)
qed (use assms in \<open>auto simp: wp_bind [of "lift_throws _"] wp_lift split: sum.split
      intro!: turns_interpreted turns_after [OF view_spend(2)] turns_after [OF view_spend(3)] turns_spend_next turns_offer_done\<close>)

lemma turns_run:
  assumes "outcome_ok r out st" "forward t n out" "tn_session t = r"
  shows "turns_out r (run_turn n ce answer out) st"
  using assms
proof (induction n arbitrary: out st)
  case 0
  then show ?case by (cases out) (simp_all add: wp_ret)
next
  case (Suc n)
  show ?case
  proof (cases out)
    case (Waits p)
    with Suc.prems have t: "chat_turn p = t" and ok: "turns_out r (chat_resume ce (answer p) p) st"
      using turns_resume [of st p] by (auto simp: outcome_ok_def)
    obtain x st' where run: "chat_resume ce (answer p) p st = (x, st')" by fastforce
    show ?thesis
    proof (cases x)
      case (Inr out')
      have "outcome_ok r out' st'" using wp_run(1) [OF ok] run Inr by simp
      moreover have "forward t n out'"
        using givesD [OF resume_gives, of ce "answer p" p st out' st'] run Inr t Suc.prems(2) Waits by (cases out') auto
      ultimately show ?thesis
        using Suc.IH [of out' st'] Suc.prems(3) run Inr Waits by (simp add: wp_def mbind_def)
    qed (use run Waits in \<open>simp add: wp_def mbind_def\<close>)
  qed (use Suc.prems in \<open>simp add: wp_ret\<close>)
qed

text \<open>C22: A shortlist is the ranking of the intent it is shown with. Take a session whose recommendation, if it counts as current, is the
  catalogue ranking of the session's intent, as it is in a new session. Whatever the language model, the
  settlement store and the paid resource answer in a turn, when the turn has answered this holds again; and if
  the answer is a shortlist, it reports the session's intent, and its products are exactly those the ranking
  of the catalogue gives for that intent at some reading of the clock.\<close>

theorem shortlist_matches_intent:
  assumes "fresh_ranking (co_heap (ap_core st) (tn_session t))"
    and "run_turn 6 ce answer (Waits (C_interpret t deterministic)) st = (Inr (Said (PL_respond res)), st')"
  shows "let s' = co_heap (ap_core st') (tn_session t) in
    fresh_ranking s' \<and>
    (\<forall>sl. res = R_shortlist sl \<longrightarrow> sl_parsedIntent sl = sn_intent s' \<and>
       (\<exists>now. sl_matches sl = rr_matches (rankProducts (buildPurchaseIntent s') SHOE_CATALOG now)))"
proof -
  have "turns_out (tn_session t) (run_turn 6 ce answer (Waits (C_interpret t deterministic))) st"
    by (rule turns_run) (use assms(1) in \<open>auto simp: outcome_ok_def\<close>)
  from wp_run(1) [OF this assms(2)] show ?thesis by (simp add: outcome_ok_def Let_def)
qed

definition ready_intent :: parsed_intent where
  "ready_intent = empty_intent\<lparr>in_size := Some ''UK 9'', in_useCase := Some ''road''\<rparr>"

definition ready_app :: app where
  "ready_app = empty_app\<lparr>ap_core := put_session 0 ((new_session ''ord_x'' DEMO_CUSTOMER [])\<lparr>sn_intent := ready_intent\<rparr>) empty_core\<rparr>"

definition silence :: structured_interpretation where
  "silence = \<lparr>si_schemaVersion = INTERPRETER_SCHEMA_VERSION, si_action = Act_search, si_hard = [], si_soft = [],
     si_corrections = [], si_removals = [], si_ambiguities = [], si_confidence = Dec 1 0, si_requestedProductIds = []\<rparr>"

definition quiet_turn :: turn where
  "quiet_turn = \<lparr>tn_orderId = ''ord_x'', tn_message = [], tn_binding = None, tn_operationId = None, tn_session = 0\<rparr>"

definition quiet_proposal :: raw where
  "quiet_proposal = RObj [(''schemaVersion'', RStr ''ai1.v1''), (''action'', RStr ''search''), (''confidence'', RNum (Dec 1 0))]"

definition talkative :: chat_env where
  "talkative = demo_chat\<lparr>ch_llmEnabled := True, ch_interprets := True\<rparr>"

definition quiet_replies :: chat_replies where
  "quiet_replies = \<lparr>cr_interpret = Call_ok quiet_proposal, cr_soft = Inr None, cr_lookup = Inr None, cr_prepared = Inl [],
     cr_submitted = Inl [], cr_explanation = Inr None\<rparr>"

lemma silence_heard: "interpretUserMessage \<lparr>ie_now = n, ie_tz = z, ie_parseDate = (\<lambda>_. None)\<rparr> [] i (Some (Call_ok quiet_proposal)) =
    Inr \<lparr>io_source = From_llm, io_interpretation = silence, io_fallbackReason = None, io_rejectedReasons = []\<rparr>"
proof -
  have "validateInterpretation (\<lambda>_. None) quiet_proposal [] CATALOG_PRODUCT_IDS =
      Inr \<lparr>vl_valid = True, vl_interpretation = Some silence, vl_issues = []\<rparr>"
    by code_simp
  then show ?thesis by (simp add: interpretUserMessage_def)
qed

lemma silence_merged:
  "mergeInterpretation silence \<lparr>io_source = x, io_interpretation = silence, io_fallbackReason = y, io_rejectedReasons = z\<rparr> = silence"
  by (simp add: mergeInterpretation_def silence_def by_field_def js_set_def)

lemma silence_not_cheaper: "\<not> re_test cheaper_re (toLowerCase [])"
  by code_simp

definition listed :: "chat_outcome \<Rightarrow> app \<Rightarrow> bool" where
  "listed out st = (\<exists>sl. out = Said (PL_respond (R_shortlist sl)))"

lemma listed_offer_done:
  assumes "isCurrentRecommendation (co_heap (ap_core st) 0)"
  shows "wp (offer_done talkative quiet_turn off receipt msg) listed (\<lambda>_ _. False) st"
proof -
  have "isCurrentRecommendation (s\<lparr>sn_dialogue := syncMemory i ids ms a e (sn_dialogue s)\<rparr>) = isCurrentRecommendation s" for s i ids ms a e
    by (simp add: isCurrentRecommendation_def)
  then show ?thesis
    using assms
    by (simp add: offer_done_def finish_turn_def complete_op_def quiet_turn_def wps wp_lift recommendationBinding_def listed_def truthy_def)
qed

lemma ready_ranked: "sn_intent s = ready_intent \<Longrightarrow> rr_ranked (rankProducts (buildPurchaseIntent s) SHOE_CATALOG now)"
  by (simp add: rankProducts_def buildPurchaseIntent_def missingHardConstraints_def ready_intent_def truthy_def Let_def)

lemma ready_unspent: "sn_intent s = ready_intent \<Longrightarrow> \<not> should_spend s rk d"
  by (simp add: should_spend_def ready_intent_def empty_intent_def truthy_def)

definition nearly :: "chat_outcome \<Rightarrow> app \<Rightarrow> bool" where
  "nearly out st = (listed out st \<or> isCurrentRecommendation (co_heap (ap_core st) 0) \<and>
     (\<exists>off receipt question suffix plain. out = Waits (C_explain quiet_turn off receipt question suffix plain)))"

lemma nearly_reply:
  assumes "isCurrentRecommendation (co_heap (ap_core st) 0)"
  shows "wp (offer_reply talkative quiet_turn off None) nearly (\<lambda>_ _. False) st"
  unfolding offer_reply_def wp_bind wp_get_s
  using wp_mono [OF listed_offer_done [OF assms], of nearly] assms
  by (auto simp: wp_ret nearly_def split: compose_step.split)

lemma nearly_route:
  assumes "sn_intent (co_heap (ap_core st) 0) = ready_intent" "sn_lastRanking (co_heap (ap_core st) 0) = None"
    and "sn_state (co_heap (ap_core st) 0) = DRAFT" "sn_dialogue (co_heap (ap_core st) 0) = createDialogueMemory"
    and "rd_merged rd = silence" "rd_previousIntent rd = ready_intent"
  shows "wp (respond_route talkative quiet_turn rd) nearly (\<lambda>_ _. False) st"
proof -
  have silent: "si_action silence = Act_search" by (simp add: silence_def)
  have turn: "tn_session quiet_turn = 0" "tn_message quiet_turn = []" by (simp_all add: quiet_turn_def)
  have same: "\<not> hasIntentChanged ready_intent ready_intent" by (simp add: hasIntentChanged_def)
  show ?thesis
    using assms
    by (simp add: respond_route_def Let_def wps material_change_def silent turn same respond_search_def silence_not_cheaper repeatable_def
          can_rank_def respond_rank_def recordRecommendation_def ready_ranked requote_def offer_spend_def wp_look ready_unspent order_step_iff)
       (intro conjI impI nearly_reply; simp add: isCurrentRecommendation_def createDialogueMemory_def truthy_def newId_def)
qed

lemma quiet_answer:
  "\<exists>sl st'. run_turn 6 talkative (\<lambda>_. quiet_replies) (Waits (C_interpret quiet_turn silence)) ready_app =
     (Inr (Said (PL_respond (R_shortlist sl))), st')"
proof -
  have heap: "co_heap (ap_core ready_app) 0 = (new_session ''ord_x'' DEMO_CUSTOMER [])\<lparr>sn_intent := ready_intent\<rparr>"
    by (simp add: ready_app_def)
  have turn: "tn_session quiet_turn = 0" "tn_message quiet_turn = []" by (simp_all add: quiet_turn_def)
  have call: "cr_interpret quiet_replies = Call_ok quiet_proposal" "cr_explanation quiet_replies = Inr None"
    by (simp_all add: quiet_replies_def)
  have env: "ch_llmEnabled talkative" "ch_interprets talkative" "ch_parseDate talkative = (\<lambda>_. None)"
    by (simp_all add: talkative_def demo_chat_def)
  have apply_silence: "applyInterpretation silence i = i" for i by (simp add: applyInterpretation_def silence_def)
  have first: "wp (respond_interpreted talkative quiet_turn silence (Call_ok quiet_proposal)) nearly (\<lambda>_ _. False) ready_app"
    unfolding respond_interpreted_def Let_def
    by (simp add: wps wp_lift turn env silence_heard silence_merged apply_silence heap)
       (rule nearly_route; simp add: new_session_def)
  have rest: "wp (run_turn (Suc n) talkative (\<lambda>_. quiet_replies) out) listed (\<lambda>_ _. False) st" if "nearly out st" for n out st
  proof (cases "listed out st")
    case False
    with that obtain off receipt question suffix plain where *: "isCurrentRecommendation (co_heap (ap_core st) 0)"
      "out = Waits (C_explain quiet_turn off receipt question suffix plain)" by (auto simp: nearly_def)
    show ?thesis
      unfolding *(2) run_turn.simps chat_resume.simps call wp_bind wp_lift
      by (simp, rule wp_mono [OF listed_offer_done [OF *(1)]]) (auto simp: listed_def wp_ret)
  qed (auto simp: listed_def wp_ret)
  have "wp (run_turn 6 talkative (\<lambda>_. quiet_replies) (Waits (C_interpret quiet_turn silence))) listed (\<lambda>_ _. False) ready_app"
    unfolding numeral_eq_Suc pred_numeral_simps run_turn.simps chat_resume.simps call wp_bind
    by (rule wp_mono [OF first]) (use rest [where n = 4] in simp_all)
  then show ?thesis by (auto simp: wp_def listed_def split: prod.splits sum.splits)
qed

theorem shortlist_matches_intent_witness:
  "\<exists>sl st'. run_turn 6 talkative (\<lambda>_. quiet_replies) (Waits (C_interpret quiet_turn silence)) ready_app =
       (Inr (Said (PL_respond (R_shortlist sl))), st') \<and>
     (\<exists>now. sl_matches sl = rr_matches (rankProducts (buildPurchaseIntent (co_heap (ap_core st') 0)) SHOE_CATALOG now))"
proof -
  obtain sl st' where run: "run_turn 6 talkative (\<lambda>_. quiet_replies) (Waits (C_interpret quiet_turn silence)) ready_app =
      (Inr (Said (PL_respond (R_shortlist sl))), st')" using quiet_answer by blast
  have "fresh_ranking (co_heap (ap_core ready_app) (tn_session quiet_turn))"
    by (rule fresh_none) (simp add: ready_app_def quiet_turn_def new_session_def)
  from shortlist_matches_intent [OF this run] run show ?thesis by (auto simp: Let_def quiet_turn_def)
qed

end
