(* ===== verification/MachineProps.thy ===== *)
theory MachineProps
  imports MachineClient DevnetRuns
begin

text \<open>
  What the devnet client and the fit-score spend guarantee: how answers are classified, that a paid outcome
  rests on a settled row of the store, that a live attempt is never replaced by a new payment, and that an
  outcome is put on the ledger once.
\<close>

subsection \<open>Classification\<close>


definition demo_attempt :: devnet_attempt where
  "demo_attempt = \<lparr>da_paymentIdentifier = ''pid'', da_requestDigest = ''d'', da_spendingRequest = demo_request, da_encodedPayment = ''hdr''\<rparr>"


text \<open>
  The code \<open>settlement_in_progress\<close>, with which the resource answers while another worker owns the attempt, is not
  among the codes the client knows: it takes the pending, retryable attempt for a rejected one.
\<close>

lemma in_progress_taken_for_rejected:
  "do_state (classify_reply attempt req (Http_status 202 (Some (wire_error
     \<lparr>de_error = ''settlement_in_progress'', de_paymentIdentifier = Some pid, de_requestDigest = Some digest, de_manual = False,
      de_retryable = True, de_transactionHash = None\<rparr>)))) = Sp_rejected"
  by (simp add: classify_reply_def classify_failure_def failed_outcome_def settlement_unresolved_def wire_error_def opt_prop_def jprop_def Let_def)

subsection \<open>A paid outcome is settled\<close>

text \<open>
  The client posting to the route of the same application. A handler that has not answered is, for its client, a
  connection that fails.
\<close>

definition route_post ::
  "nat \<Rightarrow> machine_env \<Rightarrow> (string \<Rightarrow> string option) \<Rightarrow> (dev_result \<Rightarrow> json option) \<Rightarrow> (string \<Rightarrow> audit_event list) \<Rightarrow> poster" where
  "route_post fuel env approvals header timeline attempt approval =
     mbind (fit_score_POST fuel env approvals header timeline (da_encodedPayment attempt) (da_requestDigest attempt)
              (da_spendingRequest attempt) approval)
       (\<lambda>answer. mret (case answer of None \<Rightarrow> Transport_failed ''no answer'' | Some (reply, _) \<Rightarrow> reply))"

lemma post_paid:
  assumes "env_ok env" "db_inv (ms_db st)"
    and "route_post fuel env approvals header timeline attempt approval st = (Inr (Http_paid body hdr), st')"
  shows "\<exists>i row. getByOperationId i (ms_db st') = Some row \<and> sa_status row = AS_settled \<and> pb_evidence body = sa_evidenceJson row"
proof -
  let ?req = "buildDevnetToolSpendRequest (me_config env) (ts_orderId (da_spendingRequest attempt)) (ts_intentVersion (da_spendingRequest attempt))"
  let ?run = "accept fuel env (da_encodedPayment attempt) (buildRequestDigest env ?req) ?req approval"
  from assms(3) obtain res r evidence replay where run: "?run st = (Inr (Some res), st')"
    and res: "dr_status res = 200" "dr_body res = Body_resource r evidence replay" "pb_evidence body = evidence"
    by (auto simp: route_post_def fit_score_POST_def mbind_def mret_def mtry_def error_reply_def Let_def wire_paid_def
        split: if_splits sum.splits prod.splits option.splits dev_body.splits)
  from callsD [OF calls_accept [OF assms(1), where P = "\<lambda>_. True"] run assms(2) refl]
  have "answer_ok (Some res) (ms_db st')" by blast
  with res show ?thesis by (auto simp: answer_ok_def paid_ok_def)
qed

text \<open>C24: A paid outcome of the client is backed by the store. When the client has posted a prepared attempt to the route
  and reports success, the attempt was prepared for this very request and payment identifier, the settlement
  table holds a settled row at that moment, and the evidence the client passes on is the evidence of that row.
\<close>

theorem paid_outcome_is_settled:
  assumes "env_ok (ce_machine ce)" "db_inv (ms_db st)"
    and "runDevnetMachineSpend ce (route_post fuel (ce_machine ce) approvals header timeline) req pid (Some attempt) approval st = (Inr out, st')"
    and "do_ok out"
  shows "(\<exists>i row. getByOperationId i (ms_db st') = Some row \<and> sa_status row = AS_settled \<and> do_evidence out = sa_evidenceJson row) \<and>
    da_paymentIdentifier attempt = pid \<and>
    canonicalToolSpendRequestDigest (me_sha256 (ce_machine ce)) (da_spendingRequest attempt) =
      canonicalToolSpendRequestDigest (me_sha256 (ce_machine ce)) req"
proof -
  let ?post = "route_post fuel (ce_machine ce) approvals header timeline attempt approval"
  from assms(3,4) have match: "attempt_matches (ce_machine ce) req pid attempt"
    and run: "mbind ?post (\<lambda>reply. mret (classify_reply attempt req reply)) st = (Inr out, st')"
    by (auto simp: runDevnetMachineSpend_def ensureInitialized_def mthrow_def failed_outcome_def Let_def mret_def
        split: if_splits) (auto simp: mbind_def mret_def split: if_splits)
  from run obtain reply where reply: "?post st = (Inr reply, st')" "out = classify_reply attempt req reply"
    by (auto simp: mbind_def mret_def split: sum.splits prod.splits)
  with assms(4) obtain body hdr where paid: "reply = Http_paid body hdr"
    by (cases reply) (auto simp: classify_reply_def classify_failure_def failed_outcome_def Let_def)
  with post_paid [OF assms(1,2)] reply match show ?thesis
    by (fastforce simp: classify_reply_def classify_success_def attempt_matches_def buildRequestDigest_def)
qed


definition demo_client :: client_env where
  "demo_client = \<lparr>ce_machine = demo_env, ce_sign = (\<lambda>_ _ _. Inl ''no signer'')\<rparr>"

lemma demo_post:
  "route_post 1 demo_env (\<lambda>_. None) (\<lambda>_. None) (\<lambda>_. []) demo_attempt None (demo_state demo_settled) =
   (Inr (Http_paid (wire_paid (score demo_devnet 0 [] ''tx'') JNull) None), (demo_state demo_settled)\<lparr>ms_tick := 4\<rparr>)"
proof -
  have req: "buildDevnetToolSpendRequest demo_devnet (ts_orderId demo_request) (ts_intentVersion demo_request) = demo_request"
    by (simp add: demo_request_def buildDevnetToolSpendRequest_def)
  have digest: "buildRequestDigest demo_env demo_request = ''d''"
    by (simp add: buildRequestDigest_def canonicalToolSpendRequestDigest_def)
  show ?thesis
    by (simp add: route_post_def fit_score_POST_def demo_attempt_def req digest Let_def mbind_def mtry_def
        demo_replay [unfolded One_nat_def] mret_def)
qed

theorem paid_outcome_is_settled_witness:
  "\<exists>i row. getByOperationId i (ms_db ((demo_state demo_settled)\<lparr>ms_tick := 4\<rparr>)) = Some row \<and> sa_status row = AS_settled \<and>
     JNull = sa_evidenceJson row"
proof -
  have "runDevnetMachineSpend demo_client (route_post 1 (ce_machine demo_client) (\<lambda>_. None) (\<lambda>_. None) (\<lambda>_. [])) demo_request ''pid''
      (Some demo_attempt) None (demo_state demo_settled) =
    (Inr (classify_success demo_request (wire_paid (score demo_devnet 0 [] ''tx'') JNull) None), (demo_state demo_settled)\<lparr>ms_tick := 4\<rparr>)"
  proof -
    have "attempt_matches demo_env demo_request ''pid'' demo_attempt" "me_initialized demo_env"
      by (simp_all add: attempt_matches_def demo_attempt_def buildRequestDigest_def canonicalToolSpendRequestDigest_def demo_env_def)
    then show ?thesis
      by (simp add: runDevnetMachineSpend_def demo_client_def ensureInitialized_def Let_def)
         (simp add: mbind_def demo_post [unfolded One_nat_def] classify_reply_def mret_def)
  qed
  from paid_outcome_is_settled [OF _ _ this] show ?thesis
    by (simp add: classify_success_def wire_paid_def demo_client_def demo_env_ok demo_state_def demo_settled_inv)
qed

subsection \<open>A live attempt is not replaced\<close>

lemma active_status:
  assumes "findActiveAttempt orderId v db = Some row"
  shows "stored_status (sa_status row) = Sp_manual_reconciliation_required \<or>
    stored_status (sa_status row) = Sp_pending \<and> sa_status row \<in> {AS_pending, AS_settling, AS_awaiting_evidence}"
proof -
  from assms have "\<not> resolved (sa_status row)" by (auto simp: findActiveAttempt_def dest: js_head_in)
  then show ?thesis by (cases "sa_status row") (simp_all add: stored_status_def)
qed

definition no_new_payment :: "devnet_attempt \<Rightarrow> spend_step \<Rightarrow> bool" where
  "no_new_payment attempt step = (\<exists>receipt ctx. step = Spend_done receipt \<or> step = Spend_run ctx attempt)"

lemma wp_logged: "P x \<Longrightarrow> wp (mbind (logMachineSpendAuditOnce env e) (\<lambda>_. mret x)) (\<lambda>y _. P y) (\<lambda>_ _. True) st"
  by (simp add: wp_def logMachineSpendAuditOnce_def Let_def mbind_def mret_def log_event_def)

lemma wp_fresh_id: "wp (mbind (new_id env p) f) Q E st = wp (f (newId p (sv_rnd env (ap_tick st)))) Q E (st\<lparr>ap_tick := Suc (ap_tick st)\<rparr>)"
  by (simp add: wp_def mbind_def new_id_def)

lemma wp_assign: "wp (mbind (upd_s r f) (\<lambda>_. mret x)) (\<lambda>y _. P y) E st = P x"
  by (simp add: wp_def mbind_def upd_s_def upd_core_def mret_def)

lemma decide_keeps_attempt:
  assumes "stored_status (sa_status row) = Sp_manual_reconciliation_required \<or> stored_status (sa_status row) = Sp_pending"
    and "plain \<noteq> []"
  shows "wp (spend_decide env orderId r req (Some (existing_attempt req row plain)))
    (\<lambda>step _. no_new_payment (attempt_of (existing_attempt req row plain)) step) (\<lambda>_ _. True) st"
proof -
  define a where "a = existing_attempt req row plain"
  have a: "msa_status a = Sp_manual_reconciliation_required \<or> msa_status a = Sp_pending" "msa_signedAttempt a \<noteq> []"
    using assms by (simp_all add: a_def existing_attempt_def)
  have "no_new_payment (attempt_of a) (Spend_done None)" "no_new_payment (attempt_of a) (Spend_run ctx (attempt_of a))" for ctx
    by (auto simp: no_new_payment_def)
  with a show ?thesis
    unfolding spend_decide_def Let_def a_def [symmetric] by (auto simp: wp_ret wp_fresh_id wp_assign wp_logged)
qed

lemma submit_ignores:
  assumes "\<And>approval. post' attempt approval = post attempt approval"
  shows "spend_submit (ce\<lparr>ce_sign := sign\<rparr>) post' env orderId r ctx attempt = spend_submit ce post env orderId r ctx attempt"
proof -
  have same: "post' attempt = post attempt" using assms by (rule ext)
  show ?thesis by (simp add: spend_submit_def runDevnetMachineSpend_def Let_def same cong: if_cong)
qed

text \<open>C25: As long as the store holds a live signed attempt for this order and intent version, the spend neither signs
  a new payment nor posts another one. Whatever the signer would give, and whatever the route would do with
  other payments, the spend behaves the same: at most it posts the stored payment, decrypted, under the stored
  identifier and digest.
\<close>

theorem live_attempt_never_replaced:
  assumes "let s = co_heap (ap_core a) r; n = ms_tick ms; env' = ce_machine ce in
      req = buildDevnetToolSpendRequest (me_config env') orderId (dm_intentVersion (sn_dialogue s)) \<and> \<not> me_down env' n \<and>
      findActiveAttempt orderId (dm_intentVersion (sn_dialogue s)) (me_others env' n (ms_db ms)) = Some row"
    and "sa_signedPayloadEnc row = Some sealed'" "sealed' \<noteq> []"
    and "decryptPayload (me_gcm (ce_machine ce)) (me_encKey (ce_machine ce)) sealed' = Some plain" "plain \<noteq> []"
    and "\<forall>approval. post' (attempt_of (existing_attempt req row plain)) approval = post (attempt_of (existing_attempt req row plain)) approval"
  shows "devnet_spend (ce\<lparr>ce_sign := sign\<rparr>) post' env orderId r (a, ms) = devnet_spend ce post env orderId r (a, ms)"
proof -
  let ?A = "attempt_of (existing_attempt req row plain)"
  have req: "ts_orderId req = orderId" "ts_intentVersion req = dm_intentVersion (sn_dialogue (co_heap (ap_core a) r))"
    using assms(1) by (simp_all add: buildDevnetToolSpendRequest_def Let_def)
  obtain ms' where found: "find_existing (ce_machine ce) req ms = (Inr (Some (existing_attempt req row plain)), ms')"
    using assms(1-5) req
    by (simp add: find_existing_def s_findActive_def store_call_def decryptStoredPayload_def mbind_def mret_def Let_def truthy_def
        opt_str_def)
  have status: "stored_status (sa_status row) = Sp_manual_reconciliation_required \<or> stored_status (sa_status row) = Sp_pending"
    using assms(1) active_status by (auto simp: Let_def)
  have same: "spend_continue (ce\<lparr>ce_sign := sign\<rparr>) post' env orderId r step = spend_continue ce post env orderId r step"
    if "no_new_payment ?A step" for step
    using that submit_ignores [of post' ?A post] assms(6) by (auto simp: no_new_payment_def spend_continue_def)
  have step: "spend_decide env orderId r req (Some (existing_attempt req row plain)) a = (Inr step, a') \<Longrightarrow> no_new_payment ?A step" for step a'
    using wp_run(1) [OF decide_keeps_attempt [OF status assms(5)]] by blast
  show ?thesis
    using assms(1) found same step
    by (auto simp: devnet_spend_def on_app_def on_store_def mbind_def get_s_def read_core_def Let_def split: prod.splits sum.splits)
qed


definition demo_sealed :: string where
  "demo_sealed = replicate 28 (CHR ''x'') @ ''hdr''"

definition demo_live :: settlement_db where
  "demo_live = put_row (demo_row\<lparr>sa_logicalOrderId := ''ord_1'', sa_intentVersion := 0, sa_signedPayloadEnc := Some demo_sealed\<rparr>) empty_db"

definition demo_payment :: x402_order_payment where
  "demo_payment = \<lparr>xp_paymentIdentifier = [], xp_requestDigest = [], xp_envelopeDigest = [], xp_network = [], xp_asset = [],
     xp_amountMinor = 0, xp_currency = [], xp_recipient = [], xp_mockTxHash = None, xp_status = X_pending\<rparr>"

definition demo_session_app :: app where
  "demo_session_app = \<lparr>ap_core = \<lparr>co_heap = (\<lambda>_. new_session ''ord_1'' [] []), co_next = 1, co_payments = (\<lambda>_. demo_payment), co_pnext = 0,
     co_sessions = [(''ord_1'', 0)], co_envelopes = [], co_mandates = [], co_webhookDedup = []\<rparr>,
     ap_ops = [], ap_audit = [], ap_tick = 0, ap_machine = new_resource\<rparr>"

theorem live_attempt_never_replaced_witness:
  "\<forall>env. devnet_spend (demo_client\<lparr>ce_sign := (\<lambda>_ _ _. Inr ''another payment'')\<rparr>) (\<lambda>_ _. mthrow ''down'') env ''ord_1'' 0
       (demo_session_app, demo_state demo_live) =
     devnet_spend demo_client (\<lambda>_ _. mthrow ''down'') env ''ord_1'' 0 (demo_session_app, demo_state demo_live)"
proof
  fix env
  let ?row = "demo_row\<lparr>sa_logicalOrderId := ''ord_1'', sa_intentVersion := 0, sa_signedPayloadEnc := Some demo_sealed\<rparr>"
  have "findActiveAttempt ''ord_1'' 0 demo_live = Some ?row"
    by (simp add: findActiveAttempt_def demo_live_def rows_def put_row_def empty_db_def map_set_def demo_row_def new_row_def js_head_def)
  moreover have "decryptPayload (me_gcm demo_env) (me_encKey demo_env) demo_sealed = Some ''hdr''" "demo_sealed \<noteq> []"
    by (simp_all add: decryptPayload_def demo_env_def demo_sealed_def Let_def)
  ultimately show "devnet_spend (demo_client\<lparr>ce_sign := (\<lambda>_ _ _. Inr ''another payment'')\<rparr>) (\<lambda>_ _. mthrow ''down'') env ''ord_1'' 0
       (demo_session_app, demo_state demo_live) =
     devnet_spend demo_client (\<lambda>_ _. mthrow ''down'') env ''ord_1'' 0 (demo_session_app, demo_state demo_live)"
    by (intro live_attempt_never_replaced [where row = ?row and plain = "''hdr''" and sealed' = demo_sealed])
       (simp_all add: demo_session_app_def demo_client_def demo_state_def new_session_def createDialogueMemory_def Let_def)
qed

subsection \<open>Outcomes on the ledger\<close>

text \<open>An outcome of a paid call is put on the ledger once. After it has been logged for a payment and a request, the
  order's timeline shows an event of that type for them, logging it again changes nothing, and at most one
  event is added.
\<close>

theorem outcome_logged_once:
  assumes "map_get ''paymentIdentifier'' (ai_externalReferences input) = Some pid" "pid \<noteq> []"
    and "map_get ''requestDigest'' (ai_externalReferences input) = Some digest" "digest \<noteq> []"
  shows "let st1 = snd (logMachineSpendAuditOnce env input st) in
    already_recorded (ai_type input) pid digest (audit_timeline (ai_logicalOrderId input) (ap_audit st1)) \<and>
    logMachineSpendAuditOnce env input st1 = (Inr (), st1) \<and>
    (ap_audit st1 = ap_audit st \<or> (\<exists>ev. ap_audit st1 = ap_audit st @ [ev]))"
proof -
  let ?st1 = "snd (logMachineSpendAuditOnce env input st)"
  have eq: "logMachineSpendAuditOnce env input s =
      (if already_recorded (ai_type input) pid digest (audit_timeline (ai_logicalOrderId input) (ap_audit s)) then mret () s
       else log_event env input s)" for s
    using assms by (simp add: logMachineSpendAuditOnce_def mbind_def truthy_def opt_str_def Let_def)
  have logged: "\<exists>ev. ap_audit (snd (log_event env input s)) = ap_audit s @ [ev] \<and> ae_logicalOrderId ev = ai_logicalOrderId input \<and>
      ae_type ev = ai_type input \<and> ae_externalReferences ev = ai_externalReferences input" for s
    by (simp add: log_event_def audit_log_def audit_append_def Let_def)
  have shown: "already_recorded ty pid digest (audit_timeline i (evs @ [ev]))"
    if "ae_logicalOrderId ev = i" "ae_type ev = ty" "ae_externalReferences ev = ai_externalReferences input" for ty i evs ev
    using that assms by (simp add: already_recorded_def list_ex_iff audit_timeline_def audit_list_def)
  have "already_recorded (ai_type input) pid digest (audit_timeline (ai_logicalOrderId input) (ap_audit ?st1))"
    using logged [of st] by (auto simp: eq [of st] mret_def shown)
  moreover have "ap_audit ?st1 = ap_audit st \<or> (\<exists>ev. ap_audit ?st1 = ap_audit st @ [ev])"
    using logged [of st] by (auto simp: eq [of st] mret_def)
  ultimately show ?thesis by (simp add: Let_def eq [of ?st1] mret_def)
qed

definition demo_event :: audit_input where
  "demo_event = (event ''ord_1'' ''machine.spend_pending'' A_agent)
     \<lparr>ai_externalReferences := [(''paymentIdentifier'', ''pid''), (''requestDigest'', ''d'')]\<rparr>"

theorem outcome_logged_once_witness:
  "\<forall>env. let st1 = snd (logMachineSpendAuditOnce env demo_event demo_session_app) in
    logMachineSpendAuditOnce env demo_event st1 = (Inr (), st1)"
  using outcome_logged_once [of demo_event "''pid''" "''d''"] by (simp add: demo_event_def event_def map_get_def Let_def)

subsection \<open>The store behind the devnet resource\<close>

text \<open>C39: The web application opens the settlement store with its restricted credential only. When the factory yields a
  store, settlement has not been switched off, the connection string is the one of \<open>X402_APP_DATABASE_URL\<close> (never the
  privileged one, nor none), the key has 64 hexadecimal digits, and the mode is devnet or the environment production.
\<close>

theorem devnet_store_restricted:
  assumes "createDevnetSettlementStore keys getenv = Inr (url, key)"
  shows "getenv ''X402_SETTLEMENT_ENABLED'' \<noteq> Some ''false'' \<and> getenv ''X402_APP_DATABASE_URL'' = Some url \<and> url \<noteq> [] \<and>
    length key = 64 \<and> list_all is_hex key \<and>
    (getenv ''NODE_ENV'' = Some ''production'' \<or> (\<exists>config. loadX402Config keys getenv = Inr (X402_devnet config)))"
proof -
  have "truthy v \<Longrightarrow> v = Some (opt_str v) \<and> opt_str v \<noteq> []" for v by (cases v) (simp_all add: truthy_def opt_str_def)
  with assms show ?thesis
    by (auto simp: createDevnetSettlementStore_def assertSettlementStoreAllowed_def parseEncryptionKey_def is_devnet_def Let_def
        split: if_splits sum.splits x402_config.splits)
qed

definition demo_getenv :: "string \<Rightarrow> string option" where
  "demo_getenv name =
     (if name = ''NODE_ENV'' then Some ''production''
      else if name = ''X402_APP_DATABASE_URL'' then Some ''postgres://x402_app''
      else if name = ''DATABASE_URL'' then Some ''postgres://owner''
      else if name = ''X402_STORE_ENC_KEY'' then Some (replicate 64 (CHR ''a'')) else None)"

theorem devnet_store_restricted_witness:
  "\<forall>keys. demo_getenv ''X402_APP_DATABASE_URL'' = Some (fst (projr (createDevnetSettlementStore keys demo_getenv)))"
proof
  fix keys
  have key: "trim (replicate 64 (CHR ''a'')) = replicate 64 (CHR ''a'')" "is_hex (CHR ''a'')"
    by (simp_all add: trim_def is_space_def is_hex_def is_digit_def dropWhile_replicate)
  have config: "\<exists>c. loadX402Config keys demo_getenv = Inr (X402_mock c)"
    by (simp add: loadX402Config_def demo_getenv_def Let_def toLowerCase_def trim_def is_space_def parseAmountMinor_def)
  then have "createDevnetSettlementStore keys demo_getenv = Inr (''postgres://x402_app'', replicate 64 (CHR ''a''))"
    by (auto simp: createDevnetSettlementStore_def demo_getenv_def assertSettlementStoreAllowed_def parseEncryptionKey_def key
        is_devnet_def truthy_def opt_str_def list_all_iff Let_def)
  with devnet_store_restricted [OF this]
  show "demo_getenv ''X402_APP_DATABASE_URL'' = Some (fst (projr (createDevnetSettlementStore keys demo_getenv)))" by simp
qed

end
